(* ===== verification/Prelude.thy ===== *)
theory Prelude
  imports Main
begin

text \<open>
  The vocabulary every component shares: Go errors (pkg/apperror/error.go and the
  \<open>fmt.Errorf\<close> wrapping used everywhere), the state-and-error monad in which handlers
  are written, its weakest-precondition calculus, 64-bit integers, a little of Go's
  formatting, and lemmas on lists of table rows.

  A Go function \<open>f(ctx, x) (T, error)\<close> that reads and writes shared state is an
  \<open>('s, 't) action\<close>: a function from the state to a result and the next state. The pair
  \<open>(nil, err)\<close> is \<open>Inl err\<close>, the pair \<open>(v, nil)\<close> is \<open>Inr v\<close>.
\<close>

section \<open>Formatting\<close>

text \<open>\<open>fmt.Sprintf("%d", n)\<close>.\<close>

definition digit_char :: "nat \<Rightarrow> char" where
  "digit_char d = char_of (48 + d)"

fun decimal :: "nat \<Rightarrow> string" where
  "decimal n = (if n < 10 then [digit_char n] else decimal (n div 10) @ [digit_char (n mod 10)])"

declare decimal.simps [simp del]

definition fmt_d :: "int \<Rightarrow> string" where
  "fmt_d n = (if n < 0 then ''-'' @ decimal (nat (- n)) else decimal (nat n))"

section \<open>Errors\<close>

text \<open>
  \<open>AppErr\<close> is \<open>*apperror.AppError\<close> with its HTTP code and message. \<open>PlainErr\<close> is any
  other error value. \<open>HTTPErr\<close> is an \<open>*echo.HTTPError\<close>, which the framework's own handlers return,
  with its code and its message when that is a string. \<open>Wrapped m e\<close> is
  \<open>fmt.Errorf("m: %w", e)\<close>. \<open>GoPanic\<close> is a panic: it passes through every
  \<open>if err != nil\<close> of the source untouched.
\<close>

record field_error =
  fe_Field :: string
  fe_Message :: string

record app_error =
  ae_httpCode :: nat
  ae_Message :: string
  ae_Details :: "field_error list"

datatype go_error =
    AppErr app_error
  | PlainErr string
  | HTTPErr nat "string option"
  | Wrapped string go_error
  | GoPanic string

definition mk_app_error :: "nat \<Rightarrow> string \<Rightarrow> go_error" where
  "mk_app_error code msg = AppErr \<lparr>ae_httpCode = code, ae_Message = msg, ae_Details = []\<rparr>"

definition BadRequest :: "string \<Rightarrow> go_error" where
  "BadRequest msg = mk_app_error 400 msg"

definition Unauthorized :: "string \<Rightarrow> go_error" where
  "Unauthorized msg = mk_app_error 401 msg"

definition Forbidden :: "string \<Rightarrow> go_error" where
  "Forbidden msg = mk_app_error 403 msg"

definition NotFound :: "string \<Rightarrow> go_error" where
  "NotFound msg = mk_app_error 404 msg"

definition Conflict :: "string \<Rightarrow> go_error" where
  "Conflict msg = mk_app_error 409 msg"

definition UnprocessableEntity :: "string \<Rightarrow> go_error" where
  "UnprocessableEntity msg = mk_app_error 422 msg"

definition Internal :: "string \<Rightarrow> go_error" where
  "Internal msg = mk_app_error 500 msg"

definition WithDetails :: "app_error \<Rightarrow> field_error list \<Rightarrow> app_error" where
  "WithDetails e ds = e\<lparr>ae_Details := ae_Details e @ ds\<rparr>"

text \<open>\<open>errors.As(err, &ae)\<close>: the first \<open>AppError\<close> down the chain of wrapped errors.\<close>

fun errors_As :: "go_error \<Rightarrow> app_error option" where
  "errors_As (AppErr a) = Some a"
| "errors_As (Wrapped _ e) = errors_As e"
| "errors_As (PlainErr _) = None"
| "errors_As (HTTPErr _ _) = None"
| "errors_As (GoPanic _) = None"

text \<open>\<open>err.Error()\<close>.\<close>

fun err_Error :: "go_error \<Rightarrow> string" where
  "err_Error (AppErr a) = ae_Message a"
| "err_Error (PlainErr m) = m"
| "err_Error (HTTPErr code m) = ''code='' @ decimal code @ '', message='' @ (case m of Some s \<Rightarrow> s | None \<Rightarrow> '''')"
| "err_Error (Wrapped m e) = m @ '': '' @ err_Error e"
| "err_Error (GoPanic m) = m"

lemmas app_error_defs =
  BadRequest_def Unauthorized_def Forbidden_def NotFound_def Conflict_def
  UnprocessableEntity_def Internal_def mk_app_error_def

text \<open>
  The status and message the client sees (globalErrorHandler in
  internal/delivery/http/server.go): an \<open>AppError\<close> anywhere in the chain gives its code, an
  unwrapped \<open>echo.HTTPError\<close> its own, every other error is 500, and in production a 5xx
  message is blanked.
\<close>

definition globalErrorHandler :: "string \<Rightarrow> go_error \<Rightarrow> nat \<times> string \<times> field_error list" where
  "globalErrorHandler appEnv err =
     (let (status, message, details) =
            (case errors_As err of
               Some ae \<Rightarrow> (ae_httpCode ae, ae_Message ae, ae_Details ae)
             | None \<Rightarrow>
                 (case err of
                    HTTPErr code m \<Rightarrow> (code, case m of Some s \<Rightarrow> s | None \<Rightarrow> ''internal server error'', [])
                  | _ \<Rightarrow> (500, ''internal server error'', [])))
      in if status \<ge> 500 \<and> appEnv = ''production''
         then (status, ''internal server error'', [])
         else (status, message, details))"

definition http_status :: "go_error \<Rightarrow> nat" where
  "http_status err = fst (globalErrorHandler ''production'' err)"

lemma http_status_eq:
  "http_status err =
     (case err of HTTPErr code _ \<Rightarrow> code | _ \<Rightarrow> (case errors_As err of Some ae \<Rightarrow> ae_httpCode ae | None \<Rightarrow> 500))"
  by (auto simp: http_status_def globalErrorHandler_def split: option.splits go_error.splits)

lemma http_status_app [simp]:
  "http_status (BadRequest m) = 400" "http_status (Unauthorized m) = 401"
  "http_status (Forbidden m) = 403" "http_status (NotFound m) = 404"
  "http_status (Conflict m) = 409" "http_status (UnprocessableEntity m) = 422"
  by (simp_all add: http_status_eq app_error_defs)

lemma http_status_wrapped [simp]:
  "http_status (Wrapped m e) = (case errors_As e of Some ae \<Rightarrow> ae_httpCode ae | None \<Rightarrow> 500)"
  by (simp add: http_status_eq)

section \<open>Actions: state and errors\<close>

type_synonym 'a res = "go_error + 'a"
type_synonym ('s, 'a) action = "'s \<Rightarrow> 'a res \<times> 's"

definition ret :: "'a \<Rightarrow> ('s, 'a) action" where
  "ret x = (\<lambda>s. (Inr x, s))"

definition throw :: "go_error \<Rightarrow> ('s, 'a) action" where
  "throw e = (\<lambda>s. (Inl e, s))"

definition bind :: "('s, 'a) action \<Rightarrow> ('a \<Rightarrow> ('s, 'b) action) \<Rightarrow> ('s, 'b) action" where
  "bind m f = (\<lambda>s. case m s of (Inl e, s') \<Rightarrow> (Inl e, s') | (Inr x, s') \<Rightarrow> f x s')"

definition gets :: "('s \<Rightarrow> 'a) \<Rightarrow> ('s, 'a) action" where
  "gets f = (\<lambda>s. (Inr (f s), s))"

definition modify :: "('s \<Rightarrow> 's) \<Rightarrow> ('s, unit) action" where
  "modify f = (\<lambda>s. (Inr (), f s))"

text \<open>\<open>if err != nil { return fmt.Errorf("msg: %w", err) }\<close>; a panic is not an error value.\<close>

fun wrap_err :: "string \<Rightarrow> go_error \<Rightarrow> go_error" where
  "wrap_err msg (GoPanic p) = GoPanic p"
| "wrap_err msg e = Wrapped msg e"

definition wrap :: "string \<Rightarrow> ('s, 'a) action \<Rightarrow> ('s, 'a) action" where
  "wrap msg m = (\<lambda>s. case m s of (Inl e, s') \<Rightarrow> (Inl (wrap_err msg e), s') | r \<Rightarrow> r)"

text \<open>\<open>v, err := m(); ...\<close> where the code goes on with \<open>err\<close> in hand.\<close>

fun is_panic :: "go_error \<Rightarrow> bool" where
  "is_panic (GoPanic _) = True"
| "is_panic _ = False"

lemma app_error_simps [simp]:
  "\<not> is_panic (BadRequest m)" "\<not> is_panic (Unauthorized m)" "\<not> is_panic (Forbidden m)"
  "\<not> is_panic (NotFound m)" "\<not> is_panic (Conflict m)" "\<not> is_panic (UnprocessableEntity m)" "\<not> is_panic (Internal m)"
  by (simp_all add: app_error_defs)

lemma http_status_plain [simp]: "http_status (PlainErr m) = 500"
  by (simp add: http_status_eq)

lemma wrap_err_simps [simp]:
  "is_panic (wrap_err msg e) = is_panic e" "errors_As (wrap_err msg e) = errors_As e"
  by (cases e; simp)+

lemma http_status_wrap_err [simp]:
  "http_status (wrap_err msg e) = (case errors_As e of Some ae \<Rightarrow> ae_httpCode ae | None \<Rightarrow> 500)"
  by (cases e) (simp_all add: http_status_eq)

definition attempt :: "('s, 'a) action \<Rightarrow> ('s, 'a res) action" where
  "attempt m = (\<lambda>s. case m s of
       (Inl e, s') \<Rightarrow> (if is_panic e then Inl e else Inr (Inl e), s')
     | (Inr x, s') \<Rightarrow> (Inr (Inr x), s'))"

definition when_do :: "bool \<Rightarrow> ('s, unit) action \<Rightarrow> ('s, unit) action" where
  "when_do b m = (if b then m else ret ())"

text \<open>A loop over a slice that returns at the first error.\<close>

primrec map_action :: "('a \<Rightarrow> ('s, 'b) action) \<Rightarrow> 'a list \<Rightarrow> ('s, 'b list) action" where
  "map_action f [] = ret []"
| "map_action f (x # xs) = bind (f x) (\<lambda>y. bind (map_action f xs) (\<lambda>ys. ret (y # ys)))"

section \<open>Weakest preconditions\<close>

text \<open>
  \<open>wp m Q E s\<close>: running \<open>m\<close> from \<open>s\<close> ends with a value and state in \<open>Q\<close> or with an error
  and state in \<open>E\<close>. Actions are total, so this is total correctness; the equations below
  push \<open>wp\<close> through a handler statement by statement.
\<close>

definition wp :: "('s, 'a) action \<Rightarrow> ('a \<Rightarrow> 's \<Rightarrow> bool) \<Rightarrow> (go_error \<Rightarrow> 's \<Rightarrow> bool) \<Rightarrow> 's \<Rightarrow> bool" where
  "wp m Q E s = (case m s of (Inl e, s') \<Rightarrow> E e s' | (Inr x, s') \<Rightarrow> Q x s')"

named_theorems wp_simps \<open>equations that evaluate wp\<close>
named_theorems keep_intros \<open>rules that show an action keeps an invariant\<close>

lemma wp_ret [wp_simps]: "wp (ret x) Q E s = Q x s"
  by (simp add: wp_def ret_def)

lemma wp_throw [wp_simps]: "wp (throw e) Q E s = E e s"
  by (simp add: wp_def throw_def)

lemma wp_bind [wp_simps]: "wp (bind m f) Q E s = wp m (\<lambda>x. wp (f x) Q E) E s"
  by (simp add: wp_def bind_def split: prod.splits sum.splits)

lemma wp_gets [wp_simps]: "wp (gets f) Q E s = Q (f s) s"
  by (simp add: wp_def gets_def)

lemma wp_modify [wp_simps]: "wp (modify f) Q E s = Q () (f s)"
  by (simp add: wp_def modify_def)

lemma wp_wrap [wp_simps]: "wp (wrap msg m) Q E s = wp m Q (\<lambda>e. E (wrap_err msg e)) s"
  by (simp add: wp_def wrap_def split: prod.splits sum.splits)

lemma wp_attempt [wp_simps]:
  "wp (attempt m) Q E s = wp m (\<lambda>x. Q (Inr x)) (\<lambda>e s'. if is_panic e then E e s' else Q (Inl e) s') s"
  by (simp add: wp_def attempt_def split: prod.splits sum.splits)

lemma wp_if [wp_simps]: "wp (if b then m else m') Q E s = (if b then wp m Q E s else wp m' Q E s)"
  by simp

lemma wp_when_do [wp_simps]: "wp (when_do b m) Q E s = (if b then wp m Q E s else Q () s)"
  by (simp add: when_do_def wp_ret)

lemma wp_case_option [wp_simps]:
  "wp (case x of None \<Rightarrow> m | Some y \<Rightarrow> f y) Q E s =
     (case x of None \<Rightarrow> wp m Q E s | Some y \<Rightarrow> wp (f y) Q E s)"
  by (cases x) simp_all

lemma wp_case_sum [wp_simps]:
  "wp (case x of Inl e \<Rightarrow> m e | Inr y \<Rightarrow> f y) Q E s =
     (case x of Inl e \<Rightarrow> wp (m e) Q E s | Inr y \<Rightarrow> wp (f y) Q E s)"
  by (cases x) simp_all

lemma wp_case_prod [wp_simps]:
  "wp (case x of (a, b) \<Rightarrow> f a b) Q E s = (case x of (a, b) \<Rightarrow> wp (f a b) Q E s)"
  by (cases x) simp

lemma wp_let [wp_simps]: "wp (Let x f) Q E s = Let x (\<lambda>y. wp (f y) Q E s)"
  by simp

lemma wp_mono:
  "\<lbrakk>wp m Q E s; \<And>x t. Q x t \<Longrightarrow> Q' x t; \<And>e t. E e t \<Longrightarrow> E' e t\<rbrakk> \<Longrightarrow> wp m Q' E' s"
  by (auto simp: wp_def split: prod.splits sum.splits)

lemma wp_conj:
  "wp m (\<lambda>x t. Q x t \<and> Q' x t) (\<lambda>e t. E e t \<and> E' e t) s = (wp m Q E s \<and> wp m Q' E' s)"
  by (auto simp: wp_def split: prod.splits sum.splits)

lemma wp_run: "wp m Q E s \<Longrightarrow> m s = (r, t) \<Longrightarrow> (case r of Inl e \<Rightarrow> E e t | Inr x \<Rightarrow> Q x t)"
  by (auto simp: wp_def split: sum.splits)

lemma wp_iff_run: "wp m Q E s = (case fst (m s) of Inl e \<Rightarrow> E e (snd (m s)) | Inr x \<Rightarrow> Q x (snd (m s)))"
  by (auto simp: wp_def split: prod.splits sum.splits)

lemma wp_Inr: "wp m Q (\<lambda>_ _. True) s \<Longrightarrow> m s = (Inr x, t) \<Longrightarrow> Q x t"
  by (auto dest: wp_run)

lemma wp_Inl: "wp m (\<lambda>_ _. True) E s \<Longrightarrow> m s = (Inl e, t) \<Longrightarrow> E e t"
  by (auto dest: wp_run)

lemma wp_snd: "wp m (\<lambda>_. P) (\<lambda>_. P) s \<longleftrightarrow> P (snd (m s))"
  by (auto simp: wp_def split: prod.splits sum.splits)

section \<open>Effects that respect a preorder on states\<close>

text \<open>
  Every safety argument here has the shape "whatever this handler does, the state it ends
  in is related to the state it started in": the ledger only grows, a transaction that
  fails changes nothing, an invariant that held still holds. The relation is a preorder,
  so the argument composes over \<open>bind\<close>; the locale proves that once.
\<close>

locale effect_order =
  fixes R :: "'s \<Rightarrow> 's \<Rightarrow> bool"
  assumes R_refl: "R s s"
    and R_trans: "R s t \<Longrightarrow> R t u \<Longrightarrow> R s u"
begin

definition obeys :: "('s, 'a) action \<Rightarrow> bool" where
  "obeys m \<longleftrightarrow> (\<forall>s. R s (snd (m s)))"

lemma obeysI: "(\<And>s. R s (snd (m s))) \<Longrightarrow> obeys m"
  by (simp add: obeys_def)

lemma obeysD: "obeys m \<Longrightarrow> R s (snd (m s))"
  by (simp add: obeys_def)

lemma obeys_ret: "obeys (ret x)"
  by (simp add: obeys_def ret_def R_refl)

lemma obeys_throw: "obeys (throw e)"
  by (simp add: obeys_def throw_def R_refl)

lemma obeys_gets: "obeys (gets f)"
  by (simp add: obeys_def gets_def R_refl)

lemma obeys_bind: "obeys m \<Longrightarrow> (\<And>x. obeys (f x)) \<Longrightarrow> obeys (bind m f)"
  by (auto simp: obeys_def bind_def split: prod.splits sum.splits)
    (metis R_trans snd_conv)+

lemma obeys_wrap: "obeys m \<Longrightarrow> obeys (wrap msg m)"
  by (auto simp: obeys_def wrap_def split: prod.splits sum.splits) (metis snd_conv)+

lemma obeys_attempt: "obeys m \<Longrightarrow> obeys (attempt m)"
  by (auto simp: obeys_def attempt_def split: prod.splits sum.splits) (metis snd_conv)+

lemma obeys_when_do: "(b \<Longrightarrow> obeys m) \<Longrightarrow> obeys (when_do b m)"
  by (simp add: when_do_def obeys_ret)

lemma obeys_if: "(b \<Longrightarrow> obeys m) \<Longrightarrow> (\<not> b \<Longrightarrow> obeys m') \<Longrightarrow> obeys (if b then m else m')"
  by simp

lemma obeys_option:
  "obeys m \<Longrightarrow> (\<And>y. obeys (f y)) \<Longrightarrow> obeys (case x of None \<Rightarrow> m | Some y \<Rightarrow> f y)"
  by (cases x) simp_all

lemma obeys_sum:
  "(\<And>e. obeys (m e)) \<Longrightarrow> (\<And>y. obeys (f y)) \<Longrightarrow>
     obeys (case x of Inl e \<Rightarrow> m e | Inr y \<Rightarrow> f y)"
  by (cases x) simp_all

lemma obeys_let: "(\<And>y. obeys (f y)) \<Longrightarrow> obeys (Let x f)"
  by simp

lemma obeys_prod: "(\<And>a b. obeys (f a b)) \<Longrightarrow> obeys (case x of (a, b) \<Rightarrow> f a b)"
  by (cases x) simp

lemma obeys_map_action: "(\<And>x. obeys (f x)) \<Longrightarrow> obeys (map_action f xs)"
  by (induction xs) (auto intro: obeys_ret obeys_bind)

lemmas obeys_intros =
  obeys_ret obeys_throw obeys_gets obeys_bind obeys_wrap obeys_attempt
  obeys_when_do obeys_if obeys_option obeys_sum obeys_let obeys_prod obeys_map_action

end

text \<open>Keeping a predicate is the instance "if it held before, it holds after".\<close>

definition kept :: "('s \<Rightarrow> bool) \<Rightarrow> 's \<Rightarrow> 's \<Rightarrow> bool" where
  "kept P s t \<longleftrightarrow> (P s \<longrightarrow> P t)"

interpretation kept: effect_order "kept P"
  by unfold_locales (auto simp: kept_def)

section \<open>64-bit integers and case\<close>

text \<open>
  An \<open>int64\<close> is an \<open>int\<close> in \<open>[-2^63, 2^63)\<close>; the sums and differences of the source wrap,
  which \<open>wrap64\<close> writes out.
\<close>

type_synonym int64 = int

definition wrap64 :: "int \<Rightarrow> int64" where
  "wrap64 x = signed_take_bit 63 x"

definition int64_range :: "int \<Rightarrow> bool" where
  "int64_range x \<longleftrightarrow> - (2 ^ 63) \<le> x \<and> x < 2 ^ 63"

lemma wrap64_id [simp]: "int64_range x \<Longrightarrow> wrap64 x = x"
  by (simp add: wrap64_def int64_range_def signed_take_bit_int_eq_self)

lemma wrap64_range [simp]: "int64_range (wrap64 x)"
  using signed_take_bit_int_greater_eq_minus_exp [of 63 x] signed_take_bit_int_less_exp [of 63 x]
  by (simp add: wrap64_def int64_range_def)

lemma wrap64_overflows: "wrap64 (2 ^ 63) = - (2 ^ 63)"
  by (simp add: wrap64_def)

text \<open>Go's \<open>int32(x)\<close> on an \<open>int\<close>.\<close>

definition wrap32 :: "int \<Rightarrow> int" where
  "wrap32 x = signed_take_bit 31 x"

text \<open>Integer division of Go truncates towards zero.\<close>

definition go_div :: "int \<Rightarrow> int \<Rightarrow> int" where
  "go_div a b = sgn a * sgn b * (\<bar>a\<bar> div \<bar>b\<bar>)"

definition go_mod :: "int \<Rightarrow> int \<Rightarrow> int" where
  "go_mod a b = a - b * go_div a b"

lemma go_div_nonneg [simp]: "0 \<le> a \<Longrightarrow> 0 < b \<Longrightarrow> go_div a b = a div b"
  by (cases "a = 0") (simp_all add: go_div_def)

text \<open>\<open>strings.ToLower\<close> and \<open>strings.ToUpper\<close>, on ASCII.\<close>

definition char_lower :: "char \<Rightarrow> char" where
  "char_lower c = (let n = of_char c :: nat in if 65 \<le> n \<and> n \<le> 90 then char_of (n + 32) else c)"

definition char_upper :: "char \<Rightarrow> char" where
  "char_upper c = (let n = of_char c :: nat in if 97 \<le> n \<and> n \<le> 122 then char_of (n - 32) else c)"

definition ToLower :: "string \<Rightarrow> string" where
  "ToLower = map char_lower"

definition ToUpper :: "string \<Rightarrow> string" where
  "ToUpper = map char_upper"

section \<open>Rows of a table\<close>

text \<open>
  A table is the list of its rows in insertion order. \<open>SELECT ... WHERE P\<close> for one row is
  \<open>find P\<close>; \<open>UPDATE ... SET f WHERE P\<close> is \<open>update_where P f\<close>; \<open>DELETE ... WHERE P\<close> is a filter.
\<close>

definition update_where :: "('r \<Rightarrow> bool) \<Rightarrow> ('r \<Rightarrow> 'r) \<Rightarrow> 'r list \<Rightarrow> 'r list" where
  "update_where P f rs = map (\<lambda>r. if P r then f r else r) rs"

lemma length_update_where [simp]: "length (update_where P f rs) = length rs"
  by (simp add: update_where_def)

lemma update_where_Nil [simp]: "update_where P f [] = []"
  by (simp add: update_where_def)

lemma update_where_Cons [simp]:
  "update_where P f (r # rs) = (if P r then f r else r) # update_where P f rs"
  by (simp add: update_where_def)

lemma set_update_where: "set (update_where P f rs) = {f r | r. r \<in> set rs \<and> P r} \<union> {r \<in> set rs. \<not> P r}"
  by (auto simp: update_where_def)

lemma in_update_where: "r \<in> set (update_where P f rs) \<Longrightarrow> (\<exists>r0 \<in> set rs. P r0 \<and> r = f r0) \<or> r \<in> set rs"
  by (auto simp: update_where_def split: if_splits)

lemma map_update_where:
  "(\<And>r. P r \<Longrightarrow> g (f r) = g r) \<Longrightarrow> map g (update_where P f rs) = map g rs"
  by (simp add: update_where_def)

lemma find_append: "find P (xs @ ys) = (case find P xs of None \<Rightarrow> find P ys | Some x \<Rightarrow> Some x)"
  by (induction xs) auto

lemma find_Some_in: "find P xs = Some x \<Longrightarrow> x \<in> set xs \<and> P x"
  by (induction xs) (auto split: if_splits)

lemma find_None_all: "find P xs = None \<longleftrightarrow> (\<forall>x \<in> set xs. \<not> P x)"
  by (auto simp: find_None_iff)

lemma find_unique:
  "distinct (map key xs) \<Longrightarrow> x \<in> set xs \<Longrightarrow> find (\<lambda>r. key r = key x) xs = Some x"
  by (induction xs) (auto simp: image_iff)

lemma find_update_where_key:
  assumes "\<And>r. key (f r) = key r"
  shows "find (\<lambda>r. key r = k) (update_where (\<lambda>r. key r = k') f rs) =
    (if k = k' then map_option f (find (\<lambda>r. key r = k) rs) else find (\<lambda>r. key r = k) rs)"
  by (induction rs) (auto simp: assms)

lemma distinct_update_where_key:
  "(\<And>r. key (f r) = key r) \<Longrightarrow> distinct (map key (update_where P f rs)) = distinct (map key rs)"
  by (simp add: map_update_where)

lemma sum_update_where:
  assumes "distinct (map key rows)" "r \<in> set rows"
  shows "sum_list (map g (update_where (\<lambda>x. key x = key r) f rows)) = sum_list (map g rows) + (g (f r) - (g r :: int))"
  using assms
proof (induction rows)
  case (Cons x rows)
  have same: "update_where (\<lambda>x. key x = key r) f rows = rows" if "key r \<notin> key ` set rows"
    using that by (auto simp: update_where_def intro!: map_idI) (metis image_eqI)
  show ?case
  proof (cases "x = r")
    case True
    with Cons.prems(1) same show ?thesis by simp
  next
    case False
    with Cons.prems have "r \<in> set rows" "key x \<noteq> key r" by auto
    with Cons show ?thesis by simp
  qed
qed simp

end
