(* ===== verification/Binary64.thy ===== *)
theory Binary64
  imports Complex_Main Prelude
begin

text \<open>
  Go's \<open>float64\<close> as far as the fee computation needs it: finite IEEE 754 binary64 values as
  rationals, each operation rounding its exact result to 53 significant bits, ties to even.

  The exponent is unbounded here. In the one expression of the source that uses floats
  (\<open>int64(float64(amount) * pct / 100)\<close>) this gives the same integer: a product that would
  overflow to infinity is far above \<open>2^63 * 100\<close> and the conversion then yields the
  out-of-range value either way, and a product in the subnormal range truncates to 0.
  The out-of-range value is \<open>-2^63\<close>, what the conversion instruction of amd64 gives (the Go
  specification leaves it to the implementation).
\<close>

section \<open>Rounding\<close>

type_synonym float64 = rat

fun ilog2 :: "int \<Rightarrow> int" where
  "ilog2 n = (if n \<le> 1 then 0 else 1 + ilog2 (n div 2))"

declare ilog2.simps [simp del]

definition round_half_even :: "rat \<Rightarrow> int" where
  "round_half_even x =
     (let f = \<lfloor>x\<rfloor>; d = x - of_int f
      in if d < 1 / 2 then f else if 1 / 2 < d then f + 1 else if even f then f else f + 1)"

text \<open>The exponent \<open>e\<close> of the unit in the last place: \<open>2^52 \<le> \<bar>x\<bar> / 2^e < 2^53\<close>.\<close>

definition ulp_exp :: "rat \<Rightarrow> int" where
  "ulp_exp x =
     (case quotient_of x of (p, q) \<Rightarrow>
        let e = ilog2 \<bar>p\<bar> - ilog2 q - 53
        in if 2 powi (e + 53) \<le> \<bar>x\<bar> then e + 1 else e)"

definition f64_round :: "rat \<Rightarrow> float64" where
  "f64_round x =
     (if x = 0 then 0
      else let e = ulp_exp x in of_int (round_half_even (x / 2 powi e)) * 2 powi e)"

definition f64_of_int :: "int64 \<Rightarrow> float64" where
  "f64_of_int n = f64_round (of_int n)"

definition f64_mul :: "float64 \<Rightarrow> float64 \<Rightarrow> float64" where
  "f64_mul x y = f64_round (x * y)"

definition f64_div :: "float64 \<Rightarrow> float64 \<Rightarrow> float64" where
  "f64_div x y = f64_round (x / y)"

definition f64_trunc :: "float64 \<Rightarrow> int" where
  "f64_trunc x = (if x < 0 then \<lceil>x\<rceil> else \<lfloor>x\<rfloor>)"

definition int64_of_f64 :: "float64 \<Rightarrow> int64" where
  "int64_of_f64 x = (let t = f64_trunc x in if int64_range t then t else - (2 ^ 63))"

section \<open>Error bounds\<close>

lemma ilog2_nonneg: "0 \<le> ilog2 n"
  by (induction n rule: ilog2.induct) (subst ilog2.simps, simp)

lemma ilog2_bounds: "0 < n \<Longrightarrow> 2 powi ilog2 n \<le> (of_int n :: rat) \<and> of_int n < (2 powi (ilog2 n + 1) :: rat)"
proof (induction n rule: ilog2.induct)
  case (1 n)
  show ?case
  proof (cases "n \<le> 1")
    case True
    with 1 have "n = 1" by simp
    then show ?thesis by (simp add: ilog2.simps)
  next
    case False
    let ?m = "n div 2" and ?l = "ilog2 (n div 2)"
    from False have "0 < ?m" by simp
    with 1 False have lo: "2 powi ?l \<le> (of_int ?m :: rat)" and hi: "(of_int ?m :: rat) < 2 powi (?l + 1)"
      by simp_all
    have l0: "0 \<le> ?l" by (rule ilog2_nonneg)
    have "(of_int (2 * ?m) :: rat) \<le> of_int n" by (simp only: of_int_le_iff)
    with lo have A: "2 * 2 powi ?l \<le> (of_int n :: rat)" by simp
    define k where "k = nat (?l + 1)"
    have pk: "(2 powi (?l + 1) :: rat) = of_int (2 ^ k)"
      using l0 by (simp add: power_int_def k_def)
    with hi have "?m < 2 ^ k" by (simp only: of_int_less_iff)
    then have "n < 2 * 2 ^ k" by simp
    then have "(of_int n :: rat) < of_int (2 * 2 ^ k)" by (simp only: of_int_less_iff)
    then have B: "(of_int n :: rat) < 2 * 2 powi (?l + 1)"
      by (simp only: pk of_int_mult of_int_numeral)
    from False have eq: "ilog2 n = ?l + 1" by (subst ilog2.simps) simp
    from A B show ?thesis
      by (simp add: eq power_int_add mult.commute)
  qed
qed

lemma round_half_even_error: "\<bar>of_int (round_half_even x) - x\<bar> \<le> 1 / 2"
  using floor_correct [of x] by (auto simp: round_half_even_def Let_def abs_le_iff)

lemma round_half_even_of_int [simp]: "round_half_even (of_int n) = n"
  by (simp add: round_half_even_def)

lemma ulp_exp_lower:
  assumes "x \<noteq> 0"
  shows "2 powi (ulp_exp x + 52) \<le> \<bar>x\<bar>"
proof -
  obtain p q where pq: "quotient_of x = (p, q)" by (cases "quotient_of x")
  have q: "0 < q" using quotient_of_denom_pos [OF pq] .
  have x: "x = of_int p / of_int q" using quotient_of_div [OF pq] .
  with assms have p: "0 < \<bar>p\<bar>" by auto
  have P: "2 powi ilog2 \<bar>p\<bar> \<le> (of_int \<bar>p\<bar> :: rat)" using ilog2_bounds [OF p] by simp
  have Q: "(of_int q :: rat) < 2 powi (ilog2 q + 1)" using ilog2_bounds [OF q] by simp
  have "(2 powi (ilog2 \<bar>p\<bar> - ilog2 q - 1) :: rat) = 2 powi ilog2 \<bar>p\<bar> / 2 powi (ilog2 q + 1)"
    by (simp add: power_int_diff power_int_add)
  also have "\<dots> \<le> of_int \<bar>p\<bar> / of_int q"
    using P Q q by (intro frac_le) auto
  also have "\<dots> = \<bar>x\<bar>" using q by (simp add: x)
  finally have L: "(2 powi (ilog2 \<bar>p\<bar> - ilog2 q - 1) :: rat) \<le> \<bar>x\<bar>" .
  then show ?thesis
    by (auto simp: ulp_exp_def pq Let_def add.commute)
qed

theorem f64_round_error: "\<bar>f64_round x - x\<bar> \<le> \<bar>x\<bar> / 2 ^ 53"
proof (cases "x = 0")
  case True
  then show ?thesis by (simp add: f64_round_def)
next
  case False
  define e where "e = ulp_exp x"
  define u :: rat where "u = 2 powi e"
  have u: "0 < u" by (simp add: u_def)
  have "f64_round x - x = (of_int (round_half_even (x / u)) - x / u) * u"
    using False u by (simp add: f64_round_def e_def [symmetric] u_def [symmetric] left_diff_distrib)
  then have "\<bar>f64_round x - x\<bar> = \<bar>of_int (round_half_even (x / u)) - x / u\<bar> * u"
    using u by (simp add: abs_mult)
  also have "\<dots> \<le> 1 / 2 * u"
    using u by (intro mult_right_mono round_half_even_error) auto
  also have "\<dots> = 2 powi (e + 52) / 2 ^ 53"
    by (simp add: u_def power_int_add)
  also have "\<dots> \<le> \<bar>x\<bar> / 2 ^ 53"
    using ulp_exp_lower [OF False] by (simp add: e_def divide_right_mono)
  finally show ?thesis .
qed

lemma f64_round_nonneg: "0 \<le> x \<Longrightarrow> 0 \<le> f64_round x"
proof -
  assume "0 \<le> x"
  have "x / 2 ^ 53 \<le> x" using \<open>0 \<le> x\<close> by (simp add: field_simps)
  moreover have "\<bar>f64_round x - x\<bar> \<le> x / 2 ^ 53"
    using f64_round_error [of x] \<open>0 \<le> x\<close> by (simp only: abs_of_nonneg)
  ultimately show ?thesis by linarith
qed

lemma f64_of_int_exact: "\<bar>n\<bar> < 2 ^ 53 \<Longrightarrow> f64_of_int n = of_int n"
proof (cases "n = 0")
  case True
  then show ?thesis by (simp add: f64_of_int_def f64_round_def)
next
  case False
  assume n: "\<bar>n\<bar> < 2 ^ 53"
  define e where "e = ulp_exp (of_int n)"
  have "2 powi (e + 52) \<le> (of_int \<bar>n\<bar> :: rat)"
    using ulp_exp_lower [of "of_int n"] False by (simp add: e_def)
  also have "\<dots> < of_int (2 ^ 53)" using n by (simp only: of_int_less_iff)
  finally have "(2 powi (e + 52) :: rat) < 2 powi 53" by simp
  then have "e + 52 < 53"
    by (metis (mono_tags, opaque_lifting) linorder_not_less one_le_numeral power_int_increasing)
  then have e: "e \<le> 0" by simp
  define m where "m = n * 2 ^ nat (- e)"
  have p: "(2 powi e :: rat) * 2 ^ nat (- e) = 1"
    using e by (simp add: power_int_def flip: power_mult_distrib)
  then have eq: "(of_int n :: rat) = of_int m * 2 powi e"
    by (simp add: m_def mult.assoc mult.commute)
  then have "(of_int n :: rat) / 2 powi e = of_int m" by simp
  then have "f64_round (of_int n) = of_int (round_half_even (of_int m)) * 2 powi e"
    using False by (simp only: f64_round_def Let_def e_def [symmetric]) simp
  also have "\<dots> = of_int m * 2 powi e" by (simp only: round_half_even_of_int)
  also have "\<dots> = of_int n" by (rule eq [symmetric])
  finally show ?thesis by (simp add: f64_of_int_def)
qed

end
