(* ===== verification/Entity.thy ===== *)
theory Entity
  imports Prelude Binary64 "HOL-Library.Char_ord" "HOL-Library.List_Lexorder"
begin

text \<open>
  The domain entities (internal/domain/entity). A Go struct is a record; the string
  enumerations (\<open>type PaymentStatus string\<close> and its constants) are datatypes with one
  constructor per constant and one constructor for any other string, because the Go types
  are open: query parameters and provider replies are converted to them unchecked. The
  \<open>_str\<close> functions are the conversions \<open>string(x)\<close>, the \<open>_of\<close> functions \<open>T(s)\<close>.

  A row of a table has the columns of its entity, so the records below are also the rows
  the generated code in internal/infrastructure/database/postgres/gen reads and writes.
\<close>

section \<open>Values\<close>

text \<open>A \<open>time.Time\<close> is its distance from the Unix epoch in nanoseconds.\<close>

type_synonym time = int

definition zero_time :: time where
  "zero_time = - 62135596800 * 10 ^ 9"

definition second :: int where
  "second = 10 ^ 9"

definition day :: int where
  "day = 86400 * second"

text \<open>
  Decoded JSON. A number keeps its literal, because Go decodes the same literal
  differently into \<open>int64\<close>, \<open>float64\<close> and \<open>string\<close> fields.
\<close>

datatype json =
    JNull
  | JBool bool
  | JNum string
  | JStr string
  | JArr "json list"
  | JObj "(string \<times> json) list"

text \<open>A \<open>map[string]any\<close>; the nil map and the empty map read the same.\<close>

type_synonym metadata = "(string \<times> json) list"

section \<open>Enumerations\<close>

datatype payment_status =
    PaymentStatusPending | PaymentStatusCancelling | PaymentStatusPaid
  | PaymentStatusExpired | PaymentStatusFailed | PaymentStatusCancelled
  | PaymentStatusOther string

fun payment_status_str :: "payment_status \<Rightarrow> string" where
  "payment_status_str PaymentStatusPending = ''pending''"
| "payment_status_str PaymentStatusCancelling = ''cancelling''"
| "payment_status_str PaymentStatusPaid = ''paid''"
| "payment_status_str PaymentStatusExpired = ''expired''"
| "payment_status_str PaymentStatusFailed = ''failed''"
| "payment_status_str PaymentStatusCancelled = ''cancelled''"
| "payment_status_str (PaymentStatusOther s) = s"

definition payment_status_of :: "string \<Rightarrow> payment_status" where
  "payment_status_of s =
     (if s = ''pending'' then PaymentStatusPending
      else if s = ''cancelling'' then PaymentStatusCancelling
      else if s = ''paid'' then PaymentStatusPaid
      else if s = ''expired'' then PaymentStatusExpired
      else if s = ''failed'' then PaymentStatusFailed
      else if s = ''cancelled'' then PaymentStatusCancelled
      else PaymentStatusOther s)"

datatype payment_method = PaymentMethodVA | PaymentMethodQRIS | PaymentMethodCC | PaymentMethodOther string

fun payment_method_str :: "payment_method \<Rightarrow> string" where
  "payment_method_str PaymentMethodVA = ''va''"
| "payment_method_str PaymentMethodQRIS = ''qris''"
| "payment_method_str PaymentMethodCC = ''cc''"
| "payment_method_str (PaymentMethodOther s) = s"

definition payment_method_of :: "string \<Rightarrow> payment_method" where
  "payment_method_of s =
     (if s = ''va'' then PaymentMethodVA else if s = ''qris'' then PaymentMethodQRIS
      else if s = ''cc'' then PaymentMethodCC else PaymentMethodOther s)"

datatype provider = ProviderMidtrans | ProviderXendit | ProviderDoku | ProviderIPaymu | ProviderOther string

fun provider_str :: "provider \<Rightarrow> string" where
  "provider_str ProviderMidtrans = ''midtrans''"
| "provider_str ProviderXendit = ''xendit''"
| "provider_str ProviderDoku = ''doku''"
| "provider_str ProviderIPaymu = ''ipaymu''"
| "provider_str (ProviderOther s) = s"

definition provider_of :: "string \<Rightarrow> provider" where
  "provider_of s =
     (if s = ''midtrans'' then ProviderMidtrans else if s = ''xendit'' then ProviderXendit
      else if s = ''doku'' then ProviderDoku else if s = ''ipaymu'' then ProviderIPaymu
      else ProviderOther s)"

datatype bank_code = BankBCA | BankBNI | BankBRI | BankBSI | BankMandiri | BankPermata | BankCIMB | BankOther string

fun bank_code_str :: "bank_code \<Rightarrow> string" where
  "bank_code_str BankBCA = ''BCA''"
| "bank_code_str BankBNI = ''BNI''"
| "bank_code_str BankBRI = ''BRI''"
| "bank_code_str BankBSI = ''BSI''"
| "bank_code_str BankMandiri = ''MANDIRI''"
| "bank_code_str BankPermata = ''PERMATA''"
| "bank_code_str BankCIMB = ''CIMB''"
| "bank_code_str (BankOther s) = s"

definition bank_code_of :: "string \<Rightarrow> bank_code" where
  "bank_code_of s =
     (if s = ''BCA'' then BankBCA else if s = ''BNI'' then BankBNI else if s = ''BRI'' then BankBRI
      else if s = ''BSI'' then BankBSI else if s = ''MANDIRI'' then BankMandiri
      else if s = ''PERMATA'' then BankPermata else if s = ''CIMB'' then BankCIMB else BankOther s)"

datatype currency = CurrencyIDR | CurrencyOther string

fun currency_str :: "currency \<Rightarrow> string" where
  "currency_str CurrencyIDR = ''IDR''"
| "currency_str (CurrencyOther s) = s"

definition currency_of :: "string \<Rightarrow> currency" where
  "currency_of s = (if s = ''IDR'' then CurrencyIDR else CurrencyOther s)"

datatype disbursement_status =
    DisbursementStatusPending | DisbursementStatusProcessing
  | DisbursementStatusCompleted | DisbursementStatusFailed
  | DisbursementStatusOther string

fun disbursement_status_str :: "disbursement_status \<Rightarrow> string" where
  "disbursement_status_str DisbursementStatusPending = ''pending''"
| "disbursement_status_str DisbursementStatusProcessing = ''processing''"
| "disbursement_status_str DisbursementStatusCompleted = ''completed''"
| "disbursement_status_str DisbursementStatusFailed = ''failed''"
| "disbursement_status_str (DisbursementStatusOther s) = s"

definition disbursement_status_of :: "string \<Rightarrow> disbursement_status" where
  "disbursement_status_of s =
     (if s = ''pending'' then DisbursementStatusPending
      else if s = ''processing'' then DisbursementStatusProcessing
      else if s = ''completed'' then DisbursementStatusCompleted
      else if s = ''failed'' then DisbursementStatusFailed
      else DisbursementStatusOther s)"

datatype merchant_status =
    MerchantStatusPending | MerchantStatusActive | MerchantStatusSuspended | MerchantStatusInactive
  | MerchantStatusOther string

fun merchant_status_str :: "merchant_status \<Rightarrow> string" where
  "merchant_status_str MerchantStatusPending = ''pending''"
| "merchant_status_str MerchantStatusActive = ''active''"
| "merchant_status_str MerchantStatusSuspended = ''suspended''"
| "merchant_status_str MerchantStatusInactive = ''inactive''"
| "merchant_status_str (MerchantStatusOther s) = s"

definition merchant_status_of :: "string \<Rightarrow> merchant_status" where
  "merchant_status_of s =
     (if s = ''pending'' then MerchantStatusPending else if s = ''active'' then MerchantStatusActive
      else if s = ''suspended'' then MerchantStatusSuspended
      else if s = ''inactive'' then MerchantStatusInactive else MerchantStatusOther s)"

datatype mutation_type = MutationTypeCashIn | MutationTypeCashOut | MutationTypeOther string

fun mutation_type_str :: "mutation_type \<Rightarrow> string" where
  "mutation_type_str MutationTypeCashIn = ''cash_in''"
| "mutation_type_str MutationTypeCashOut = ''cash_out''"
| "mutation_type_str (MutationTypeOther s) = s"

definition mutation_type_of :: "string \<Rightarrow> mutation_type" where
  "mutation_type_of s =
     (if s = ''cash_in'' then MutationTypeCashIn else if s = ''cash_out'' then MutationTypeCashOut
      else MutationTypeOther s)"

datatype mutation_reference_type = MutationRefPayment | MutationRefDisbursement | MutationRefOther string

datatype audit_event_type =
    AuditEventPaymentCreated | AuditEventStatusChanged | AuditEventWebhookReceived
  | AuditEventPaymentCancelled | AuditEventPaymentExpired | AuditEventOther string

datatype admin_role = AdminRoleSuperAdmin | AdminRoleOps | AdminRoleFinance | AdminRoleOther string

fun admin_role_str :: "admin_role \<Rightarrow> string" where
  "admin_role_str AdminRoleSuperAdmin = ''super_admin''"
| "admin_role_str AdminRoleOps = ''ops''"
| "admin_role_str AdminRoleFinance = ''finance''"
| "admin_role_str (AdminRoleOther s) = s"

definition admin_role_of :: "string \<Rightarrow> admin_role" where
  "admin_role_of s =
     (if s = ''super_admin'' then AdminRoleSuperAdmin else if s = ''ops'' then AdminRoleOps
      else if s = ''finance'' then AdminRoleFinance else AdminRoleOther s)"

datatype holiday_type = HolidayTypeNational | HolidayTypeCustom | HolidayTypeOther string

datatype fee_type = FeeTypeFlat | FeeTypePercentage | FeeTypeOther string

fun fee_type_str :: "fee_type \<Rightarrow> string" where
  "fee_type_str FeeTypeFlat = ''flat''"
| "fee_type_str FeeTypePercentage = ''percentage''"
| "fee_type_str (FeeTypeOther s) = s"

definition fee_type_of :: "string \<Rightarrow> fee_type" where
  "fee_type_of s =
     (if s = ''flat'' then FeeTypeFlat else if s = ''percentage'' then FeeTypePercentage
      else FeeTypeOther s)"

lemmas enum_of_defs =
  payment_status_of_def payment_method_of_def provider_of_def bank_code_of_def currency_of_def
  disbursement_status_of_def merchant_status_of_def mutation_type_of_def admin_role_of_def fee_type_of_def

lemma enum_str_of [simp]:
  "payment_status_str (payment_status_of s) = s"
  "payment_method_str (payment_method_of s) = s"
  "provider_str (provider_of s) = s"
  "bank_code_str (bank_code_of s) = s"
  "currency_str (currency_of s) = s"
  "disbursement_status_str (disbursement_status_of s) = s"
  "merchant_status_str (merchant_status_of s) = s"
  "mutation_type_str (mutation_type_of s) = s"
  "admin_role_str (admin_role_of s) = s"
  "fee_type_str (fee_type_of s) = s"
  by (simp_all add: enum_of_defs)

text \<open>
  Providers are ordered by name, the order of \<open>ORDER BY provider ASC\<close>. The second
  component only separates a constant from an unknown provider spelt the same.
\<close>

definition provider_known :: "provider \<Rightarrow> bool" where
  "provider_known p = (case p of ProviderOther _ \<Rightarrow> False | _ \<Rightarrow> True)"

lemma provider_key_inj: "provider_str p = provider_str q \<Longrightarrow> provider_known p = provider_known q \<Longrightarrow> p = q"
  by (cases p; cases q) (auto simp: provider_known_def)

instantiation provider :: linorder
begin

definition less_eq_provider :: "provider \<Rightarrow> provider \<Rightarrow> bool" where
  "less_eq_provider p q \<longleftrightarrow>
     provider_str p < provider_str q \<or>
     provider_str p = provider_str q \<and> (provider_known q \<longrightarrow> provider_known p)"

definition less_provider :: "provider \<Rightarrow> provider \<Rightarrow> bool" where
  "less_provider p q \<longleftrightarrow> p \<le> q \<and> \<not> q \<le> (p :: provider)"

instance
  by intro_classes (auto simp: less_eq_provider_def less_provider_def intro: provider_key_inj)

end

section \<open>Records\<close>

record payment =
  p_ID :: string
  p_MerchantID :: string
  p_ExternalID :: string
  p_ProviderPaymentID :: string
  p_Method :: payment_method
  p_Provider :: provider
  p_Status :: payment_status
  p_Amount :: int64
  p_FeeAmount :: int64
  p_Currency :: currency
  p_Description :: string
  p_CustomerName :: string
  p_CustomerEmail :: string
  p_CustomerPhone :: string
  p_VANumber :: string
  p_BankCode :: bank_code
  p_QRString :: string
  p_QRImageURL :: string
  p_ExpiryAt :: time
  p_PaidAt :: "time option"
  p_FailedAt :: "time option"
  p_CancelledAt :: "time option"
  p_CreatedAt :: time
  p_UpdatedAt :: time
  p_Metadata :: metadata

definition payment_status_final :: "payment_status \<Rightarrow> bool" where
  "payment_status_final st =
     (st = PaymentStatusPaid \<or> st = PaymentStatusExpired \<or> st = PaymentStatusFailed \<or> st = PaymentStatusCancelled)"

definition payment_IsFinal :: "payment \<Rightarrow> bool" where
  "payment_IsFinal p =
     (case p_Status p of
        PaymentStatusPaid \<Rightarrow> True
      | PaymentStatusExpired \<Rightarrow> True
      | PaymentStatusFailed \<Rightarrow> True
      | PaymentStatusCancelled \<Rightarrow> True
      | PaymentStatusPending \<Rightarrow> False
      | PaymentStatusCancelling \<Rightarrow> False
      | PaymentStatusOther _ \<Rightarrow> False)"

definition payment_CanCancel :: "payment \<Rightarrow> bool" where
  "payment_CanCancel p = (p_Status p = PaymentStatusPending)"

lemma payment_IsFinal_status: "payment_IsFinal p = payment_status_final (p_Status p)"
  by (simp add: payment_IsFinal_def payment_status_final_def split: payment_status.splits)

record payment_audit =
  au_ID :: string
  au_PaymentID :: string
  au_EventType :: audit_event_type
  au_OldStatus :: "payment_status option"
  au_NewStatus :: payment_status
  au_Actor :: string
  au_Metadata :: metadata
  au_CreatedAt :: time

record disbursement =
  d_ID :: string
  d_MerchantID :: string
  d_ExternalID :: string
  d_Provider :: provider
  d_Status :: disbursement_status
  d_BankCode :: bank_code
  d_AccountNumber :: string
  d_AccountName :: string
  d_Amount :: int64
  d_FeeAmount :: int64
  d_Currency :: currency
  d_Description :: string
  d_FailureReason :: string
  d_CompletedAt :: "time option"
  d_FailedAt :: "time option"
  d_CreatedAt :: time
  d_UpdatedAt :: time

definition disbursement_IsFinal :: "disbursement \<Rightarrow> bool" where
  "disbursement_IsFinal d =
     (d_Status d = DisbursementStatusCompleted \<or> d_Status d = DisbursementStatusFailed)"

record mutation =
  mu_ID :: string
  mu_ReferenceID :: string
  mu_ReferenceType :: mutation_reference_type
  mu_MerchantID :: string
  mu_Type :: mutation_type
  mu_Amount :: int64
  mu_FeeAmount :: int64
  mu_Currency :: currency
  mu_Description :: string
  mu_CreatedAt :: time

definition mutation_NetAmount :: "mutation \<Rightarrow> int64" where
  "mutation_NetAmount m =
     (if mu_Type m = MutationTypeCashIn then wrap64 (mu_Amount m - mu_FeeAmount m) else mu_Amount m)"

record method_fee =
  mf_Type :: fee_type
  mf_Amount :: int64
  mf_Percentage :: float64

record fee_config =
  fc_VA :: method_fee
  fc_QRIS :: method_fee
  fc_Disbursement :: method_fee

definition zero_method_fee :: method_fee where
  "zero_method_fee = \<lparr>mf_Type = FeeTypeOther '''', mf_Amount = 0, mf_Percentage = 0\<rparr>"

definition zero_fee_config :: fee_config where
  "zero_fee_config = \<lparr>fc_VA = zero_method_fee, fc_QRIS = zero_method_fee, fc_Disbursement = zero_method_fee\<rparr>"

definition MaxBankAccounts :: int where
  "MaxBankAccounts = 3"

record bank_account =
  ba_ID :: string
  ba_MerchantID :: string
  ba_BankCode :: bank_code
  ba_AccountNumber :: string
  ba_AccountName :: string
  ba_IsPrimary :: bool
  ba_IsVerified :: bool
  ba_CreatedAt :: time
  ba_UpdatedAt :: time

record merchant =
  m_ID :: string
  m_Name :: string
  m_Email :: string
  m_Phone :: string
  m_Status :: merchant_status
  m_APIKey :: string
  m_WebhookURL :: string
  m_WebhookSecret :: string
  m_WebhookSigningKey :: string
  m_FeeConfig :: fee_config
  m_IsProduction :: bool
  m_DailyCashoutLimit :: int64
  m_DeletedAt :: "time option"
  m_CreatedAt :: time
  m_UpdatedAt :: time

definition merchant_IsActive :: "merchant \<Rightarrow> bool" where
  "merchant_IsActive m = (m_Status m = MerchantStatusActive)"

definition merchant_CanTransact :: "merchant \<Rightarrow> bool" where
  "merchant_CanTransact m = (m_Status m = MerchantStatusActive \<and> m_WebhookURL m \<noteq> '''')"

record admin =
  ad_ID :: string
  ad_Email :: string
  ad_PasswordHash :: string
  ad_Role :: admin_role
  ad_IsActive :: bool
  ad_LastLoginAt :: "time option"
  ad_CreatedAt :: time
  ad_UpdatedAt :: time

definition admin_IsSuperAdmin :: "admin \<Rightarrow> bool" where
  "admin_IsSuperAdmin a = (ad_Role a = AdminRoleSuperAdmin)"

record provider_balance =
  pb_ID :: string
  pb_Provider :: provider
  pb_BalanceIDR :: int64
  pb_LastReconciledAt :: "time option"
  pb_Note :: string
  pb_CreatedAt :: time
  pb_UpdatedAt :: time

text \<open>
  The fee tables. Their JSON columns are read with \<open>json.Unmarshal\<close>, and a column that
  does not decode makes the read fail; \<open>JsonBad\<close> is such a column. Dates are day numbers
  counted from the Unix epoch.
\<close>

datatype 'a json_col = JsonOk 'a | JsonBad

record fee_default =
  fd_ID :: string
  fd_VA :: method_fee
  fd_QRIS :: method_fee
  fd_Disbursement :: method_fee
  fd_UpdatedBy :: string
  fd_UpdatedAt :: time
  fd_CreatedAt :: time

record fee_default_row =
  fdr_ID :: string
  fdr_Va :: "method_fee json_col"
  fdr_Qris :: "method_fee json_col"
  fdr_Disbursement :: "method_fee json_col"
  fdr_UpdatedBy :: string
  fdr_UpdatedAt :: time
  fdr_CreatedAt :: time

record platform_margin =
  pm_ID :: string
  pm_Enabled :: bool
  pm_VA :: method_fee
  pm_QRIS :: method_fee
  pm_Disbursement :: method_fee
  pm_UpdatedBy :: string
  pm_UpdatedAt :: time
  pm_CreatedAt :: time

record platform_margin_row =
  pmr_ID :: string
  pmr_Enabled :: bool
  pmr_Va :: "method_fee json_col"
  pmr_Qris :: "method_fee json_col"
  pmr_Disbursement :: "method_fee json_col"
  pmr_UpdatedBy :: string
  pmr_UpdatedAt :: time
  pmr_CreatedAt :: time

record fee_holiday =
  h_ID :: string
  h_Name :: string
  h_Date :: int
  h_Type :: holiday_type
  h_Surcharge :: method_fee
  h_IsActive :: bool
  h_CreatedBy :: string
  h_UpdatedBy :: string
  h_CreatedAt :: time
  h_UpdatedAt :: time

record fee_holiday_row =
  hr_ID :: string
  hr_Name :: string
  hr_Date :: int
  hr_Type :: holiday_type
  hr_Surcharge :: "method_fee json_col"
  hr_IsActive :: bool
  hr_CreatedBy :: string
  hr_UpdatedBy :: string
  hr_CreatedAt :: time
  hr_UpdatedAt :: time

text \<open>The values the audit log keeps in its \<open>map[string]any\<close> columns, as the structure that was marshalled.\<close>

datatype any_value = AnyFee method_fee | AnyBool bool | AnyString string | AnyDate int

type_synonym any_map = "(string \<times> any_value) list"

record fee_audit_log =
  fl_ID :: string
  fl_EntityType :: string
  fl_EntityID :: string
  fl_AdminID :: string
  fl_AdminEmail :: string
  fl_OldValue :: "any_map option"
  fl_NewValue :: any_map
  fl_Reason :: string
  fl_CreatedAt :: time

text \<open>
  The outbox row and the webhook envelope it carries (pkg/webhook/payload.go). The payload
  column holds the JSON of the envelope; it is kept as the structure that was marshalled.
\<close>

record payment_data =
  wd_PaymentID :: string
  wd_ExternalID :: string
  wd_MerchantID :: string
  wd_Status :: string
  wd_Method :: string
  wd_Provider :: string
  wd_Amount :: int64
  wd_FeeAmount :: int64
  wd_NetAmount :: int64
  wd_Currency :: string
  wd_CustomerName :: string
  wd_CustomerEmail :: string
  wd_PaidAt :: "time option"
  wd_CreatedAt :: time

record disbursement_data =
  dd_DisbursementID :: string
  dd_MerchantID :: string
  dd_Status :: string
  dd_Provider :: string
  dd_BankCode :: string
  dd_AccountNumber :: string
  dd_AccountName :: string
  dd_Amount :: int64
  dd_FeeAmount :: int64
  dd_Currency :: string
  dd_CompletedAt :: "time option"
  dd_FailedAt :: "time option"
  dd_FailureReason :: string
  dd_CreatedAt :: time

datatype payload_data = PaymentData payment_data | DisbursementData disbursement_data

record payload =
  pl_EventType :: string
  pl_DeliveryID :: string
  pl_CreatedAt :: time
  pl_Data :: payload_data

record outbox_event =
  ob_ID :: string
  ob_EventType :: string
  ob_Payload :: payload
  ob_TargetUrl :: string
  ob_MerchantID :: "string option"
  ob_AttemptCount :: int
  ob_MaxAttempts :: int
  ob_NextRetryAt :: time
  ob_DeliveredAt :: "time option"
  ob_FailedAt :: "time option"
  ob_LastError :: "string option"
  ob_CreatedAt :: time

end
