(* ===== verification/Schema.thy ===== *)
theory Schema
  imports Entity
begin

text \<open>
  The tables and their constraints (src/migrations). A table is the list of its rows in
  insertion order. Each \<open>_row_ok\<close> predicate is the conjunction of a table's CHECK
  constraints after all ten migrations; each \<open>insert_\<close> function is an INSERT that enforces
  CHECK, primary key, UNIQUE and REFERENCES constraints and gives the error otherwise.
\<close>

record database =
  db_merchants :: "merchant list"
  db_bank_accounts :: "bank_account list"
  db_payments :: "payment list"
  db_disbursements :: "disbursement list"
  db_mutations :: "mutation list"
  db_audits :: "payment_audit list"
  db_outbox :: "outbox_event list"
  db_admins :: "admin list"
  db_provider_balances :: "provider_balance list"
  db_fee_defaults :: "fee_default_row list"
  db_platform_margin :: "platform_margin_row list"
  db_fee_holidays :: "fee_holiday_row list"
  db_fee_audit_logs :: "fee_audit_log list"

definition empty_database :: database where
  "empty_database = \<lparr>db_merchants = [], db_bank_accounts = [], db_payments = [], db_disbursements = [],
     db_mutations = [], db_audits = [], db_outbox = [], db_admins = [], db_provider_balances = [],
     db_fee_defaults = [], db_platform_margin = [], db_fee_holidays = [], db_fee_audit_logs = []\<rparr>"

section \<open>CHECK constraints\<close>

definition provider_ok :: "provider \<Rightarrow> bool" where
  "provider_ok pr = provider_known pr"

definition currency_ok :: "currency \<Rightarrow> bool" where
  "currency_ok c = (c = CurrencyIDR)"

definition bank_code_ok :: "bank_code \<Rightarrow> bool" where
  "bank_code_ok b = (case b of BankOther _ \<Rightarrow> False | _ \<Rightarrow> True)"

definition payment_status_ok :: "payment_status \<Rightarrow> bool" where
  "payment_status_ok st = (case st of PaymentStatusOther _ \<Rightarrow> False | _ \<Rightarrow> True)"

definition payment_method_ok :: "payment_method \<Rightarrow> bool" where
  "payment_method_ok m = (case m of PaymentMethodOther _ \<Rightarrow> False | _ \<Rightarrow> True)"

definition disbursement_status_ok :: "disbursement_status \<Rightarrow> bool" where
  "disbursement_status_ok st = (case st of DisbursementStatusOther _ \<Rightarrow> False | _ \<Rightarrow> True)"

definition merchant_row_ok :: "merchant \<Rightarrow> bool" where
  "merchant_row_ok m \<longleftrightarrow>
     (case m_Status m of MerchantStatusOther _ \<Rightarrow> False | _ \<Rightarrow> True) \<and> 0 \<le> m_DailyCashoutLimit m"

definition bank_account_row_ok :: "bank_account \<Rightarrow> bool" where
  "bank_account_row_ok a \<longleftrightarrow> bank_code_ok (ba_BankCode a)"

definition payment_row_ok :: "payment \<Rightarrow> bool" where
  "payment_row_ok p \<longleftrightarrow>
     0 < p_Amount p \<and> 0 \<le> p_FeeAmount p \<and> p_FeeAmount p \<le> p_Amount p
     \<and> payment_status_ok (p_Status p) \<and> payment_method_ok (p_Method p)
     \<and> provider_ok (p_Provider p) \<and> currency_ok (p_Currency p)
     \<and> (p_Method p \<noteq> PaymentMethodVA \<or> p_VANumber p \<noteq> '''' \<and> bank_code_str (p_BankCode p) \<noteq> '''')
     \<and> (p_Method p \<noteq> PaymentMethodQRIS \<or> p_QRString p \<noteq> '''')"

definition disbursement_row_ok :: "disbursement \<Rightarrow> bool" where
  "disbursement_row_ok d \<longleftrightarrow>
     0 < d_Amount d \<and> 0 \<le> d_FeeAmount d \<and> d_FeeAmount d \<le> d_Amount d
     \<and> disbursement_status_ok (d_Status d) \<and> provider_ok (d_Provider d)
     \<and> currency_ok (d_Currency d) \<and> bank_code_ok (d_BankCode d)"

definition mutation_row_ok :: "mutation \<Rightarrow> bool" where
  "mutation_row_ok m \<longleftrightarrow>
     0 < mu_Amount m \<and> 0 \<le> mu_FeeAmount m \<and> mu_FeeAmount m \<le> mu_Amount m
     \<and> (mu_Type m = MutationTypeCashIn \<or> mu_Type m = MutationTypeCashOut)
     \<and> (mu_ReferenceType m = MutationRefPayment \<or> mu_ReferenceType m = MutationRefDisbursement)
     \<and> currency_ok (mu_Currency m)
     \<and> (mu_Type m \<noteq> MutationTypeCashOut \<or> mu_FeeAmount m = 0)"

definition payment_audit_row_ok :: "payment_audit \<Rightarrow> bool" where
  "payment_audit_row_ok a \<longleftrightarrow>
     (case au_EventType a of AuditEventOther _ \<Rightarrow> False | _ \<Rightarrow> True)
     \<and> payment_status_ok (au_NewStatus a)
     \<and> (case au_OldStatus a of None \<Rightarrow> True | Some st \<Rightarrow> payment_status_ok st)"

definition outbox_row_ok :: "outbox_event \<Rightarrow> bool" where
  "outbox_row_ok e \<longleftrightarrow> 0 \<le> ob_AttemptCount e \<and> ob_AttemptCount e \<le> ob_MaxAttempts e"

definition admin_row_ok :: "admin \<Rightarrow> bool" where
  "admin_row_ok a \<longleftrightarrow> (case ad_Role a of AdminRoleOther _ \<Rightarrow> False | _ \<Rightarrow> True)"

definition provider_balance_row_ok :: "provider_balance \<Rightarrow> bool" where
  "provider_balance_row_ok b \<longleftrightarrow> provider_ok (pb_Provider b)"

definition fee_holiday_row_ok :: "fee_holiday_row \<Rightarrow> bool" where
  "fee_holiday_row_ok h \<longleftrightarrow> (case hr_Type h of HolidayTypeOther _ \<Rightarrow> False | _ \<Rightarrow> True)"

definition fee_audit_log_row_ok :: "fee_audit_log \<Rightarrow> bool" where
  "fee_audit_log_row_ok l \<longleftrightarrow>
     fl_EntityType l \<in> {''global_default'', ''merchant_fee'', ''platform_margin'', ''holiday_surcharge''}"

section \<open>Keys and references\<close>

definition merchant_exists :: "database \<Rightarrow> string \<Rightarrow> bool" where
  "merchant_exists db i = list_ex (\<lambda>m. m_ID m = i) (db_merchants db)"

definition payment_exists :: "database \<Rightarrow> string \<Rightarrow> bool" where
  "payment_exists db i = list_ex (\<lambda>p. p_ID p = i) (db_payments db)"

text \<open>Partial unique indexes count only the rows their WHERE clause selects.\<close>

definition merchant_conflict :: "merchant \<Rightarrow> merchant \<Rightarrow> bool" where
  "merchant_conflict m r \<longleftrightarrow>
     m_ID r = m_ID m
     \<or> m_DeletedAt r = None \<and> m_DeletedAt m = None \<and> (m_Email r = m_Email m \<or> m_APIKey r = m_APIKey m)"

definition bank_account_conflict :: "bank_account \<Rightarrow> bank_account \<Rightarrow> bool" where
  "bank_account_conflict a r \<longleftrightarrow>
     ba_ID r = ba_ID a
     \<or> ba_MerchantID r = ba_MerchantID a \<and> ba_BankCode r = ba_BankCode a \<and> ba_AccountNumber r = ba_AccountNumber a
     \<or> ba_MerchantID r = ba_MerchantID a \<and> ba_IsPrimary r \<and> ba_IsPrimary a"

definition payment_conflict :: "payment \<Rightarrow> payment \<Rightarrow> bool" where
  "payment_conflict p r \<longleftrightarrow>
     p_ID r = p_ID p \<or> p_Provider r = p_Provider p \<and> p_ExternalID r = p_ExternalID p"

definition disbursement_conflict :: "disbursement \<Rightarrow> disbursement \<Rightarrow> bool" where
  "disbursement_conflict d r \<longleftrightarrow>
     d_ID r = d_ID d
     \<or> d_ExternalID d \<noteq> '''' \<and> d_Provider r = d_Provider d \<and> d_ExternalID r = d_ExternalID d"

definition mutation_conflict :: "mutation \<Rightarrow> mutation \<Rightarrow> bool" where
  "mutation_conflict m r \<longleftrightarrow>
     mu_ID r = mu_ID m \<or> mu_ReferenceID r = mu_ReferenceID m \<and> mu_ReferenceType r = mu_ReferenceType m"

section \<open>INSERT\<close>

text \<open>
  \<open>checked_insert ok fk conflict row rows\<close>: the row at the end of the table, or the name of
  the class of constraint it violates.
\<close>

definition checked_insert :: "bool \<Rightarrow> bool \<Rightarrow> ('r \<Rightarrow> bool) \<Rightarrow> 'r \<Rightarrow> 'r list \<Rightarrow> string + 'r list" where
  "checked_insert ok fk conflict r rows =
     (if \<not> ok then Inl ''violates check constraint''
      else if list_ex conflict rows then Inl ''duplicate key value violates unique constraint''
      else if \<not> fk then Inl ''violates foreign key constraint''
      else Inr (rows @ [r]))"

lemma checked_insert_Inr [simp]:
  "checked_insert ok fk conflict r rows = Inr rows' \<longleftrightarrow>
     ok \<and> fk \<and> (\<forall>x \<in> set rows. \<not> conflict x) \<and> rows' = rows @ [r]"
  by (auto simp: checked_insert_def list_ex_iff)

lemma checked_insert_cases:
  "(\<exists>m. checked_insert ok fk conflict r rows = Inl m) \<longleftrightarrow>
     \<not> (ok \<and> fk \<and> (\<forall>x \<in> set rows. \<not> conflict x))"
  by (auto simp: checked_insert_def list_ex_iff)

definition insert_payment :: "payment \<Rightarrow> database \<Rightarrow> string + database" where
  "insert_payment p db =
     map_sum id (\<lambda>rows. db\<lparr>db_payments := rows\<rparr>)
       (checked_insert (payment_row_ok p) (merchant_exists db (p_MerchantID p)) (payment_conflict p)
          p (db_payments db))"

definition insert_disbursement :: "disbursement \<Rightarrow> database \<Rightarrow> string + database" where
  "insert_disbursement d db =
     map_sum id (\<lambda>rows. db\<lparr>db_disbursements := rows\<rparr>)
       (checked_insert (disbursement_row_ok d) (merchant_exists db (d_MerchantID d)) (disbursement_conflict d)
          d (db_disbursements db))"

definition insert_mutation :: "mutation \<Rightarrow> database \<Rightarrow> string + database" where
  "insert_mutation m db =
     map_sum id (\<lambda>rows. db\<lparr>db_mutations := rows\<rparr>)
       (checked_insert (mutation_row_ok m) (merchant_exists db (mu_MerchantID m)) (mutation_conflict m)
          m (db_mutations db))"

definition insert_audit :: "payment_audit \<Rightarrow> database \<Rightarrow> string + database" where
  "insert_audit a db =
     map_sum id (\<lambda>rows. db\<lparr>db_audits := rows\<rparr>)
       (checked_insert (payment_audit_row_ok a) (payment_exists db (au_PaymentID a))
          (\<lambda>r. au_ID r = au_ID a) a (db_audits db))"

definition insert_outbox :: "outbox_event \<Rightarrow> database \<Rightarrow> string + database" where
  "insert_outbox e db =
     map_sum id (\<lambda>rows. db\<lparr>db_outbox := rows\<rparr>)
       (checked_insert (outbox_row_ok e)
          (case ob_MerchantID e of None \<Rightarrow> True | Some i \<Rightarrow> merchant_exists db i)
          (\<lambda>r. ob_ID r = ob_ID e) e (db_outbox db))"

definition insert_merchant :: "merchant \<Rightarrow> database \<Rightarrow> string + database" where
  "insert_merchant m db =
     map_sum id (\<lambda>rows. db\<lparr>db_merchants := rows\<rparr>)
       (checked_insert (merchant_row_ok m) True (merchant_conflict m) m (db_merchants db))"

definition insert_bank_account :: "bank_account \<Rightarrow> database \<Rightarrow> string + database" where
  "insert_bank_account a db =
     map_sum id (\<lambda>rows. db\<lparr>db_bank_accounts := rows\<rparr>)
       (checked_insert (bank_account_row_ok a) (merchant_exists db (ba_MerchantID a)) (bank_account_conflict a)
          a (db_bank_accounts db))"

definition insert_admin :: "admin \<Rightarrow> database \<Rightarrow> string + database" where
  "insert_admin a db =
     map_sum id (\<lambda>rows. db\<lparr>db_admins := rows\<rparr>)
       (checked_insert (admin_row_ok a) True (\<lambda>r. ad_ID r = ad_ID a \<or> ad_Email r = ad_Email a) a (db_admins db))"

definition insert_fee_holiday :: "fee_holiday_row \<Rightarrow> database \<Rightarrow> string + database" where
  "insert_fee_holiday h db =
     map_sum id (\<lambda>rows. db\<lparr>db_fee_holidays := rows\<rparr>)
       (checked_insert (fee_holiday_row_ok h) True (\<lambda>r. hr_ID r = hr_ID h \<or> hr_Date r = hr_Date h)
          h (db_fee_holidays db))"

definition insert_fee_audit_log :: "fee_audit_log \<Rightarrow> database \<Rightarrow> string + database" where
  "insert_fee_audit_log l db =
     map_sum id (\<lambda>rows. db\<lparr>db_fee_audit_logs := rows\<rparr>)
       (checked_insert (fee_audit_log_row_ok l) True (\<lambda>r. fl_ID r = fl_ID l) l (db_fee_audit_logs db))"

section \<open>UPDATE\<close>

text \<open>
  \<open>checked_update ok conflict P f rows\<close>: \<open>f\<close> applied to the rows \<open>P\<close> selects, refused when a
  new row violates a CHECK constraint or collides with a row that was not selected.
\<close>

definition checked_update :: "('r \<Rightarrow> bool) \<Rightarrow> ('r \<Rightarrow> 'r \<Rightarrow> bool) \<Rightarrow> ('r \<Rightarrow> bool) \<Rightarrow> ('r \<Rightarrow> 'r) \<Rightarrow> 'r list \<Rightarrow> string + 'r list" where
  "checked_update ok conflict P f rows =
     (if list_ex (\<lambda>r. P r \<and> \<not> ok (f r)) rows then Inl ''violates check constraint''
      else if list_ex (\<lambda>r. P r \<and> list_ex (\<lambda>t. \<not> P t \<and> conflict (f r) t) rows) rows
      then Inl ''duplicate key value violates unique constraint''
      else Inr (update_where P f rows))"

lemma checked_update_Inr [simp]:
  "checked_update ok conflict P f rows = Inr rows' \<longleftrightarrow>
     (\<forall>r \<in> set rows. P r \<longrightarrow> ok (f r) \<and> (\<forall>t \<in> set rows. \<not> P t \<longrightarrow> \<not> conflict (f r) t))
     \<and> rows' = update_where P f rows"
  by (auto simp: checked_update_def list_ex_iff)

lemmas insert_defs =
  insert_payment_def insert_disbursement_def insert_mutation_def insert_audit_def insert_outbox_def
  insert_merchant_def insert_bank_account_def insert_admin_def insert_fee_holiday_def insert_fee_audit_log_def

lemma map_sum_Inr [simp]: "map_sum id f x = Inr y \<longleftrightarrow> (\<exists>z. x = Inr z \<and> y = f z)"
  by (cases x) auto

end
