(* ===== verification/Database.thy ===== *)
theory Database
  imports Schema
begin

text \<open>
  The state every request shares and the SQL primitives over it
  (internal/infrastructure/database/db.go). A \<open>world\<close> is the database, the clock, the
  sources of randomness and the fault oracle: any statement, BEGIN or COMMIT may fail, and
  \<open>w_fault\<close> says which, so a theorem that quantifies over worlds covers every pattern of
  failures. The context value that carries the transaction is \<open>w_tx\<close>.

  PostgreSQL is modelled by its documented behaviour: a failed statement changes nothing;
  inside a transaction it also aborts the transaction, after which every statement fails
  and COMMIT reports an error; a rollback restores the tables.
\<close>

datatype tx_state = NoTx | TxOpen | TxAborted

record world =
  w_db :: database
  w_now :: time
  w_uuid :: "nat \<Rightarrow> nat \<Rightarrow> string"
  w_stmts :: nat
  w_fault :: "nat \<Rightarrow> bool"
  w_tx :: tx_state
  w_local_offset :: int
  w_session_offset :: int
  w_uuid_ok :: "string \<Rightarrow> bool"
  w_entropy :: "nat \<Rightarrow> nat"
  w_drawn :: nat
  w_agg_lock :: bool

text \<open>
  \<open>w_uuid n k\<close> is the k-th value of \<open>gen_random_uuid()\<close> in the n-th statement, \<open>w_uuid_ok\<close>
  tells which strings PostgreSQL and uuid.Parse accept as UUIDs, \<open>w_local_offset\<close> and
  \<open>w_session_offset\<close> are the UTC offsets of the Go process and of the database session, and
  \<open>w_entropy\<close> is the byte stream of crypto/rand, read from position \<open>w_drawn\<close>. \<open>w_agg_lock\<close> tells whether the database accepts FOR UPDATE
  on a query with an aggregate; PostgreSQL rejects it.
\<close>

section \<open>Statements\<close>

definition tick :: "world \<Rightarrow> world" where
  "tick w = w\<lparr>w_stmts := Suc (w_stmts w)\<rparr>"

definition abort_tx :: "world \<Rightarrow> world" where
  "abort_tx w = (if w_tx w = TxOpen then w\<lparr>w_tx := TxAborted\<rparr> else w)"

definition stmt_fails :: "world \<Rightarrow> bool" where
  "stmt_fails w \<longleftrightarrow> w_tx w = TxAborted \<or> w_fault w (w_stmts w)"

definition sql_error :: go_error where
  "sql_error = PlainErr ''database error''"

text \<open>
  \<open>exec st\<close>: run one SQL statement. \<open>st\<close> computes, from the world, the rows returned and the
  new database, or the violated constraint.
\<close>

definition exec :: "(world \<Rightarrow> string + ('a \<times> database)) \<Rightarrow> (world, 'a) action" where
  "exec st = (\<lambda>w.
     if stmt_fails w then (Inl sql_error, abort_tx (tick w))
     else (case st w of
             Inl msg \<Rightarrow> (Inl (PlainErr msg), abort_tx (tick w))
           | Inr (x, db) \<Rightarrow> (Inr x, (tick w)\<lparr>w_db := db\<rparr>)))"

definition query :: "(world \<Rightarrow> string + 'a) \<Rightarrow> (world, 'a) action" where
  "query f = exec (\<lambda>w. map_sum id (\<lambda>x. (x, w_db w)) (f w))"

text \<open>A parameter bound to a UUID column must be a UUID.\<close>

definition uuid_param :: "world \<Rightarrow> string \<Rightarrow> string + 'a \<Rightarrow> string + 'a" where
  "uuid_param w i r = (if w_uuid_ok w i then r else Inl ''invalid input syntax for type uuid'')"

text \<open>\<open>sql.ErrNoRows\<close>, the error of a one-row query that selects nothing.\<close>

definition sql_ErrNoRows :: go_error where
  "sql_ErrNoRows = PlainErr ''sql: no rows in result set''"

definition one_row :: "string \<Rightarrow> 'a option \<Rightarrow> (world, 'a) action" where
  "one_row msg r = (case r of None \<Rightarrow> throw (Wrapped msg sql_ErrNoRows) | Some x \<Rightarrow> ret x)"

definition fresh_uuid :: "world \<Rightarrow> string" where
  "fresh_uuid w = w_uuid w (w_stmts w) 0"

text \<open>
  Pages. \<open>normalizePage\<close> is the repositories' clamp (pagination.go); the offset is converted
  with \<open>int32\<close>. \<open>ORDER BY created_at DESC\<close> is the stable sort on the negated key.
\<close>

definition defaultLimit :: int where
  "defaultLimit = 20"

definition maxLimit :: int where
  "maxLimit = 100"

definition normalizePage :: "int \<Rightarrow> int \<Rightarrow> int \<times> int" where
  "normalizePage page limit =
     (let page = (if page < 1 then 1 else page);
          limit = (if limit < 1 then defaultLimit else limit);
          limit = (if limit > maxLimit then maxLimit else limit)
      in (page, limit))"

definition order_desc :: "('r \<Rightarrow> int) \<Rightarrow> 'r list \<Rightarrow> 'r list" where
  "order_desc key rows = sort_key (\<lambda>r. - key r) rows"

definition limit_offset :: "int \<Rightarrow> int \<Rightarrow> 'r list \<Rightarrow> string + 'r list" where
  "limit_offset limit offset rows =
     (if limit < 0 then Inl ''LIMIT must not be negative''
      else if offset < 0 then Inl ''OFFSET must not be negative''
      else Inr (take (nat limit) (drop (nat offset) rows)))"

definition sql_page :: "int \<Rightarrow> int \<Rightarrow> 'r list \<Rightarrow> string + 'r list" where
  "sql_page page limit rows = limit_offset (wrap32 limit) (wrap32 (wrap64 ((page - 1) * limit))) rows"

section \<open>Transactions\<close>

definition begin_tx :: "world \<Rightarrow> world" where
  "begin_tx w = (tick w)\<lparr>w_tx := TxOpen\<rparr>"

definition end_tx :: "database \<Rightarrow> world \<Rightarrow> world" where
  "end_tx db w = (tick w)\<lparr>w_tx := NoTx, w_db := db\<rparr>"

text \<open>
  \<open>RunInTx\<close>. The callback returns a value here because the closures of the source assign
  captured variables. When it fails the tables are those before BEGIN, whether or not the
  ROLLBACK itself reports an error; a panic is re-raised after the rollback.
\<close>

definition RunInTx :: "(world, 'a) action \<Rightarrow> (world, 'a) action" where
  "RunInTx fn = (\<lambda>w.
     if w_fault w (w_stmts w) then (Inl (Wrapped ''begin tx'' sql_error), tick w)
     else (case fn (begin_tx w) of
             (Inl e, w2) \<Rightarrow>
               (if is_panic e then Inl e
                else if w_fault w2 (w_stmts w2) then Inl (Wrapped ''rollback'' sql_error)
                else Inl e, end_tx (w_db w) w2)
           | (Inr x, w2) \<Rightarrow>
               (if stmt_fails w2 then (Inl (Wrapped ''commit tx'' sql_error), end_tx (w_db w) w2)
                else (Inr x, end_tx (w_db w2) w2))))"

section \<open>The clock and randomness\<close>

definition now :: "(world, time) action" where
  "now = gets w_now"

text \<open>\<open>rand.Read(b)\<close> for \<open>n\<close> bytes, and \<open>hex.EncodeToString\<close>.\<close>

definition rand_bytes :: "nat \<Rightarrow> (world, nat list) action" where
  "rand_bytes n = (\<lambda>w. (Inr (map (\<lambda>i. w_entropy w (w_drawn w + i) mod 256) [0..<n]), w\<lparr>w_drawn := w_drawn w + n\<rparr>))"

definition hex_digit :: "nat \<Rightarrow> char" where
  "hex_digit d = (if d < 10 then char_of (48 + d) else char_of (87 + d))"

definition hex_encode :: "nat list \<Rightarrow> string" where
  "hex_encode bs = concat (map (\<lambda>b. [hex_digit (b div 16), hex_digit (b mod 16)]) bs)"

text \<open>\<open>externalID()\<close> of internal/usecase/impl/helpers.go.\<close>

definition externalID :: "(world, string) action" where
  "externalID =
     bind (rand_bytes 8) (\<lambda>b.
     bind now (\<lambda>t.
     ret (''wpay-'' @ fmt_d t @ ''-'' @ hex_encode b)))"

section \<open>Weakest preconditions of the primitives\<close>

lemma tick_simps [simp]:
  "w_db (tick w) = w_db w" "w_tx (tick w) = w_tx w" "w_now (tick w) = w_now w"
  "w_fault (tick w) = w_fault w" "w_stmts (tick w) = Suc (w_stmts w)" "w_uuid (tick w) = w_uuid w"
  "w_uuid_ok (tick w) = w_uuid_ok w" "w_local_offset (tick w) = w_local_offset w"
  "w_session_offset (tick w) = w_session_offset w" "w_entropy (tick w) = w_entropy w"
  "w_drawn (tick w) = w_drawn w"
  by (simp_all add: tick_def)

lemma abort_tx_simps [simp]:
  "w_db (abort_tx w) = w_db w" "w_now (abort_tx w) = w_now w"
  "w_fault (abort_tx w) = w_fault w" "w_stmts (abort_tx w) = w_stmts w" "w_uuid (abort_tx w) = w_uuid w"
  "w_uuid_ok (abort_tx w) = w_uuid_ok w" "w_local_offset (abort_tx w) = w_local_offset w"
  "w_session_offset (abort_tx w) = w_session_offset w"
  "w_tx (abort_tx w) = (if w_tx w = TxOpen then TxAborted else w_tx w)"
  by (simp_all add: abort_tx_def)

lemma begin_tx_simps [simp]:
  "w_db (begin_tx w) = w_db w" "w_now (begin_tx w) = w_now w" "w_tx (begin_tx w) = TxOpen"
  "w_fault (begin_tx w) = w_fault w" "w_stmts (begin_tx w) = Suc (w_stmts w)" "w_uuid (begin_tx w) = w_uuid w"
  "w_uuid_ok (begin_tx w) = w_uuid_ok w" "w_local_offset (begin_tx w) = w_local_offset w"
  "w_session_offset (begin_tx w) = w_session_offset w"
  by (simp_all add: begin_tx_def)

lemma end_tx_simps [simp]:
  "w_db (end_tx db w) = db" "w_now (end_tx db w) = w_now w" "w_tx (end_tx db w) = NoTx"
  "w_fault (end_tx db w) = w_fault w" "w_stmts (end_tx db w) = Suc (w_stmts w)" "w_uuid (end_tx db w) = w_uuid w"
  "w_uuid_ok (end_tx db w) = w_uuid_ok w" "w_local_offset (end_tx db w) = w_local_offset w"
  "w_session_offset (end_tx db w) = w_session_offset w"
  by (simp_all add: end_tx_def)

lemma is_panic_sql_error [simp]: "\<not> is_panic sql_error"
  by (simp add: sql_error_def)

lemma wp_exec:
  "wp (exec st) Q E w =
     (if stmt_fails w then E sql_error (abort_tx (tick w))
      else (case st w of
              Inl msg \<Rightarrow> E (PlainErr msg) (abort_tx (tick w))
            | Inr (x, db) \<Rightarrow> Q x ((tick w)\<lparr>w_db := db\<rparr>)))"
  by (simp add: wp_def exec_def split: sum.splits prod.splits)

lemma world_db_id [simp]: "w\<lparr>w_db := w_db w\<rparr> = w"
  by simp

lemma tick_db_id [simp]: "(tick w)\<lparr>w_db := w_db w\<rparr> = tick w"
  by (simp add: tick_def)

lemma wp_query:
  "wp (query f) Q E w =
     (if stmt_fails w then E sql_error (abort_tx (tick w))
      else (case f w of
              Inl msg \<Rightarrow> E (PlainErr msg) (abort_tx (tick w))
            | Inr x \<Rightarrow> Q x (tick w)))"
  by (simp add: query_def wp_exec split: sum.splits)

lemma wp_RunInTx:
  "wp (RunInTx fn) Q E w =
     (if w_fault w (w_stmts w) then E (Wrapped ''begin tx'' sql_error) (tick w)
      else wp fn
        (\<lambda>x w2. if stmt_fails w2 then E (Wrapped ''commit tx'' sql_error) (end_tx (w_db w) w2)
                else Q x (end_tx (w_db w2) w2))
        (\<lambda>e w2. E (if is_panic e then e else if w_fault w2 (w_stmts w2) then Wrapped ''rollback'' sql_error else e)
                  (end_tx (w_db w) w2))
        (begin_tx w))"
  by (auto simp: wp_def RunInTx_def split: prod.splits sum.splits)

lemma wp_one_row [wp_simps]:
  "wp (one_row msg r) Q E w = (case r of None \<Rightarrow> E (Wrapped msg sql_ErrNoRows) w | Some x \<Rightarrow> Q x w)"
  by (simp add: one_row_def wp_simps split: option.splits)

lemma wp_now [wp_simps]: "wp now Q E w = Q (w_now w) w"
  by (simp add: now_def wp_gets)

lemma wp_rand_bytes [wp_simps]:
  "wp (rand_bytes n) Q E w =
     Q (map (\<lambda>i. w_entropy w (w_drawn w + i) mod 256) [0..<n]) (w\<lparr>w_drawn := w_drawn w + n\<rparr>)"
  by (simp add: wp_def rand_bytes_def)

text \<open>A transaction that reports an error has changed no table.\<close>

lemma RunInTx_error_unchanged: "RunInTx fn w = (Inl e, w') \<Longrightarrow> w_db w' = w_db w"
  by (auto simp: RunInTx_def Let_def split: if_splits prod.splits sum.splits)

section \<open>Worlds without faults\<close>

definition no_faults :: "world \<Rightarrow> bool" where
  "no_faults w \<longleftrightarrow> w_tx w \<noteq> TxAborted \<and> (\<forall>n. \<not> w_fault w n)"

lemma no_faults_stmt [simp]: "no_faults w \<Longrightarrow> \<not> stmt_fails w"
  by (simp add: no_faults_def stmt_fails_def)

lemma no_faults_w_fault [simp]: "no_faults w \<Longrightarrow> \<not> w_fault w n"
  by (simp add: no_faults_def)

lemma no_faults_simps [simp]:
  "no_faults (tick w) = no_faults w" "no_faults (w\<lparr>w_db := db\<rparr>) = no_faults w"
  "no_faults (w\<lparr>w_drawn := n\<rparr>) = no_faults w" "no_faults w \<Longrightarrow> no_faults (begin_tx w)"
  "no_faults w \<Longrightarrow> no_faults (end_tx db w)"
  by (simp_all add: no_faults_def)

text \<open>Outside a transaction, and with no fault to come: where a handler starts in the positive theorems.\<close>

definition idle :: "world \<Rightarrow> bool" where
  "idle w \<longleftrightarrow> w_tx w = NoTx \<and> (\<forall>n. \<not> w_fault w n)"

lemma idle_simps [simp]:
  "idle (tick w) = idle w" "idle (w\<lparr>w_db := db\<rparr>) = idle w" "idle (w\<lparr>w_drawn := n\<rparr>) = idle w"
  "idle w \<Longrightarrow> idle (end_tx db w)" "idle w \<Longrightarrow> no_faults w" "idle w \<Longrightarrow> \<not> stmt_fails w"
  "idle w \<Longrightarrow> \<not> w_fault w n" "idle w \<Longrightarrow> abort_tx w = w"
  by (simp_all add: idle_def no_faults_def stmt_fails_def abort_tx_def)

section \<open>Failures inside a transaction\<close>

text \<open>
  A statement that fails aborts the transaction it runs in. So code that ignores the error
  of a query can go on, but it cannot commit: when the transaction is still open after it,
  every statement was executed, and the run is the one of a world without faults.
\<close>

definition unfaulted :: "world \<Rightarrow> world" where
  "unfaulted w = w\<lparr>w_fault := \<lambda>_. False\<rparr>"

lemma unfaulted_simps [simp]:
  "w_db (unfaulted w) = w_db w" "w_now (unfaulted w) = w_now w" "w_tx (unfaulted w) = w_tx w"
  "w_stmts (unfaulted w) = w_stmts w" "w_uuid (unfaulted w) = w_uuid w" "w_uuid_ok (unfaulted w) = w_uuid_ok w"
  "w_local_offset (unfaulted w) = w_local_offset w" "w_session_offset (unfaulted w) = w_session_offset w"
  "w_agg_lock (unfaulted w) = w_agg_lock w" "\<not> w_fault (unfaulted w) n"
  by (simp_all add: unfaulted_def)

lemma no_faults_unfaulted [simp]: "w_tx w = TxOpen \<Longrightarrow> no_faults (unfaulted w)"
  by (simp add: no_faults_def)

definition stable :: "(world, 'a) action \<Rightarrow> bool" where
  "stable m \<longleftrightarrow>
     (\<forall>w. (w_tx w = TxAborted \<longrightarrow> w_tx (snd (m w)) = TxAborted)
        \<and> (w_tx w = TxOpen \<longrightarrow> w_tx (snd (m w)) = TxAborted
             \<or> w_tx (snd (m w)) = TxOpen \<and> m (unfaulted w) = (fst (m w), unfaulted (snd (m w)))))"

lemma stable_ret: "stable (ret x)" and stable_throw: "stable (throw e)"
  by (simp_all add: stable_def ret_def throw_def)

lemma stable_gets: "(\<And>w. f (unfaulted w) = f w) \<Longrightarrow> stable (gets f)"
  by (simp add: stable_def gets_def)

lemma stable_exec: "(\<And>w. st (unfaulted w) = st w) \<Longrightarrow> stable (exec st)"
  by (auto simp: stable_def exec_def stmt_fails_def abort_tx_def tick_def unfaulted_def split: sum.splits)

lemma stable_query: "(\<And>w. f (unfaulted w) = f w) \<Longrightarrow> stable (query f)"
  unfolding query_def by (rule stable_exec) simp

lemma stableI:
  assumes "\<And>w r u. m w = (r, u) \<Longrightarrow> w_tx w = TxAborted \<Longrightarrow> w_tx u = TxAborted"
    and "\<And>w r u. m w = (r, u) \<Longrightarrow> w_tx w = TxOpen \<Longrightarrow>
       w_tx u = TxAborted \<or> w_tx u = TxOpen \<and> m (unfaulted w) = (r, unfaulted u)"
  shows "stable m"
  unfolding stable_def
proof (intro allI conjI impI)
  fix w
  show "w_tx (snd (m w)) = TxAborted" if "w_tx w = TxAborted" using assms(1) [of w "fst (m w)" "snd (m w)"] that by simp
  show "w_tx (snd (m w)) = TxAborted \<or> w_tx (snd (m w)) = TxOpen \<and> m (unfaulted w) = (fst (m w), unfaulted (snd (m w)))"
    if "w_tx w = TxOpen" using assms(2) [of w "fst (m w)" "snd (m w)"] that by simp
qed

lemma stableD:
  assumes "stable m" "m w = (r, u)"
  shows "w_tx w = TxAborted \<Longrightarrow> w_tx u = TxAborted"
    and "w_tx w = TxOpen \<Longrightarrow> w_tx u = TxAborted \<or> w_tx u = TxOpen \<and> m (unfaulted w) = (r, unfaulted u)"
  using assms unfolding stable_def by (metis snd_conv, metis fst_conv snd_conv)

lemma stable_bind:
  assumes m: "stable m" and f: "\<And>x. stable (f x)"
  shows "stable (bind m f)"
proof (rule stableI)
  fix w r u assume b: "bind m f w = (r, u)"
  obtain r1 w1 where mw: "m w = (r1, w1)" by fastforce
  note D = stableD [OF m mw]
  show "w_tx u = TxAborted" if "w_tx w = TxAborted"
    using D(1) [OF that] b mw stableD(1) [OF f] by (auto simp: bind_def split: sum.splits)
  show "w_tx u = TxAborted \<or> w_tx u = TxOpen \<and> bind m f (unfaulted w) = (r, unfaulted u)" if "w_tx w = TxOpen"
  proof (cases r1)
    case (Inl e)
    then show ?thesis using D(2) [OF that] b mw by (auto simp: bind_def)
  next
    case (Inr x)
    then have "f x w1 = (r, u)" using b mw by (simp add: bind_def)
    from stableD [OF f this] show ?thesis using D(2) [OF that] Inr by (auto simp: bind_def)
  qed
qed

lemma stable_handled:
  assumes m: "stable m" and g: "\<And>w. g w = (h (fst (m w)), snd (m w))"
  shows "stable g"
proof (rule stableI)
  fix w r u assume gw: "g w = (r, u)"
  obtain r1 w1 where mw: "m w = (r1, w1)" by fastforce
  note D = stableD [OF m mw]
  from gw g mw have "r = h r1" "u = w1" by auto
  then show "w_tx w = TxAborted \<Longrightarrow> w_tx u = TxAborted"
    "w_tx w = TxOpen \<Longrightarrow> w_tx u = TxAborted \<or> w_tx u = TxOpen \<and> g (unfaulted w) = (r, unfaulted u)"
    using D by (auto simp: g)
qed

lemma stable_wrap: "stable m \<Longrightarrow> stable (wrap msg m)"
  by (rule stable_handled [where h = "\<lambda>r. case r of Inl e \<Rightarrow> Inl (wrap_err msg e) | Inr x \<Rightarrow> Inr x"])
    (auto simp: wrap_def split: prod.split sum.split)

lemma stable_attempt: "stable m \<Longrightarrow> stable (attempt m)"
  by (rule stable_handled [where h = "\<lambda>r. case r of Inl e \<Rightarrow> if is_panic e then Inl e else Inr (Inl e) | Inr x \<Rightarrow> Inr (Inr x)"])
    (auto simp: attempt_def split: prod.split sum.split)

lemma stable_cases:
  "stable m \<Longrightarrow> stable m' \<Longrightarrow> stable (if b then m else m')"
  "stable m \<Longrightarrow> (\<And>y. stable (f y)) \<Longrightarrow> stable (case x of None \<Rightarrow> m | Some y \<Rightarrow> f y)"
  "(\<And>e. stable (g e)) \<Longrightarrow> (\<And>z. stable (h z)) \<Longrightarrow> stable (case s of Inl e \<Rightarrow> g e | Inr z \<Rightarrow> h z)"
  "(\<And>a b. stable (k a b)) \<Longrightarrow> stable (case p of (a, b) \<Rightarrow> k a b)"
  "(\<And>z. stable (h z)) \<Longrightarrow> stable (Let z h)"
  by (simp_all split: option.split sum.split prod.split)

lemma stable_now: "stable now"
  unfolding now_def by (rule stable_gets) simp

lemma stable_one_row: "stable (one_row msg r)"
  unfolding one_row_def by (intro stable_cases stable_ret stable_throw)

lemmas stable_intros = stable_ret stable_throw stable_bind stable_wrap stable_attempt stable_cases stable_now stable_one_row

text \<open>What holds of a run without faults holds of a run that leaves the transaction open.\<close>

lemma wp_stable:
  assumes "stable m" "w_tx w = TxOpen"
    and "wp m (\<lambda>x w'. \<forall>u. w' = unfaulted u \<longrightarrow> w_tx u = TxOpen \<longrightarrow> Q x u) (\<lambda>e w'. \<forall>u. w' = unfaulted u \<longrightarrow> w_tx u = TxOpen \<longrightarrow> E e u)
           (unfaulted w)"
  shows "wp m (\<lambda>x w'. w_tx w' = TxAborted \<or> Q x w') (\<lambda>e w'. w_tx w' = TxAborted \<or> E e w') w"
proof -
  from assms(1,2) have "w_tx (snd (m w)) = TxAborted
      \<or> w_tx (snd (m w)) = TxOpen \<and> m (unfaulted w) = (fst (m w), unfaulted (snd (m w)))"
    unfolding stable_def by blast
  then show ?thesis
    using assms(3) by (cases "m w") (auto simp: wp_def split: sum.splits)
qed

section \<open>Relations on databases\<close>

text \<open>
  The preorders of the safety proofs constrain the database alone. \<open>db_effect\<close> lifts one to
  worlds; a statement obeys it when what it writes does, and a transaction obeys it when the
  committed state of its body does, whatever the body did on the way.
\<close>

locale db_effect =
  fixes S :: "database \<Rightarrow> database \<Rightarrow> bool"
  assumes S_refl: "S db db"
    and S_trans: "S a b \<Longrightarrow> S b c \<Longrightarrow> S a c"
begin

definition lifted :: "world \<Rightarrow> world \<Rightarrow> bool" where
  "lifted w w' \<longleftrightarrow> S (w_db w) (w_db w')"

end

sublocale db_effect \<subseteq> effect_order lifted
  by unfold_locales (auto simp: lifted_def intro: S_refl S_trans)

context db_effect
begin

lemma obeys_wp: "obeys m \<longleftrightarrow> (\<forall>w. wp m (\<lambda>_ w'. S (w_db w) (w_db w')) (\<lambda>_ w'. S (w_db w) (w_db w')) w)"
  by (simp add: obeys_def lifted_def wp_snd)

lemma obeys_exec: "(\<And>w x db. st w = Inr (x, db) \<Longrightarrow> S (w_db w) db) \<Longrightarrow> obeys (exec st)"
  by (auto simp: obeys_wp wp_exec S_refl split: sum.splits)

lemma obeys_query: "obeys (query f)"
  by (auto simp: obeys_wp wp_query S_refl split: sum.splits)

lemma obeys_one_row: "obeys (one_row msg r)"
  unfolding one_row_def by (intro obeys_intros)

lemma obeys_now: "obeys now"
  by (simp add: obeys_wp wp_now S_refl)

lemma obeys_rand_bytes: "obeys (rand_bytes n)"
  by (simp add: obeys_wp wp_rand_bytes S_refl)

lemma obeys_externalID: "obeys externalID"
  unfolding externalID_def by (intro obeys_intros obeys_rand_bytes obeys_now)

lemma obeys_RunInTx_commit:
  assumes "\<And>w. w_tx w = TxOpen \<Longrightarrow> wp fn (\<lambda>_ w'. S (w_db w) (w_db w')) (\<lambda>_ _. True) w"
  shows "obeys (RunInTx fn)"
proof -
  have "wp fn (\<lambda>_ w2. if stmt_fails w2 then True else S (w_db w) (w_db w2)) (\<lambda>_ _. True) (begin_tx w)" for w
    by (rule wp_mono [OF assms [of "begin_tx w"]]) simp_all
  then show ?thesis
    by (auto simp: obeys_wp wp_RunInTx S_refl if_distrib [of "S _"] cong: if_cong elim!: wp_mono)
qed

lemma obeys_RunInTx: "obeys fn \<Longrightarrow> obeys (RunInTx fn)"
  by (rule obeys_RunInTx_commit) (auto simp: obeys_wp elim!: wp_mono)

lemmas db_intros = obeys_intros obeys_query obeys_one_row obeys_now obeys_rand_bytes obeys_externalID

end

end
