(* ===== verification/Samples.thy ===== *)
theory Samples
  imports Database
begin

text \<open>
  Concrete rows and worlds on which the properties are evaluated: fee rows like those of
  migration 000008, with percentages that binary64 represents exactly, a merchant, and a
  world whose statements never fail.
\<close>

definition flat_fee :: "int64 \<Rightarrow> method_fee" where
  "flat_fee n = \<lparr>mf_Type = FeeTypeFlat, mf_Amount = n, mf_Percentage = 0\<rparr>"

definition percentage_fee :: "float64 \<Rightarrow> method_fee" where
  "percentage_fee p = \<lparr>mf_Type = FeeTypePercentage, mf_Amount = 0, mf_Percentage = p\<rparr>"

definition seeded_fee_default :: fee_default_row where
  "seeded_fee_default =
     \<lparr>fdr_ID = ''fd'', fdr_Va = JsonOk (flat_fee 4500), fdr_Qris = JsonOk (percentage_fee (1 / 2)),
      fdr_Disbursement = JsonOk (flat_fee 5000), fdr_UpdatedBy = '''', fdr_UpdatedAt = 0, fdr_CreatedAt = 0\<rparr>"

definition seeded_platform_margin :: "bool \<Rightarrow> platform_margin_row" where
  "seeded_platform_margin enabled =
     \<lparr>pmr_ID = ''pm'', pmr_Enabled = enabled, pmr_Va = JsonOk (flat_fee 500),
      pmr_Qris = JsonOk (percentage_fee (1 / 8)), pmr_Disbursement = JsonOk (flat_fee 1000),
      pmr_UpdatedBy = '''', pmr_UpdatedAt = 0, pmr_CreatedAt = 0\<rparr>"

definition sample_merchant :: merchant where
  "sample_merchant =
     \<lparr>m_ID = ''M1'', m_Name = ''Toko'', m_Email = ''a@b.id'', m_Phone = '''', m_Status = MerchantStatusActive,
      m_APIKey = ''h1'', m_WebhookURL = ''https://toko.id/hook'', m_WebhookSecret = '''', m_WebhookSigningKey = ''k'',
      m_FeeConfig = zero_fee_config, m_IsProduction = False, m_DailyCashoutLimit = 0, m_DeletedAt = None,
      m_CreatedAt = 0, m_UpdatedAt = 0\<rparr>"

definition sample_db :: "bool \<Rightarrow> database" where
  "sample_db margin = empty_database
     \<lparr>db_merchants := [sample_merchant], db_fee_defaults := [seeded_fee_default],
      db_platform_margin := [seeded_platform_margin margin]\<rparr>"

definition quiet_world :: "database \<Rightarrow> time \<Rightarrow> world" where
  "quiet_world db t =
     \<lparr>w_db = db, w_now = t, w_uuid = (\<lambda>n k. replicate n (CHR ''u'') @ ''-'' @ replicate k (CHR ''k'')), w_stmts = 0, w_fault = (\<lambda>_. False),
      w_tx = NoTx, w_local_offset = 0, w_session_offset = 0, w_uuid_ok = (\<lambda>_. True),
      w_entropy = (\<lambda>_. 0), w_drawn = 0, w_agg_lock = False\<rparr>"

lemma quiet_world_simps [simp]:
  "no_faults (quiet_world db t)" "idle (quiet_world db t)" "w_db (quiet_world db t) = db" "w_now (quiet_world db t) = t"
  "w_tx (quiet_world db t) = NoTx" "w_uuid_ok (quiet_world db t) i" "\<not> w_fault (quiet_world db t) n"
  "w_local_offset (quiet_world db t) = 0" "w_session_offset (quiet_world db t) = 0" "inj (\<lambda>n. w_uuid (quiet_world db t) n 0)"
  by (auto simp: quiet_world_def no_faults_def idle_def inj_def dest: arg_cong [of _ _ length])

end
