(* ===== verification/Fees.thy ===== *)
theory Fees
  imports Samples
begin

text \<open>
  Fees: \<open>computeMethodFee\<close> (internal/usecase/impl/helpers.go), the fee repository
  (internal/infrastructure/database/postgres/fee_repo.go) and \<open>FeeResolver\<close>
  (internal/usecase/impl/fee_resolver.go).
\<close>

section \<open>The fee of one payment method\<close>

definition computeMethodFee :: "method_fee \<Rightarrow> int64 \<Rightarrow> int64" where
  "computeMethodFee mf amount =
     (case mf_Type mf of
        FeeTypeFlat \<Rightarrow> (if mf_Amount mf > amount then amount else mf_Amount mf)
      | FeeTypePercentage \<Rightarrow> int64_of_f64 (f64_div (f64_mul (f64_of_int amount) (mf_Percentage mf)) 100)
      | FeeTypeOther _ \<Rightarrow> 0)"

definition isZeroFee :: "method_fee \<Rightarrow> bool" where
  "isZeroFee f \<longleftrightarrow> mf_Type f = FeeTypeOther '''' \<or> (mf_Amount f = 0 \<and> mf_Percentage f = 0)"

section \<open>The fee repository\<close>

definition unmarshal :: "string \<Rightarrow> 'a json_col \<Rightarrow> (world, 'a) action" where
  "unmarshal msg c = (case c of JsonOk x \<Rightarrow> ret x | JsonBad \<Rightarrow> throw (Wrapped msg (PlainErr ''json: cannot unmarshal'')))"

definition toEntityFeeDefault :: "fee_default_row \<Rightarrow> (world, fee_default) action" where
  "toEntityFeeDefault r =
     bind (unmarshal ''unmarshal va fee'' (fdr_Va r)) (\<lambda>va.
     bind (unmarshal ''unmarshal qris fee'' (fdr_Qris r)) (\<lambda>qris.
     bind (unmarshal ''unmarshal disbursement fee'' (fdr_Disbursement r)) (\<lambda>disb.
     ret \<lparr>fd_ID = fdr_ID r, fd_VA = va, fd_QRIS = qris, fd_Disbursement = disb,
          fd_UpdatedBy = fdr_UpdatedBy r, fd_UpdatedAt = fdr_UpdatedAt r, fd_CreatedAt = fdr_CreatedAt r\<rparr>)))"

definition toEntityPlatformMargin :: "platform_margin_row \<Rightarrow> (world, platform_margin) action" where
  "toEntityPlatformMargin r =
     bind (unmarshal ''unmarshal va margin'' (pmr_Va r)) (\<lambda>va.
     bind (unmarshal ''unmarshal qris margin'' (pmr_Qris r)) (\<lambda>qris.
     bind (unmarshal ''unmarshal disbursement margin'' (pmr_Disbursement r)) (\<lambda>disb.
     ret \<lparr>pm_ID = pmr_ID r, pm_Enabled = pmr_Enabled r, pm_VA = va, pm_QRIS = qris, pm_Disbursement = disb,
          pm_UpdatedBy = pmr_UpdatedBy r, pm_UpdatedAt = pmr_UpdatedAt r, pm_CreatedAt = pmr_CreatedAt r\<rparr>)))"

definition toEntityHoliday :: "fee_holiday_row \<Rightarrow> (world, fee_holiday) action" where
  "toEntityHoliday r =
     bind (unmarshal ''unmarshal surcharge'' (hr_Surcharge r)) (\<lambda>s.
     ret \<lparr>h_ID = hr_ID r, h_Name = hr_Name r, h_Date = hr_Date r, h_Type = hr_Type r, h_Surcharge = s,
          h_IsActive = hr_IsActive r, h_CreatedBy = hr_CreatedBy r, h_UpdatedBy = hr_UpdatedBy r,
          h_CreatedAt = hr_CreatedAt r, h_UpdatedAt = hr_UpdatedAt r\<rparr>)"

definition first_row :: "'r list \<Rightarrow> 'r option" where
  "first_row rs = (case rs of [] \<Rightarrow> None | r # _ \<Rightarrow> Some r)"

definition fee_GetDefault :: "(world, fee_default) action" where
  "fee_GetDefault =
     bind (wrap ''get fee default'' (query (\<lambda>w. Inr (first_row (db_fee_defaults (w_db w)))))) (\<lambda>r.
     bind (one_row ''get fee default'' r) toEntityFeeDefault)"

definition fee_GetMargin :: "(world, platform_margin) action" where
  "fee_GetMargin =
     bind (wrap ''get platform margin'' (query (\<lambda>w. Inr (first_row (db_platform_margin (w_db w)))))) (\<lambda>r.
     bind (one_row ''get platform margin'' r) toEntityPlatformMargin)"

definition fee_GetHolidayByDate :: "int \<Rightarrow> (world, fee_holiday) action" where
  "fee_GetHolidayByDate date =
     bind (wrap ''get holiday by date''
            (query (\<lambda>w. Inr (find (\<lambda>h. hr_Date h = date \<and> hr_IsActive h) (db_fee_holidays (w_db w)))))) (\<lambda>r.
     bind (one_row ''get holiday by date'' r) toEntityHoliday)"

definition fee_GetHolidayByID :: "string \<Rightarrow> (world, fee_holiday) action" where
  "fee_GetHolidayByID i =
     bind (wrap ''get holiday by id''
            (query (\<lambda>w. uuid_param w i (Inr (find (\<lambda>h. hr_ID h = i) (db_fee_holidays (w_db w))))))) (\<lambda>r.
     bind (one_row ''get holiday by id'' r) toEntityHoliday)"

text \<open>The two singleton tables are updated in place, every row of them.\<close>

definition fee_UpdateDefault :: "fee_default \<Rightarrow> (world, fee_default) action" where
  "fee_UpdateDefault f =
     bind (wrap ''update fee default''
       (exec (\<lambda>w.
          let rows = map (\<lambda>r. r\<lparr>fdr_Va := JsonOk (fd_VA f), fdr_Qris := JsonOk (fd_QRIS f),
                                fdr_Disbursement := JsonOk (fd_Disbursement f),
                                fdr_UpdatedBy := fd_UpdatedBy f, fdr_UpdatedAt := w_now w\<rparr>)
                        (db_fee_defaults (w_db w))
          in Inr (first_row rows, (w_db w)\<lparr>db_fee_defaults := rows\<rparr>)))) (\<lambda>r.
     bind (one_row ''update fee default'' r) (\<lambda>row.
     ret (f\<lparr>fd_UpdatedAt := fdr_UpdatedAt row\<rparr>)))"

definition fee_UpdateMargin :: "platform_margin \<Rightarrow> (world, platform_margin) action" where
  "fee_UpdateMargin m =
     bind (wrap ''update platform margin''
       (exec (\<lambda>w.
          let rows = map (\<lambda>r. r\<lparr>pmr_Enabled := pm_Enabled m, pmr_Va := JsonOk (pm_VA m), pmr_Qris := JsonOk (pm_QRIS m),
                                pmr_Disbursement := JsonOk (pm_Disbursement m),
                                pmr_UpdatedBy := pm_UpdatedBy m, pmr_UpdatedAt := w_now w\<rparr>)
                        (db_platform_margin (w_db w))
          in Inr (first_row rows, (w_db w)\<lparr>db_platform_margin := rows\<rparr>)))) (\<lambda>r.
     bind (one_row ''update platform margin'' r) (\<lambda>row.
     ret (m\<lparr>pm_UpdatedAt := pmr_UpdatedAt row\<rparr>)))"

definition fee_CreateHoliday :: "fee_holiday \<Rightarrow> (world, fee_holiday) action" where
  "fee_CreateHoliday h =
     bind (wrap ''insert holiday''
       (exec (\<lambda>w.
          let row = \<lparr>hr_ID = fresh_uuid w, hr_Name = h_Name h, hr_Date = h_Date h, hr_Type = h_Type h,
                     hr_Surcharge = JsonOk (h_Surcharge h), hr_IsActive = h_IsActive h,
                     hr_CreatedBy = h_CreatedBy h, hr_UpdatedBy = h_CreatedBy h,
                     hr_CreatedAt = w_now w, hr_UpdatedAt = w_now w\<rparr>
          in map_sum id (Pair row) (insert_fee_holiday row (w_db w))))) (\<lambda>row.
     ret (h\<lparr>h_ID := hr_ID row, h_CreatedAt := hr_CreatedAt row, h_UpdatedAt := hr_UpdatedAt row\<rparr>))"

definition fee_UpdateHoliday :: "fee_holiday \<Rightarrow> (world, fee_holiday) action" where
  "fee_UpdateHoliday h =
     bind (wrap ''update holiday''
       (exec (\<lambda>w. uuid_param w (h_ID h)
          (map_sum id (\<lambda>rows. (find (\<lambda>r. hr_ID r = h_ID h) rows, (w_db w)\<lparr>db_fee_holidays := rows\<rparr>))
            (checked_update fee_holiday_row_ok (\<lambda>r t. hr_Date t = hr_Date r)
               (\<lambda>r. hr_ID r = h_ID h)
               (\<lambda>r. r\<lparr>hr_Name := h_Name h, hr_Date := h_Date h, hr_Type := h_Type h,
                       hr_Surcharge := JsonOk (h_Surcharge h), hr_IsActive := h_IsActive h,
                       hr_UpdatedBy := h_UpdatedBy h, hr_UpdatedAt := w_now w\<rparr>)
               (db_fee_holidays (w_db w))))))) (\<lambda>r.
     bind (one_row ''update holiday'' r) (\<lambda>row.
     ret (h\<lparr>h_UpdatedAt := hr_UpdatedAt row\<rparr>)))"

definition fee_WriteAuditLog :: "fee_audit_log \<Rightarrow> (world, unit) action" where
  "fee_WriteAuditLog l =
     exec (\<lambda>w. map_sum id (Pair ())
       (insert_fee_audit_log (l\<lparr>fl_ID := fresh_uuid w, fl_CreatedAt := w_now w\<rparr>) (w_db w)))"

definition fee_ListHolidays :: "int \<Rightarrow> int \<Rightarrow> (world, fee_holiday list \<times> int) action" where
  "fee_ListHolidays page limit =
     (let page = (if page < 1 then 1 else page); limit = (if limit < 1 then 20 else limit) in
     bind (wrap ''count holidays'' (query (\<lambda>w. Inr (int (length (db_fee_holidays (w_db w))))))) (\<lambda>total.
     bind (wrap ''list holidays''
            (query (\<lambda>w. sql_page page limit (order_desc hr_Date (db_fee_holidays (w_db w)))))) (\<lambda>rows.
     bind (map_action toEntityHoliday rows) (\<lambda>result.
     ret (result, total)))))"

section \<open>FeeResolver\<close>

record fee_resolution =
  fr_BaseFee :: int64
  fr_PlatformMargin :: int64
  fr_HolidaySurcharge :: int64
  fr_TotalFee :: int64
  fr_Source :: string
  fr_HolidayName :: string

definition resolver_merchantFee :: "merchant \<Rightarrow> payment_method \<Rightarrow> (world, method_fee \<times> string) action" where
  "resolver_merchantFee merchant meth =
     (let global =
        bind (wrap ''get fee default'' fee_GetDefault) (\<lambda>def.
          (case meth of
             PaymentMethodVA \<Rightarrow> ret (fd_VA def, ''global_default'')
           | PaymentMethodQRIS \<Rightarrow> ret (fd_QRIS def, ''global_default'')
           | _ \<Rightarrow> ret (zero_method_fee, ''global_default'')))
      in case meth of
           PaymentMethodVA \<Rightarrow>
             (if \<not> isZeroFee (fc_VA (m_FeeConfig merchant))
              then ret (fc_VA (m_FeeConfig merchant), ''merchant_contract'') else global)
         | PaymentMethodQRIS \<Rightarrow>
             (if \<not> isZeroFee (fc_QRIS (m_FeeConfig merchant))
              then ret (fc_QRIS (m_FeeConfig merchant), ''merchant_contract'') else global)
         | _ \<Rightarrow> global)"

definition resolver_marginFee :: "platform_margin \<Rightarrow> payment_method \<Rightarrow> method_fee" where
  "resolver_marginFee m meth =
     (case meth of
        PaymentMethodVA \<Rightarrow> pm_VA m
      | PaymentMethodQRIS \<Rightarrow> pm_QRIS m
      | _ \<Rightarrow> zero_method_fee)"

text \<open>\<open>time.Date(now.Year(), now.Month(), now.Day(), ...)\<close>: the local calendar day.\<close>

definition local_day :: "world \<Rightarrow> time \<Rightarrow> int" where
  "local_day w t = (t + w_local_offset w * second) div day"

text \<open>The holiday look-up ignores its error.\<close>

definition resolver_holiday :: "int64 \<Rightarrow> time \<Rightarrow> (world, int64 \<times> string) action" where
  "resolver_holiday amount t =
     bind (gets (\<lambda>w. local_day w t)) (\<lambda>today.
     bind (attempt (fee_GetHolidayByDate today)) (\<lambda>r.
     case r of
       Inr h \<Rightarrow> (if h_IsActive h then ret (computeMethodFee (h_Surcharge h) amount, h_Name h) else ret (0, ''''))
     | Inl _ \<Rightarrow> ret (0, '''')))"

definition resolution :: "int64 \<Rightarrow> int64 \<Rightarrow> int64 \<Rightarrow> string \<Rightarrow> string \<Rightarrow> fee_resolution" where
  "resolution baseFee platformFee holidayFee source holidayName =
     \<lparr>fr_BaseFee = baseFee, fr_PlatformMargin = platformFee, fr_HolidaySurcharge = holidayFee,
      fr_TotalFee = wrap64 (wrap64 (baseFee + platformFee) + holidayFee),
      fr_Source = source, fr_HolidayName = holidayName\<rparr>"

definition resolver_Resolve :: "merchant \<Rightarrow> payment_method \<Rightarrow> int64 \<Rightarrow> (world, fee_resolution) action" where
  "resolver_Resolve merchant meth amount =
     bind now (\<lambda>t.
     bind (resolver_merchantFee merchant meth) (\<lambda>(merchantFee, source).
     let baseFee = computeMethodFee merchantFee amount in
     bind (wrap ''get platform margin'' fee_GetMargin) (\<lambda>margin.
     let platformFee = (if pm_Enabled margin then computeMethodFee (resolver_marginFee margin meth) amount else 0) in
     bind (resolver_holiday amount t) (\<lambda>(holidayFee, holidayName).
     ret (resolution baseFee platformFee holidayFee source holidayName)))))"

definition resolver_ResolveDisbursement :: "merchant \<Rightarrow> int64 \<Rightarrow> (world, fee_resolution) action" where
  "resolver_ResolveDisbursement merchant amount =
     bind (if isZeroFee (fc_Disbursement (m_FeeConfig merchant))
           then bind (wrap ''get fee default'' fee_GetDefault) (\<lambda>def. ret (fd_Disbursement def, ''global_default''))
           else ret (fc_Disbursement (m_FeeConfig merchant), ''merchant_contract'')) (\<lambda>(disbFee, source).
     let baseFee = computeMethodFee disbFee amount in
     bind (wrap ''get platform margin'' fee_GetMargin) (\<lambda>margin.
     let platformFee = (if pm_Enabled margin then computeMethodFee (pm_Disbursement margin) amount else 0) in
     bind now (\<lambda>t.
     bind (resolver_holiday amount t) (\<lambda>(holidayFee, holidayName).
     ret (resolution baseFee platformFee holidayFee source holidayName)))))"

section \<open>Bounds\<close>

lemma int64_range_small: "0 \<le> t \<Longrightarrow> t < 2 ^ 51 \<Longrightarrow> int64_range t"
  by (simp add: int64_range_def)

lemma flat_fee_bounds:
  "mf_Type mf = FeeTypeFlat \<Longrightarrow> computeMethodFee mf amount \<le> amount
     \<and> (0 \<le> mf_Amount mf \<longrightarrow> 0 \<le> amount \<longrightarrow> 0 \<le> computeMethodFee mf amount)"
  by (auto simp: computeMethodFee_def)

text \<open>The two roundings of \<open>float64(amount) * pct / 100\<close> move the result by less than one half.\<close>

lemma percentage_rounding:
  fixes a p :: rat
  assumes a: "0 \<le> a" "a < 2 ^ 51" and p: "0 \<le> p" "p \<le> 100"
  shows "\<bar>f64_div (f64_mul a p) 100 - a * p / 100\<bar> < 3 / 4" and "0 \<le> f64_div (f64_mul a p) 100"
proof -
  define x where "x = a * p"
  define y where "y = f64_round x"
  define z where "z = f64_round (y / 100)"
  have z: "f64_div (f64_mul a p) 100 = z" by (simp add: z_def y_def x_def f64_div_def f64_mul_def)
  have x0: "0 \<le> x" using a p by (simp add: x_def)
  have "a * p \<le> a * 100" by (rule mult_left_mono) (use a p in auto)
  then have x1: "x \<le> 100 * 2 ^ 51" using a by (simp add: x_def)
  have y0: "0 \<le> y" using x0 by (simp add: y_def f64_round_nonneg)
  then show "0 \<le> f64_div (f64_mul a p) 100" unfolding z z_def by (simp add: f64_round_nonneg)
  have e1: "\<bar>y - x\<bar> \<le> x / 2 ^ 53" using f64_round_error [of x] x0 by (simp add: y_def)
  have e2: "\<bar>z - y / 100\<bar> \<le> y / 100 / 2 ^ 53"
    using f64_round_error [of "y / 100"] y0 by (simp add: z_def)
  have "x / 2 ^ 53 \<le> 100 / 4" using x1 by simp
  with e1 have "\<bar>y - x\<bar> \<le> 25" by linarith
  then have y1: "\<bar>y / 100 - x / 100\<bar> \<le> 1 / 4" "y \<le> x + 25" by (simp_all only: abs_le_iff) linarith+
  then have "y / 100 \<le> 2 ^ 51 + 1 / 4" using x1 by simp
  then have "y / 100 / 2 ^ 53 \<le> (2 ^ 51 + 1 / 4) / 2 ^ 53" by (rule divide_right_mono) simp
  also have "\<dots> < (1 / 2 :: rat)" by simp
  finally have "\<bar>z - y / 100\<bar> < 1 / 2" using e2 by linarith
  with y1 have "\<bar>z - x / 100\<bar> < 3 / 4" by linarith
  then show "\<bar>f64_div (f64_mul a p) 100 - a * p / 100\<bar> < 3 / 4" by (simp add: z x_def)
qed

lemma percentage_fee_floor:
  assumes "mf_Type mf = FeeTypePercentage" "0 \<le> mf_Percentage mf" "mf_Percentage mf \<le> 100"
    and "0 \<le> amount" "amount < 2 ^ 51"
  shows "computeMethodFee mf amount = \<lfloor>f64_div (f64_mul (of_int amount) (mf_Percentage mf)) 100\<rfloor>"
    and "\<bar>of_int (computeMethodFee mf amount) - of_int amount * mf_Percentage mf / 100\<bar> < 2"
    and "0 \<le> computeMethodFee mf amount" "computeMethodFee mf amount \<le> amount"
proof -
  define r where "r = f64_div (f64_mul (of_int amount) (mf_Percentage mf)) 100"
  have a: "(0 :: rat) \<le> of_int amount" "of_int amount < (2 ^ 51 :: rat)"
    using assms(4,5) of_int_less_iff [where 'a = rat, of amount "2 ^ 51"] by simp_all
  note R = percentage_rounding [OF a assms(2,3), folded r_def]
  have ex: "f64_of_int amount = of_int amount"
    by (rule f64_of_int_exact) (use assms(4,5) in simp)
  have "of_int amount * mf_Percentage mf \<le> of_int amount * 100"
    by (rule mult_left_mono) (use assms a in auto)
  then have "of_int amount * mf_Percentage mf / 100 \<le> of_int amount" by simp
  with R(1) have "r < of_int amount + 1" by linarith
  then have fl: "\<lfloor>r\<rfloor> \<le> amount" "0 \<le> \<lfloor>r\<rfloor>" using R(2) by (simp_all add: floor_le_iff)
  moreover have "f64_trunc r = \<lfloor>r\<rfloor>" using R(2) by (simp add: f64_trunc_def)
  moreover have "int64_range \<lfloor>r\<rfloor>" by (rule int64_range_small [OF fl(2) le_less_trans [OF fl(1) assms(5)]])
  ultimately have "int64_of_f64 r = \<lfloor>r\<rfloor>"
    by (simp only: int64_of_f64_def Let_def) simp
  then have eq: "computeMethodFee mf amount = \<lfloor>r\<rfloor>"
    by (simp add: computeMethodFee_def assms(1) ex r_def)
  then show "computeMethodFee mf amount = \<lfloor>f64_div (f64_mul (of_int amount) (mf_Percentage mf)) 100\<rfloor>"
    by (simp add: r_def)
  show "0 \<le> computeMethodFee mf amount" "computeMethodFee mf amount \<le> amount" using eq fl by simp_all
  show "\<bar>of_int (computeMethodFee mf amount) - of_int amount * mf_Percentage mf / 100\<bar> < 2"
    unfolding eq using R(1) floor_correct [of r] by linarith
qed

definition method_fee_sane :: "method_fee \<Rightarrow> bool" where
  "method_fee_sane mf \<longleftrightarrow> 0 \<le> mf_Amount mf \<and> 0 \<le> mf_Percentage mf \<and> mf_Percentage mf \<le> 100"

lemma method_fee_range:
  assumes "method_fee_sane mf" "0 \<le> amount" "amount < 2 ^ 51"
  shows "0 \<le> computeMethodFee mf amount" "computeMethodFee mf amount \<le> amount"
  using assms flat_fee_bounds [of mf amount] percentage_fee_floor(3,4) [of mf amount]
  by (cases "mf_Type mf"; simp add: method_fee_sane_def; simp add: computeMethodFee_def)+



section \<open>FeeResolver against its specification\<close>

text \<open>
  The specification reads the four layers off the database at one instant: the merchant
  contract or else the global default, the platform margin when enabled, the surcharge of
  an active holiday on the local calendar day.
\<close>

definition json_val :: "'a json_col \<Rightarrow> 'a option" where
  "json_val c = (case c of JsonOk x \<Rightarrow> Some x | JsonBad \<Rightarrow> None)"

definition default_of :: "database \<Rightarrow> (method_fee \<times> method_fee \<times> method_fee) option" where
  "default_of db =
     (case db_fee_defaults db of
        [] \<Rightarrow> None
      | r # _ \<Rightarrow> (case (json_val (fdr_Va r), json_val (fdr_Qris r), json_val (fdr_Disbursement r)) of
                   (Some v, Some q, Some d) \<Rightarrow> Some (v, q, d) | _ \<Rightarrow> None))"

definition margin_of :: "database \<Rightarrow> (bool \<times> method_fee \<times> method_fee \<times> method_fee) option" where
  "margin_of db =
     (case db_platform_margin db of
        [] \<Rightarrow> None
      | r # _ \<Rightarrow> (case (json_val (pmr_Va r), json_val (pmr_Qris r), json_val (pmr_Disbursement r)) of
                   (Some v, Some q, Some d) \<Rightarrow> Some (pmr_Enabled r, v, q, d) | _ \<Rightarrow> None))"

definition holiday_fee_of :: "database \<Rightarrow> int \<Rightarrow> int64 \<Rightarrow> int64 \<times> string" where
  "holiday_fee_of db today amount =
     (case find (\<lambda>h. hr_Date h = today \<and> hr_IsActive h) (db_fee_holidays db) of
        None \<Rightarrow> (0, '''')
      | Some h \<Rightarrow> (case hr_Surcharge h of JsonBad \<Rightarrow> (0, '''')
                  | JsonOk s \<Rightarrow> (computeMethodFee s amount, hr_Name h)))"

definition pick_fee :: "payment_method \<Rightarrow> method_fee \<Rightarrow> method_fee \<Rightarrow> method_fee" where
  "pick_fee meth va qris =
     (case meth of PaymentMethodVA \<Rightarrow> va | PaymentMethodQRIS \<Rightarrow> qris | _ \<Rightarrow> zero_method_fee)"

definition base_fee_of ::
  "database \<Rightarrow> method_fee \<Rightarrow> (method_fee \<times> method_fee \<times> method_fee \<Rightarrow> method_fee) \<Rightarrow> (method_fee \<times> string) option" where
  "base_fee_of db contract pick =
     (if \<not> isZeroFee contract then Some (contract, ''merchant_contract'')
      else map_option (\<lambda>fees. (pick fees, ''global_default'')) (default_of db))"

definition layered_fee ::
  "database \<Rightarrow> int \<Rightarrow> int64 \<Rightarrow> method_fee \<Rightarrow> (method_fee \<times> method_fee \<times> method_fee \<Rightarrow> method_fee) \<Rightarrow> fee_resolution option" where
  "layered_fee db today amount contract pick =
     (case (base_fee_of db contract pick, margin_of db) of
        (Some (f, src), Some (en, fees)) \<Rightarrow>
          (case holiday_fee_of db today amount of (hf, hn) \<Rightarrow>
             Some (resolution (computeMethodFee f amount) (if en then computeMethodFee (pick fees) amount else 0) hf src hn))
      | _ \<Rightarrow> None)"

definition fee_spec :: "database \<Rightarrow> int \<Rightarrow> merchant \<Rightarrow> payment_method \<Rightarrow> int64 \<Rightarrow> fee_resolution option" where
  "fee_spec db today m meth amount =
     layered_fee db today amount
       (pick_fee meth (fc_VA (m_FeeConfig m)) (fc_QRIS (m_FeeConfig m))) (\<lambda>(v, q, d). pick_fee meth v q)"

definition disbursement_fee_spec :: "database \<Rightarrow> int \<Rightarrow> merchant \<Rightarrow> int64 \<Rightarrow> fee_resolution option" where
  "disbursement_fee_spec db today m amount =
     layered_fee db today amount (fc_Disbursement (m_FeeConfig m)) (\<lambda>(v, q, d). d)"

lemma wp_unmarshal [wp_simps]:
  "wp (unmarshal msg c) Q E w =
     (case json_val c of Some x \<Rightarrow> Q x w | None \<Rightarrow> E (Wrapped msg (PlainErr ''json: cannot unmarshal'')) w)"
  by (simp add: unmarshal_def json_val_def wp_simps split: json_col.splits)

lemma wp_GetDefault:
  "no_faults w \<Longrightarrow>
   wp fee_GetDefault
     (\<lambda>f w'. default_of (w_db w) = Some (fd_VA f, fd_QRIS f, fd_Disbursement f) \<and> w' = tick w)
     (\<lambda>e w'. default_of (w_db w) = None \<and> \<not> is_panic e \<and> w' = tick w) w"
  by (simp add: fee_GetDefault_def wp_simps wp_query first_row_def toEntityFeeDefault_def default_of_def
      split: list.splits option.splits)

lemma wp_GetMargin:
  "no_faults w \<Longrightarrow>
   wp fee_GetMargin
     (\<lambda>m w'. margin_of (w_db w) = Some (pm_Enabled m, pm_VA m, pm_QRIS m, pm_Disbursement m) \<and> w' = tick w)
     (\<lambda>e w'. margin_of (w_db w) = None \<and> \<not> is_panic e \<and> w' = tick w) w"
  by (simp add: fee_GetMargin_def wp_simps wp_query first_row_def toEntityPlatformMargin_def margin_of_def
      split: list.splits option.splits)

lemma wp_holiday:
  "no_faults w \<Longrightarrow>
   wp (resolver_holiday amount t)
     (\<lambda>r w'. r = holiday_fee_of (w_db w) (local_day w t) amount \<and> w' = tick w) (\<lambda>_ _. False) w"
  by (auto simp: resolver_holiday_def wp_simps fee_GetHolidayByDate_def wp_query toEntityHoliday_def
      holiday_fee_of_def json_val_def split: option.splits json_col.splits dest: find_Some_in)

lemma local_day_tick [simp]: "local_day (tick w) t = local_day w t"
  by (simp add: local_day_def)

lemma isZeroFee_zero [simp]: "isZeroFee zero_method_fee"
  by (simp add: isZeroFee_def zero_method_fee_def)

lemma wp_GetDefault_rule:
  assumes "no_faults w"
    and "\<And>f. default_of (w_db w) = Some (fd_VA f, fd_QRIS f, fd_Disbursement f) \<Longrightarrow> Q f (tick w)"
    and "\<And>e. default_of (w_db w) = None \<Longrightarrow> \<not> is_panic e \<Longrightarrow> E e (tick w)"
  shows "wp fee_GetDefault Q E w"
  by (rule wp_mono [OF wp_GetDefault [OF assms(1)]]) (use assms in auto)

lemma wp_GetMargin_rule:
  assumes "no_faults w"
    and "\<And>mg. margin_of (w_db w) = Some (pm_Enabled mg, pm_VA mg, pm_QRIS mg, pm_Disbursement mg) \<Longrightarrow> Q mg (tick w)"
    and "\<And>e. margin_of (w_db w) = None \<Longrightarrow> \<not> is_panic e \<Longrightarrow> E e (tick w)"
  shows "wp fee_GetMargin Q E w"
  by (rule wp_mono [OF wp_GetMargin [OF assms(1)]]) (use assms in auto)

lemma wp_holiday_rule:
  "no_faults w \<Longrightarrow> Q (holiday_fee_of (w_db w) (local_day w t) amount) (tick w) \<Longrightarrow> wp (resolver_holiday amount t) Q E w"
  by (rule wp_mono [OF wp_holiday]) auto

lemma wp_merchantFee:
  assumes "no_faults w"
    and "\<And>r w'. base_fee_of (w_db w) (pick_fee meth (fc_VA (m_FeeConfig m)) (fc_QRIS (m_FeeConfig m)))
           (\<lambda>(v, q, d). pick_fee meth v q) = Some r \<Longrightarrow> w' = w \<or> w' = tick w \<Longrightarrow> Q r w'"
    and "\<And>e w'. base_fee_of (w_db w) (pick_fee meth (fc_VA (m_FeeConfig m)) (fc_QRIS (m_FeeConfig m)))
           (\<lambda>(v, q, d). pick_fee meth v q) = None \<Longrightarrow> \<not> is_panic e \<Longrightarrow> w' = tick w \<Longrightarrow> E e w'"
  shows "wp (resolver_merchantFee m meth) Q E w"
  using assms(2,3)
  by (cases meth)
    (auto simp: resolver_merchantFee_def wp_simps pick_fee_def base_fee_of_def
      intro!: wp_GetDefault_rule [OF assms(1)])

lemma marginFee_pick: "resolver_marginFee mg meth = (\<lambda>(v, q, d). pick_fee meth v q) (pm_VA mg, pm_QRIS mg, pm_Disbursement mg)"
  by (simp add: resolver_marginFee_def pick_fee_def)

lemma Resolve_spec:
  assumes nf: "no_faults w"
  shows "wp (resolver_Resolve m meth amount)
     (\<lambda>r w'. fee_spec (w_db w) (local_day w (w_now w)) m meth amount = Some r \<and> w_db w' = w_db w \<and> no_faults w')
     (\<lambda>e w'. fee_spec (w_db w) (local_day w (w_now w)) m meth amount = None \<and> \<not> is_panic e \<and> w_db w' = w_db w \<and> no_faults w') w"
  unfolding resolver_Resolve_def Let_def wp_bind wp_now wp_case_prod fee_spec_def
proof (rule wp_merchantFee [OF nf], goal_cases)
  case (1 r w')
  then have u: "no_faults w'" "w_db w' = w_db w" "local_day w' = local_day w" using nf by auto
  obtain f src where r: "r = (f, src)" by fastforce
  show ?case
    unfolding r prod.case wp_bind wp_wrap
  proof (rule wp_GetMargin_rule [OF u(1)], goal_cases)
    case (1 mg)
    show ?case
      by (rule wp_holiday_rule)
        (use \<open>base_fee_of _ _ _ = _\<close> r u 1 in \<open>auto simp: layered_fee_def wp_ret marginFee_pick split: prod.splits\<close>)
  next
    case (2 e)
    then show ?case using u by (simp add: layered_fee_def split: option.splits prod.splits)
  qed
next
  case (2 e w')
  then show ?case using nf by (simp add: layered_fee_def)
qed

lemma wp_disbursement_layers:
  assumes nf: "no_faults w"
    and b: "base_fee_of (w_db w) (fc_Disbursement (m_FeeConfig m)) (\<lambda>(v, q, d). d) = Some (f, src)" and u: "u = w \<or> u = tick w"
  shows "wp (bind (wrap ''get platform margin'' fee_GetMargin) (\<lambda>mg. bind now (\<lambda>t.
       bind (resolver_holiday amount t) (\<lambda>(hf, hn).
       ret (resolution (computeMethodFee f amount) (if pm_Enabled mg then computeMethodFee (pm_Disbursement mg) amount else 0) hf src hn)))))
     (\<lambda>r w'. disbursement_fee_spec (w_db w) (local_day w (w_now w)) m amount = Some r \<and> w_db w' = w_db w \<and> no_faults w')
     (\<lambda>e w'. disbursement_fee_spec (w_db w) (local_day w (w_now w)) m amount = None \<and> \<not> is_panic e \<and> w_db w' = w_db w \<and> no_faults w') u"
proof -
  have "no_faults u" "w_db u = w_db w" "local_day u = local_day w" "w_now u = w_now w" using nf u by auto
  note u = this
  show ?thesis
    unfolding wp_bind wp_now wp_wrap
  proof (rule wp_GetMargin_rule [OF u(1)], goal_cases)
    case (1 mg)
    show ?case
      by (rule wp_holiday_rule)
        (use b u 1 in \<open>auto simp: disbursement_fee_spec_def layered_fee_def wp_ret split: prod.splits\<close>)
  next
    case (2 e)
    then show ?case
      using u by (simp add: disbursement_fee_spec_def layered_fee_def split: option.splits prod.splits)
  qed
qed

lemma ResolveDisbursement_spec:
  assumes nf: "no_faults w"
  shows "wp (resolver_ResolveDisbursement m amount)
     (\<lambda>r w'. disbursement_fee_spec (w_db w) (local_day w (w_now w)) m amount = Some r \<and> w_db w' = w_db w \<and> no_faults w')
     (\<lambda>e w'. disbursement_fee_spec (w_db w) (local_day w (w_now w)) m amount = None \<and> \<not> is_panic e \<and> w_db w' = w_db w \<and> no_faults w') w"
proof -
  let ?c = "fc_Disbursement (m_FeeConfig m)" and ?p = "\<lambda>(v :: method_fee, q :: method_fee, d :: method_fee). d"
  show ?thesis
  proof (cases "isZeroFee ?c")
    case False
    then have "base_fee_of (w_db w) ?c ?p = Some (?c, ''merchant_contract'')" by (simp add: base_fee_of_def)
    from wp_disbursement_layers [OF nf this disjI1 [OF refl]] False show ?thesis
      by (simp add: resolver_ResolveDisbursement_def Let_def wp_bind wp_ret)
  next
    case True
    have E: "default_of (w_db w) = None \<Longrightarrow> disbursement_fee_spec (w_db w) (local_day w (w_now w)) m amount = None"
      using True by (simp add: disbursement_fee_spec_def layered_fee_def base_fee_of_def)
    have S: "default_of (w_db w) = Some (v, q, d) \<Longrightarrow> base_fee_of (w_db w) ?c ?p = Some (d, ''global_default'')" for v q d
      using True by (simp add: base_fee_of_def)
    have "wp fee_GetDefault (\<lambda>f w'. wp (bind (ret (fd_Disbursement f, ''global_default'')) K) Q E w')
        (\<lambda>e. E (wrap_err msg e)) w"
      if "\<And>f :: fee_default. default_of (w_db w) = Some (fd_VA f, fd_QRIS f, fd_Disbursement f) \<Longrightarrow>
             wp (K (fd_Disbursement f, ''global_default'')) Q E (tick w)"
        and "\<And>e. default_of (w_db w) = None \<Longrightarrow> \<not> is_panic e \<Longrightarrow> E (wrap_err msg e) (tick w)"
      for K Q E msg
      by (rule wp_GetDefault_rule [OF nf]) (auto simp: wp_bind wp_ret intro: that)
    note D = this [unfolded wp_bind]
    show ?thesis
      unfolding resolver_ResolveDisbursement_def Let_def wp_bind wp_if wp_wrap if_P [OF True]
      by (rule D) (use wp_disbursement_layers [OF nf S disjI2 [OF refl]] E nf in \<open>simp_all add: wp_bind wp_wrap\<close>)
  qed
qed



section \<open>Bounds of the total\<close>

definition fee_config_sane :: "fee_config \<Rightarrow> bool" where
  "fee_config_sane c \<longleftrightarrow>
     method_fee_sane (fc_VA c) \<and> method_fee_sane (fc_QRIS c) \<and> method_fee_sane (fc_Disbursement c)"

definition column_sane :: "method_fee json_col \<Rightarrow> bool" where
  "column_sane c = (case c of JsonBad \<Rightarrow> True | JsonOk f \<Rightarrow> method_fee_sane f)"

definition fee_tables_sane :: "database \<Rightarrow> bool" where
  "fee_tables_sane db \<longleftrightarrow>
     list_all (\<lambda>r. column_sane (fdr_Va r) \<and> column_sane (fdr_Qris r) \<and> column_sane (fdr_Disbursement r)) (db_fee_defaults db)
     \<and> list_all (\<lambda>r. column_sane (pmr_Va r) \<and> column_sane (pmr_Qris r) \<and> column_sane (pmr_Disbursement r)) (db_platform_margin db)
     \<and> list_all (\<lambda>h. column_sane (hr_Surcharge h)) (db_fee_holidays db)"

lemma column_saneD: "column_sane c \<Longrightarrow> json_val c = Some f \<Longrightarrow> method_fee_sane f"
  by (auto simp: column_sane_def json_val_def split: json_col.splits)

lemma zero_method_fee_sane [simp]: "method_fee_sane zero_method_fee"
  by (simp add: method_fee_sane_def zero_method_fee_def)

lemma default_of_sane:
  "fee_tables_sane db \<Longrightarrow> default_of db = Some (v, q, d) \<Longrightarrow>
     method_fee_sane v \<and> method_fee_sane q \<and> method_fee_sane d"
  by (auto simp: fee_tables_sane_def default_of_def split: list.splits option.splits dest: column_saneD)

lemma margin_of_sane:
  "fee_tables_sane db \<Longrightarrow> margin_of db = Some (en, v, q, d) \<Longrightarrow>
     method_fee_sane v \<and> method_fee_sane q \<and> method_fee_sane d"
  by (auto simp: fee_tables_sane_def margin_of_def split: list.splits option.splits dest: column_saneD)

lemma pick_fee_sane: "method_fee_sane v \<Longrightarrow> method_fee_sane q \<Longrightarrow> method_fee_sane (pick_fee meth v q)"
  by (cases meth) (simp_all add: pick_fee_def)

lemma holiday_fee_range:
  assumes "fee_tables_sane db" "0 \<le> amount" "amount < 2 ^ 51"
  shows "0 \<le> fst (holiday_fee_of db today amount) \<and> fst (holiday_fee_of db today amount) \<le> amount"
  using assms
  by (auto simp: holiday_fee_of_def fee_tables_sane_def column_sane_def list_all_iff
      split: option.splits json_col.splits dest!: find_Some_in intro!: method_fee_range)

lemma small_sum_no_wrap:
  "0 \<le> a \<Longrightarrow> a \<le> n \<Longrightarrow> 0 \<le> b \<Longrightarrow> b \<le> n \<Longrightarrow> 0 \<le> c \<Longrightarrow> c \<le> n \<Longrightarrow> n < 2 ^ 51 \<Longrightarrow>
     wrap64 (wrap64 (a + b) + c) = a + b + c"
  by (subst wrap64_id; simp add: int64_range_def)

lemma layered_fee_range:
  assumes r: "layered_fee db today amount contract pick = Some r"
    and a: "0 \<le> amount" "amount < 2 ^ 51"
    and t: "fee_tables_sane db" and c: "method_fee_sane contract"
    and p: "\<And>v q d. \<lbrakk>method_fee_sane v; method_fee_sane q; method_fee_sane d\<rbrakk> \<Longrightarrow> method_fee_sane (pick (v, q, d))"
  shows "0 \<le> fr_BaseFee r" "fr_BaseFee r \<le> amount" "0 \<le> fr_PlatformMargin r" "fr_PlatformMargin r \<le> amount"
    "0 \<le> fr_HolidaySurcharge r" "fr_HolidaySurcharge r \<le> amount"
    "fr_TotalFee r = fr_BaseFee r + fr_PlatformMargin r + fr_HolidaySurcharge r"
proof -
  from r obtain f src en v q d hf hn where
    b: "base_fee_of db contract pick = Some (f, src)" and m: "margin_of db = Some (en, v, q, d)"
    and h: "holiday_fee_of db today amount = (hf, hn)"
    and r: "r = resolution (computeMethodFee f amount) (if en then computeMethodFee (pick (v, q, d)) amount else 0) hf src hn"
    by (auto simp: layered_fee_def split: option.splits prod.splits)
  have f: "method_fee_sane f"
    using b c p default_of_sane [OF t]
    by (auto simp: base_fee_of_def split: if_splits)
  have g: "method_fee_sane (pick (v, q, d))" using margin_of_sane [OF t m] p by auto
  note B = method_fee_range [OF f a] and M = method_fee_range [OF g a]
  note H = holiday_fee_range [OF t a, of today, unfolded h fst_conv]
  show "0 \<le> fr_BaseFee r" "fr_BaseFee r \<le> amount" "0 \<le> fr_PlatformMargin r" "fr_PlatformMargin r \<le> amount"
    "0 \<le> fr_HolidaySurcharge r" "fr_HolidaySurcharge r \<le> amount"
    using B M H a by (simp_all add: r resolution_def)
  show "fr_TotalFee r = fr_BaseFee r + fr_PlatformMargin r + fr_HolidaySurcharge r"
    using small_sum_no_wrap [OF B, of "if en then computeMethodFee (pick (v, q, d)) amount else 0" hf] M H a
    by (simp add: r resolution_def)
qed



section \<open>Fee resolution inside a transaction\<close>

text \<open>
  The webhook resolves the fee inside its transaction and drops the error. A resolution that
  leaves the transaction open gave the fee of the specification, or failed for the
  configuration it read.
\<close>

lemma stable_unmarshal: "stable (unmarshal msg c)"
  by (cases c) (simp_all add: unmarshal_def stable_ret stable_throw)

lemma stable_fee_repo:
  "stable fee_GetDefault" "stable fee_GetMargin" "stable (fee_GetHolidayByDate d)"
  unfolding fee_GetDefault_def fee_GetMargin_def fee_GetHolidayByDate_def toEntityFeeDefault_def
    toEntityPlatformMargin_def toEntityHoliday_def
  by (intro stable_intros stable_query stable_unmarshal; simp)+

lemma local_day_unfaulted [simp]: "local_day (unfaulted w) t = local_day w t"
  by (simp add: local_day_def)

lemma stable_Resolve: "stable (resolver_Resolve m meth a)"
proof -
  have "stable (resolver_merchantFee m meth)"
    by (cases meth) (auto simp: resolver_merchantFee_def intro!: stable_intros stable_fee_repo)
  then show "stable (resolver_Resolve m meth a)"
    unfolding resolver_Resolve_def resolver_holiday_def Let_def
    by (intro stable_intros stable_gets stable_fee_repo; simp)
qed

lemma stable_ResolveDisbursement: "stable (resolver_ResolveDisbursement m a)"
    unfolding resolver_ResolveDisbursement_def resolver_holiday_def Let_def
    by (intro stable_intros stable_gets stable_fee_repo; simp)

lemma fee_spec_cong:
  "db_fee_defaults a = db_fee_defaults b \<Longrightarrow> db_platform_margin a = db_platform_margin b \<Longrightarrow> db_fee_holidays a = db_fee_holidays b \<Longrightarrow>
     fee_spec a = fee_spec b \<and> disbursement_fee_spec a = disbursement_fee_spec b"
  by (intro conjI ext) (simp_all add: fee_spec_def disbursement_fee_spec_def layered_fee_def base_fee_of_def default_of_def margin_of_def holiday_fee_of_def cong: option.case_cong)

end
