(* ===== verification/Integrity.thy ===== *)
theory Integrity
  imports Samples "HOL-Library.Sublist"
begin

text \<open>
  The two global relations every operation obeys: the append-only tables only grow, and the
  constraints of the schema stay satisfied. Both are instances of \<open>db_effect\<close>; each SQL
  statement of the model is shown once to obey them, and the handlers inherit it.
\<close>

lemma uuid_param_Inr [simp]: "uuid_param w i r = Inr x \<longleftrightarrow> w_uuid_ok w i \<and> r = Inr x"
  by (simp add: uuid_param_def)

section \<open>Append-only tables\<close>

text \<open>
  The ledger, the payment audit trail and the fee audit log are append-only: the tables
  before an operation are prefixes of the tables after it.
\<close>

definition append_only :: "database \<Rightarrow> database \<Rightarrow> bool" where
  "append_only a b \<longleftrightarrow>
     prefix (db_mutations a) (db_mutations b) \<and> prefix (db_audits a) (db_audits b)
     \<and> prefix (db_fee_audit_logs a) (db_fee_audit_logs b)"

interpretation appends: db_effect append_only
  by unfold_locales (auto simp: append_only_def intro: prefix_order.trans)

lemma append_only_same [simp]:
  "db_mutations b = db_mutations a \<Longrightarrow> db_audits b = db_audits a \<Longrightarrow> db_fee_audit_logs b = db_fee_audit_logs a
     \<Longrightarrow> append_only a b"
  by (simp add: append_only_def)

lemma append_only_inserts:
  "insert_payment p db = Inr db' \<Longrightarrow> append_only db db'"
  "insert_disbursement d db = Inr db' \<Longrightarrow> append_only db db'"
  "insert_mutation m db = Inr db' \<Longrightarrow> append_only db db'"
  "insert_audit a db = Inr db' \<Longrightarrow> append_only db db'"
  "insert_outbox e db = Inr db' \<Longrightarrow> append_only db db'"
  "insert_merchant me db = Inr db' \<Longrightarrow> append_only db db'"
  "insert_bank_account ba db = Inr db' \<Longrightarrow> append_only db db'"
  "insert_admin ad db = Inr db' \<Longrightarrow> append_only db db'"
  "insert_fee_holiday h db = Inr db' \<Longrightarrow> append_only db db'"
  "insert_fee_audit_log l db = Inr db' \<Longrightarrow> append_only db db'"
  by (auto simp: insert_defs append_only_def)

section \<open>The schema\<close>

definition unique_rows :: "('r \<Rightarrow> 'r \<Rightarrow> bool) \<Rightarrow> 'r list \<Rightarrow> bool" where
  "unique_rows conflict rows = sorted_wrt (\<lambda>r s. \<not> conflict s r) rows"

definition table_ok :: "('r \<Rightarrow> bool) \<Rightarrow> ('r \<Rightarrow> 'r \<Rightarrow> bool) \<Rightarrow> 'r list \<Rightarrow> bool" where
  "table_ok ok conflict rows \<longleftrightarrow> list_all ok rows \<and> unique_rows conflict rows"

lemma table_ok_Nil [simp]: "table_ok ok conflict []"
  by (simp add: table_ok_def unique_rows_def)

lemma table_ok_insert:
  "table_ok ok conflict rows \<Longrightarrow> ok r \<Longrightarrow> (\<forall>x \<in> set rows. \<not> conflict r x) \<Longrightarrow> table_ok ok conflict (rows @ [r])"
  by (auto simp: table_ok_def unique_rows_def sorted_wrt_append)

lemma sorted_wrt_update_where:
  assumes "sorted_wrt (\<lambda>r s. \<not> C s r) rows" and "\<And>r s. C r s \<Longrightarrow> C s r"
    and "\<And>r s. P r \<Longrightarrow> P s \<Longrightarrow> C r s"
    and "\<And>r s. r \<in> set rows \<Longrightarrow> P r \<Longrightarrow> s \<in> set rows \<Longrightarrow> \<not> P s \<Longrightarrow> \<not> C (f r) s"
  shows "sorted_wrt (\<lambda>r s. \<not> C s r) (update_where P f rows)"
  using assms(1,4)
proof (induction rows)
  case (Cons r rows)
  have "\<not> C s' (if P r then f r else r)" if "s' \<in> set (update_where P f rows)" for s'
    using in_update_where [OF that] Cons.prems assms(2,3)
    by (auto simp: update_where_def split: if_splits) (metis assms(2,3) list.set_intros)+
  with Cons show ?case by auto
qed simp

lemma table_ok_update:
  assumes "table_ok ok C rows" and "\<And>r s. C r s \<Longrightarrow> C s r" and "\<And>r s. P r \<Longrightarrow> P s \<Longrightarrow> C r s"
    and "checked_update ok C P f rows = Inr rows'"
  shows "table_ok ok C rows'"
proof -
  have "list_all ok (update_where P f rows)"
    using assms(1,4) by (auto simp: table_ok_def list_all_iff update_where_def)
  moreover have "sorted_wrt (\<lambda>r s. \<not> C s r) (update_where P f rows)"
    by (rule sorted_wrt_update_where) (use assms in \<open>auto simp: table_ok_def unique_rows_def\<close>)
  ultimately show ?thesis
    using assms(4) by (simp add: table_ok_def unique_rows_def)
qed

text \<open>Updates that change no key and keep the CHECK constraints.\<close>

lemma table_ok_update_same_key:
  assumes "table_ok ok C rows" and "\<And>r. P r \<Longrightarrow> ok r \<Longrightarrow> ok (f r)"
    and "\<And>r s. C (if P s then f s else s) (if P r then f r else r) \<Longrightarrow> C s r"
  shows "table_ok ok C (update_where P f rows)"
proof -
  have "sorted_wrt (\<lambda>r s. \<not> C (if P s then f s else s) (if P r then f r else r)) rows"
  proof (rule sorted_wrt_mono_rel [of _ "\<lambda>r s. \<not> C s r"])
    show "sorted_wrt (\<lambda>r s. \<not> C s r) rows" using assms(1) by (simp add: table_ok_def unique_rows_def)
  qed (rule contrapos_nn, assumption, rule assms(3))
  then show ?thesis
    using assms(1,2) by (auto simp: table_ok_def unique_rows_def update_where_def sorted_wrt_map list_all_iff)
qed

lemma unique_rows_distinct:
  assumes "\<And>r s. key r = key s \<Longrightarrow> C s r" "unique_rows C rows"
  shows "distinct (map key rows)"
  using assms(2) by (induction rows) (auto simp: unique_rows_def dest: assms(1))

definition schema_ok :: "database \<Rightarrow> bool" where
  "schema_ok db \<longleftrightarrow>
     table_ok payment_row_ok payment_conflict (db_payments db)
     \<and> table_ok disbursement_row_ok disbursement_conflict (db_disbursements db)
     \<and> table_ok mutation_row_ok mutation_conflict (db_mutations db)
     \<and> table_ok payment_audit_row_ok (\<lambda>a r. au_ID r = au_ID a) (db_audits db)
     \<and> table_ok outbox_row_ok (\<lambda>e r. ob_ID r = ob_ID e) (db_outbox db)
     \<and> table_ok merchant_row_ok merchant_conflict (db_merchants db)
     \<and> table_ok bank_account_row_ok bank_account_conflict (db_bank_accounts db)
     \<and> list_all (\<lambda>p. merchant_exists db (p_MerchantID p)) (db_payments db)
     \<and> list_all (\<lambda>m. merchant_exists db (mu_MerchantID m)) (db_mutations db)
     \<and> list_all (\<lambda>a. payment_exists db (au_PaymentID a)) (db_audits db)"

interpretation schema: db_effect "kept schema_ok"
  by unfold_locales (auto simp: kept_def)

lemma schema_ok_empty [simp]: "schema_ok empty_database"
  by (simp add: schema_ok_def empty_database_def)

lemma kept_schema_same:
  "db_payments b = db_payments a \<Longrightarrow> db_disbursements b = db_disbursements a \<Longrightarrow> db_mutations b = db_mutations a
   \<Longrightarrow> db_audits b = db_audits a \<Longrightarrow> db_outbox b = db_outbox a \<Longrightarrow> db_merchants b = db_merchants a
   \<Longrightarrow> db_bank_accounts b = db_bank_accounts a \<Longrightarrow> kept schema_ok a b"
  by (auto simp: kept_def schema_ok_def merchant_exists_def payment_exists_def)

lemma kept_schema_inserts:
  "insert_payment p db = Inr db' \<Longrightarrow> kept schema_ok db db'"
  "insert_disbursement d db = Inr db' \<Longrightarrow> kept schema_ok db db'"
  "insert_mutation m db = Inr db' \<Longrightarrow> kept schema_ok db db'"
  "insert_audit a db = Inr db' \<Longrightarrow> kept schema_ok db db'"
  "insert_outbox e db = Inr db' \<Longrightarrow> kept schema_ok db db'"
  "insert_merchant me db = Inr db' \<Longrightarrow> kept schema_ok db db'"
  "insert_bank_account ba db = Inr db' \<Longrightarrow> kept schema_ok db db'"
  "insert_admin ad db = Inr db' \<Longrightarrow> kept schema_ok db db'"
  "insert_fee_holiday h db = Inr db' \<Longrightarrow> kept schema_ok db db'"
  "insert_fee_audit_log l db = Inr db' \<Longrightarrow> kept schema_ok db db'"
  by (auto simp: insert_defs kept_def schema_ok_def merchant_exists_def payment_exists_def list_all_iff list_ex_iff
      intro!: table_ok_insert)

lemmas schema_okD = schema_ok_def [THEN iffD1]

lemma conflict_sym:
  "payment_conflict r s \<Longrightarrow> payment_conflict s r"
  "disbursement_conflict d d' \<Longrightarrow> disbursement_conflict d' d"
  "mutation_conflict m m' \<Longrightarrow> mutation_conflict m' m"
  by (auto simp: payment_conflict_def disbursement_conflict_def mutation_conflict_def)

lemma schema_distinct:
  assumes "schema_ok db"
  shows "distinct (map p_ID (db_payments db))" "distinct (map d_ID (db_disbursements db))"
    "distinct (map (\<lambda>p. (p_Provider p, p_ExternalID p)) (db_payments db))"
    "distinct (map (\<lambda>m. (mu_ReferenceID m, mu_ReferenceType m)) (db_mutations db))"
    "distinct (map m_ID (db_merchants db))"
    "distinct (map ob_ID (db_outbox db))"
proof -
  note s = assms [unfolded schema_ok_def table_ok_def]
  show "distinct (map p_ID (db_payments db))"
    by (rule unique_rows_distinct [of _ payment_conflict]) (use s in \<open>simp_all add: payment_conflict_def\<close>)
  show "distinct (map d_ID (db_disbursements db))"
    by (rule unique_rows_distinct [of _ disbursement_conflict]) (use s in \<open>simp_all add: disbursement_conflict_def\<close>)
  show "distinct (map (\<lambda>p. (p_Provider p, p_ExternalID p)) (db_payments db))"
    by (rule unique_rows_distinct [of _ payment_conflict]) (use s in \<open>simp_all add: payment_conflict_def\<close>)
  show "distinct (map (\<lambda>m. (mu_ReferenceID m, mu_ReferenceType m)) (db_mutations db))"
    by (rule unique_rows_distinct [of _ mutation_conflict]) (use s in \<open>simp_all add: mutation_conflict_def\<close>)
  show "distinct (map m_ID (db_merchants db))"
    by (rule unique_rows_distinct [of _ merchant_conflict]) (use s in \<open>simp_all add: merchant_conflict_def\<close>)
  show "distinct (map ob_ID (db_outbox db))"
    by (rule unique_rows_distinct [of _ "\<lambda>e r. ob_ID r = ob_ID e"]) (use s in simp_all)
qed

end
