(* ===== verification/Ledger.thy ===== *)
theory Ledger
  imports Integrity
begin

text \<open>
  The ledger: the mutation repository
  (internal/infrastructure/database/postgres/mutation_repo.go with its SQL in
  query/mutation.sql) and the mutation usecase (internal/usecase/impl/mutation.go).
\<close>

section \<open>Repository\<close>

definition mutation_Save :: "mutation \<Rightarrow> (world, mutation) action" where
  "mutation_Save m =
     bind (wrap ''insert mutation''
       (exec (\<lambda>w. uuid_param w (mu_ReferenceID m) (uuid_param w (mu_MerchantID m)
          (let row = m\<lparr>mu_ID := fresh_uuid w, mu_CreatedAt := w_now w\<rparr>
           in map_sum id (Pair row) (insert_mutation row (w_db w))))))) (\<lambda>row.
     ret (m\<lparr>mu_ID := mu_ID row, mu_CreatedAt := mu_CreatedAt row\<rparr>))"

definition mutation_FindByID :: "string \<Rightarrow> (world, mutation) action" where
  "mutation_FindByID i =
     bind (wrap ''get mutation by id''
            (query (\<lambda>w. uuid_param w i (Inr (find (\<lambda>m. mu_ID m = i) (db_mutations (w_db w))))))) (\<lambda>r.
     case r of
       None \<Rightarrow> throw (NotFound (''mutation '' @ i @ '' not found''))
     | Some m \<Rightarrow> ret m)"

definition mutation_FindByReferenceID :: "string \<Rightarrow> mutation_reference_type \<Rightarrow> (world, mutation) action" where
  "mutation_FindByReferenceID ref refType =
     bind (wrap ''get mutation by reference_id''
            (query (\<lambda>w. uuid_param w ref
               (Inr (find (\<lambda>m. mu_ReferenceID m = ref \<and> mu_ReferenceType m = refType) (db_mutations (w_db w))))))) (\<lambda>r.
     case r of
       None \<Rightarrow> throw (NotFound (''mutation for reference '' @ ref @ '' not found''))
     | Some m \<Rightarrow> ret m)"

text \<open>
  \<open>GetMerchantBalance\<close>: the CASE expression of the SQL is the balance effect of a row, and the
  cast of the sum to BIGINT fails out of range.
\<close>

definition balance_effect :: "mutation \<Rightarrow> int" where
  "balance_effect m =
     (case mu_Type m of
        MutationTypeCashIn \<Rightarrow> mu_Amount m - mu_FeeAmount m
      | MutationTypeCashOut \<Rightarrow> - mu_Amount m
      | MutationTypeOther _ \<Rightarrow> 0)"

definition balance_of :: "database \<Rightarrow> string \<Rightarrow> int" where
  "balance_of db merchantID =
     sum_list (map balance_effect (filter (\<lambda>m. mu_MerchantID m = merchantID) (db_mutations db)))"

definition bigint :: "int \<Rightarrow> string + int64" where
  "bigint n = (if int64_range n then Inr n else Inl ''bigint out of range'')"

definition mutation_GetBalance :: "string \<Rightarrow> (world, int64) action" where
  "mutation_GetBalance merchantID =
     wrap ''get merchant balance''
       (query (\<lambda>w. uuid_param w merchantID (bigint (balance_of (w_db w) merchantID))))"

record list_mutation_filter =
  lm_MerchantID :: string
  lm_Type :: "mutation_type option"
  lm_StartDate :: "time option"
  lm_EndDate :: "time option"
  lm_Page :: int
  lm_Limit :: int

definition mutation_matches :: "list_mutation_filter \<Rightarrow> mutation \<Rightarrow> bool" where
  "mutation_matches f m \<longleftrightarrow>
     (lm_MerchantID f \<noteq> '''' \<longrightarrow> mu_MerchantID m = lm_MerchantID f)
     \<and> (case lm_Type f of None \<Rightarrow> True | Some t \<Rightarrow> mutation_type_str (mu_Type m) = mutation_type_str t)
     \<and> (case lm_StartDate f of None \<Rightarrow> True | Some t \<Rightarrow> t \<le> mu_CreatedAt m)
     \<and> (case lm_EndDate f of None \<Rightarrow> True | Some t \<Rightarrow> mu_CreatedAt m \<le> t)"

definition optional_uuid :: "world \<Rightarrow> string \<Rightarrow> string + 'a \<Rightarrow> string + 'a" where
  "optional_uuid w i r = (if i = '''' then r else uuid_param w i r)"

definition mutation_List :: "list_mutation_filter \<Rightarrow> (world, mutation list \<times> int64) action" where
  "mutation_List f =
     bind (wrap ''count mutations''
            (query (\<lambda>w. optional_uuid w (lm_MerchantID f)
               (Inr (int (length (filter (mutation_matches f) (db_mutations (w_db w))))))))) (\<lambda>total.
     if total = 0 then ret ([], 0)
     else case normalizePage (lm_Page f) (lm_Limit f) of (page, limit) \<Rightarrow>
       bind (wrap ''list mutations''
              (query (\<lambda>w. optional_uuid w (lm_MerchantID f)
                 (sql_page page limit (order_desc mu_CreatedAt (filter (mutation_matches f) (db_mutations (w_db w)))))))) (\<lambda>rows.
       ret (rows, total)))"

section \<open>Usecase\<close>

record mutation_output =
  mo_ID :: string
  mo_ReferenceID :: string
  mo_ReferenceType :: mutation_reference_type
  mo_Type :: mutation_type
  mo_Amount :: int64
  mo_FeeAmount :: int64
  mo_NetAmount :: int64
  mo_Currency :: currency
  mo_Description :: string
  mo_CreatedAt :: time

definition toMutationOutput :: "mutation \<Rightarrow> mutation_output" where
  "toMutationOutput m =
     \<lparr>mo_ID = mu_ID m, mo_ReferenceID = mu_ReferenceID m, mo_ReferenceType = mu_ReferenceType m,
      mo_Type = mu_Type m, mo_Amount = mu_Amount m, mo_FeeAmount = mu_FeeAmount m,
      mo_NetAmount = mutation_NetAmount m, mo_Currency = mu_Currency m,
      mo_Description = mu_Description m, mo_CreatedAt = mu_CreatedAt m\<rparr>"

definition usecase_GetBalance :: "string \<Rightarrow> (world, int64) action" where
  "usecase_GetBalance merchantID = mutation_GetBalance merchantID"

definition usecase_GetMutation :: "string \<Rightarrow> string \<Rightarrow> (world, mutation_output) action" where
  "usecase_GetMutation merchantID mutationID =
     bind (mutation_FindByID mutationID) (\<lambda>m.
     if mu_MerchantID m \<noteq> merchantID
     then throw (NotFound (''mutation '' @ mutationID @ '' not found''))
     else ret (toMutationOutput m))"

text \<open>The page and limit reported back are clamped from below only.\<close>

record mutation_list_output =
  ml_Items :: "mutation_output list"
  ml_Total :: int64
  ml_Page :: int
  ml_Limit :: int

definition usecase_ListMutations :: "list_mutation_filter \<Rightarrow> (world, mutation_list_output) action" where
  "usecase_ListMutations input =
     (if lm_MerchantID input = '''' then throw (BadRequest ''merchant_id is required'')
      else
        bind (wrap ''list mutations'' (mutation_List input)) (\<lambda>(mutations, total).
        let page = (if lm_Page input < 1 then 1 else lm_Page input);
            limit = (if lm_Limit input < 1 then 20 else lm_Limit input)
        in ret \<lparr>ml_Items = map toMutationOutput mutations, ml_Total = total, ml_Page = page, ml_Limit = limit\<rparr>))"

section \<open>Effects\<close>

lemma optional_uuid_Inr [simp]: "optional_uuid w i r = Inr x \<longleftrightarrow> (i = '''' \<or> w_uuid_ok w i) \<and> r = Inr x"
  by (auto simp: optional_uuid_def)

lemma obeys_mutation_Save:
  "appends.obeys (mutation_Save m)" "schema.obeys (mutation_Save m)"
  unfolding mutation_Save_def
  by (intro appends.db_intros appends.obeys_exec schema.db_intros schema.obeys_exec;
      auto simp: Let_def dest: append_only_inserts kept_schema_inserts)+

text \<open>When the insert succeeds and what it then does; every failure leaves the tables alone.\<close>

definition new_mutation :: "world \<Rightarrow> mutation \<Rightarrow> mutation" where
  "new_mutation w m = m\<lparr>mu_ID := fresh_uuid w, mu_CreatedAt := w_now w\<rparr>"

definition mutation_insertable :: "world \<Rightarrow> mutation \<Rightarrow> bool" where
  "mutation_insertable w m \<longleftrightarrow>
     \<not> stmt_fails w \<and> w_uuid_ok w (mu_ReferenceID m) \<and> w_uuid_ok w (mu_MerchantID m)
     \<and> mutation_row_ok m \<and> merchant_exists (w_db w) (mu_MerchantID m)
     \<and> (\<forall>r \<in> set (db_mutations (w_db w)). \<not> mutation_conflict (new_mutation w m) r)"

lemma mutation_row_ok_key [simp]: "mutation_row_ok (m\<lparr>mu_ID := i, mu_CreatedAt := t\<rparr>) = mutation_row_ok m"
  by (simp add: mutation_row_ok_def)

lemma wp_mutation_Save:
  assumes "mutation_insertable w m \<Longrightarrow>
      Q (new_mutation w m) ((tick w)\<lparr>w_db := (w_db w)\<lparr>db_mutations := db_mutations (w_db w) @ [new_mutation w m]\<rparr>\<rparr>)"
    and "\<And>e. \<not> mutation_insertable w m \<Longrightarrow> \<not> is_panic e \<Longrightarrow> E e (abort_tx (tick w))"
  shows "wp (mutation_Save m) Q E w"
  using assms
  by (auto simp: mutation_Save_def wp_simps wp_exec mutation_insertable_def new_mutation_def Let_def
      uuid_param_def insert_mutation_def sum.case_distrib [of id] checked_insert_def list_ex_iff)

lemma wp_GetBalance:
  assumes "\<not> stmt_fails w \<and> w_uuid_ok w i \<and> int64_range (balance_of (w_db w) i) \<Longrightarrow> Q (balance_of (w_db w) i) (tick w)"
    and "\<And>e. \<not> (\<not> stmt_fails w \<and> w_uuid_ok w i \<and> int64_range (balance_of (w_db w) i)) \<Longrightarrow> \<not> is_panic e \<Longrightarrow> E e (abort_tx (tick w))"
  shows "wp (mutation_GetBalance i) Q E w"
  using assms by (auto simp: mutation_GetBalance_def wp_simps wp_query uuid_param_def bigint_def)

section \<open>The ledger as an account book\<close>

lemma balance_of_append:
  "balance_of (db\<lparr>db_mutations := db_mutations db @ [m]\<rparr>) i =
     balance_of db i + (if mu_MerchantID m = i then balance_effect m else 0)"
  by (simp add: balance_of_def)

lemma balance_of_same: "db_mutations db' = db_mutations db \<Longrightarrow> balance_of db' i = balance_of db i"
  by (simp add: balance_of_def)

text \<open>Recording a mutation posts exactly that entry: on success the merchant's balance moves by the
  entry's effect (amount minus fee for a cash-in, minus the amount for a cash-out) and every other
  merchant's balance is unchanged; on any error (a fault, a violated constraint, a second entry for the
  same reference) no table changes.\<close>

theorem mutation_Save_posts:
  "wp (mutation_Save m)
     (\<lambda>r w'. (\<forall>i. balance_of (w_db w') i =
                   balance_of (w_db w) i + (if i = mu_MerchantID m then balance_effect m else 0))
        \<and> db_mutations (w_db w') = db_mutations (w_db w) @ [r]
        \<and> mu_ReferenceID r = mu_ReferenceID m \<and> mu_ReferenceType r = mu_ReferenceType m
        \<and> (\<nexists>x. x \<in> set (db_mutations (w_db w)) \<and> mu_ReferenceID x = mu_ReferenceID m \<and> mu_ReferenceType x = mu_ReferenceType m))
     (\<lambda>e w'. w_db w' = w_db w) w"
  by (rule wp_mutation_Save)
    (auto simp: balance_of_append new_mutation_def balance_effect_def mutation_insertable_def mutation_conflict_def
      split: mutation_type.split)

text \<open>The same balance from the entities: credits net of fees minus debits.\<close>

lemma balance_effect_NetAmount:
  "mutation_row_ok m \<Longrightarrow> int64_range (mu_Amount m) \<Longrightarrow>
     balance_effect m = (if mu_Type m = MutationTypeCashIn then mutation_NetAmount m else - mutation_NetAmount m)"
  by (auto simp: mutation_row_ok_def balance_effect_def mutation_NetAmount_def int64_range_def intro!: wrap64_id [symmetric])

definition net_total :: "mutation_type \<Rightarrow> mutation list \<Rightarrow> int" where
  "net_total t ms = sum_list (map mutation_NetAmount (filter (\<lambda>m. mu_Type m = t) ms))"

definition ledger_of :: "database \<Rightarrow> string \<Rightarrow> mutation list" where
  "ledger_of db i = filter (\<lambda>m. mu_MerchantID m = i) (db_mutations db)"

lemma balance_net_totals:
  assumes "list_all (\<lambda>m. mutation_row_ok m \<and> int64_range (mu_Amount m)) ms"
  shows "sum_list (map balance_effect ms) = net_total MutationTypeCashIn ms - net_total MutationTypeCashOut ms"
  using assms
  by (induction ms) (auto simp: net_total_def balance_effect_NetAmount mutation_row_ok_def)

text \<open>On a database that satisfies its constraints, \<open>GetBalance\<close> without faults returns the sum of the
  net amounts of the merchant's cash-ins minus the sum of the net amounts of its cash-outs, where the net
  amount is what the entity method \<open>NetAmount\<close> computes; it changes nothing, and it fails only if that sum is not
  a 64-bit integer or the id is no UUID.\<close>

theorem GetBalance_correct:
  assumes "no_faults w" and "schema_ok (w_db w)"
    and "list_all (\<lambda>m. int64_range (mu_Amount m)) (db_mutations (w_db w))"
  shows "wp (usecase_GetBalance i)
     (\<lambda>b w'. b = net_total MutationTypeCashIn (ledger_of (w_db w) i) - net_total MutationTypeCashOut (ledger_of (w_db w) i)
        \<and> w_db w' = w_db w)
     (\<lambda>e w'. w_db w' = w_db w \<and> (\<not> w_uuid_ok w i \<or> \<not> int64_range (balance_of (w_db w) i))) w"
proof -
  have "list_all (\<lambda>m. mutation_row_ok m \<and> int64_range (mu_Amount m)) (ledger_of (w_db w) i)"
    using assms(2,3) by (auto simp: schema_ok_def table_ok_def list_all_iff ledger_of_def)
  from balance_net_totals [OF this] show ?thesis
    unfolding usecase_GetBalance_def
    by (intro wp_GetBalance) (use assms(1) in \<open>auto simp: balance_of_def ledger_of_def\<close>)
qed

definition sample_credit :: mutation where
  "sample_credit =
     \<lparr>mu_ID = ''X1'', mu_ReferenceID = ''P1'', mu_ReferenceType = MutationRefPayment, mu_MerchantID = ''M1'',
      mu_Type = MutationTypeCashIn, mu_Amount = 100000, mu_FeeAmount = 4500, mu_Currency = CurrencyIDR,
      mu_Description = '''', mu_CreatedAt = 0\<rparr>"

definition sample_debit :: mutation where
  "sample_debit =
     \<lparr>mu_ID = ''X2'', mu_ReferenceID = ''D1'', mu_ReferenceType = MutationRefDisbursement, mu_MerchantID = ''M1'',
      mu_Type = MutationTypeCashOut, mu_Amount = 55000, mu_FeeAmount = 0, mu_Currency = CurrencyIDR,
      mu_Description = '''', mu_CreatedAt = 0\<rparr>"

theorem GetBalance_correct_witness:
  "wp (usecase_GetBalance ''M1'') (\<lambda>b w'. b = 40500) (\<lambda>e w'. False)
     (quiet_world ((sample_db False)\<lparr>db_mutations := [sample_credit, sample_debit]\<rparr>) 0)"
proof -
  let ?db = "(sample_db False)\<lparr>db_mutations := [sample_credit, sample_debit]\<rparr>"
  have "schema_ok ?db"
    by (simp add: schema_ok_def table_ok_def unique_rows_def sample_db_def empty_database_def sample_credit_def
        sample_debit_def mutation_row_ok_def currency_ok_def mutation_conflict_def merchant_exists_def
        sample_merchant_def merchant_row_ok_def)
  moreover have "list_all (\<lambda>m. int64_range (mu_Amount m)) (db_mutations ?db)"
    by (simp add: sample_credit_def sample_debit_def int64_range_def)
  moreover have "net_total MutationTypeCashIn (ledger_of ?db ''M1'') = 95500"
    "net_total MutationTypeCashOut (ledger_of ?db ''M1'') = 55000" "balance_of ?db ''M1'' = 40500"
    by (simp_all add: net_total_def ledger_of_def sample_credit_def sample_debit_def mutation_NetAmount_def
        int64_range_def balance_of_def balance_effect_def)
  ultimately show ?thesis
    using GetBalance_correct [of "quiet_world ?db 0" "''M1''"]
    by (auto simp: int64_range_def elim!: wp_mono)
qed

end
