(* ===== verification/Outbox.thy ===== *)
theory Outbox
  imports Integrity
begin

text \<open>
  The transactional outbox: its repository
  (internal/infrastructure/database/postgres/outbox_repo.go, query/outbox.sql), the worker
  that delivers webhooks (internal/infrastructure/worker/outbox_worker.go) with its URL guard,
  and the HMAC signature (pkg/signature). The HTTP client, net/url's parser, HMAC-SHA256 and
  the byte encoding of the payload are parameters.
\<close>

section \<open>Repository\<close>

definition outbox_Insert :: "string \<Rightarrow> string \<Rightarrow> string \<Rightarrow> payload \<Rightarrow> (world, unit) action" where
  "outbox_Insert eventType targetURL merchantID pl =
     bind (gets (\<lambda>w. w_uuid_ok w merchantID)) (\<lambda>valid.
     if \<not> valid then throw (GoPanic ''uuid: Parse'')
     else wrap ''insert outbox event''
       (exec (\<lambda>w. map_sum id (Pair ())
          (insert_outbox
             \<lparr>ob_ID = fresh_uuid w, ob_EventType = eventType, ob_Payload = pl, ob_TargetUrl = targetURL,
              ob_MerchantID = (if merchantID \<noteq> '''' then Some merchantID else None), ob_AttemptCount = 0,
              ob_MaxAttempts = 5, ob_NextRetryAt = w_now w, ob_DeliveredAt = None, ob_FailedAt = None,
              ob_LastError = None, ob_CreatedAt = w_now w\<rparr> (w_db w)))))"

definition outbox_Lease :: "int \<Rightarrow> (world, outbox_event list) action" where
  "outbox_Lease limit =
     wrap ''lease outbox events''
       (query (\<lambda>w. limit_offset (wrap32 limit) 0
          (sort_key ob_NextRetryAt (filter (\<lambda>e. ob_DeliveredAt e = None \<and> ob_FailedAt e = None
             \<and> ob_NextRetryAt e \<le> w_now w \<and> ob_AttemptCount e < ob_MaxAttempts e) (db_outbox (w_db w))))))"

text \<open>UPDATE outbox ... WHERE id = $1\<close>

definition update_outbox :: "string \<Rightarrow> (world \<Rightarrow> outbox_event \<Rightarrow> outbox_event) \<Rightarrow> (world, unit) action" where
  "update_outbox i f =
     exec (\<lambda>w. uuid_param w i (map_sum id (\<lambda>rows. ((), (w_db w)\<lparr>db_outbox := rows\<rparr>))
       (checked_update outbox_row_ok (\<lambda>e r. ob_ID r = ob_ID e) (\<lambda>e. ob_ID e = i) (f w) (db_outbox (w_db w)))))"

definition null_string :: "string \<Rightarrow> string option" where
  "null_string s = (if s \<noteq> '''' then Some s else None)"

definition outbox_MarkDelivered :: "string \<Rightarrow> (world, unit) action" where
  "outbox_MarkDelivered i =
     wrap ''mark outbox delivered''
       (update_outbox i (\<lambda>w e. e\<lparr>ob_DeliveredAt := Some (w_now w), ob_AttemptCount := ob_AttemptCount e + 1\<rparr>))"

definition outbox_MarkFailed :: "string \<Rightarrow> string \<Rightarrow> time \<Rightarrow> (world, unit) action" where
  "outbox_MarkFailed i lastErr nextRetry =
     wrap ''mark outbox failed''
       (update_outbox i (\<lambda>w e. e\<lparr>ob_AttemptCount := ob_AttemptCount e + 1, ob_LastError := null_string lastErr,
          ob_NextRetryAt := nextRetry,
          ob_FailedAt := (if ob_AttemptCount e + 1 \<ge> ob_MaxAttempts e then Some (w_now w) else None)\<rparr>))"

definition outbox_MarkFailedFinal :: "string \<Rightarrow> string \<Rightarrow> (world, unit) action" where
  "outbox_MarkFailedFinal i lastErr =
     wrap ''mark outbox failed final''
       (update_outbox i (\<lambda>w e. e\<lparr>ob_AttemptCount := ob_MaxAttempts e, ob_LastError := null_string lastErr,
          ob_FailedAt := Some (w_now w)\<rparr>))"

text \<open>\<open>delay\<close> is a time.Duration in nanoseconds; the statement adds its whole seconds.\<close>

definition outbox_ScheduleRetry :: "string \<Rightarrow> string \<Rightarrow> int \<Rightarrow> int \<Rightarrow> (world, unit) action" where
  "outbox_ScheduleRetry i lastErr n delay =
     wrap ''schedule outbox retry''
       (update_outbox i (\<lambda>w e. e\<lparr>ob_AttemptCount := wrap32 n, ob_LastError := null_string lastErr,
          ob_NextRetryAt := w_now w + go_div delay second * second\<rparr>))"

definition outbox_ListByMerchant :: "string \<Rightarrow> int \<Rightarrow> int \<Rightarrow> (world, outbox_event list \<times> int) action" where
  "outbox_ListByMerchant merchantID page limit =
     bind (gets (\<lambda>w. w_uuid_ok w merchantID)) (\<lambda>valid.
     if \<not> valid then throw (GoPanic ''uuid: Parse'')
     else
       let mine = filter (\<lambda>e. ob_MerchantID e = Some merchantID) in
       bind (wrap ''count outbox'' (query (\<lambda>w. Inr (int (length (mine (db_outbox (w_db w)))))))) (\<lambda>total.
       if total = 0 then ret ([], 0)
       else
         let page = (if page < 1 then 1 else page); limit = (if limit < 1 then 20 else limit);
             limit = (if limit > 100 then 100 else limit) in
         bind (wrap ''list outbox by merchant''
                (query (\<lambda>w. sql_page page limit (order_desc ob_CreatedAt (mine (db_outbox (w_db w))))))) (\<lambda>rows.
         ret (rows, total))))"

section \<open>The target guard\<close>

text \<open>
  \<open>net.ParseIP\<close>: dotted decimal with four fields of one to three digits, no leading zero and
  at most 255, or IPv6 in groups of one to four hex digits with at most one \<open>::\<close> and an
  optional trailing dotted decimal. The result has 16 bytes, IPv4 in mapped form.
\<close>

definition is_digit :: "char \<Rightarrow> bool" where
  "is_digit c \<longleftrightarrow> (let n = of_char c :: nat in 48 \<le> n \<and> n \<le> 57)"

fun split_on :: "char \<Rightarrow> string \<Rightarrow> string list" where
  "split_on c [] = [[]]"
| "split_on c (x # xs) =
     (if x = c then [] # split_on c xs
      else case split_on c xs of [] \<Rightarrow> [[x]] | y # ys \<Rightarrow> (x # y) # ys)"

definition digits_val :: "string \<Rightarrow> nat" where
  "digits_val s = foldl (\<lambda>n c. 10 * n + (of_char c - 48)) 0 s"

definition parse_octet :: "string \<Rightarrow> nat option" where
  "parse_octet s =
     (if s \<noteq> [] \<and> length s \<le> 3 \<and> list_all is_digit s \<and> (length s > 1 \<longrightarrow> hd s \<noteq> CHR ''0'') \<and> digits_val s \<le> 255
      then Some (digits_val s) else None)"

fun all_some :: "'a option list \<Rightarrow> 'a list option" where
  "all_some [] = Some []"
| "all_some (None # _) = None"
| "all_some (Some x # xs) = map_option ((#) x) (all_some xs)"

definition parse_ipv4 :: "string \<Rightarrow> nat list option" where
  "parse_ipv4 s =
     (let fields = split_on (CHR ''.'') s
      in if length fields = 4 then all_some (map parse_octet fields) else None)"

definition hex_val :: "char \<Rightarrow> nat option" where
  "hex_val c =
     (let n = of_char c :: nat in
      if 48 \<le> n \<and> n \<le> 57 then Some (n - 48)
      else if 97 \<le> n \<and> n \<le> 102 then Some (n - 87)
      else if 65 \<le> n \<and> n \<le> 70 then Some (n - 55) else None)"

definition parse_group :: "string \<Rightarrow> nat list option" where
  "parse_group s =
     (if s = [] \<or> length s > 4 then None
      else case all_some (map hex_val s) of
             None \<Rightarrow> None
           | Some ds \<Rightarrow> (let v = foldl (\<lambda>n d. 16 * n + d) 0 ds in Some [v div 256, v mod 256]))"

text \<open>Groups separated by single colons; only the last may be dotted decimal, and only when \<open>tail\<close>.\<close>

fun parse_groups :: "bool \<Rightarrow> string list \<Rightarrow> nat list option" where
  "parse_groups tail [] = Some []"
| "parse_groups tail [g] =
     (if tail \<and> CHR ''.'' \<in> set g then parse_ipv4 g else parse_group g)"
| "parse_groups tail (g # gs) =
     (case (parse_group g, parse_groups tail gs) of (Some a, Some b) \<Rightarrow> Some (a @ b) | _ \<Rightarrow> None)"

fun split_double_colon :: "string \<Rightarrow> (string \<times> string) option" where
  "split_double_colon (a # b # s) =
     (if a = CHR '':'' \<and> b = CHR '':'' then Some ([], s)
      else map_option (\<lambda>(l, r). (a # l, r)) (split_double_colon (b # s)))"
| "split_double_colon _ = None"

definition colon_groups :: "string \<Rightarrow> string list" where
  "colon_groups s = (if s = [] then [] else split_on (CHR '':'') s)"

definition parse_ipv6 :: "string \<Rightarrow> nat list option" where
  "parse_ipv6 s =
     (case split_double_colon s of
        None \<Rightarrow> (case parse_groups True (colon_groups s) of
                   Some bs \<Rightarrow> (if length bs = 16 then Some bs else None) | None \<Rightarrow> None)
      | Some (l, r) \<Rightarrow>
          (case (parse_groups False (colon_groups l), parse_groups True (colon_groups r)) of
             (Some a, Some b) \<Rightarrow>
               (if length a + length b < 16 then Some (a @ replicate (16 - length a - length b) 0 @ b) else None)
           | _ \<Rightarrow> None))"

definition ParseIP :: "string \<Rightarrow> nat list option" where
  "ParseIP s =
     (if CHR '':'' \<in> set s then parse_ipv6 s
      else map_option (\<lambda>b. replicate 10 0 @ [255, 255] @ b) (parse_ipv4 s))"

definition To4 :: "nat list \<Rightarrow> nat list option" where
  "To4 ip = (if take 12 ip = replicate 10 0 @ [255, 255] then Some (drop 12 ip) else None)"

definition IsLoopback :: "nat list \<Rightarrow> bool" where
  "IsLoopback ip = (case To4 ip of Some b \<Rightarrow> b ! 0 = 127 | None \<Rightarrow> ip = replicate 15 0 @ [1])"

definition IsPrivate :: "nat list \<Rightarrow> bool" where
  "IsPrivate ip =
     (case To4 ip of
        Some b \<Rightarrow> b ! 0 = 10 \<or> (b ! 0 = 172 \<and> b ! 1 div 16 = 1) \<or> (b ! 0 = 192 \<and> b ! 1 = 168)
      | None \<Rightarrow> ip ! 0 div 2 = 126)"

definition IsLinkLocalUnicast :: "nat list \<Rightarrow> bool" where
  "IsLinkLocalUnicast ip =
     (case To4 ip of
        Some b \<Rightarrow> b ! 0 = 169 \<and> b ! 1 = 254
      | None \<Rightarrow> ip ! 0 = 254 \<and> ip ! 1 div 64 = 2)"

definition isPrivateHost :: "string \<Rightarrow> bool" where
  "isPrivateHost host =
     (if ToLower host = ''localhost'' then True
      else case ParseIP host of
             None \<Rightarrow> False
           | Some ip \<Rightarrow> IsLoopback ip \<or> IsPrivate ip \<or> IsLinkLocalUnicast ip)"

record parsed_url =
  u_Scheme :: string
  u_Hostname :: string

text \<open>\<open>validateWebhookURL\<close>: the error, if any. \<open>parse\<close> is \<open>url.Parse\<close>.\<close>

definition validateWebhookURL :: "(string \<Rightarrow> parsed_url option) \<Rightarrow> string \<Rightarrow> go_error option" where
  "validateWebhookURL parse rawURL =
     (case parse rawURL of
        None \<Rightarrow> Some (Wrapped ''invalid url'' (PlainErr ''parse''))
      | Some u \<Rightarrow>
          if u_Scheme u \<noteq> ''http'' \<and> u_Scheme u \<noteq> ''https''
          then Some (PlainErr (''url scheme must be http or https, got '' @ CHR 0x22 # u_Scheme u @ [CHR 0x22]))
          else if isPrivateHost (u_Hostname u)
          then Some (PlainErr (''url targets a private or loopback address: '' @ u_Hostname u))
          else None)"

section \<open>The worker\<close>

definition outboxClaimLease :: int where
  "outboxClaimLease = 60 * second"

definition outboxMaxErrLen :: nat where
  "outboxMaxErrLen = 500"

record outbox_row =
  or_ID :: string
  or_EventType :: string
  or_Payload :: payload
  or_TargetURL :: string
  or_MerchantID :: string
  or_Attempt :: int
  or_Max :: int

definition outbox_due :: "time \<Rightarrow> outbox_event \<Rightarrow> bool" where
  "outbox_due t e \<longleftrightarrow>
     ob_DeliveredAt e = None \<and> ob_AttemptCount e < ob_MaxAttempts e \<and> ob_NextRetryAt e \<le> t"

definition claimed_ids :: "time \<Rightarrow> outbox_event list \<Rightarrow> string list" where
  "claimed_ids t rows = map ob_ID (take 10 (sort_key ob_NextRetryAt (filter (outbox_due t) rows)))"

definition to_outbox_row :: "outbox_event \<Rightarrow> outbox_row" where
  "to_outbox_row e =
     \<lparr>or_ID = ob_ID e, or_EventType = ob_EventType e, or_Payload = ob_Payload e, or_TargetURL = ob_TargetUrl e,
      or_MerchantID = (case ob_MerchantID e of None \<Rightarrow> '''' | Some i \<Rightarrow> i),
      or_Attempt = ob_AttemptCount e, or_Max = ob_MaxAttempts e\<rparr>"

definition fetchAndClaim :: "(world, outbox_row list) action" where
  "fetchAndClaim =
     exec (\<lambda>w.
       let ids = claimed_ids (w_now w) (db_outbox (w_db w));
           rows = update_where (\<lambda>e. ob_ID e \<in> set ids)
                    (\<lambda>e. e\<lparr>ob_NextRetryAt := w_now w + outboxClaimLease\<rparr>) (db_outbox (w_db w))
       in Inr (map to_outbox_row (filter (\<lambda>e. ob_ID e \<in> set ids) rows), (w_db w)\<lparr>db_outbox := rows\<rparr>))"

definition backoff :: "int \<Rightarrow> int" where
  "backoff n = wrap64 (wrap64 (n * n * 10) * second)"

definition truncate_str :: "string \<Rightarrow> nat \<Rightarrow> string" where
  "truncate_str s n = (if length s > n then take n s else s)"

text \<open>\<open>signature.Sign\<close>: lowercase hex of the HMAC-SHA256 of the payload; \<open>hmac\<close> gives the bytes.\<close>

definition Sign :: "(string \<Rightarrow> string \<Rightarrow> nat list) \<Rightarrow> string \<Rightarrow> string \<Rightarrow> string" where
  "Sign hmac key pl = hex_encode (hmac key pl)"

definition Verify :: "(string \<Rightarrow> string \<Rightarrow> nat list) \<Rightarrow> string \<Rightarrow> string \<Rightarrow> string \<Rightarrow> bool" where
  "Verify hmac key pl sig = (Sign hmac key pl = sig)"

record http_request =
  rq_URL :: string
  rq_Body :: string
  rq_Headers :: "(string \<times> string) list"

text \<open>The surroundings of the worker: parser, HMAC, JSON bytes, and the HTTP client at a time.\<close>

record worker_env =
  we_parse_url :: "string \<Rightarrow> parsed_url option"
  we_hmac :: "string \<Rightarrow> string \<Rightarrow> nat list"
  we_marshal :: "payload \<Rightarrow> string"
  we_http :: "time \<Rightarrow> http_request \<Rightarrow> string + int"

definition fetchSigningKey :: "string \<Rightarrow> (world, string) action" where
  "fetchSigningKey merchantID =
     bind (query (\<lambda>w. uuid_param w merchantID
            (Inr (find (\<lambda>m. m_ID m = merchantID \<and> m_DeletedAt m = None) (db_merchants (w_db w)))))) (\<lambda>r.
     case r of None \<Rightarrow> throw sql_ErrNoRows | Some m \<Rightarrow> ret (m_WebhookSigningKey m))"

definition webhook_headers :: "outbox_row \<Rightarrow> string option \<Rightarrow> (string \<times> string) list" where
  "webhook_headers row sig =
     [(''Content-Type'', ''application/json''), (''X-Wanpey-Event'', or_EventType row),
      (''X-Wanpey-Delivery-ID'', or_ID row)]
     @ (case sig of None \<Rightarrow> [] | Some s \<Rightarrow> [(''X-Wanpey-Signature'', ''sha256='' @ s)])"

definition post :: "worker_env \<Rightarrow> outbox_row \<Rightarrow> (world, unit) action" where
  "post env row =
     (let body = we_marshal env ((or_Payload row)\<lparr>pl_DeliveryID := or_ID row\<rparr>) in
      bind (if or_MerchantID row \<noteq> ''''
            then bind (attempt (fetchSigningKey (or_MerchantID row))) (\<lambda>r.
                   case r of
                     Inl _ \<Rightarrow> ret None
                   | Inr key \<Rightarrow> ret (if key \<noteq> '''' then Some (Sign (we_hmac env) key body) else None))
            else ret None) (\<lambda>sig.
      bind now (\<lambda>t.
      case we_http env t \<lparr>rq_URL = or_TargetURL row, rq_Body = body, rq_Headers = webhook_headers row sig\<rparr> of
        Inl e \<Rightarrow> throw (Wrapped ''http post'' (PlainErr e))
      | Inr status \<Rightarrow>
          if status < 200 \<or> status \<ge> 300
          then throw (PlainErr (''non-2xx response: '' @ fmt_d status)) else ret ())))"

text \<open>An error that is only logged.\<close>

definition logged :: "(world, unit) action \<Rightarrow> (world, unit) action" where
  "logged m = bind (attempt m) (\<lambda>_. ret ())"

definition deliver :: "worker_env \<Rightarrow> outbox_row \<Rightarrow> (world, unit) action" where
  "deliver env row =
     (case validateWebhookURL (we_parse_url env) (or_TargetURL row) of
        Some e \<Rightarrow> logged (outbox_MarkFailedFinal (or_ID row) (err_Error e))
      | None \<Rightarrow>
          bind (attempt (post env row)) (\<lambda>r.
          case r of
            Inr _ \<Rightarrow> logged (outbox_MarkDelivered (or_ID row))
          | Inl e \<Rightarrow>
              let nextAttempt = or_Attempt row + 1 in
              if nextAttempt \<ge> or_Max row
              then logged (outbox_MarkFailedFinal (or_ID row) (truncate_str (err_Error e) outboxMaxErrLen))
              else logged (outbox_ScheduleRetry (or_ID row) (truncate_str (err_Error e) outboxMaxErrLen)
                             nextAttempt (backoff nextAttempt))))"

text \<open>The goroutines of a batch write to different rows; they are run one after the other.\<close>

definition processBatch :: "worker_env \<Rightarrow> (world, unit) action" where
  "processBatch env =
     bind (attempt fetchAndClaim) (\<lambda>r.
     case r of
       Inl _ \<Rightarrow> ret ()
     | Inr rows \<Rightarrow> bind (map_action (deliver env) rows) (\<lambda>_. ret ()))"

section \<open>Effects\<close>

lemma kept_outbox_update:
  "checked_update outbox_row_ok (\<lambda>e r. ob_ID r = ob_ID e) (\<lambda>e. ob_ID e = i) f (db_outbox db) = Inr rows
     \<Longrightarrow> kept schema_ok db (db\<lparr>db_outbox := rows\<rparr>)"
  by (auto simp: kept_def schema_ok_def merchant_exists_def payment_exists_def simp del: checked_update_Inr
      elim: table_ok_update [rotated -1])

lemma obeys_update_outbox:
  "appends.obeys (update_outbox i f)" "schema.obeys (update_outbox i f)"
  unfolding update_outbox_def
  by (rule appends.obeys_exec schema.obeys_exec;
      auto simp del: checked_update_Inr intro: kept_outbox_update)+

lemma obeys_outbox_Insert:
  "appends.obeys (outbox_Insert t u i p)" "schema.obeys (outbox_Insert t u i p)"
  unfolding outbox_Insert_def
  by (intro appends.db_intros appends.obeys_exec schema.db_intros schema.obeys_exec;
      auto dest: append_only_inserts kept_schema_inserts)+

lemma obeys_fetchAndClaim: "appends.obeys fetchAndClaim" "schema.obeys fetchAndClaim"
proof -
  show "appends.obeys fetchAndClaim"
    unfolding fetchAndClaim_def by (rule appends.obeys_exec) (auto simp: Let_def)
  have "table_ok outbox_row_ok (\<lambda>e r. ob_ID r = ob_ID e) (update_where P (\<lambda>e. e\<lparr>ob_NextRetryAt := t\<rparr>) rows)"
    if "table_ok outbox_row_ok (\<lambda>e r. ob_ID r = ob_ID e) rows" for P t and rows :: "outbox_event list"
    by (rule table_ok_update_same_key [OF that]) (auto simp: outbox_row_ok_def split: if_splits)
  then show "schema.obeys fetchAndClaim"
    unfolding fetchAndClaim_def
    by (intro schema.obeys_exec)
      (auto simp: Let_def kept_def schema_ok_def merchant_exists_def payment_exists_def)
qed

lemmas outbox_obeys = obeys_update_outbox obeys_outbox_Insert obeys_fetchAndClaim

lemma obeys_deliver: "appends.obeys (deliver env row)" "schema.obeys (deliver env row)"
  unfolding deliver_def logged_def outbox_MarkFailedFinal_def outbox_MarkDelivered_def outbox_ScheduleRetry_def
    post_def fetchSigningKey_def Let_def
  by (intro appends.db_intros schema.db_intros outbox_obeys)+

lemma obeys_processBatch: "appends.obeys (processBatch env)" "schema.obeys (processBatch env)"
  unfolding processBatch_def
  by (intro appends.db_intros schema.db_intros outbox_obeys obeys_deliver)+

section \<open>Claims\<close>

lemma fetchAndClaim_run:
  assumes "fetchAndClaim w = (Inr rows, w')"
  defines "ids \<equiv> set (claimed_ids (w_now w) (db_outbox (w_db w)))"
  shows "db_outbox (w_db w') = update_where (\<lambda>e. ob_ID e \<in> ids)
      (\<lambda>e. e\<lparr>ob_NextRetryAt := w_now w + outboxClaimLease\<rparr>) (db_outbox (w_db w))"
    and "rows = map to_outbox_row (filter (\<lambda>e. ob_ID e \<in> ids) (db_outbox (w_db w')))"
  using assms(1) unfolding ids_def
  by (auto simp: fetchAndClaim_def exec_def Let_def split: if_splits)

lemma claimed_ids_due:
  "i \<in> set (claimed_ids t rows) \<Longrightarrow> \<exists>e \<in> set rows. ob_ID e = i \<and> outbox_due t e"
  unfolding claimed_ids_def by (auto dest!: in_set_takeD)

lemma length_claimed_ids: "length (claimed_ids t rows) \<le> 10"
  by (simp add: claimed_ids_def)

lemma to_outbox_row_ID [simp]: "or_ID (to_outbox_row e) = ob_ID e"
  by (simp add: to_outbox_row_def)

lemma map_ID_update_where_retry [simp]:
  "map ob_ID (update_where P (\<lambda>e. e\<lparr>ob_NextRetryAt := t\<rparr>) rows) = map ob_ID rows"
  by (rule map_update_where) simp

lemma filter_ids_length:
  assumes "distinct (map key rows)"
  shows "length (filter (\<lambda>r. key r \<in> set ids) rows) \<le> length ids"
proof -
  have "distinct (map key (filter (\<lambda>r. key r \<in> set ids) rows))"
    by (rule distinct_map_filter [OF assms])
  from distinct_card [OF this]
  have "length (filter (\<lambda>r. key r \<in> set ids) rows) = card (key ` set (filter (\<lambda>r. key r \<in> set ids) rows))"
    by simp
  also have "\<dots> \<le> card (set ids)" by (rule card_mono) auto
  also have "\<dots> \<le> length ids" by (rule card_length)
  finally show ?thesis .
qed


section \<open>Deliveries\<close>

lemma wrap_small_delay: "0 \<le> m \<Longrightarrow> m \<le> 1000 * 1000 \<Longrightarrow> wrap64 (wrap64 (m * 10) * second) = m * 10 * second"
  unfolding second_def by (subst (1 2) wrap64_id; simp add: int64_range_def)

lemma backoff_seconds: "0 \<le> n \<Longrightarrow> n \<le> 1000 \<Longrightarrow> backoff n = n * n * 10 * second"
  unfolding backoff_def by (rule wrap_small_delay) (simp, rule mult_mono, simp_all)

text \<open>An event whose target fails the URL guard never reaches the network: what the worker does with it does
  not depend on the HTTP client at all.\<close>

theorem guarded_targets_not_contacted:
  assumes "validateWebhookURL (we_parse_url env) (or_TargetURL row) = Some e"
  shows "deliver (env\<lparr>we_http := h\<rparr>) row = deliver (env\<lparr>we_http := h'\<rparr>) row"
  using assms by (simp add: deliver_def)

theorem guarded_targets_not_contacted_witness:
  "\<forall>env h h' row. deliver (env\<lparr>we_parse_url := \<lambda>_. Some \<lparr>u_Scheme = ''http'', u_Hostname = ''10.0.0.1''\<rparr>, we_http := h\<rparr>) row =
   deliver (env\<lparr>we_parse_url := \<lambda>_. Some \<lparr>u_Scheme = ''http'', u_Hostname = ''10.0.0.1''\<rparr>, we_http := h'\<rparr>) row"
proof (intro allI)
  fix env :: worker_env and h h' row
  have "isPrivateHost ''10.0.0.1''" by code_simp
  then show "deliver (env\<lparr>we_parse_url := \<lambda>_. Some \<lparr>u_Scheme = ''http'', u_Hostname = ''10.0.0.1''\<rparr>, we_http := h\<rparr>) row =
      deliver (env\<lparr>we_parse_url := \<lambda>_. Some \<lparr>u_Scheme = ''http'', u_Hostname = ''10.0.0.1''\<rparr>, we_http := h'\<rparr>) row"
    using guarded_targets_not_contacted [of "env\<lparr>we_parse_url := \<lambda>_. Some \<lparr>u_Scheme = ''http'', u_Hostname = ''10.0.0.1''\<rparr>\<rparr>" row _ h h']
    by (simp add: validateWebhookURL_def)
qed

lemma wp_update_outbox:
  assumes "no_faults w" "w_uuid_ok w i" "\<And>e. ob_ID (f w e) = ob_ID e"
    and "\<And>e. e \<in> set (db_outbox (w_db w)) \<Longrightarrow> ob_ID e = i \<Longrightarrow> outbox_row_ok (f w e)"
    and "Q () ((tick w)\<lparr>w_db := (w_db w)\<lparr>db_outbox := update_where (\<lambda>e. ob_ID e = i) (f w) (db_outbox (w_db w))\<rparr>\<rparr>)"
  shows "wp (update_outbox i f) Q E w"
proof -
  have "checked_update outbox_row_ok (\<lambda>e r. ob_ID r = ob_ID e) (\<lambda>e. ob_ID e = i) (f w) (db_outbox (w_db w))
    = Inr (update_where (\<lambda>e. ob_ID e = i) (f w) (db_outbox (w_db w)))"
    using assms(3,4) by auto
  then show ?thesis
    using assms(1,2,5) by (simp add: update_outbox_def wp_exec uuid_param_def del: checked_update_Inr)
qed

text \<open>What one delivery does to the event it is for.\<close>

definition delivery_step :: "time \<Rightarrow> outbox_event \<Rightarrow> outbox_event \<Rightarrow> bool" where
  "delivery_step t e e' \<longleftrightarrow>
     (ob_DeliveredAt e' = Some t \<and> ob_AttemptCount e' = ob_AttemptCount e + 1)
     \<or> (ob_DeliveredAt e' = None \<and> ob_FailedAt e' = Some t \<and> ob_AttemptCount e' = ob_MaxAttempts e)
     \<or> (ob_DeliveredAt e' = None \<and> ob_AttemptCount e' = ob_AttemptCount e + 1 \<and> ob_AttemptCount e' < ob_MaxAttempts e
        \<and> ob_NextRetryAt e' = t + 10 * (ob_AttemptCount e')\<^sup>2 * second)"

lemma delivery_step_progress:
  "delivery_step t e e' \<Longrightarrow> ob_AttemptCount e < ob_MaxAttempts e \<Longrightarrow>
     ob_AttemptCount e < ob_AttemptCount e' \<and> ob_AttemptCount e' \<le> ob_MaxAttempts e"
  by (auto simp: delivery_step_def)

text \<open>The body of \<open>post\<close> reads, so the outbox is the same after it.\<close>

lemma wp_post:
  assumes "idle w"
    and "\<And>r w'. w' = w \<or> w' = tick w \<Longrightarrow> Q r w'"
    and "\<And>e w'. w' = w \<or> w' = tick w \<Longrightarrow> \<not> is_panic e \<Longrightarrow> E e w'"
  shows "wp (post env row) Q E w"
  using assms
  by (auto simp: post_def fetchSigningKey_def wp_simps wp_query uuid_param_def sql_ErrNoRows_def Let_def
      split: option.splits sum.splits)

text \<open>An event the worker has claimed and the state in which it delivers it.\<close>

definition in_flight :: "world \<Rightarrow> outbox_event \<Rightarrow> bool" where
  "in_flight w e \<longleftrightarrow>
     idle w \<and> schema_ok (w_db w) \<and> e \<in> set (db_outbox (w_db w)) \<and> ob_DeliveredAt e = None
     \<and> ob_AttemptCount e < ob_MaxAttempts e \<and> ob_MaxAttempts e \<le> 1000 \<and> w_uuid_ok w (ob_ID e)"

text \<open>The event is replaced by one a delivery step away, every other event is untouched.\<close>

definition event_moved :: "world \<Rightarrow> outbox_event \<Rightarrow> world \<Rightarrow> bool" where
  "event_moved w e w' \<longleftrightarrow>
     (\<exists>e'. ob_ID e' = ob_ID e \<and> ob_MaxAttempts e' = ob_MaxAttempts e \<and> delivery_step (w_now w) e e'
        \<and> db_outbox (w_db w') = map (\<lambda>x. if ob_ID x = ob_ID e then e' else x) (db_outbox (w_db w)))"

lemma in_flight_attempts: "in_flight w e \<Longrightarrow> 0 \<le> ob_AttemptCount e"
  by (auto simp: in_flight_def schema_ok_def table_ok_def list_all_iff outbox_row_ok_def)

lemma in_flight_unique: "in_flight w e \<Longrightarrow> x \<in> set (db_outbox (w_db w)) \<Longrightarrow> ob_ID x = ob_ID e \<Longrightarrow> x = e"
  using schema_distinct(6) [of "w_db w"] by (auto simp: in_flight_def distinct_map inj_on_def)

lemma wp_mark_in_flight:
  assumes w: "in_flight w e" and v: "v = w \<or> v = tick w"
    and f: "\<And>x. ob_ID (f v x) = ob_ID x" "ob_MaxAttempts (f v e) = ob_MaxAttempts e"
      "delivery_step (w_now w) e (f v e)" "outbox_row_ok (f v e)"
  shows "wp (logged (wrap msg (update_outbox (ob_ID e) f))) (\<lambda>_. event_moved w e) (\<lambda>_ _. False) v"
proof -
  note uniq = in_flight_unique [OF w]
  have eq: "update_where (\<lambda>x. ob_ID x = ob_ID e) (f v) (db_outbox (w_db w))
      = map (\<lambda>x. if ob_ID x = ob_ID e then f v e else x) (db_outbox (w_db w))"
    by (auto simp: update_where_def dest: uniq)
  have v': "no_faults v" "w_uuid_ok v (ob_ID e)" "w_db v = w_db w" using v w by (auto simp: in_flight_def)
  show ?thesis
    unfolding logged_def wp_simps
    by (rule wp_update_outbox [where f = f, OF v'(1,2) f(1)])
      (use v'(3) f uniq in \<open>auto simp: eq event_moved_def intro!: exI [of _ "f v e"]\<close>)
qed

lemma wp_mark_cases:
  assumes w: "in_flight w e" and v: "v = w \<or> v = tick w"
  shows "wp (logged (outbox_MarkFailedFinal (ob_ID e) msg)) (\<lambda>_. event_moved w e) (\<lambda>_ _. False) v"
    and "wp (logged (outbox_MarkDelivered (ob_ID e))) (\<lambda>_. event_moved w e) (\<lambda>_ _. False) v"
    and "ob_AttemptCount e + 1 < ob_MaxAttempts e \<Longrightarrow>
      wp (logged (outbox_ScheduleRetry (ob_ID e) msg (ob_AttemptCount e + 1) (backoff (ob_AttemptCount e + 1))))
        (\<lambda>_. event_moved w e) (\<lambda>_ _. False) v"
proof -
  note due = w [unfolded in_flight_def] in_flight_attempts [OF w]
  show "wp (logged (outbox_MarkFailedFinal (ob_ID e) msg)) (\<lambda>_. event_moved w e) (\<lambda>_ _. False) v"
    unfolding outbox_MarkFailedFinal_def
    by (rule wp_mark_in_flight [OF w v]) (use v due in \<open>auto simp: delivery_step_def outbox_row_ok_def\<close>)
  show "wp (logged (outbox_MarkDelivered (ob_ID e))) (\<lambda>_. event_moved w e) (\<lambda>_ _. False) v"
    unfolding outbox_MarkDelivered_def
    by (rule wp_mark_in_flight [OF w v]) (use v due in \<open>auto simp: delivery_step_def outbox_row_ok_def\<close>)
  have n: "wrap32 (ob_AttemptCount e + 1) = ob_AttemptCount e + 1"
    using due by (simp add: wrap32_def signed_take_bit_int_eq_self)
  have "go_div (n * n * 10 * second) second = n * n * 10" for n by (simp add: second_def)
  then have b: "go_div (backoff (ob_AttemptCount e + 1)) second = 10 * (ob_AttemptCount e + 1)\<^sup>2"
    using backoff_seconds [of "ob_AttemptCount e + 1"] due by (simp add: power2_eq_square)
  show "wp (logged (outbox_ScheduleRetry (ob_ID e) msg (ob_AttemptCount e + 1) (backoff (ob_AttemptCount e + 1))))
      (\<lambda>_. event_moved w e) (\<lambda>_ _. False) v"
    if "ob_AttemptCount e + 1 < ob_MaxAttempts e"
    unfolding outbox_ScheduleRetry_def
    by (rule wp_mark_in_flight [OF w v]) (use that v due n b in \<open>auto simp: delivery_step_def outbox_row_ok_def\<close>)
qed

lemma deliver_spec:
  assumes w: "in_flight w e"
  shows "wp (deliver env (to_outbox_row e)) (\<lambda>_. event_moved w e) (\<lambda>_ _. False) w"
  unfolding deliver_def wp_case_option wp_bind wp_attempt wp_let wp_case_sum
  using w by (auto split: option.splits intro!: wp_mark_cases wp_post
      simp: to_outbox_row_def wp_if Let_def in_flight_def [of w])

text \<open>One delivery of a claimed event moves exactly that event, on every path (guard refused, HTTP failure, bad
  status, success): it ends delivered, or dead with its attempts exhausted, or with exactly one more attempt
  and its next retry n^2 * 10 seconds away; in each case the attempt count has strictly grown and is
  still at most the maximum, so an event is posted at most that many times.\<close>

theorem deliver_progress:
  assumes w: "in_flight w e"
  shows "wp (deliver env (to_outbox_row e))
    (\<lambda>_ w'. event_moved w e w' \<and>
        (\<forall>x \<in> set (db_outbox (w_db w')). ob_ID x = ob_ID e \<longrightarrow>
            ob_AttemptCount e < ob_AttemptCount x \<and> ob_AttemptCount x \<le> ob_MaxAttempts e))
    (\<lambda>_ _. False) w"
proof (rule wp_mono [OF deliver_spec [OF w]])
  show "event_moved w e w' \<and> (\<forall>x \<in> set (db_outbox (w_db w')). ob_ID x = ob_ID e \<longrightarrow>
      ob_AttemptCount e < ob_AttemptCount x \<and> ob_AttemptCount x \<le> ob_MaxAttempts e)"
    if "event_moved w e w'" for w'
    using that w by (auto simp: event_moved_def in_flight_def dest: delivery_step_progress)
qed simp

definition sample_event :: outbox_event where
  "sample_event =
     \<lparr>ob_ID = ''E1'', ob_EventType = ''payment.paid'', ob_Payload = \<lparr>pl_EventType = ''payment.paid'', pl_DeliveryID = '''',
        pl_CreatedAt = 0, pl_Data = DisbursementData undefined\<rparr>, ob_TargetUrl = ''https://toko.id/hook'',
      ob_MerchantID = Some ''M1'', ob_AttemptCount = 2, ob_MaxAttempts = 5, ob_NextRetryAt = 0, ob_DeliveredAt = None,
      ob_FailedAt = None, ob_LastError = None, ob_CreatedAt = 0\<rparr>"

definition sample_outbox_world :: world where
  "sample_outbox_world = quiet_world ((sample_db False)\<lparr>db_outbox := [sample_event]\<rparr>) 100"

lemma sample_in_flight: "in_flight sample_outbox_world sample_event"
  by (simp add: in_flight_def sample_outbox_world_def schema_ok_def table_ok_def unique_rows_def sample_db_def
      empty_database_def sample_event_def outbox_row_ok_def sample_merchant_def merchant_row_ok_def)

theorem deliver_progress_witness:
  "\<forall>env. wp (deliver env (to_outbox_row sample_event))
    (\<lambda>_ w'. \<exists>x \<in> set (db_outbox (w_db w')). 2 < ob_AttemptCount x \<and> ob_AttemptCount x \<le> 5)
    (\<lambda>_ _. False) sample_outbox_world"
  by (rule allI, rule wp_mono [OF deliver_progress [OF sample_in_flight]])
    (auto simp: event_moved_def sample_outbox_world_def sample_event_def)


section \<open>The address guard\<close>

lemma of_digit_char [simp]: "d < 10 \<Longrightarrow> of_char (digit_char d) = (48 + d :: nat)"
  by (simp add: digit_char_def)

lemma digit_char_props:
  assumes "d < 10"
  shows "is_digit (digit_char d)" "digit_char d \<noteq> CHR ''.''" "digit_char d \<noteq> CHR '':''"
    "digit_char d = CHR ''0'' \<longleftrightarrow> d = 0"
proof -
  have eq: "digit_char d = c \<longleftrightarrow> 48 + d = (of_char c :: nat)" for c
    using of_digit_char [OF assms] by (metis of_char_eq_iff)
  show "is_digit (digit_char d)" using assms by (simp add: is_digit_def)
  show "digit_char d \<noteq> CHR ''.''" "digit_char d \<noteq> CHR '':''" "digit_char d = CHR ''0'' \<longleftrightarrow> d = 0"
    unfolding eq using assms by simp_all
qed

lemma decimal_digits:
  "n < 10 \<Longrightarrow> decimal n = [digit_char n]"
  "10 \<le> n \<Longrightarrow> n < 100 \<Longrightarrow> decimal n = [digit_char (n div 10), digit_char (n mod 10)]"
  "100 \<le> n \<Longrightarrow> n < 1000 \<Longrightarrow> decimal n = [digit_char (n div 100), digit_char (n div 10 mod 10), digit_char (n mod 10)]"
proof -
  show A: "decimal n = [digit_char n]" if "n < 10" for n using that by (simp add: decimal.simps)
  show B: "decimal n = [digit_char (n div 10), digit_char (n mod 10)]" if "10 \<le> n" "n < 100" for n
    using that by (subst decimal.simps) (simp add: A)
  show "decimal n = [digit_char (n div 100), digit_char (n div 10 mod 10), digit_char (n mod 10)]"
    if "100 \<le> n" "n < 1000"
    using that by (subst decimal.simps) (simp add: B div_mult2_eq [symmetric])
qed

lemma parse_octet_decimal: "n \<le> 255 \<Longrightarrow> parse_octet (decimal n) = Some n"
proof -
  assume n: "n \<le> 255"
  consider "n < 10" | "10 \<le> n" "n < 100" | "100 \<le> n" by linarith
  then show ?thesis
  proof cases
    case 1
    then show ?thesis by (simp add: decimal_digits parse_octet_def digit_char_props digits_val_def)
  next
    case 2
    then have "10 * (n div 10) + n mod 10 = n" "0 < n div 10" by simp_all
    with 2 show ?thesis by (simp add: decimal_digits parse_octet_def digit_char_props digits_val_def)
  next
    case 3
    then have "0 < n div 100" "n div 100 < 10" "n div 10 mod 10 < 10" "n mod 10 < 10" using n by simp_all
    moreover have "100 * (n div 100) + 10 * (n div 10 mod 10) + n mod 10 = n"
    proof -
      have "n div 100 = n div 10 div 10" by (simp add: div_mult2_eq [symmetric])
      then show ?thesis using div_mult_mod_eq [of n 10] div_mult_mod_eq [of "n div 10" 10] by linarith
    qed
    ultimately show ?thesis using n 3
      by (simp add: decimal_digits parse_octet_def digit_char_props digits_val_def algebra_simps)
  qed
qed

lemma decimal_no_sep: "n \<le> 255 \<Longrightarrow> CHR ''.'' \<notin> set (decimal n) \<and> CHR '':'' \<notin> set (decimal n)"
proof -
  have d: "CHR ''.'' \<noteq> digit_char k" "CHR '':'' \<noteq> digit_char k" if "k < 10" for k
    using digit_char_props [OF that] by metis+
  assume n: "n \<le> 255"
  consider "n < 10" | "10 \<le> n" "n < 100" | "100 \<le> n" by linarith
  then show ?thesis
    by cases (use n d in \<open>simp_all add: decimal_digits\<close>)
qed

lemma split_on_append: "c \<notin> set a \<Longrightarrow> split_on c (a @ c # b) = a # split_on c b"
  by (induction a) auto

lemma split_on_none: "c \<notin> set a \<Longrightarrow> split_on c a = [a]"
  by (induction a) auto

definition dotted :: "nat \<Rightarrow> nat \<Rightarrow> nat \<Rightarrow> nat \<Rightarrow> string" where
  "dotted a b c d = decimal a @ ''.'' @ decimal b @ ''.'' @ decimal c @ ''.'' @ decimal d"

lemma ParseIP_dotted:
  assumes "a \<le> 255" "b \<le> 255" "c \<le> 255" "d \<le> 255"
  shows "ParseIP (dotted a b c d) = Some (replicate 10 0 @ [255, 255, a, b, c, d])"
proof -
  have "split_on (CHR ''.'') (dotted a b c d) = [decimal a, decimal b, decimal c, decimal d]"
    using assms by (simp add: dotted_def split_on_append split_on_none decimal_no_sep)
  moreover have "CHR '':'' \<notin> set (dotted a b c d)" using assms by (simp add: dotted_def decimal_no_sep)
  ultimately show ?thesis
    using assms by (simp add: ParseIP_def parse_ipv4_def parse_octet_decimal)
qed

lemma To4_mapped [simp]: "To4 (replicate 10 0 @ 255 # 255 # xs) = Some xs"
  by (simp add: To4_def)

lemma dotted_not_localhost: "a \<le> 255 \<Longrightarrow> ToLower (dotted a b c d) \<noteq> ''localhost''"
proof -
  assume a: "a \<le> 255"
  have l: "char_lower (digit_char k) \<noteq> CHR ''l''" if "k < 10" for k
  proof -
    have "char_lower (digit_char k) = digit_char k" using that by (simp add: char_lower_def Let_def)
    moreover have "(of_char (digit_char k) :: nat) \<noteq> of_char (CHR ''l'')" using that by simp
    ultimately show ?thesis by metis
  qed
  have "\<exists>k t. k < 10 \<and> decimal a = digit_char k # t"
  proof -
    consider "a < 10" | "10 \<le> a" "a < 100" | "100 \<le> a" by linarith
    then show ?thesis
      by cases (use a in \<open>force simp: decimal_digits\<close>)+
  qed
  then show ?thesis using l by (auto simp: dotted_def ToLower_def)
qed

text \<open>C24: The address guard on every IPv4 literal: it refuses exactly the loopback block 127/8, the private blocks
  10/8, 172.16/12 and 192.168/16, and link-local 169.254/16; every other literal, 0.0.0.0 included, passes.\<close>

theorem isPrivateHost_ipv4:
  assumes "a \<le> 255" and "b \<le> 255" and "c \<le> 255" and "d \<le> 255"
  shows "isPrivateHost (dotted a b c d) \<longleftrightarrow>
    a = 127 \<or> a = 10 \<or> (a = 172 \<and> 16 \<le> b \<and> b \<le> 31) \<or> (a = 192 \<and> b = 168) \<or> (a = 169 \<and> b = 254)"
proof -
  have "isPrivateHost (dotted a b c d) \<longleftrightarrow>
      (let ip = replicate 10 0 @ 255 # 255 # [a, b, c, d] in IsLoopback ip \<or> IsPrivate ip \<or> IsLinkLocalUnicast ip)"
    using assms by (simp add: isPrivateHost_def ParseIP_dotted dotted_not_localhost Let_def)
  also have "\<dots> \<longleftrightarrow> a = 127 \<or> (a = 10 \<or> (a = 172 \<and> b div 16 = 1) \<or> (a = 192 \<and> b = 168)) \<or> (a = 169 \<and> b = 254)"
    by (simp only: Let_def IsLoopback_def IsPrivate_def IsLinkLocalUnicast_def To4_mapped option.case) simp
  also have "b div 16 = 1 \<longleftrightarrow> 16 \<le> b \<and> b \<le> 31" by auto
  finally show ?thesis by auto
qed

theorem isPrivateHost_ipv4_witness:
  "isPrivateHost (dotted 169 254 169 254) \<and> \<not> isPrivateHost (dotted 0 0 0 0)"
  using isPrivateHost_ipv4 [of 169 254 169 254] isPrivateHost_ipv4 [of 0 0 0 0] by simp

end
