(* ===== verification/Merchants.thy ===== *)
theory Merchants
  imports Ledger Outbox
begin

text \<open>
  Merchants and their bank accounts: the repository
  (internal/infrastructure/database/postgres/merchant_repo.go, query/merchant.sql), the usecase
  (internal/usecase/impl/merchant.go), the key generators of helpers.go and the API-key
  middleware (internal/delivery/http/middleware/auth.go). SHA-256 is a parameter, as the
  lowercase hex string of the digest.
\<close>

section \<open>Merchant repository\<close>

definition merchant_Save :: "merchant \<Rightarrow> (world, merchant) action" where
  "merchant_Save m =
     bind (wrap ''insert merchant''
       (exec (\<lambda>w.
          let row = m\<lparr>m_ID := fresh_uuid w, m_DailyCashoutLimit := 0, m_DeletedAt := None,
                      m_CreatedAt := w_now w, m_UpdatedAt := w_now w\<rparr>
          in map_sum id (Pair row) (insert_merchant row (w_db w))))) (\<lambda>row.
     ret (m\<lparr>m_ID := m_ID row, m_CreatedAt := m_CreatedAt row, m_UpdatedAt := m_UpdatedAt row\<rparr>))"

definition live :: "merchant \<Rightarrow> bool" where
  "live m \<longleftrightarrow> m_DeletedAt m = None"

definition merchant_FindByID :: "string \<Rightarrow> (world, merchant) action" where
  "merchant_FindByID i =
     bind (wrap ''get merchant by id''
            (query (\<lambda>w. uuid_param w i (Inr (find (\<lambda>m. m_ID m = i \<and> live m) (db_merchants (w_db w))))))) (\<lambda>r.
     case r of
       None \<Rightarrow> throw (NotFound (''merchant '' @ i @ '' not found''))
     | Some m \<Rightarrow> ret m)"

definition merchant_FindByAPIKey :: "string \<Rightarrow> (world, merchant) action" where
  "merchant_FindByAPIKey hashedKey =
     bind (wrap ''get merchant by api_key''
            (query (\<lambda>w. Inr (find (\<lambda>m. m_APIKey m = hashedKey \<and> live m) (db_merchants (w_db w)))))) (\<lambda>r.
     case r of
       None \<Rightarrow> throw (NotFound ''merchant not found'')
     | Some m \<Rightarrow> ret m)"

definition merchant_FindByEmail :: "string \<Rightarrow> (world, merchant) action" where
  "merchant_FindByEmail email =
     bind (wrap ''get merchant by email''
            (query (\<lambda>w. Inr (find (\<lambda>m. m_Email m = email \<and> live m) (db_merchants (w_db w)))))) (\<lambda>r.
     case r of
       None \<Rightarrow> throw (NotFound (''merchant with email '' @ email @ '' not found''))
     | Some m \<Rightarrow> ret m)"

definition merchant_Update :: "merchant \<Rightarrow> (world, merchant) action" where
  "merchant_Update m =
     bind (wrap ''update merchant''
       (exec (\<lambda>w. uuid_param w (m_ID m)
          (map_sum id (\<lambda>rows. (find (\<lambda>r. m_ID r = m_ID m \<and> live r) rows, (w_db w)\<lparr>db_merchants := rows\<rparr>))
            (checked_update merchant_row_ok merchant_conflict
               (\<lambda>r. m_ID r = m_ID m \<and> live r)
               (\<lambda>r. m\<lparr>m_ID := m_ID r, m_DeletedAt := m_DeletedAt r, m_CreatedAt := m_CreatedAt r, m_UpdatedAt := w_now w\<rparr>)
               (db_merchants (w_db w))))))) (\<lambda>r.
     bind (one_row ''update merchant'' r) (\<lambda>row.
     ret (m\<lparr>m_UpdatedAt := m_UpdatedAt row\<rparr>)))"

definition merchant_SoftDelete :: "string \<Rightarrow> (world, unit) action" where
  "merchant_SoftDelete i =
     wrap ''soft delete merchant''
       (exec (\<lambda>w. uuid_param w i (Inr ((),
          (w_db w)\<lparr>db_merchants := update_where (\<lambda>r. m_ID r = i \<and> live r)
                     (\<lambda>r. r\<lparr>m_DeletedAt := Some (w_now w), m_UpdatedAt := w_now w\<rparr>) (db_merchants (w_db w))\<rparr>))))"

text \<open>ILIKE with the wildcards \<open>%\<close> and \<open>_\<close> and the escape \<open>\\<close>.\<close>

fun like :: "string \<Rightarrow> string \<Rightarrow> bool" where
  "like [] t = (t = [])"
| "like (p # ps) t =
     (if p = CHR ''%'' then like ps t \<or> (case t of [] \<Rightarrow> False | _ # t' \<Rightarrow> like (p # ps) t')
      else if p = CHR 0x5C then
        (case ps of [] \<Rightarrow> False
         | q # qs \<Rightarrow> (case t of [] \<Rightarrow> False | c # t' \<Rightarrow> c = q \<and> like qs t'))
      else (case t of [] \<Rightarrow> False | c # t' \<Rightarrow> (p = CHR ''_'' \<or> c = p) \<and> like ps t'))"

definition ilike :: "string \<Rightarrow> string \<Rightarrow> bool" where
  "ilike t p = like (ToLower p) (ToLower t)"

record list_merchant_filter =
  lf_Status :: string
  lf_Search :: string
  lf_Page :: int
  lf_Limit :: int

definition merchant_matches :: "list_merchant_filter \<Rightarrow> merchant \<Rightarrow> bool" where
  "merchant_matches f m \<longleftrightarrow>
     live m
     \<and> (lf_Status f \<noteq> '''' \<longrightarrow> merchant_status_str (m_Status m) = lf_Status f)
     \<and> (lf_Search f \<noteq> '''' \<longrightarrow> ilike (m_Name m) (lf_Search f @ ''%'') \<or> ilike (m_Email m) (lf_Search f @ ''%''))"

definition merchant_List :: "list_merchant_filter \<Rightarrow> (world, merchant list \<times> int64) action" where
  "merchant_List f =
     bind (wrap ''count merchants''
            (query (\<lambda>w. Inr (int (length (filter (merchant_matches f) (db_merchants (w_db w)))))))) (\<lambda>total.
     if total = 0 then ret ([], 0)
     else case normalizePage (lf_Page f) (lf_Limit f) of (page, limit) \<Rightarrow>
       bind (wrap ''list merchants''
              (query (\<lambda>w. sql_page page limit
                 (order_desc m_CreatedAt (filter (merchant_matches f) (db_merchants (w_db w))))))) (\<lambda>rows.
       ret (rows, total)))"

section \<open>Bank account repository\<close>

definition SaveBankAccount :: "bank_account \<Rightarrow> (world, bank_account) action" where
  "SaveBankAccount a =
     bind (wrap ''insert bank account''
       (exec (\<lambda>w. uuid_param w (ba_MerchantID a)
          (let row = a\<lparr>ba_ID := fresh_uuid w, ba_CreatedAt := w_now w, ba_UpdatedAt := w_now w\<rparr>
           in map_sum id (Pair row) (insert_bank_account row (w_db w)))))) (\<lambda>row.
     ret (a\<lparr>ba_ID := ba_ID row, ba_CreatedAt := ba_CreatedAt row, ba_UpdatedAt := ba_UpdatedAt row\<rparr>))"

definition FindBankAccountsByMerchantID :: "string \<Rightarrow> (world, bank_account list) action" where
  "FindBankAccountsByMerchantID i =
     wrap ''list bank accounts''
       (query (\<lambda>w. uuid_param w i (Inr
          (sort_key (\<lambda>a. if ba_IsPrimary a then 0 else 1 :: nat) (sort_key ba_CreatedAt
             (filter (\<lambda>a. ba_MerchantID a = i) (db_bank_accounts (w_db w))))))))"

definition FindBankAccountByID :: "string \<Rightarrow> (world, bank_account) action" where
  "FindBankAccountByID i =
     bind (wrap ''get bank account by id''
            (query (\<lambda>w. uuid_param w i (Inr (find (\<lambda>a. ba_ID a = i) (db_bank_accounts (w_db w))))))) (\<lambda>r.
     case r of
       None \<Rightarrow> throw (NotFound (''bank account '' @ i @ '' not found''))
     | Some a \<Rightarrow> ret a)"

definition FindPrimaryBankAccount :: "string \<Rightarrow> (world, bank_account) action" where
  "FindPrimaryBankAccount i =
     bind (wrap ''get primary bank account''
            (query (\<lambda>w. uuid_param w i
               (Inr (find (\<lambda>a. ba_MerchantID a = i \<and> ba_IsPrimary a) (db_bank_accounts (w_db w))))))) (\<lambda>r.
     case r of
       None \<Rightarrow> throw (NotFound (''no primary bank account for merchant '' @ i))
     | Some a \<Rightarrow> ret a)"

definition UpdateBankAccount :: "bank_account \<Rightarrow> (world, bank_account) action" where
  "UpdateBankAccount a =
     bind (wrap ''update bank account''
       (exec (\<lambda>w. uuid_param w (ba_ID a)
          (map_sum id (\<lambda>rows. (find (\<lambda>r. ba_ID r = ba_ID a) rows, (w_db w)\<lparr>db_bank_accounts := rows\<rparr>))
            (checked_update bank_account_row_ok bank_account_conflict (\<lambda>r. ba_ID r = ba_ID a)
               (\<lambda>r. r\<lparr>ba_BankCode := ba_BankCode a, ba_AccountNumber := ba_AccountNumber a,
                       ba_AccountName := ba_AccountName a, ba_IsPrimary := ba_IsPrimary a,
                       ba_IsVerified := ba_IsVerified a, ba_UpdatedAt := w_now w\<rparr>)
               (db_bank_accounts (w_db w))))))) (\<lambda>r.
     bind (one_row ''update bank account'' r) (\<lambda>row.
     ret (a\<lparr>ba_UpdatedAt := ba_UpdatedAt row\<rparr>)))"

definition UnsetPrimaryBankAccounts :: "string \<Rightarrow> (world, unit) action" where
  "UnsetPrimaryBankAccounts i =
     wrap ''unset primary bank accounts''
       (exec (\<lambda>w. uuid_param w i (Inr ((),
          (w_db w)\<lparr>db_bank_accounts := update_where (\<lambda>a. ba_MerchantID a = i \<and> ba_IsPrimary a)
                     (\<lambda>a. a\<lparr>ba_IsPrimary := False, ba_UpdatedAt := w_now w\<rparr>) (db_bank_accounts (w_db w))\<rparr>))))"

definition DeleteBankAccount :: "string \<Rightarrow> (world, unit) action" where
  "DeleteBankAccount i =
     wrap ''delete bank account''
       (exec (\<lambda>w. uuid_param w i (Inr ((),
          (w_db w)\<lparr>db_bank_accounts := filter (\<lambda>a. ba_ID a \<noteq> i) (db_bank_accounts (w_db w))\<rparr>))))"

text \<open>\<open>SELECT COUNT(*) ... FOR UPDATE\<close>.\<close>

definition CountBankAccounts :: "string \<Rightarrow> (world, int) action" where
  "CountBankAccounts i =
     wrap ''count bank accounts''
       (query (\<lambda>w. if \<not> w_agg_lock w then Inl ''FOR UPDATE is not allowed with aggregate functions''
          else uuid_param w i (Inr (int (length (filter (\<lambda>a. ba_MerchantID a = i) (db_bank_accounts (w_db w))))))))"

section \<open>Keys\<close>

definition generateAPIKey :: "(string \<Rightarrow> string) \<Rightarrow> bool \<Rightarrow> (world, string \<times> string) action" where
  "generateAPIKey sha256 isProduction =
     bind (rand_bytes 16) (\<lambda>b.
     let suffix = hex_encode b;
         raw = (if isProduction then ''wpay_live_'' else ''wpay_test_'') @ suffix
     in ret (raw, sha256 raw))"

definition generateSecret :: "(string \<Rightarrow> string) \<Rightarrow> (world, string \<times> string) action" where
  "generateSecret sha256 = bind (rand_bytes 32) (\<lambda>b. let raw = hex_encode b in ret (raw, sha256 raw))"

definition hashAPIKey :: "(string \<Rightarrow> string) \<Rightarrow> string \<Rightarrow> string" where
  "hashAPIKey sha256 raw = sha256 raw"

section \<open>Usecase\<close>

record create_merchant_input =
  cm_Name :: string
  cm_Email :: string
  cm_Phone :: string
  cm_WebhookURL :: string
  cm_IsProduction :: bool
  cm_FeeConfig :: fee_config

record create_merchant_output =
  co_ID :: string
  co_Name :: string
  co_Status :: merchant_status
  co_APIKey :: string
  co_WebhookSecret :: string
  co_CreatedAt :: time

definition merchant_Create :: "(string \<Rightarrow> string) \<Rightarrow> create_merchant_input \<Rightarrow> (world, create_merchant_output) action" where
  "merchant_Create sha256 input =
     bind (attempt (merchant_FindByEmail (cm_Email input))) (\<lambda>existing.
     case existing of
       Inr _ \<Rightarrow> throw (Conflict (''email '' @ cm_Email input @ '' is already registered''))
     | Inl findErr \<Rightarrow>
         if errors_As findErr = None then throw findErr
         else
           bind (generateAPIKey sha256 (cm_IsProduction input)) (\<lambda>(rawKey, hashedKey).
           bind (generateSecret sha256) (\<lambda>(rawSecret, hashedSecret).
           bind (wrap ''create merchant''
             (merchant_Save
                \<lparr>m_ID = '''', m_Name = cm_Name input, m_Email = cm_Email input, m_Phone = cm_Phone input,
                 m_Status = MerchantStatusPending, m_APIKey = hashedKey, m_WebhookURL = cm_WebhookURL input,
                 m_WebhookSecret = hashedSecret, m_WebhookSigningKey = rawSecret,
                 m_FeeConfig = cm_FeeConfig input, m_IsProduction = cm_IsProduction input,
                 m_DailyCashoutLimit = 0, m_DeletedAt = None, m_CreatedAt = zero_time, m_UpdatedAt = zero_time\<rparr>)) (\<lambda>m.
           ret \<lparr>co_ID = m_ID m, co_Name = m_Name m, co_Status = m_Status m, co_APIKey = rawKey,
                co_WebhookSecret = rawSecret, co_CreatedAt = m_CreatedAt m\<rparr>))))"

record merchant_output =
  mp_ID :: string
  mp_Name :: string
  mp_Email :: string
  mp_Phone :: string
  mp_Status :: merchant_status
  mp_FeeConfig :: fee_config
  mp_WebhookURL :: string
  mp_Balance :: int64
  mp_CreatedAt :: time
  mp_UpdatedAt :: time

definition toMerchantOutput :: "merchant \<Rightarrow> int64 \<Rightarrow> merchant_output" where
  "toMerchantOutput m balance =
     \<lparr>mp_ID = m_ID m, mp_Name = m_Name m, mp_Email = m_Email m, mp_Phone = m_Phone m, mp_Status = m_Status m,
      mp_FeeConfig = m_FeeConfig m, mp_WebhookURL = m_WebhookURL m, mp_Balance = balance,
      mp_CreatedAt = m_CreatedAt m, mp_UpdatedAt = m_UpdatedAt m\<rparr>"

text \<open>A balance that cannot be read is shown as 0.\<close>

definition balance_or_zero :: "string \<Rightarrow> (world, int64) action" where
  "balance_or_zero i =
     bind (attempt (mutation_GetBalance i)) (\<lambda>r. ret (case r of Inr b \<Rightarrow> b | Inl _ \<Rightarrow> 0))"

definition merchant_Get :: "string \<Rightarrow> (world, merchant_output) action" where
  "merchant_Get i =
     bind (merchant_FindByID i) (\<lambda>m.
     bind (balance_or_zero i) (\<lambda>balance.
     ret (toMerchantOutput m balance)))"

record update_merchant_input =
  um_MerchantID :: string
  um_Name :: string
  um_Email :: string
  um_Phone :: string
  um_WebhookURL :: string

definition merchant_UpdateProfile :: "update_merchant_input \<Rightarrow> (world, merchant_output) action" where
  "merchant_UpdateProfile input =
     bind (merchant_FindByID (um_MerchantID input)) (\<lambda>m.
     let m = (if um_Name input \<noteq> '''' then m\<lparr>m_Name := um_Name input\<rparr> else m);
         m = (if um_Email input \<noteq> '''' then m\<lparr>m_Email := um_Email input\<rparr> else m);
         m = (if um_Phone input \<noteq> '''' then m\<lparr>m_Phone := um_Phone input\<rparr> else m);
         m = (if um_WebhookURL input \<noteq> '''' then m\<lparr>m_WebhookURL := um_WebhookURL input\<rparr> else m)
     in bind (wrap ''update merchant'' (merchant_Update m)) (\<lambda>m.
        bind (balance_or_zero (m_ID m)) (\<lambda>balance.
        ret (toMerchantOutput m balance))))"

definition merchant_Suspend :: "string \<Rightarrow> (world, unit) action" where
  "merchant_Suspend i =
     bind (merchant_FindByID i) (\<lambda>m.
     bind (merchant_Update (m\<lparr>m_Status := MerchantStatusSuspended\<rparr>)) (\<lambda>_. ret ()))"

definition merchant_Activate :: "string \<Rightarrow> (world, unit) action" where
  "merchant_Activate i =
     bind (merchant_FindByID i) (\<lambda>m.
     bind (merchant_Update (m\<lparr>m_Status := MerchantStatusActive\<rparr>)) (\<lambda>_. ret ()))"

definition merchant_RegenerateAPIKey :: "(string \<Rightarrow> string) \<Rightarrow> string \<Rightarrow> (world, string) action" where
  "merchant_RegenerateAPIKey sha256 i =
     bind (merchant_FindByID i) (\<lambda>m.
     bind (generateAPIKey sha256 (m_IsProduction m)) (\<lambda>(rawKey, hashedKey).
     bind (wrap ''update api key'' (merchant_Update (m\<lparr>m_APIKey := hashedKey\<rparr>))) (\<lambda>_.
     ret rawKey)))"

record add_bank_account_input =
  ab_MerchantID :: string
  ab_BankCode :: bank_code
  ab_AccountNumber :: string
  ab_AccountName :: string
  ab_SetAsPrimary :: bool

record bank_account_output =
  bo_ID :: string
  bo_BankCode :: bank_code
  bo_AccountNumber :: string
  bo_AccountName :: string
  bo_IsPrimary :: bool
  bo_IsVerified :: bool
  bo_CreatedAt :: time

definition toBankAccountOutput :: "bank_account \<Rightarrow> bank_account_output" where
  "toBankAccountOutput a =
     \<lparr>bo_ID = ba_ID a, bo_BankCode = ba_BankCode a, bo_AccountNumber = ba_AccountNumber a,
      bo_AccountName = ba_AccountName a, bo_IsPrimary = ba_IsPrimary a, bo_IsVerified = ba_IsVerified a,
      bo_CreatedAt = ba_CreatedAt a\<rparr>"

definition AddBankAccount :: "add_bank_account_input \<Rightarrow> (world, bank_account_output) action" where
  "AddBankAccount input =
     bind (RunInTx (
       bind (CountBankAccounts (ab_MerchantID input)) (\<lambda>count.
       if count \<ge> MaxBankAccounts
       then throw (UnprocessableEntity (''maximum '' @ fmt_d MaxBankAccounts @ '' bank accounts allowed''))
       else
         bind (when_do (ab_SetAsPrimary input)
                 (wrap ''unset primary'' (UnsetPrimaryBankAccounts (ab_MerchantID input)))) (\<lambda>_.
         SaveBankAccount
           \<lparr>ba_ID = '''', ba_MerchantID = ab_MerchantID input, ba_BankCode = ab_BankCode input,
            ba_AccountNumber = ab_AccountNumber input, ba_AccountName = ab_AccountName input,
            ba_IsPrimary = ab_SetAsPrimary input, ba_IsVerified = False,
            ba_CreatedAt = zero_time, ba_UpdatedAt = zero_time\<rparr>)))) (\<lambda>a.
     ret (toBankAccountOutput a))"

definition ListBankAccounts :: "string \<Rightarrow> (world, bank_account_output list) action" where
  "ListBankAccounts i =
     bind (FindBankAccountsByMerchantID i) (\<lambda>accounts. ret (map toBankAccountOutput accounts))"

definition RemoveBankAccount :: "string \<Rightarrow> string \<Rightarrow> (world, unit) action" where
  "RemoveBankAccount merchantID accountID =
     bind (FindBankAccountByID accountID) (\<lambda>a.
     if ba_MerchantID a \<noteq> merchantID then throw (NotFound ''bank account not found'')
     else if ba_IsPrimary a
     then throw (UnprocessableEntity ''cannot remove primary bank account - set another as primary first'')
     else DeleteBankAccount accountID)"

definition SetPrimaryBankAccount :: "string \<Rightarrow> string \<Rightarrow> (world, unit) action" where
  "SetPrimaryBankAccount merchantID accountID =
     bind (FindBankAccountByID accountID) (\<lambda>a.
     if ba_MerchantID a \<noteq> merchantID then throw (NotFound ''bank account not found'')
     else
       bind (wrap ''unset primary'' (UnsetPrimaryBankAccounts merchantID)) (\<lambda>_.
       bind (UpdateBankAccount (a\<lparr>ba_IsPrimary := True\<rparr>)) (\<lambda>_. ret ())))"

record webhook_event_output =
  wo_ID :: string
  wo_EventType :: string
  wo_TargetURL :: string
  wo_AttemptCount :: int
  wo_DeliveredAt :: "time option"
  wo_FailedAt :: "time option"
  wo_NextRetryAt :: time
  wo_CreatedAt :: time

record webhook_event_list_output =
  wl_Items :: "webhook_event_output list"
  wl_Total :: int64
  wl_Page :: int
  wl_Limit :: int

definition ListWebhookEvents :: "string \<Rightarrow> int \<Rightarrow> int \<Rightarrow> (world, webhook_event_list_output) action" where
  "ListWebhookEvents merchantID page limit =
     bind (outbox_ListByMerchant merchantID page limit) (\<lambda>(rows, total).
     ret \<lparr>wl_Items = map (\<lambda>e. \<lparr>wo_ID = ob_ID e, wo_EventType = ob_EventType e, wo_TargetURL = ob_TargetUrl e,
              wo_AttemptCount = ob_AttemptCount e, wo_DeliveredAt = ob_DeliveredAt e, wo_FailedAt = ob_FailedAt e,
              wo_NextRetryAt = ob_NextRetryAt e, wo_CreatedAt = ob_CreatedAt e\<rparr>) rows,
          wl_Total = total, wl_Page = page, wl_Limit = (if limit < 1 then 20 else limit)\<rparr>)"

section \<open>API-key authentication\<close>

text \<open>The header value is empty when absent. The result is the merchant id put in the context.\<close>

definition APIKeyAuth :: "(string \<Rightarrow> string) \<Rightarrow> string \<Rightarrow> (world, string) action" where
  "APIKeyAuth sha256 raw =
     (if raw = '''' then throw (Unauthorized ''missing X-API-Key header'')
      else
        bind (attempt (merchant_FindByAPIKey (hashAPIKey sha256 raw))) (\<lambda>r.
        case r of
          Inl _ \<Rightarrow> throw (Unauthorized ''invalid API key'')
        | Inr m \<Rightarrow>
            if \<not> merchant_CanTransact m
            then throw (Forbidden (''merchant account is '' @ merchant_status_str (m_Status m)))
            else ret (m_ID m)))"

section \<open>Effects\<close>

lemma table_ok_filter: "table_ok ok C rows \<Longrightarrow> table_ok ok C (filter P rows)"
  by (auto simp: table_ok_def unique_rows_def list_all_iff sorted_wrt_filter)

lemma merchant_exists_map:
  "map m_ID ms = map m_ID (db_merchants db) \<Longrightarrow> merchant_exists (db\<lparr>db_merchants := ms\<rparr>) i = merchant_exists db i"
  by (simp add: merchant_exists_def list_ex_iff) (metis (no_types, lifting) image_iff list.set_map)

lemma kept_schema_merchants:
  assumes "schema_ok db \<Longrightarrow> table_ok merchant_row_ok merchant_conflict ms" "map m_ID ms = map m_ID (db_merchants db)"
  shows "kept schema_ok db (db\<lparr>db_merchants := ms\<rparr>)"
  using assms
  by (auto simp: kept_def schema_ok_def merchant_exists_map payment_exists_def)

lemma kept_schema_bank_accounts:
  assumes "schema_ok db \<Longrightarrow> table_ok bank_account_row_ok bank_account_conflict rows"
  shows "kept schema_ok db (db\<lparr>db_bank_accounts := rows\<rparr>)"
  using assms by (auto simp: kept_def schema_ok_def merchant_exists_def payment_exists_def)

lemma obeys_merchant_Update: "appends.obeys (merchant_Update m)" "schema.obeys (merchant_Update m)"
proof -
  show "appends.obeys (merchant_Update m)"
    unfolding merchant_Update_def by (intro appends.db_intros appends.obeys_exec) auto
  have "kept schema_ok db (db\<lparr>db_merchants := rows\<rparr>)"
    if "checked_update merchant_row_ok merchant_conflict (\<lambda>r. m_ID r = m_ID m \<and> live r)
          (\<lambda>r. m\<lparr>m_ID := m_ID r, m_DeletedAt := m_DeletedAt r, m_CreatedAt := m_CreatedAt r, m_UpdatedAt := t\<rparr>)
          (db_merchants db) = Inr rows" for db rows t
  proof (rule kept_schema_merchants)
    show "table_ok merchant_row_ok merchant_conflict rows" if "schema_ok db"
      by (rule table_ok_update [OF _ _ _ \<open>checked_update _ _ _ _ _ = _\<close>])
        (use that in \<open>auto simp: schema_ok_def merchant_conflict_def\<close>)
    show "map m_ID rows = map m_ID (db_merchants db)"
      using that by (auto intro: map_update_where)
  qed
  then show "schema.obeys (merchant_Update m)"
    unfolding merchant_Update_def
    by (intro schema.db_intros schema.obeys_exec) (auto simp del: checked_update_Inr)
qed

lemma obeys_bank_updates:
  "appends.obeys (UpdateBankAccount a)" "schema.obeys (UpdateBankAccount a)"
  "appends.obeys (UnsetPrimaryBankAccounts i)" "schema.obeys (UnsetPrimaryBankAccounts i)"
  "appends.obeys (DeleteBankAccount i)" "schema.obeys (DeleteBankAccount i)"
proof -
  show "appends.obeys (UpdateBankAccount a)" "appends.obeys (UnsetPrimaryBankAccounts i)" "appends.obeys (DeleteBankAccount i)"
    unfolding UpdateBankAccount_def UnsetPrimaryBankAccounts_def DeleteBankAccount_def
    by (intro appends.db_intros appends.obeys_exec; auto)+
  show "schema.obeys (UpdateBankAccount a)"
    unfolding UpdateBankAccount_def
    by (intro schema.db_intros schema.obeys_exec)
      (auto simp del: checked_update_Inr simp: schema_ok_def bank_account_conflict_def
        intro!: kept_schema_bank_accounts elim!: table_ok_update [rotated -1])
  show "schema.obeys (DeleteBankAccount i)"
    unfolding DeleteBankAccount_def
    by (intro schema.db_intros schema.obeys_exec)
      (auto simp: schema_ok_def intro!: kept_schema_bank_accounts table_ok_filter)
  have "table_ok bank_account_row_ok bank_account_conflict
      (update_where P (\<lambda>a. a\<lparr>ba_IsPrimary := False, ba_UpdatedAt := t\<rparr>) rows)"
    if "table_ok bank_account_row_ok bank_account_conflict rows" for P t and rows :: "bank_account list"
    by (rule table_ok_update_same_key [OF that]) (auto simp: bank_account_row_ok_def bank_account_conflict_def split: if_splits)
  then show "schema.obeys (UnsetPrimaryBankAccounts i)"
    unfolding UnsetPrimaryBankAccounts_def
    by (intro schema.db_intros schema.obeys_exec) (auto simp: schema_ok_def intro!: kept_schema_bank_accounts)
qed

lemma obeys_merchant_SoftDelete: "appends.obeys (merchant_SoftDelete i)" "schema.obeys (merchant_SoftDelete i)"
proof -
  show "appends.obeys (merchant_SoftDelete i)"
    unfolding merchant_SoftDelete_def by (intro appends.db_intros appends.obeys_exec) auto
  have "table_ok merchant_row_ok merchant_conflict (update_where P (\<lambda>r. r\<lparr>m_DeletedAt := Some t, m_UpdatedAt := u\<rparr>) rows)"
    if "table_ok merchant_row_ok merchant_conflict rows" for P t u and rows :: "merchant list"
    by (rule table_ok_update_same_key [OF that]) (auto simp: merchant_row_ok_def merchant_conflict_def split: if_splits)
  then show "schema.obeys (merchant_SoftDelete i)"
    unfolding merchant_SoftDelete_def
    by (intro schema.db_intros schema.obeys_exec)
      (auto simp: schema_ok_def intro!: kept_schema_merchants map_update_where)
qed

lemma obeys_merchant_inserts:
  "appends.obeys (merchant_Save m)" "schema.obeys (merchant_Save m)"
  "appends.obeys (SaveBankAccount a)" "schema.obeys (SaveBankAccount a)"
  unfolding merchant_Save_def SaveBankAccount_def
  by (intro appends.db_intros appends.obeys_exec schema.db_intros schema.obeys_exec;
      auto simp: Let_def dest: append_only_inserts kept_schema_inserts)+

lemma obeys_merchant_reads:
  "appends.obeys (merchant_FindByID i)" "schema.obeys (merchant_FindByID i)"
  "appends.obeys (merchant_FindByAPIKey i)" "schema.obeys (merchant_FindByAPIKey i)"
  "appends.obeys (merchant_FindByEmail i)" "schema.obeys (merchant_FindByEmail i)"
  "appends.obeys (FindBankAccountByID i)" "schema.obeys (FindBankAccountByID i)"
  "appends.obeys (CountBankAccounts i)" "schema.obeys (CountBankAccounts i)"
  "appends.obeys (balance_or_zero i)" "schema.obeys (balance_or_zero i)"
  unfolding merchant_FindByID_def merchant_FindByAPIKey_def merchant_FindByEmail_def FindBankAccountByID_def
    CountBankAccounts_def balance_or_zero_def mutation_GetBalance_def
  by (intro appends.db_intros schema.db_intros)+

lemma obeys_keys:
  "appends.obeys (generateAPIKey sha b)" "schema.obeys (generateAPIKey sha b)"
  "appends.obeys (generateSecret sha)" "schema.obeys (generateSecret sha)"
  unfolding generateAPIKey_def generateSecret_def Let_def by (intro appends.db_intros schema.db_intros)+

lemmas merchant_obeys =
  obeys_merchant_Update obeys_bank_updates obeys_merchant_SoftDelete obeys_merchant_inserts obeys_merchant_reads obeys_keys

lemma obeys_merchant_usecase:
  "appends.obeys (merchant_Create sha input)" "schema.obeys (merchant_Create sha input)"
  "appends.obeys (merchant_UpdateProfile upd)" "schema.obeys (merchant_UpdateProfile upd)"
  "appends.obeys (merchant_Suspend i)" "schema.obeys (merchant_Suspend i)"
  "appends.obeys (merchant_Activate i)" "schema.obeys (merchant_Activate i)"
  "appends.obeys (merchant_RegenerateAPIKey sha i)" "schema.obeys (merchant_RegenerateAPIKey sha i)"
  "appends.obeys (AddBankAccount ab)" "schema.obeys (AddBankAccount ab)"
  "appends.obeys (RemoveBankAccount i j)" "schema.obeys (RemoveBankAccount i j)"
  "appends.obeys (SetPrimaryBankAccount i j)" "schema.obeys (SetPrimaryBankAccount i j)"
  unfolding merchant_Create_def merchant_UpdateProfile_def merchant_Suspend_def merchant_Activate_def
    merchant_RegenerateAPIKey_def AddBankAccount_def RemoveBankAccount_def SetPrimaryBankAccount_def Let_def
  by (intro appends.db_intros schema.db_intros appends.obeys_RunInTx schema.obeys_RunInTx merchant_obeys)+

section \<open>Properties\<close>

text \<open>C29: PostgreSQL rejects FOR UPDATE on an aggregate, so on it \<open>AddBankAccount\<close> never succeeds: the account
  count is read with such a query, the error is not an application error (the client sees a 500), and no
  table changes.\<close>

theorem AddBankAccount_fails_on_postgres:
  assumes "\<not> w_agg_lock w"
  shows "\<exists>e w'. AddBankAccount input w = (Inl e, w') \<and> http_status e = 500 \<and> w_db w' = w_db w"
proof -
  have e: "errors_As sql_error = None" by (simp add: sql_error_def)
  have "wp (AddBankAccount input) (\<lambda>_ _. False) (\<lambda>e w'. http_status e = 500 \<and> w_db w' = w_db w) w"
    using assms e
    by (simp add: AddBankAccount_def wp_bind wp_RunInTx CountBankAccounts_def wp_wrap wp_query begin_tx_def tick_def)
  then show ?thesis by (auto simp: wp_def split: prod.splits sum.splits)
qed

theorem AddBankAccount_fails_on_postgres_witness:
  "\<exists>e w'. AddBankAccount \<lparr>ab_MerchantID = ''M1'', ab_BankCode = BankBCA, ab_AccountNumber = ''12345'',
      ab_AccountName = ''A'', ab_SetAsPrimary = True\<rparr> (quiet_world (sample_db False) 0) = (Inl e, w') \<and> http_status e = 500"
  using AddBankAccount_fails_on_postgres [of "quiet_world (sample_db False) 0"]
  by (fastforce simp: quiet_world_def)

definition accounts_of :: "database \<Rightarrow> string \<Rightarrow> bank_account list" where
  "accounts_of db i = filter (\<lambda>a. ba_MerchantID a = i) (db_bank_accounts db)"

definition bank_limit :: "database \<Rightarrow> bool" where
  "bank_limit db \<longleftrightarrow> (\<forall>i. int (length (accounts_of db i)) \<le> MaxBankAccounts)"

lemma length_accounts: "length (accounts_of db i) = count_list (map ba_MerchantID (db_bank_accounts db)) i"
proof -
  have "length (filter (\<lambda>a. ba_MerchantID a = i) rows) = count_list (map ba_MerchantID rows) i" for rows :: "bank_account list"
    by (induction rows) auto
  then show ?thesis by (simp add: accounts_of_def)
qed

lemma primary_unique:
  assumes "schema_ok db"
  shows "length (filter ba_IsPrimary (accounts_of db i)) \<le> 1"
proof -
  let ?rows = "filter ba_IsPrimary (accounts_of db i)"
  have "sorted_wrt (\<lambda>r s. \<not> bank_account_conflict s r) ?rows"
    using assms by (auto simp: schema_ok_def table_ok_def unique_rows_def accounts_of_def intro: sorted_wrt_filter)
  moreover have "set ?rows \<subseteq> {a. ba_MerchantID a = i \<and> ba_IsPrimary a}" by (auto simp: accounts_of_def)
  ultimately show ?thesis
    by (cases ?rows; cases "tl ?rows") (auto simp: bank_account_conflict_def)
qed

text \<open>On a database that does accept the query, \<open>AddBankAccount\<close> keeps the limit of three accounts per
  merchant and never leaves two primary accounts; a success adds exactly one account, unverified and primary
  exactly when asked; every error leaves the database as it was.\<close>

theorem AddBankAccount_limit:
  assumes "schema_ok (w_db w)" and "bank_limit (w_db w)"
  shows "wp (AddBankAccount input)
    (\<lambda>out w'. bank_limit (w_db w') \<and> schema_ok (w_db w') \<and> \<not> bo_IsVerified out
        \<and> bo_IsPrimary out = ab_SetAsPrimary input
        \<and> length (accounts_of (w_db w') (ab_MerchantID input)) = Suc (length (accounts_of (w_db w) (ab_MerchantID input)))
        \<and> (\<forall>i. length (filter ba_IsPrimary (accounts_of (w_db w') i)) \<le> 1))
    (\<lambda>_ w'. w_db w' = w_db w) w"
proof -
  have main: "wp (AddBankAccount input)
    (\<lambda>out w'. \<not> bo_IsVerified out \<and> bo_IsPrimary out = ab_SetAsPrimary input
        \<and> map ba_MerchantID (db_bank_accounts (w_db w')) = map ba_MerchantID (db_bank_accounts (w_db w)) @ [ab_MerchantID input]
        \<and> int (length (accounts_of (w_db w) (ab_MerchantID input))) < MaxBankAccounts)
    (\<lambda>_ w'. w_db w' = w_db w) w"
    by (auto simp: AddBankAccount_def wp_simps wp_RunInTx CountBankAccounts_def UnsetPrimaryBankAccounts_def
        SaveBankAccount_def wp_query wp_exec uuid_param_def insert_bank_account_def Let_def toBankAccountOutput_def
        accounts_of_def map_update_where split: sum.splits prod.splits)
  have "schema.obeys (AddBankAccount input)" by (rule obeys_merchant_usecase)
  then have "wp (AddBankAccount input) (\<lambda>_ w'. schema_ok (w_db w')) (\<lambda>_ _. True) w"
    using assms(1) by (auto simp: schema.obeys_wp kept_def elim!: wp_mono dest!: spec [of _ w])
  with main have "wp (AddBankAccount input)
    (\<lambda>out w'. (\<not> bo_IsVerified out \<and> bo_IsPrimary out = ab_SetAsPrimary input
        \<and> map ba_MerchantID (db_bank_accounts (w_db w')) = map ba_MerchantID (db_bank_accounts (w_db w)) @ [ab_MerchantID input]
        \<and> int (length (accounts_of (w_db w) (ab_MerchantID input))) < MaxBankAccounts) \<and> schema_ok (w_db w'))
    (\<lambda>_ w'. w_db w' = w_db w \<and> True) w"
    unfolding wp_conj by blast
  then show ?thesis
    by (rule wp_mono) (use assms(2) in \<open>auto simp: primary_unique [unfolded One_nat_def] length_accounts bank_limit_def\<close>)
qed

lemma sample_db_ok [simp]: "schema_ok (sample_db b)"
  by (simp add: schema_ok_def sample_db_def empty_database_def table_ok_def unique_rows_def sample_merchant_def
      merchant_row_ok_def)

theorem AddBankAccount_limit_witness:
  "wp (AddBankAccount \<lparr>ab_MerchantID = ''M1'', ab_BankCode = BankBCA, ab_AccountNumber = ''12345'',
        ab_AccountName = ''A'', ab_SetAsPrimary = True\<rparr>)
     (\<lambda>out w'. bank_limit (w_db w') \<and> bo_IsPrimary out) (\<lambda>_ w'. w_db w' = sample_db True)
     ((quiet_world (sample_db True) 0)\<lparr>w_agg_lock := True\<rparr>)"
proof -
  have "bank_limit (sample_db True)"
    by (simp add: bank_limit_def accounts_of_def sample_db_def empty_database_def MaxBankAccounts_def)
  then show ?thesis
    by (intro wp_mono [OF AddBankAccount_limit]) simp_all
qed

lemma length_hex_encode [simp]: "length (hex_encode bs) = 2 * length bs"
  by (induction bs) (simp_all add: hex_encode_def)

lemma find_new_merchant:
  assumes "\<forall>r \<in> set rows. \<not> merchant_conflict m r" "live m"
  shows "find (\<lambda>r. m_APIKey r = m_APIKey m \<and> live r) (rows @ [m]) = Some m"
proof -
  have "find (\<lambda>r. m_APIKey r = m_APIKey m \<and> live r) rows = None"
    using assms by (auto simp: find_None_all merchant_conflict_def live_def)
  then show ?thesis using assms(2) by (simp add: find_append)
qed

lemma wp_merchant_Save:
  assumes "\<And>row. row = m\<lparr>m_ID := fresh_uuid w, m_DailyCashoutLimit := 0, m_DeletedAt := None,
                      m_CreatedAt := w_now w, m_UpdatedAt := w_now w\<rparr> \<Longrightarrow>
      \<forall>r \<in> set (db_merchants (w_db w)). \<not> merchant_conflict row r \<Longrightarrow>
      Q (m\<lparr>m_ID := m_ID row, m_CreatedAt := m_CreatedAt row, m_UpdatedAt := m_UpdatedAt row\<rparr>)
        ((tick w)\<lparr>w_db := (w_db w)\<lparr>db_merchants := db_merchants (w_db w) @ [row]\<rparr>\<rparr>)"
    and "\<And>e. \<not> is_panic e \<Longrightarrow> E e (abort_tx (tick w))"
  shows "wp (merchant_Save m) Q E w"
  using assms
  by (auto simp: merchant_Save_def wp_simps wp_exec Let_def insert_merchant_def split: sum.splits)

text \<open>Creating a merchant stores a pending, live merchant whose API-key column is the hash of the raw key
  returned to the caller, so that the look-up the middleware makes with that raw key finds exactly this
  merchant; the key is \<open>wpay_live_\<close> or \<open>wpay_test_\<close> and 32 hex digits; a registered e-mail and every
  database error leave the merchants unchanged.\<close>

theorem merchant_Create_key:
  "wp (merchant_Create sha input)
    (\<lambda>out w'. \<exists>m \<in> set (db_merchants (w_db w')).
        m_ID m = co_ID out \<and> m_APIKey m = hashAPIKey sha (co_APIKey out) \<and> m_Status m = MerchantStatusPending
        \<and> live m \<and> length (co_APIKey out) = 42
        \<and> take 10 (co_APIKey out) = (if cm_IsProduction input then ''wpay_live_'' else ''wpay_test_'')
        \<and> find (\<lambda>r. m_APIKey r = hashAPIKey sha (co_APIKey out) \<and> live r) (db_merchants (w_db w')) = Some m)
    (\<lambda>_ w'. db_merchants (w_db w') = db_merchants (w_db w)) w"
proof -
  have "wp (merchant_FindByEmail e) (\<lambda>_ w'. w_db w' = w_db w) (\<lambda>e w'. w_db w' = w_db w \<and> \<not> is_panic e) w" for e
    by (auto simp: merchant_FindByEmail_def wp_simps wp_query sql_error_def split: option.splits)
  note find = wp_mono [OF this]
  show ?thesis
    unfolding merchant_Create_def generateAPIKey_def generateSecret_def Let_def wp_bind wp_attempt wp_case_sum wp_if
      wp_throw wp_case_prod wp_rand_bytes wp_ret wp_wrap
    by (rule find)
      (auto intro!: wp_merchant_Save find_new_merchant [of _ "m :: merchant" for m, THEN trans [rotated]]
        simp: hashAPIKey_def live_def)
qed

text \<open>A request that passes API-key authentication carries a key whose hash belongs to a live, active merchant
  with a webhook URL, and acts as that merchant; a missing or unknown key and any database error are a 401,
  an account that may not transact is a 403; nothing is written.\<close>

theorem APIKeyAuth_sound:
  "wp (APIKeyAuth sha raw)
    (\<lambda>i w'. w_db w' = w_db w \<and> raw \<noteq> '''' \<and>
       (\<exists>m \<in> set (db_merchants (w_db w)). m_ID m = i \<and> m_APIKey m = hashAPIKey sha raw \<and> live m
          \<and> m_Status m = MerchantStatusActive \<and> m_WebhookURL m \<noteq> ''''))
    (\<lambda>e w'. w_db w' = w_db w \<and> (http_status e = 401 \<or> http_status e = 403)) w"
  by (auto simp: APIKeyAuth_def merchant_FindByAPIKey_def wp_simps wp_query merchant_CanTransact_def sql_error_def
      split: option.splits dest!: find_Some_in)

end
