(* ===== verification/Calendar.thy ===== *)
theory Calendar
  imports Outbox
begin

text \<open>
  \<open>time.Parse("2006-01-02", s)\<close>, which the list endpoints and the holiday administration use:
  four digits, two digits, two digits, separated by dashes, a real calendar day; the value is
  midnight UTC of that day.
\<close>

definition is_leap :: "int \<Rightarrow> bool" where
  "is_leap y \<longleftrightarrow> y mod 4 = 0 \<and> (y mod 100 \<noteq> 0 \<or> y mod 400 = 0)"

definition days_in_month :: "int \<Rightarrow> nat \<Rightarrow> nat" where
  "days_in_month y m =
     (if m = 2 then (if is_leap y then 29 else 28)
      else if m = 4 \<or> m = 6 \<or> m = 9 \<or> m = 11 then 30 else 31)"

fun days_before_month :: "int \<Rightarrow> nat \<Rightarrow> nat" where
  "days_before_month y m = (if m \<le> 1 then 0 else days_before_month y (m - 1) + days_in_month y (m - 1))"

declare days_before_month.simps [simp del]

definition days_before_year :: "int \<Rightarrow> int" where
  "days_before_year y = (let z = y - 1 in 365 * z + z div 4 - z div 100 + z div 400)"

text \<open>Day number, 0 on 1970-01-01.\<close>

definition day_number :: "int \<Rightarrow> nat \<Rightarrow> nat \<Rightarrow> int" where
  "day_number y m d = days_before_year y - days_before_year 1970 + int (days_before_month y m) + int d - 1"

definition parse_day :: "string \<Rightarrow> int option" where
  "parse_day s =
     (case split_on (CHR ''-'') s of
        [y, m, d] \<Rightarrow>
          (if length y = 4 \<and> length m = 2 \<and> length d = 2 \<and> list_all is_digit (y @ m @ d)
              \<and> 1 \<le> digits_val m \<and> digits_val m \<le> 12
              \<and> 1 \<le> digits_val d \<and> digits_val d \<le> days_in_month (int (digits_val y)) (digits_val m)
           then Some (day_number (int (digits_val y)) (digits_val m) (digits_val d)) else None)
      | _ \<Rightarrow> None)"

definition parse_date :: "string \<Rightarrow> time option" where
  "parse_date s = map_option (\<lambda>n. n * day) (parse_day s)"

text \<open>
  \<open>time.Parse(time.RFC3339, s)\<close>: the date, T, hours of one or two digits, minutes and seconds,
  an optional fraction of the second cut to nanoseconds, and Z or an offset from UTC.
\<close>

definition two_digits :: "nat \<Rightarrow> string \<Rightarrow> nat option" where
  "two_digits bound s =
     (if length s = 2 \<and> list_all is_digit s \<and> digits_val s < bound then Some (digits_val s) else None)"

definition parse_hour :: "string \<Rightarrow> (nat \<times> string) option" where
  "parse_hour s =
     (case s of
        a # b # r \<Rightarrow>
          if is_digit a \<and> is_digit b then (if digits_val [a, b] < 24 then Some (digits_val [a, b], r) else None)
          else if is_digit a then Some (digits_val [a], b # r) else None
      | _ \<Rightarrow> None)"

definition nanoseconds :: "string \<Rightarrow> nat" where
  "nanoseconds ds = digits_val (take 9 (ds @ replicate 9 (CHR ''0'')))"

definition parse_fraction :: "string \<Rightarrow> nat \<times> string" where
  "parse_fraction s =
     (case s of
        c # r \<Rightarrow>
          if (c = CHR ''.'' \<or> c = CHR '','') \<and> takeWhile is_digit r \<noteq> []
          then (nanoseconds (takeWhile is_digit r), dropWhile is_digit r) else (0, s)
      | [] \<Rightarrow> (0, s))"

definition parse_offset :: "string \<Rightarrow> int option" where
  "parse_offset s =
     (if s = ''Z'' then Some 0
      else
        (case s of
           [sg, a, b, colon, c, d] \<Rightarrow>
             (case (two_digits 25 [a, b], two_digits 61 [c, d]) of
                (Some h, Some m) \<Rightarrow>
                  if colon = CHR '':'' \<and> (sg = CHR ''+'' \<or> sg = CHR ''-'')
                  then Some ((if sg = CHR ''-'' then -1 else 1) * int ((h * 60 + m) * 60)) else None
              | _ \<Rightarrow> None)
         | _ \<Rightarrow> None))"

definition parse_clock :: "string \<Rightarrow> int option" where
  "parse_clock s =
     (case parse_hour s of
        Some (h, c1 # m1 # m2 # c2 # s1 # s2 # r) \<Rightarrow>
          (case (two_digits 60 [m1, m2], two_digits 60 [s1, s2]) of
             (Some m, Some sec) \<Rightarrow>
               if c1 = CHR '':'' \<and> c2 = CHR '':''
               then (case parse_fraction r of (ns, zone) \<Rightarrow>
                 map_option (\<lambda>off. (int ((h * 60 + m) * 60 + sec) - off) * second + int ns) (parse_offset zone))
               else None
           | _ \<Rightarrow> None)
      | _ \<Rightarrow> None)"

definition parse_rfc3339 :: "string \<Rightarrow> time option" where
  "parse_rfc3339 s =
     (case (parse_date (take 10 s), drop 10 s) of
        (Some d, c # r) \<Rightarrow> if c = CHR ''T'' then map_option (\<lambda>t. d + t) (parse_clock r) else None
      | _ \<Rightarrow> None)"

definition optional_time :: "string \<Rightarrow> time option" where
  "optional_time s = (if s \<noteq> '''' then parse_rfc3339 s else None)"

definition optional_date :: "string \<Rightarrow> time option" where
  "optional_date s = (if s \<noteq> '''' then parse_date s else None)"

end
