(* ===== verification/Payments.thy ===== *)
theory Payments
  imports Merchants Fees Calendar
begin

text \<open>
  Cash-in: the payment and audit repositories
  (internal/infrastructure/database/postgres/payment_repo.go, audit_repo.go), the payment
  usecase (internal/usecase/impl/payment.go) and the expiry worker
  (internal/infrastructure/worker/expiry_worker.go). The provider adapters are the
  \<open>PaymentGateway\<close> port of internal/domain/gateway/gateway.go, a record of functions here.
\<close>

section \<open>The gateway port\<close>

record create_va_request =
  vr_ExternalID :: string
  vr_BankCode :: bank_code
  vr_Amount :: int64
  vr_Currency :: currency
  vr_CustomerName :: string
  vr_CustomerEmail :: string
  vr_CustomerPhone :: string
  vr_Description :: string
  vr_ExpiryAt :: time

record create_va_response =
  vs_ExternalID :: string
  vs_ProviderPaymentID :: string
  vs_VANumber :: string
  vs_BillerCode :: string
  vs_BankCode :: bank_code
  vs_Amount :: int64
  vs_ExpiryAt :: time

record create_qris_request =
  qr_ExternalID :: string
  qr_Amount :: int64
  qr_Currency :: currency
  qr_CustomerName :: string
  qr_CustomerEmail :: string
  qr_CustomerPhone :: string
  qr_Description :: string
  qr_ExpiryAt :: time

record create_qris_response =
  qs_ExternalID :: string
  qs_ProviderPaymentID :: string
  qs_QRString :: string
  qs_QRImageURL :: string
  qs_Amount :: int64
  qs_ExpiryAt :: time

record webhook_event =
  ev_ExternalID :: string
  ev_Status :: payment_status
  ev_PaidAt :: "time option"
  ev_Amount :: int64
  ev_RawPayload :: string

type_synonym headers = "(string \<times> string) list"

record payment_gateway =
  pg_CreateVA :: "create_va_request \<Rightarrow> create_va_response res"
  pg_CreateQRIS :: "create_qris_request \<Rightarrow> create_qris_response res"
  pg_CancelPayment :: "string \<Rightarrow> unit res"
  pg_GetStatus :: "string \<Rightarrow> payment_status res"
  pg_ParseWebhook :: "headers \<Rightarrow> string \<Rightarrow> webhook_event res"

type_synonym gateways = "provider \<Rightarrow> payment_gateway option"

text \<open>The outcome of a call outside the process.\<close>

definition outcome :: "'a res \<Rightarrow> (world, 'a) action" where
  "outcome r = (\<lambda>w. (r, w))"

lemma wp_outcome [wp_simps]: "wp (outcome r) Q E w = (case r of Inl e \<Rightarrow> E e w | Inr x \<Rightarrow> Q x w)"
  by (simp add: wp_def outcome_def split: sum.splits)

section \<open>Payment repository\<close>

definition payment_Save :: "payment \<Rightarrow> (world, payment) action" where
  "payment_Save p =
     bind (wrap ''insert payment''
       (exec (\<lambda>w. uuid_param w (p_MerchantID p)
          (let row = p\<lparr>p_ID := fresh_uuid w, p_PaidAt := None, p_FailedAt := None, p_CancelledAt := None,
                      p_CreatedAt := w_now w, p_UpdatedAt := w_now w\<rparr>
           in map_sum id (Pair row) (insert_payment row (w_db w)))))) (\<lambda>row.
     ret (p\<lparr>p_ID := p_ID row, p_CreatedAt := p_CreatedAt row, p_UpdatedAt := p_UpdatedAt row\<rparr>))"

definition payment_FindByID :: "string \<Rightarrow> (world, payment) action" where
  "payment_FindByID i =
     bind (wrap ''get payment by id''
            (query (\<lambda>w. uuid_param w i (Inr (find (\<lambda>p. p_ID p = i) (db_payments (w_db w))))))) (\<lambda>r.
     case r of
       None \<Rightarrow> throw (NotFound (''payment '' @ i @ '' not found''))
     | Some p \<Rightarrow> ret p)"

definition payment_FindByIDForUpdate :: "string \<Rightarrow> (world, payment) action" where
  "payment_FindByIDForUpdate i =
     bind (wrap ''get payment for update''
            (query (\<lambda>w. uuid_param w i (Inr (find (\<lambda>p. p_ID p = i) (db_payments (w_db w))))))) (\<lambda>r.
     case r of
       None \<Rightarrow> throw (NotFound (''payment '' @ i @ '' not found''))
     | Some p \<Rightarrow> ret p)"

definition payment_FindByExternalID :: "provider \<Rightarrow> string \<Rightarrow> (world, payment) action" where
  "payment_FindByExternalID provider extID =
     bind (wrap ''get payment by external_id''
            (query (\<lambda>w. Inr (find (\<lambda>p. p_Provider p = provider \<and> p_ExternalID p = extID) (db_payments (w_db w)))))) (\<lambda>r.
     case r of
       None \<Rightarrow> throw (NotFound (''payment with external_id '' @ extID @ '' not found''))
     | Some p \<Rightarrow> ret p)"

text \<open>\<open>UpdatePaymentStatus\<close>: six columns of the row.\<close>

definition with_status_of :: "payment \<Rightarrow> time \<Rightarrow> payment \<Rightarrow> payment" where
  "with_status_of p t r =
     r\<lparr>p_Status := p_Status p, p_FeeAmount := p_FeeAmount p, p_PaidAt := p_PaidAt p, p_FailedAt := p_FailedAt p,
       p_CancelledAt := p_CancelledAt p, p_UpdatedAt := t\<rparr>"

definition payment_Update :: "payment \<Rightarrow> (world, unit) action" where
  "payment_Update p =
     bind (wrap ''update payment status''
       (exec (\<lambda>w. uuid_param w (p_ID p)
          (map_sum id (\<lambda>rows. (find (\<lambda>r. p_ID r = p_ID p) rows, (w_db w)\<lparr>db_payments := rows\<rparr>))
            (checked_update payment_row_ok payment_conflict (\<lambda>r. p_ID r = p_ID p) (with_status_of p (w_now w))
               (db_payments (w_db w))))))) (\<lambda>r.
     bind (one_row ''update payment status'' r) (\<lambda>_. ret ()))"

record list_payment_filter =
  lp_MerchantID :: string
  lp_Status :: "payment_status option"
  lp_Method :: "payment_method option"
  lp_Provider :: "provider option"
  lp_StartDate :: "time option"
  lp_EndDate :: "time option"
  lp_Page :: int
  lp_Limit :: int

definition payment_matches :: "list_payment_filter \<Rightarrow> payment \<Rightarrow> bool" where
  "payment_matches f p \<longleftrightarrow>
     (lp_MerchantID f \<noteq> '''' \<longrightarrow> p_MerchantID p = lp_MerchantID f)
     \<and> (case lp_Status f of None \<Rightarrow> True | Some x \<Rightarrow> payment_status_str (p_Status p) = payment_status_str x)
     \<and> (case lp_Method f of None \<Rightarrow> True | Some x \<Rightarrow> payment_method_str (p_Method p) = payment_method_str x)
     \<and> (case lp_Provider f of None \<Rightarrow> True | Some x \<Rightarrow> provider_str (p_Provider p) = provider_str x)
     \<and> (case lp_StartDate f of None \<Rightarrow> True | Some t \<Rightarrow> t \<le> p_CreatedAt p)
     \<and> (case lp_EndDate f of None \<Rightarrow> True | Some t \<Rightarrow> p_CreatedAt p \<le> t)"

definition payment_List :: "list_payment_filter \<Rightarrow> (world, payment list \<times> int64) action" where
  "payment_List f =
     bind (wrap ''count payments''
            (query (\<lambda>w. optional_uuid w (lp_MerchantID f)
               (Inr (int (length (filter (payment_matches f) (db_payments (w_db w))))))))) (\<lambda>total.
     if total = 0 then ret ([], 0)
     else case normalizePage (lp_Page f) (lp_Limit f) of (page, limit) \<Rightarrow>
       bind (wrap ''list payments''
              (query (\<lambda>w. optional_uuid w (lp_MerchantID f)
                 (sql_page page limit (order_desc p_CreatedAt (filter (payment_matches f) (db_payments (w_db w)))))))) (\<lambda>rows.
       ret (rows, total)))"

section \<open>Audit repository\<close>

definition audit_Save :: "payment_audit \<Rightarrow> (world, payment_audit) action" where
  "audit_Save a =
     bind (wrap ''insert payment audit''
       (exec (\<lambda>w. uuid_param w (au_PaymentID a)
          (let row = a\<lparr>au_ID := fresh_uuid w, au_CreatedAt := w_now w\<rparr>
           in map_sum id (Pair row) (insert_audit row (w_db w)))))) (\<lambda>row.
     ret (a\<lparr>au_ID := au_ID row, au_CreatedAt := au_CreatedAt row\<rparr>))"

definition audit_FindByPaymentID :: "string \<Rightarrow> (world, payment_audit list) action" where
  "audit_FindByPaymentID i =
     wrap ''list payment audits''
       (query (\<lambda>w. uuid_param w i
          (Inr (sort_key au_CreatedAt (filter (\<lambda>a. au_PaymentID a = i) (db_audits (w_db w)))))))"

definition audit :: "string \<Rightarrow> audit_event_type \<Rightarrow> payment_status option \<Rightarrow> payment_status \<Rightarrow> string \<Rightarrow> payment_audit" where
  "audit paymentID ev old new actor =
     \<lparr>au_ID = '''', au_PaymentID = paymentID, au_EventType = ev, au_OldStatus = old, au_NewStatus = new,
      au_Actor = actor, au_Metadata = [], au_CreatedAt = zero_time\<rparr>"

section \<open>Usecase: creation\<close>

record create_va_input =
  cv_MerchantID :: string
  cv_Provider :: provider
  cv_BankCode :: bank_code
  cv_Amount :: int64
  cv_Currency :: currency
  cv_CustomerName :: string
  cv_CustomerEmail :: string
  cv_CustomerPhone :: string
  cv_Description :: string
  cv_ExpiryAt :: time
  cv_CallbackURL :: string

record create_qris_input =
  cq_MerchantID :: string
  cq_Provider :: provider
  cq_Amount :: int64
  cq_Currency :: currency
  cq_CustomerName :: string
  cq_CustomerEmail :: string
  cq_CustomerPhone :: string
  cq_Description :: string
  cq_ExpiryAt :: time
  cq_CallbackURL :: string

record payment_output =
  po_ID :: string
  po_ExternalID :: string
  po_Method :: payment_method
  po_Provider :: provider
  po_Status :: payment_status
  po_Amount :: int64
  po_FeeAmount :: int64
  po_Currency :: currency
  po_CustomerName :: string
  po_CustomerEmail :: string
  po_VANumber :: string
  po_BankCode :: bank_code
  po_QRString :: string
  po_QRImageURL :: string
  po_ExpiryAt :: time
  po_PaidAt :: "time option"
  po_CancelledAt :: "time option"
  po_CreatedAt :: time

definition toPaymentOutput :: "payment \<Rightarrow> payment_output" where
  "toPaymentOutput p =
     \<lparr>po_ID = p_ID p, po_ExternalID = p_ExternalID p, po_Method = p_Method p, po_Provider = p_Provider p,
      po_Status = p_Status p, po_Amount = p_Amount p, po_FeeAmount = p_FeeAmount p, po_Currency = p_Currency p,
      po_CustomerName = p_CustomerName p, po_CustomerEmail = p_CustomerEmail p, po_VANumber = p_VANumber p,
      po_BankCode = p_BankCode p, po_QRString = p_QRString p, po_QRImageURL = p_QRImageURL p,
      po_ExpiryAt = p_ExpiryAt p, po_PaidAt = p_PaidAt p, po_CancelledAt = p_CancelledAt p, po_CreatedAt = p_CreatedAt p\<rparr>"

definition payment_gateway_for :: "gateways \<Rightarrow> provider \<Rightarrow> (world, payment_gateway) action" where
  "payment_gateway_for gws provider =
     (case gws provider of
        None \<Rightarrow> throw (BadRequest (''provider '' @ provider_str provider @ '' is not enabled''))
      | Some gw \<Rightarrow> ret gw)"

definition savePaymentWithAudit :: "payment \<Rightarrow> string \<Rightarrow> (world, payment) action" where
  "savePaymentWithAudit p merchantID =
     RunInTx (
       bind (wrap ''save payment'' (payment_Save p)) (\<lambda>p.
       bind (audit_Save (audit (p_ID p) AuditEventPaymentCreated None PaymentStatusPending (''merchant:'' @ merchantID))) (\<lambda>_.
       ret p)))"

definition callback_metadata :: "string \<Rightarrow> metadata" where
  "callback_metadata url = (if url \<noteq> '''' then [(''callback_url'', JStr url)] else [])"

definition CreateVA :: "gateways \<Rightarrow> create_va_input \<Rightarrow> (world, payment_output) action" where
  "CreateVA gws input =
     bind (merchant_FindByID (cv_MerchantID input)) (\<lambda>merchant.
     if \<not> merchant_CanTransact merchant
     then throw (Forbidden ''merchant account is not active or webhook URL not set'')
     else
       bind (payment_gateway_for gws (cv_Provider input)) (\<lambda>gw.
       bind externalID (\<lambda>extID.
       bind (wrap (''create VA via '' @ provider_str (cv_Provider input))
         (outcome (pg_CreateVA gw
            \<lparr>vr_ExternalID = extID, vr_BankCode = cv_BankCode input, vr_Amount = cv_Amount input,
             vr_Currency = cv_Currency input, vr_CustomerName = cv_CustomerName input,
             vr_CustomerEmail = cv_CustomerEmail input, vr_CustomerPhone = cv_CustomerPhone input,
             vr_Description = cv_Description input, vr_ExpiryAt = cv_ExpiryAt input\<rparr>))) (\<lambda>resp.
       bind (savePaymentWithAudit
         \<lparr>p_ID = '''', p_MerchantID = cv_MerchantID input, p_ExternalID = vs_ExternalID resp,
          p_ProviderPaymentID = vs_ProviderPaymentID resp, p_Method = PaymentMethodVA, p_Provider = cv_Provider input,
          p_Status = PaymentStatusPending, p_Amount = cv_Amount input, p_FeeAmount = 0, p_Currency = cv_Currency input,
          p_Description = cv_Description input, p_CustomerName = cv_CustomerName input,
          p_CustomerEmail = cv_CustomerEmail input, p_CustomerPhone = cv_CustomerPhone input,
          p_VANumber = vs_VANumber resp, p_BankCode = cv_BankCode input, p_QRString = '''', p_QRImageURL = '''',
          p_ExpiryAt = vs_ExpiryAt resp, p_PaidAt = None, p_FailedAt = None, p_CancelledAt = None,
          p_CreatedAt = zero_time, p_UpdatedAt = zero_time, p_Metadata = callback_metadata (cv_CallbackURL input)\<rparr>
         (cv_MerchantID input)) (\<lambda>p.
       ret (toPaymentOutput p))))))"

definition CreateQRIS :: "gateways \<Rightarrow> create_qris_input \<Rightarrow> (world, payment_output) action" where
  "CreateQRIS gws input =
     bind (merchant_FindByID (cq_MerchantID input)) (\<lambda>merchant.
     if \<not> merchant_CanTransact merchant
     then throw (Forbidden ''merchant account is not active or webhook URL not set'')
     else
       bind (payment_gateway_for gws (cq_Provider input)) (\<lambda>gw.
       bind externalID (\<lambda>extID.
       bind (wrap (''create QRIS via '' @ provider_str (cq_Provider input))
         (outcome (pg_CreateQRIS gw
            \<lparr>qr_ExternalID = extID, qr_Amount = cq_Amount input,
             qr_Currency = cq_Currency input, qr_CustomerName = cq_CustomerName input,
             qr_CustomerEmail = cq_CustomerEmail input, qr_CustomerPhone = cq_CustomerPhone input,
             qr_Description = cq_Description input, qr_ExpiryAt = cq_ExpiryAt input\<rparr>))) (\<lambda>resp.
       bind (savePaymentWithAudit
         \<lparr>p_ID = '''', p_MerchantID = cq_MerchantID input, p_ExternalID = qs_ExternalID resp,
          p_ProviderPaymentID = qs_ProviderPaymentID resp, p_Method = PaymentMethodQRIS, p_Provider = cq_Provider input,
          p_Status = PaymentStatusPending, p_Amount = cq_Amount input, p_FeeAmount = 0, p_Currency = cq_Currency input,
          p_Description = cq_Description input, p_CustomerName = cq_CustomerName input,
          p_CustomerEmail = cq_CustomerEmail input, p_CustomerPhone = cq_CustomerPhone input,
          p_VANumber = '''', p_BankCode = BankOther '''', p_QRString = qs_QRString resp, p_QRImageURL = qs_QRImageURL resp,
          p_ExpiryAt = qs_ExpiryAt resp, p_PaidAt = None, p_FailedAt = None, p_CancelledAt = None,
          p_CreatedAt = zero_time, p_UpdatedAt = zero_time, p_Metadata = callback_metadata (cq_CallbackURL input)\<rparr>
         (cq_MerchantID input)) (\<lambda>p.
       ret (toPaymentOutput p))))))"

section \<open>Usecase: reading\<close>

definition GetPayment :: "string \<Rightarrow> string \<Rightarrow> (world, payment_output) action" where
  "GetPayment merchantID paymentID =
     bind (payment_FindByID paymentID) (\<lambda>p.
     if p_MerchantID p \<noteq> merchantID then throw (NotFound (''payment '' @ paymentID @ '' not found''))
     else ret (toPaymentOutput p))"

record list_payments_input =
  li_MerchantID :: string
  li_Status :: string
  li_Provider :: string
  li_Method :: string
  li_StartDate :: string
  li_EndDate :: string
  li_Page :: int
  li_Limit :: int

record payment_list_output =
  pl_Items :: "payment_output list"
  pl_Total :: int64
  pl_Page :: int
  pl_Limit :: int

definition nonempty :: "(string \<Rightarrow> 'a) \<Rightarrow> string \<Rightarrow> 'a option" where
  "nonempty f s = (if s \<noteq> '''' then Some (f s) else None)"

definition ListPayments :: "list_payments_input \<Rightarrow> (world, payment_list_output) action" where
  "ListPayments input =
     (let page = (if li_Page input < 1 then 1 else li_Page input);
          limit = (if li_Limit input < 1 then 20 else li_Limit input);
          limit = (if limit > 100 then 100 else limit)
      in bind (payment_List
                \<lparr>lp_MerchantID = li_MerchantID input, lp_Status = nonempty payment_status_of (li_Status input),
                 lp_Method = nonempty payment_method_of (li_Method input),
                 lp_Provider = nonempty provider_of (li_Provider input),
                 lp_StartDate = optional_date (li_StartDate input), lp_EndDate = optional_date (li_EndDate input),
                 lp_Page = page, lp_Limit = limit\<rparr>) (\<lambda>(payments, total).
         ret \<lparr>pl_Items = map toPaymentOutput payments, pl_Total = total, pl_Page = page, pl_Limit = limit\<rparr>))"

section \<open>Usecase: cancellation\<close>

text \<open>
  \<open>CancelPayment\<close> is three steps with a provider call between two transactions; the first and
  the last are named so that other requests can run between them.
\<close>

definition cancel_begin :: "string \<Rightarrow> string \<Rightarrow> (world, payment) action" where
  "cancel_begin merchantID paymentID =
     bind (payment_FindByID paymentID) (\<lambda>p.
     if p_MerchantID p \<noteq> merchantID then throw (NotFound (''payment '' @ paymentID @ '' not found''))
     else if \<not> payment_CanCancel p
     then throw (UnprocessableEntity (''payment cannot be cancelled in status '' @ payment_status_str (p_Status p)))
     else
       let oldStatus = p_Status p; p = p\<lparr>p_Status := PaymentStatusCancelling\<rparr> in
       bind (RunInTx (
         bind (payment_Update p) (\<lambda>_.
         audit_Save (audit (p_ID p) AuditEventStatusChanged (Some oldStatus) PaymentStatusCancelling
                       (''merchant:'' @ merchantID))))) (\<lambda>_.
       ret p))"

definition cancel_id :: "payment \<Rightarrow> string" where
  "cancel_id p = (if p_ProviderPaymentID p \<noteq> '''' then p_ProviderPaymentID p else p_ExternalID p)"

definition cancel_finish :: "string \<Rightarrow> payment \<Rightarrow> unit res \<Rightarrow> (world, unit) action" where
  "cancel_finish merchantID p providerErr =
     bind (RunInTx (
       case providerErr of
         Inl _ \<Rightarrow>
           let p = p\<lparr>p_Status := PaymentStatusPending, p_CancelledAt := None\<rparr> in
           bind (payment_Update p) (\<lambda>_.
           audit_Save (audit (p_ID p) AuditEventStatusChanged (Some PaymentStatusCancelling) PaymentStatusPending
                         ''system:cancel_revert''))
       | Inr _ \<Rightarrow>
           bind now (\<lambda>t.
           let p = p\<lparr>p_Status := PaymentStatusCancelled, p_CancelledAt := Some t\<rparr> in
           bind (payment_Update p) (\<lambda>_.
           audit_Save (audit (p_ID p) AuditEventPaymentCancelled (Some PaymentStatusCancelling) PaymentStatusCancelled
                         (''merchant:'' @ merchantID)))))) (\<lambda>_.
     ret ())"

definition CancelPayment :: "gateways \<Rightarrow> string \<Rightarrow> string \<Rightarrow> (world, unit) action" where
  "CancelPayment gws merchantID paymentID =
     bind (cancel_begin merchantID paymentID) (\<lambda>p.
     bind (payment_gateway_for gws (p_Provider p)) (\<lambda>gw.
     bind (attempt (outcome (pg_CancelPayment gw (cancel_id p)))) (\<lambda>providerErr.
     cancel_finish merchantID p providerErr)))"

section \<open>Usecase: webhooks\<close>

definition resolved_fee :: "merchant \<Rightarrow> payment \<Rightarrow> (world, int64) action" where
  "resolved_fee merchant p =
     bind (attempt (resolver_Resolve merchant (p_Method p) (p_Amount p))) (\<lambda>res.
     ret (case res of Inl _ \<Rightarrow> 0 | Inr r \<Rightarrow> fr_TotalFee r))"

definition cash_in :: "payment \<Rightarrow> int64 \<Rightarrow> mutation" where
  "cash_in p fee =
     \<lparr>mu_ID = '''', mu_ReferenceID = p_ID p, mu_ReferenceType = MutationRefPayment, mu_MerchantID = p_MerchantID p,
      mu_Type = MutationTypeCashIn, mu_Amount = p_Amount p, mu_FeeAmount = fee, mu_Currency = p_Currency p,
      mu_Description = ''Payment '' @ payment_method_str (p_Method p) @ '' via '' @ provider_str (p_Provider p),
      mu_CreatedAt = zero_time\<rparr>"

definition callback_url :: "merchant \<Rightarrow> payment \<Rightarrow> string" where
  "callback_url merchant p =
     (case map_of (p_Metadata p) ''callback_url'' of
        Some (JStr cb) \<Rightarrow> (if cb \<noteq> '''' then cb else m_WebhookURL merchant)
      | _ \<Rightarrow> m_WebhookURL merchant)"

definition payment_payload :: "payment \<Rightarrow> int64 \<Rightarrow> time \<Rightarrow> payload" where
  "payment_payload p fee t =
     \<lparr>pl_EventType = ''payment.'' @ payment_status_str (p_Status p), pl_DeliveryID = '''', pl_CreatedAt = t,
      pl_Data = PaymentData
        \<lparr>wd_PaymentID = p_ID p, wd_ExternalID = p_ExternalID p, wd_MerchantID = p_MerchantID p,
         wd_Status = payment_status_str (p_Status p), wd_Method = payment_method_str (p_Method p),
         wd_Provider = provider_str (p_Provider p), wd_Amount = p_Amount p, wd_FeeAmount = fee,
         wd_NetAmount = wrap64 (p_Amount p - fee), wd_Currency = currency_str (p_Currency p),
         wd_CustomerName = p_CustomerName p, wd_CustomerEmail = p_CustomerEmail p,
         wd_PaidAt = p_PaidAt p, wd_CreatedAt = p_CreatedAt p\<rparr>\<rparr>"

text \<open>The payment as the event leaves it: the row read before the transaction with the new status.\<close>

definition apply_event :: "webhook_event \<Rightarrow> payment \<Rightarrow> payment" where
  "apply_event ev p =
     (let p = p\<lparr>p_Status := ev_Status ev\<rparr>
      in if ev_Status ev = PaymentStatusPaid then p\<lparr>p_PaidAt := ev_PaidAt ev\<rparr> else p)"

text \<open>The part of \<open>HandleWebhook\<close> before the transaction; \<open>None\<close> is the early return for a final payment.\<close>

definition webhook_read :: "gateways \<Rightarrow> provider \<Rightarrow> headers \<Rightarrow> string \<Rightarrow> (world, (webhook_event \<times> payment \<times> merchant) option) action" where
  "webhook_read gws provider hdrs body =
     bind (payment_gateway_for gws provider) (\<lambda>gw.
     bind (wrap ''parse webhook'' (outcome (pg_ParseWebhook gw hdrs body))) (\<lambda>ev.
     bind (wrap ''find payment'' (payment_FindByExternalID provider (ev_ExternalID ev))) (\<lambda>p.
     if payment_IsFinal p then ret None
     else
       bind (wrap ''find merchant'' (merchant_FindByID (p_MerchantID p))) (\<lambda>merchant.
       ret (Some (ev, p, merchant))))))"

definition webhook_tx :: "provider \<Rightarrow> webhook_event \<Rightarrow> payment \<Rightarrow> merchant \<Rightarrow> (world, unit) action" where
  "webhook_tx provider ev p merchant =
     RunInTx (
       bind (payment_FindByIDForUpdate (p_ID p)) (\<lambda>fresh.
       if payment_IsFinal fresh then ret ()
       else
         let p = apply_event ev p; oldStatus = p_Status fresh in
         bind (payment_Update p) (\<lambda>_.
         bind (audit_Save (audit (p_ID p) AuditEventWebhookReceived (Some oldStatus) (p_Status p)
                             (''webhook:'' @ provider_str provider))) (\<lambda>_.
         bind (if p_Status p = PaymentStatusPaid
               then bind (resolved_fee merchant p) (\<lambda>fee.
                    bind (mutation_Save (cash_in p fee)) (\<lambda>_. ret fee))
               else ret 0) (\<lambda>fee.
         let callbackURL = callback_url merchant p in
         if callbackURL = '''' then ret ()
         else
           bind now (\<lambda>t.
           outbox_Insert (''payment.'' @ payment_status_str (p_Status p)) callbackURL (m_ID merchant)
             (payment_payload p fee t)))))))"

definition HandleWebhook :: "gateways \<Rightarrow> provider \<Rightarrow> headers \<Rightarrow> string \<Rightarrow> (world, unit) action" where
  "HandleWebhook gws provider hdrs body =
     bind (webhook_read gws provider hdrs body) (\<lambda>r.
     case r of
       None \<Rightarrow> ret ()
     | Some (ev, p, merchant) \<Rightarrow> webhook_tx provider ev p merchant)"

section \<open>The expiry worker\<close>

definition expired_payments :: "time \<Rightarrow> payment list \<Rightarrow> payment list" where
  "expired_payments t ps = filter (\<lambda>p. p_Status p = PaymentStatusPending \<and> p_ExpiryAt p < t) ps"

definition expiry_audit :: "world \<Rightarrow> nat \<Rightarrow> payment \<Rightarrow> payment_audit" where
  "expiry_audit w k p =
     (audit (p_ID p) AuditEventPaymentExpired (Some PaymentStatusPending) PaymentStatusExpired ''system:expiry_worker'')
       \<lparr>au_ID := w_uuid w (w_stmts w) k, au_CreatedAt := w_now w\<rparr>"

fun insert_audits :: "payment_audit list \<Rightarrow> database \<Rightarrow> string + database" where
  "insert_audits [] db = Inr db"
| "insert_audits (a # as) db = (case insert_audit a db of Inl e \<Rightarrow> Inl e | Inr db' \<Rightarrow> insert_audits as db')"

text \<open>One statement updates the payments and inserts their audit rows; its error is logged.\<close>

definition expirePayments :: "(world, unit) action" where
  "expirePayments =
     logged (exec (\<lambda>w.
       let due = expired_payments (w_now w) (db_payments (w_db w));
           db1 = (w_db w)\<lparr>db_payments :=
                   update_where (\<lambda>p. p_Status p = PaymentStatusPending \<and> p_ExpiryAt p < w_now w)
                     (\<lambda>p. p\<lparr>p_Status := PaymentStatusExpired, p_UpdatedAt := w_now w\<rparr>) (db_payments (w_db w))\<rparr>
       in map_sum id (Pair ()) (insert_audits (map2 (expiry_audit w) [0..<length due] due) db1)))"

end
