(* ===== verification/PaymentRules.thy ===== *)
theory PaymentRules
  imports Payments
begin

text \<open>
  Proof rules for the repositories of the payment usecase, one per statement, and the fee the
  webhook charges. The properties of the usecase are in the theories that import this one.
\<close>

lemma if_both: "(b \<Longrightarrow> P) \<Longrightarrow> (\<not> b \<Longrightarrow> Q) \<Longrightarrow> if b then P else Q"
  by simp

section \<open>Weakest preconditions of the repositories\<close>

text \<open>
  Each rule says what a statement does when it succeeds, and of a failure only that the
  tables are unchanged, which is what the handlers' transactions need.
\<close>

lemma wp_payment_find:
  assumes "\<And>p w'. find (\<lambda>p. p_ID p = i) (db_payments (w_db w)) = Some p \<Longrightarrow> \<not> stmt_fails w \<Longrightarrow> w' = tick w \<Longrightarrow> Q p w'"
    and "\<And>e w'. w_db w' = w_db w \<Longrightarrow> \<not> is_panic e \<Longrightarrow> E e w'"
  shows "wp (payment_FindByID i) Q E w" "wp (payment_FindByIDForUpdate i) Q E w"
  using assms
  by (auto simp: payment_FindByID_def payment_FindByIDForUpdate_def wp_simps wp_query uuid_param_def split: option.splits)

lemma wp_payment_FindByExternalID:
  assumes "\<And>p w'. find (\<lambda>p. p_Provider p = pr \<and> p_ExternalID p = x) (db_payments (w_db w)) = Some p \<Longrightarrow> \<not> stmt_fails w
       \<Longrightarrow> w' = tick w \<Longrightarrow> Q p w'"
    and "\<And>e w'. w_db w' = w_db w \<Longrightarrow> \<not> is_panic e \<Longrightarrow> E e w'"
  shows "wp (payment_FindByExternalID pr x) Q E w"
  using assms
  by (auto simp: payment_FindByExternalID_def wp_simps wp_query split: option.splits)

lemma wp_merchant_FindByID:
  assumes "\<And>m w'. find (\<lambda>m. m_ID m = i \<and> live m) (db_merchants (w_db w)) = Some m \<Longrightarrow> \<not> stmt_fails w \<Longrightarrow> w' = tick w \<Longrightarrow> Q m w'"
    and "\<And>e w'. w_db w' = w_db w \<Longrightarrow> \<not> is_panic e \<Longrightarrow> E e w'"
  shows "wp (merchant_FindByID i) Q E w"
  using assms
  by (auto simp: merchant_FindByID_def wp_simps wp_query uuid_param_def split: option.splits)

definition set_status :: "payment \<Rightarrow> time \<Rightarrow> database \<Rightarrow> database" where
  "set_status p t db = db\<lparr>db_payments := update_where (\<lambda>r. p_ID r = p_ID p) (with_status_of p t) (db_payments db)\<rparr>"

lemma find_update_same:
  "(\<And>r. key (f r) = key r) \<Longrightarrow> find (\<lambda>r. key r = k) (update_where (\<lambda>r. key r = k) f rows) = None \<longleftrightarrow>
     (\<forall>r \<in> set rows. key r \<noteq> k)"
  by (induction rows) auto

lemma with_status_of_ID [simp]: "p_ID (with_status_of p t r) = p_ID r"
  by (simp add: with_status_of_def)

lemma wp_payment_Update:
  assumes "\<And>r. r \<in> set (db_payments (w_db w)) \<Longrightarrow> p_ID r = p_ID p \<Longrightarrow> \<not> stmt_fails w \<Longrightarrow>
       (\<forall>r \<in> set (db_payments (w_db w)). p_ID r = p_ID p \<longrightarrow> payment_row_ok (with_status_of p (w_now w) r)) \<Longrightarrow>
       Q () ((tick w)\<lparr>w_db := set_status p (w_now w) (w_db w)\<rparr>)"
    and "\<And>e w'. w_db w' = w_db w \<Longrightarrow> \<not> is_panic e \<Longrightarrow> E e w'"
  shows "wp (payment_Update p) Q E w"
proof -
  have none: "find (\<lambda>r. p_ID r = p_ID p) (update_where (\<lambda>r. p_ID r = p_ID p) (with_status_of p t) rows) = None \<Longrightarrow>
      update_where (\<lambda>r. p_ID r = p_ID p) (with_status_of p t) rows = rows" for t rows
    by (subst (asm) find_update_same) (auto simp: update_where_def intro: map_idI)
  have some: "find (\<lambda>r. p_ID r = p_ID p) (update_where (\<lambda>r. p_ID r = p_ID p) (with_status_of p t) rows) = Some x \<Longrightarrow>
      \<exists>r \<in> set rows. p_ID r = p_ID p" for t rows x
    by (auto dest!: find_Some_in in_update_where)
  show ?thesis
    unfolding payment_Update_def
    by (auto simp: wp_simps wp_exec uuid_param_def none split: sum.splits option.splits
        intro!: assms(2)) (drule some, erule bexE, rule assms(1) [unfolded set_status_def], assumption, assumption, auto)
qed

lemma wp_audit_Save:
  assumes "\<And>row. row = a\<lparr>au_ID := fresh_uuid w, au_CreatedAt := w_now w\<rparr> \<Longrightarrow> \<not> stmt_fails w \<Longrightarrow>
      payment_audit_row_ok row \<Longrightarrow> payment_exists (w_db w) (au_PaymentID a) \<Longrightarrow>
      (\<forall>r \<in> set (db_audits (w_db w)). au_ID r \<noteq> au_ID row) \<Longrightarrow>
      Q row ((tick w)\<lparr>w_db := (w_db w)\<lparr>db_audits := db_audits (w_db w) @ [row]\<rparr>\<rparr>)"
    and "\<And>e w'. w_db w' = w_db w \<Longrightarrow> \<not> is_panic e \<Longrightarrow> E e w'"
  shows "wp (audit_Save a) Q E w"
  using assms
  by (auto simp: audit_Save_def wp_simps wp_exec uuid_param_def insert_audit_def Let_def split: sum.splits)

lemma wp_outbox_Insert:
  assumes "\<And>e. ob_EventType e = ty \<Longrightarrow> ob_Payload e = pl \<Longrightarrow> ob_TargetUrl e = u \<Longrightarrow>
      ob_MerchantID e = (if i \<noteq> '''' then Some i else None) \<Longrightarrow> ob_AttemptCount e = 0 \<Longrightarrow> ob_DeliveredAt e = None \<Longrightarrow>
      ob_NextRetryAt e = w_now w \<Longrightarrow> \<not> stmt_fails w \<Longrightarrow>
      Q () ((tick w)\<lparr>w_db := (w_db w)\<lparr>db_outbox := db_outbox (w_db w) @ [e]\<rparr>\<rparr>)"
    and "\<And>e w'. w_db w' = w_db w \<Longrightarrow> E e w'"
  shows "wp (outbox_Insert ty u i pl) Q E w"
  using assms
  by (auto simp: outbox_Insert_def wp_simps wp_exec insert_outbox_def split: sum.splits)

lemma wp_mutation_Save_db:
  assumes "mutation_insertable w m \<Longrightarrow>
      Q (new_mutation w m) ((tick w)\<lparr>w_db := (w_db w)\<lparr>db_mutations := db_mutations (w_db w) @ [new_mutation w m]\<rparr>\<rparr>)"
    and "\<And>e w'. w_db w' = w_db w \<Longrightarrow> \<not> is_panic e \<Longrightarrow> E e w'"
  shows "wp (mutation_Save m) Q E w"
  by (rule wp_mutation_Save) (use assms in auto)

text \<open>Fee resolution only reads.\<close>

definition same_tables :: "world \<Rightarrow> world \<Rightarrow> bool" where
  "same_tables w w' \<longleftrightarrow>
     w_db w' = w_db w \<and> w_now w' = w_now w \<and> w_local_offset w' = w_local_offset w \<and> w_session_offset w' = w_session_offset w
     \<and> w_uuid w' = w_uuid w
     \<and> w_uuid_ok w' = w_uuid_ok w \<and> w_stmts w \<le> w_stmts w'"

interpretation reads: effect_order same_tables
  by unfold_locales (auto simp: same_tables_def)

lemma reads_query: "reads.obeys (query f)"
  by (auto simp: reads.obeys_def same_tables_def query_def exec_def split: sum.splits)

lemma reads_misc: "reads.obeys now" "reads.obeys (one_row msg r)" "reads.obeys (unmarshal msg c)"
  unfolding now_def one_row_def unmarshal_def by (auto intro!: reads.obeys_intros split: json_col.splits)

lemma reads_fee_repo:
  "reads.obeys fee_GetDefault" "reads.obeys fee_GetMargin" "reads.obeys (fee_GetHolidayByDate d)"
  unfolding fee_GetDefault_def fee_GetMargin_def fee_GetHolidayByDate_def toEntityFeeDefault_def
    toEntityPlatformMargin_def toEntityHoliday_def
  by (intro reads.obeys_intros reads_query reads_misc)+

lemma reads_Resolve: "reads.obeys (resolver_Resolve m meth a)" "reads.obeys (resolver_ResolveDisbursement m a)"
proof -
  have "reads.obeys (resolver_merchantFee m meth)"
    by (cases meth) (auto simp: resolver_merchantFee_def intro!: reads.obeys_intros reads_fee_repo)
  then show "reads.obeys (resolver_Resolve m meth a)" "reads.obeys (resolver_ResolveDisbursement m a)"
    unfolding resolver_Resolve_def resolver_ResolveDisbursement_def resolver_holiday_def Let_def
    by (intro reads.obeys_intros reads_query reads_misc reads_fee_repo; assumption)+
qed

lemma wp_reads:
  assumes "reads.obeys m" and "\<And>x w'. same_tables w w' \<Longrightarrow> Q x w'" and "\<And>e w'. same_tables w w' \<Longrightarrow> E e w'"
  shows "wp m Q E w"
  using reads.obeysD [OF assms(1), of w] assms(2,3) by (auto simp: wp_def split: prod.splits sum.splits)

text \<open>
  The fee a paid webhook charges: the resolved total, and zero when the fee tables give none.
\<close>

definition fee_due :: "database \<Rightarrow> int \<Rightarrow> merchant \<Rightarrow> payment \<Rightarrow> int64" where
  "fee_due db today merchant p =
     (case fee_spec db today merchant (p_Method p) (p_Amount p) of None \<Rightarrow> 0 | Some r \<Rightarrow> fr_TotalFee r)"

lemma local_day_simps [simp]:
  "local_day (begin_tx w) t = local_day w t" "local_day (w\<lparr>w_db := db\<rparr>) t = local_day w t"
  by (simp_all add: local_day_def)

lemma stable_resolved_fee: "stable (resolved_fee m p)"
  unfolding resolved_fee_def by (intro stable_intros stable_Resolve)

lemma Resolve_no_panic: "no_faults w \<Longrightarrow>
   wp (resolver_Resolve m meth a) (\<lambda>r _. fee_spec (w_db w) (local_day w (w_now w)) m meth a = Some r)
     (\<lambda>e _. fee_spec (w_db w) (local_day w (w_now w)) m meth a = None \<and> \<not> is_panic e) w"
  by (rule wp_mono [OF Resolve_spec]) auto

lemma wp_resolved_fee:
  assumes tx: "w_tx w = TxOpen"
    and Q: "\<And>fee w'. same_tables w w' \<Longrightarrow> w_tx w' = TxAborted \<or> fee = fee_due (w_db w) (local_day w (w_now w)) m p \<Longrightarrow> Q fee w'"
    and E: "\<And>e w'. same_tables w w' \<Longrightarrow> E e w'"
  shows "wp (resolved_fee m p) Q E w"
proof -
  have "wp (resolved_fee m p) (\<lambda>fee w'. w_tx w' = TxAborted \<or> fee = fee_due (w_db w) (local_day w (w_now w)) m p)
      (\<lambda>_ w'. w_tx w' = TxAborted \<or> True) w"
  proof (rule wp_stable [OF stable_resolved_fee tx])
    show "wp (resolved_fee m p) (\<lambda>x w'. \<forall>u. w' = unfaulted u \<longrightarrow> w_tx u = TxOpen \<longrightarrow> x = fee_due (w_db w) (local_day w (w_now w)) m p)
      (\<lambda>e w'. \<forall>u. w' = unfaulted u \<longrightarrow> w_tx u = TxOpen \<longrightarrow> True) (unfaulted w)"
      unfolding resolved_fee_def wp_bind wp_attempt wp_ret
      by (rule wp_mono [OF Resolve_no_panic]) (use tx in \<open>auto simp: fee_due_def\<close>)
  qed
  moreover have "reads.obeys (resolved_fee m p)"
    unfolding resolved_fee_def by (intro reads.obeys_intros reads_Resolve)
  ultimately show ?thesis
    using reads.obeysD [of "resolved_fee m p" w] Q E
    by (auto simp: wp_def split: prod.splits sum.splits)
qed

end
