(* ===== verification/Webhooks.thy ===== *)
theory Webhooks
  imports PaymentRules
begin

text \<open>
  Properties of \<open>HandleWebhook\<close>: what its transaction commits, who is credited and how much,
  redelivery, and the cases in which a paid webhook can never be accepted.
\<close>

section \<open>What a webhook transaction commits\<close>

definition webhook_audit :: "provider \<Rightarrow> webhook_event \<Rightarrow> payment \<Rightarrow> payment \<Rightarrow> payment_audit \<Rightarrow> bool" where
  "webhook_audit provider ev p fresh a \<longleftrightarrow>
     au_PaymentID a = p_ID p \<and> au_EventType a = AuditEventWebhookReceived \<and> au_OldStatus a = Some (p_Status fresh)
     \<and> au_NewStatus a = ev_Status ev \<and> au_Actor a = ''webhook:'' @ provider_str provider"

definition webhook_credit :: "webhook_event \<Rightarrow> payment \<Rightarrow> int64 \<Rightarrow> int64 \<Rightarrow> mutation list \<Rightarrow> bool" where
  "webhook_credit ev p due fee ms \<longleftrightarrow>
     (if ev_Status ev = PaymentStatusPaid
      then fee = due \<and> (\<exists>i t. ms = [(cash_in p fee)\<lparr>mu_ID := i, mu_CreatedAt := t\<rparr>]) \<and> mutation_row_ok (cash_in p fee)
      else ms = [] \<and> fee = 0)"

definition webhook_notice :: "webhook_event \<Rightarrow> payment \<Rightarrow> merchant \<Rightarrow> int64 \<Rightarrow> time \<Rightarrow> outbox_event list \<Rightarrow> bool" where
  "webhook_notice ev p merchant fee t es \<longleftrightarrow>
     (if callback_url merchant p = '''' then es = []
      else \<exists>e. es = [e] \<and> ob_EventType e = ''payment.'' @ payment_status_str (ev_Status ev)
             \<and> ob_TargetUrl e = callback_url merchant p \<and> ob_DeliveredAt e = None \<and> ob_AttemptCount e = 0
             \<and> ob_Payload e = payment_payload (apply_event ev p) fee t)"

definition webhook_effect ::
  "provider \<Rightarrow> webhook_event \<Rightarrow> payment \<Rightarrow> merchant \<Rightarrow> int \<Rightarrow> time \<Rightarrow> database \<Rightarrow> database \<Rightarrow> bool" where
  "webhook_effect provider ev p merchant today t db db' \<longleftrightarrow>
     (\<exists>fresh a ms es fee.
        find (\<lambda>r. p_ID r = p_ID p) (db_payments db) = Some fresh \<and> \<not> payment_IsFinal fresh
      \<and> webhook_audit provider ev p fresh a \<and> webhook_credit ev p (fee_due db today merchant p) fee ms
      \<and> webhook_notice ev p merchant fee t es
      \<and> (\<forall>r \<in> set (db_payments db). p_ID r = p_ID p \<longrightarrow> payment_row_ok (with_status_of (apply_event ev p) t r))
      \<and> db' = (set_status (apply_event ev p) t db)
                \<lparr>db_audits := db_audits db @ [a], db_mutations := db_mutations db @ ms, db_outbox := db_outbox db @ es\<rparr>)"

text \<open>The committed result of the transaction: nothing for a payment that became final meanwhile.\<close>

definition webhook_commit ::
  "provider \<Rightarrow> webhook_event \<Rightarrow> payment \<Rightarrow> merchant \<Rightarrow> int \<Rightarrow> time \<Rightarrow> database \<Rightarrow> database \<Rightarrow> bool" where
  "webhook_commit provider ev p merchant today t db db' \<longleftrightarrow>
     (\<exists>fresh. find (\<lambda>r. p_ID r = p_ID p) (db_payments db) = Some fresh \<and> payment_IsFinal fresh \<and> db' = db)
     \<or> webhook_effect provider ev p merchant today t db db'"

lemma apply_event_simps [simp]:
  "p_ID (apply_event ev p) = p_ID p" "p_Status (apply_event ev p) = ev_Status ev"
  "p_Metadata (apply_event ev p) = p_Metadata p" "p_Amount (apply_event ev p) = p_Amount p"
  "p_MerchantID (apply_event ev p) = p_MerchantID p" "p_Currency (apply_event ev p) = p_Currency p"
  "p_Method (apply_event ev p) = p_Method p" "p_Provider (apply_event ev p) = p_Provider p"
  by (simp_all add: apply_event_def Let_def)

lemma cash_in_apply_event [simp]: "cash_in (apply_event ev p) fee = cash_in p fee"
  by (simp add: cash_in_def)

lemma callback_url_apply_event [simp]: "callback_url m (apply_event ev p) = callback_url m p"
  by (simp add: callback_url_def)

lemma wp_notice:
  assumes f: "find (\<lambda>r. p_ID r = p_ID p) (db_payments db) = Some fresh" "\<not> payment_IsFinal fresh"
    and a: "webhook_audit provider ev p fresh a" and c: "webhook_credit ev p (fee_due db today merchant p) fee ms"
    and k: "\<forall>r \<in> set (db_payments db). p_ID r = p_ID p \<longrightarrow> payment_row_ok (with_status_of (apply_event ev p) t r)"
    and u: "w_db u = (set_status (apply_event ev p) t db)
        \<lparr>db_audits := db_audits db @ [a], db_mutations := db_mutations db @ ms\<rparr>" "w_now u = t"
  shows "wp (let callbackURL = callback_url merchant p in
       if callbackURL = '''' then ret ()
       else bind now (\<lambda>t. outbox_Insert (''payment.'' @ payment_status_str (ev_Status ev)) callbackURL (m_ID merchant)
                            (payment_payload (apply_event ev p) fee t)))
     (\<lambda>_ w2. webhook_effect provider ev p merchant today t db (w_db w2)) (\<lambda>_ _. True) u"
proof -
  have eff: "webhook_effect provider ev p merchant today t db
      ((set_status (apply_event ev p) t db)
         \<lparr>db_audits := db_audits db @ [a], db_mutations := db_mutations db @ ms, db_outbox := db_outbox db @ es\<rparr>)"
    if "webhook_notice ev p merchant fee t es" for es
    unfolding webhook_effect_def using f a c k that by blast
  have o: "db_outbox (set_status x t db) = db_outbox db" for x by (simp add: set_status_def)
  show ?thesis
  proof (cases "callback_url merchant p = ''''")
    case True
    then have "webhook_notice ev p merchant fee t []" by (simp add: webhook_notice_def)
    from eff [OF this] True u show ?thesis by (cases db) (simp add: wp_ret set_status_def)
  next
    case False
    then show ?thesis
      by (simp add: wp_bind wp_now u(2), intro wp_outbox_Insert) (use eff u o in \<open>auto simp: webhook_notice_def\<close>)
  qed
qed

lemma webhook_tx_spec:
  "wp (webhook_tx provider ev p merchant)
     (\<lambda>_ w'. webhook_commit provider ev p merchant (local_day w (w_now w)) (w_now w) (w_db w) (w_db w'))
     (\<lambda>_ w'. w_db w' = w_db w) w"
proof -
  let ?db = "w_db w" and ?t = "w_now w" and ?today = "local_day w (w_now w)"
  let ?Q = "\<lambda>_ w2. webhook_commit provider ev p merchant ?today ?t ?db (w_db w2)"
  define notice where "notice fee =
    (let callbackURL = callback_url merchant p in
       if callbackURL = '''' then ret ()
       else bind now (\<lambda>t. outbox_Insert (''payment.'' @ payment_status_str (ev_Status ev)) callbackURL (m_ID merchant)
                            (payment_payload (apply_event ev p) fee t)))" for fee
  have N: "wp (notice fee) ?Q (\<lambda>_ _. True) u"
    if "find (\<lambda>r. p_ID r = p_ID p) (db_payments ?db) = Some fresh" "\<not> payment_IsFinal fresh"
      "webhook_audit provider ev p fresh a" "webhook_credit ev p (fee_due ?db ?today merchant p) fee ms"
      "\<forall>r \<in> set (db_payments ?db). p_ID r = p_ID p \<longrightarrow> payment_row_ok (with_status_of (apply_event ev p) ?t r)"
      "w_db u = (set_status (apply_event ev p) ?t ?db)\<lparr>db_audits := db_audits ?db @ [a], db_mutations := db_mutations ?db @ ms\<rparr>"
      "w_now u = ?t" for fresh a fee ms u
    unfolding notice_def by (rule wp_mono [OF wp_notice [OF that]]) (auto simp: webhook_commit_def)
  have due: "fee_due d (local_day u t) merchant (apply_event ev p) = fee_due ?db ?today merchant p"
    if "db_fee_defaults d = db_fee_defaults ?db" "db_platform_margin d = db_platform_margin ?db"
      "db_fee_holidays d = db_fee_holidays ?db" "local_day u t = ?today" for u d t
    using fee_spec_cong [of d ?db] that by (simp add: fee_due_def)
  have "wp (bind (payment_FindByIDForUpdate (p_ID p)) (\<lambda>fresh.
       if payment_IsFinal fresh then ret ()
       else
         let p = apply_event ev p; oldStatus = p_Status fresh in
         bind (payment_Update p) (\<lambda>_.
         bind (audit_Save (audit (p_ID p) AuditEventWebhookReceived (Some oldStatus) (p_Status p)
                             (''webhook:'' @ provider_str provider))) (\<lambda>_.
         bind (if p_Status p = PaymentStatusPaid
               then bind (resolved_fee merchant p) (\<lambda>fee.
                    bind (mutation_Save (cash_in p fee)) (\<lambda>_. ret fee))
               else ret 0) notice)))) ?Q (\<lambda>_ _. True) (begin_tx w)"
    unfolding wp_bind wp_if Let_def apply_event_simps
    apply (rule wp_payment_find)
    apply (simp add: wp_ret webhook_commit_def [of _ _ _ _ _ _ "w_db w" "w_db w"])
    apply (intro impI)
    apply (rule wp_payment_Update)
    apply (rule wp_audit_Save)
    apply (intro conjI impI)
    apply (rule wp_resolved_fee)
    apply simp
    apply (rule wp_mutation_Save_db)
    apply (simp only: wp_ret)
    subgoal for fresh w1 r row fee w3
      apply (rule N [of _ row]) 
        apply (auto simp: same_tables_def set_status_def webhook_audit_def audit_def webhook_credit_def new_mutation_def
          mutation_insertable_def stmt_fails_def due)
      done
    apply simp
    apply simp
    subgoal
      unfolding wp_ret
      by (rule N) (auto simp: set_status_def webhook_audit_def audit_def webhook_credit_def)
    apply simp_all
    done
  note body = this [unfolded notice_def Let_def apply_event_simps callback_url_apply_event]
  show ?thesis
    unfolding webhook_tx_def wp_RunInTx Let_def apply_event_simps callback_url_apply_event end_tx_simps
    by (rule if_both, simp, rule wp_mono [OF body]) auto
qed

section \<open>The handler\<close>

text \<open>
  What one call of \<open>HandleWebhook\<close> that returns without error has done: the gateway parsed the
  body, the payment it names was found, and either it was final and nothing changed or the
  transaction committed for the payment's merchant.
\<close>

definition webhook_parsed :: "gateways \<Rightarrow> provider \<Rightarrow> headers \<Rightarrow> string \<Rightarrow> webhook_event \<Rightarrow> bool" where
  "webhook_parsed gws provider hdrs body ev \<longleftrightarrow>
     (\<exists>gw. gws provider = Some gw \<and> pg_ParseWebhook gw hdrs body = Inr ev)"

definition named_payment :: "database \<Rightarrow> provider \<Rightarrow> webhook_event \<Rightarrow> payment option" where
  "named_payment db provider ev =
     find (\<lambda>p. p_Provider p = provider \<and> p_ExternalID p = ev_ExternalID ev) (db_payments db)"

definition live_merchant :: "database \<Rightarrow> string \<Rightarrow> merchant option" where
  "live_merchant db i = find (\<lambda>m. m_ID m = i \<and> live m) (db_merchants db)"

definition webhook_done ::
  "provider \<Rightarrow> webhook_event \<Rightarrow> int \<Rightarrow> time \<Rightarrow> database \<Rightarrow> database \<Rightarrow> bool" where
  "webhook_done provider ev today t db db' \<longleftrightarrow>
     (\<exists>p. named_payment db provider ev = Some p
        \<and> (payment_IsFinal p \<and> db' = db
           \<or> \<not> payment_IsFinal p \<and> (\<exists>m. live_merchant db (p_MerchantID p) = Some m
               \<and> webhook_commit provider ev p m today t db db')))"

lemma webhook_read_spec:
  "wp (webhook_read gws provider hdrs body)
     (\<lambda>r w'. same_tables w w' \<and> (\<exists>ev p. webhook_parsed gws provider hdrs body ev \<and> named_payment (w_db w) provider ev = Some p
        \<and> (payment_IsFinal p \<and> r = None
           \<or> \<not> payment_IsFinal p \<and> (\<exists>m. live_merchant (w_db w) (p_MerchantID p) = Some m \<and> r = Some (ev, p, m)))))
     (\<lambda>_ w'. w_db w' = w_db w) w"
  unfolding webhook_read_def payment_gateway_for_def wp_bind wp_case_option wp_throw wp_ret wp_wrap wp_outcome wp_if
  apply (simp split: option.split sum.split, intro allI impI conjI)
  apply (rule wp_payment_FindByExternalID)
    apply (intro conjI impI)
  subgoal by (simp add: same_tables_def)
  subgoal by (auto simp: webhook_parsed_def named_payment_def)
  subgoal by (rule wp_merchant_FindByID)
      (auto simp: webhook_parsed_def named_payment_def live_merchant_def same_tables_def)
  subgoal by simp
  done

lemma HandleWebhook_spec:
  "wp (HandleWebhook gws provider hdrs body)
     (\<lambda>_ w'. \<exists>ev. webhook_parsed gws provider hdrs body ev
        \<and> webhook_done provider ev (local_day w (w_now w)) (w_now w) (w_db w) (w_db w'))
     (\<lambda>_ w'. w_db w' = w_db w) w"
  unfolding HandleWebhook_def wp_bind
proof (rule wp_mono [OF webhook_read_spec], goal_cases)
  case (1 r w1)
  then have w1: "w_db w1 = w_db w" "w_now w1 = w_now w" "local_day w1 (w_now w) = local_day w (w_now w)"
    by (auto simp: same_tables_def local_day_def)
  show ?case
  proof (cases r)
    case None
    with 1 w1 show ?thesis by (auto simp: wp_ret webhook_done_def)
  next
    case (Some x)
    then obtain ev p m where r: "r = Some (ev, p, m)" by (cases x) auto
    with 1 w1 show ?thesis
      by (auto simp: webhook_done_def intro!: wp_mono [OF webhook_tx_spec])
  qed
qed auto

text \<open>C1: whatever the database does, a webhook that returns an error has changed no table; one that returns without
  error was parsed by the provider's gateway and either found its payment final and changed nothing, or committed
  exactly one status update, one audit row, the ledger credit of a paid event at the resolved fee, and the merchant's
  notification, all together.\<close>

theorem HandleWebhook_effect:
  "wp (HandleWebhook gws provider hdrs body)
     (\<lambda>_ w'. \<exists>ev. webhook_parsed gws provider hdrs body ev
        \<and> webhook_done provider ev (local_day w (w_now w)) (w_now w) (w_db w) (w_db w'))
     (\<lambda>_ w'. w_db w' = w_db w) w"
  by (rule HandleWebhook_spec)

section \<open>Money\<close>

lemma webhook_commitE:
  assumes "webhook_commit provider ev p m today t db db'"
  obtains (final) "db' = db"
  | (effect) fresh a ms es fee where
      "find (\<lambda>r. p_ID r = p_ID p) (db_payments db) = Some fresh" "\<not> payment_IsFinal fresh"
      "webhook_audit provider ev p fresh a" "webhook_credit ev p (fee_due db today m p) fee ms"
      "webhook_notice ev p m fee t es"
      "\<forall>r \<in> set (db_payments db). p_ID r = p_ID p \<longrightarrow> payment_row_ok (with_status_of (apply_event ev p) t r)"
      "db_payments db' = update_where (\<lambda>r. p_ID r = p_ID p) (with_status_of (apply_event ev p) t) (db_payments db)"
      "db_audits db' = db_audits db @ [a]" "db_mutations db' = db_mutations db @ ms" "db_outbox db' = db_outbox db @ es"
      "db_merchants db' = db_merchants db" "db_disbursements db' = db_disbursements db"
  using assms unfolding webhook_commit_def webhook_effect_def
  by (auto simp: set_status_def)

text \<open>
  A payment and its ledger entry: every paid payment has been credited to its merchant with
  its own amount, and no payment has been credited that is not paid.
\<close>

definition credit_for :: "database \<Rightarrow> payment \<Rightarrow> mutation \<Rightarrow> bool" where
  "credit_for db p m \<longleftrightarrow>
     m \<in> set (db_mutations db) \<and> mu_ReferenceType m = MutationRefPayment \<and> mu_ReferenceID m = p_ID p
     \<and> mu_Type m = MutationTypeCashIn \<and> mu_MerchantID m = p_MerchantID p \<and> mu_Amount m = p_Amount p"

definition credited :: "database \<Rightarrow> bool" where
  "credited db \<longleftrightarrow> (\<forall>p \<in> set (db_payments db). p_Status p = PaymentStatusPaid \<longrightarrow> (\<exists>m. credit_for db p m))"

definition earned :: "database \<Rightarrow> bool" where
  "earned db \<longleftrightarrow> (\<forall>m \<in> set (db_mutations db). mu_ReferenceType m = MutationRefPayment \<longrightarrow>
     (\<exists>p \<in> set (db_payments db). p_Status p = PaymentStatusPaid \<and> p_ID p = mu_ReferenceID m))"

lemma with_status_of_simps [simp]:
  "p_MerchantID (with_status_of p t r) = p_MerchantID r" "p_Amount (with_status_of p t r) = p_Amount r"
  "p_Status (with_status_of p t r) = p_Status p" "p_Provider (with_status_of p t r) = p_Provider r"
  "p_ExternalID (with_status_of p t r) = p_ExternalID r"
  by (simp_all add: with_status_of_def)

lemma in_update_where_iff: "x \<in> set (update_where P f rows) \<longleftrightarrow> (\<exists>r \<in> set rows. x = (if P r then f r else r))"
  by (auto simp: update_where_def)

lemma update_where_hits: "P r \<Longrightarrow> r \<in> set rows \<Longrightarrow> f r \<in> set (update_where P f rows)"
  by (force simp: update_where_def)

lemma update_where_skips: "\<not> P r \<Longrightarrow> r \<in> set rows \<Longrightarrow> r \<in> set (update_where P f rows)"
  by (force simp: update_where_def)

lemma credit_for_append: "credit_for db p m \<Longrightarrow> db_mutations db' = db_mutations db @ ms \<Longrightarrow> credit_for db' p m"
  by (simp add: credit_for_def)

text \<open>\<open>p\<close> may be older than the table; its identity, merchant and amount never change.\<close>

definition agrees :: "database \<Rightarrow> payment \<Rightarrow> bool" where
  "agrees db p \<longleftrightarrow> (\<forall>r \<in> set (db_payments db). p_ID r = p_ID p \<longrightarrow> p_MerchantID r = p_MerchantID p \<and> p_Amount r = p_Amount p)"

lemma webhook_commit_credited:
  assumes c: "webhook_commit provider ev p m today t db db'" and a: "agrees db p" and k: "credited db"
  shows "credited db'"
  using c
proof (cases rule: webhook_commitE)
  case (effect fresh a ms es fee)
  show ?thesis
    unfolding credited_def
  proof (intro ballI impI)
    fix r' assume r': "r' \<in> set (db_payments db')" "p_Status r' = PaymentStatusPaid"
    then obtain r where r: "r \<in> set (db_payments db)"
      "r' = (if p_ID r = p_ID p then with_status_of (apply_event ev p) t r else r)"
      unfolding effect(7) in_update_where_iff by blast
    show "\<exists>m. credit_for db' r' m"
    proof (cases "p_ID r = p_ID p")
      case True
      with r r' effect(4) obtain i s where "ms = [(cash_in p fee)\<lparr>mu_ID := i, mu_CreatedAt := s\<rparr>]"
        by (auto simp: webhook_credit_def)
      then show ?thesis
        using True r a by (intro exI [of _ "(cash_in p fee)\<lparr>mu_ID := i, mu_CreatedAt := s\<rparr>"])
          (auto simp: credit_for_def effect(9) cash_in_def agrees_def)
    next
      case False
      with r r' k obtain m where "credit_for db r' m" by (auto simp: credited_def)
      then show ?thesis using credit_for_append [OF _ effect(9)] by blast
    qed
  qed
qed (use k in simp)

lemma find_Some_unique: "distinct (map f xs) \<Longrightarrow> find (\<lambda>x. f x = k) xs = Some y \<Longrightarrow> x \<in> set xs \<Longrightarrow> f x = k \<Longrightarrow> x = y"
  by (metis (mono_tags, lifting) distinct_map find_Some_iff inj_onD nth_mem)

lemma webhook_commit_earned:
  assumes c: "webhook_commit provider ev p m today t db db'" and s: "schema_ok db" and e: "earned db"
  shows "earned db'"
  using c
proof (cases rule: webhook_commitE)
  case (effect fresh a ms es fee)
  note one = find_Some_unique [OF schema_distinct(1) [OF s] effect(1)]
  show ?thesis
    unfolding earned_def
  proof (intro ballI impI)
    fix mu assume mu: "mu \<in> set (db_mutations db')" "mu_ReferenceType mu = MutationRefPayment"
    show "\<exists>p \<in> set (db_payments db'). p_Status p = PaymentStatusPaid \<and> p_ID p = mu_ReferenceID mu"
    proof (cases "mu \<in> set (db_mutations db)")
      case True
      with e mu obtain q where q: "q \<in> set (db_payments db)" "p_Status q = PaymentStatusPaid" "p_ID q = mu_ReferenceID mu"
        by (auto simp: earned_def)
      with one effect(2) have "p_ID q \<noteq> p_ID p" by (auto simp: payment_IsFinal_def)
      with q show ?thesis
        by (intro bexI [of _ q]) (auto simp: effect(7) intro: update_where_skips)
    next
      case False
      with mu effect(4,9) have "ev_Status ev = PaymentStatusPaid" "mu_ReferenceID mu = p_ID p"
        by (auto simp: webhook_credit_def cash_in_def split: if_splits)
      with find_Some_in [OF effect(1)] show ?thesis
        by (intro bexI [of _ "with_status_of (apply_event ev p) t fresh"])
          (auto simp: effect(7) intro: update_where_hits [of "\<lambda>r. p_ID r = p_ID p"])
    qed
  qed
qed (use e in simp)

lemma payment_keys:
  assumes "schema_ok db" "p \<in> set (db_payments db)" "q \<in> set (db_payments db)"
  shows "p_ID p = p_ID q \<Longrightarrow> p = q"
    and "p_Provider p = p_Provider q \<Longrightarrow> p_ExternalID p = p_ExternalID q \<Longrightarrow> p = q"
  using schema_distinct(1,3) [OF assms(1)] assms(2,3) by (auto simp: distinct_map dest: inj_onD)

lemma find_own: "schema_ok db \<Longrightarrow> p \<in> set (db_payments db) \<Longrightarrow> find (\<lambda>r. p_ID r = p_ID p) (db_payments db) = Some p"
  by (cases "find (\<lambda>r. p_ID r = p_ID p) (db_payments db)")
    (auto simp: find_None_iff dest!: find_Some_in dest: payment_keys(1))

lemma named_payment_in: "named_payment db provider ev = Some p \<Longrightarrow>
    p \<in> set (db_payments db) \<and> p_Provider p = provider \<and> p_ExternalID p = ev_ExternalID ev"
  by (auto simp: named_payment_def dest: find_Some_in)

lemma named_payment_agrees: "schema_ok db \<Longrightarrow> named_payment db provider ev = Some p \<Longrightarrow> agrees db p"
  by (auto simp: agrees_def dest!: named_payment_in dest: payment_keys(1))

text \<open>From tables where every paid payment is credited to its merchant with its own amount and every payment credit
  belongs to a paid payment, a webhook leads to such tables again, whatever event it carries and however often or in
  whichever order events arrive.\<close>

theorem HandleWebhook_reconciles:
  assumes "schema_ok (w_db w)" "credited (w_db w)" "earned (w_db w)"
  shows "wp (HandleWebhook gws provider hdrs body)
     (\<lambda>_ w'. credited (w_db w') \<and> earned (w_db w')) (\<lambda>_ w'. credited (w_db w') \<and> earned (w_db w')) w"
proof (rule wp_mono [OF HandleWebhook_spec], goal_cases)
  case (1 x w')
  then obtain ev p where p: "named_payment (w_db w) provider ev = Some p"
    "w_db w' = w_db w \<or> (\<exists>m. webhook_commit provider ev p m (local_day w (w_now w)) (w_now w) (w_db w) (w_db w'))"
    by (auto simp: webhook_done_def)
  then show ?case
    using assms webhook_commit_credited [OF _ named_payment_agrees [OF assms(1) p(1)] assms(2)]
      webhook_commit_earned [OF _ assms(1,3)] by auto
qed (use assms in auto)

lemma balance_of_appended:
  "db_mutations db' = db_mutations db @ ms \<Longrightarrow>
     balance_of db' i = balance_of db i + sum_list (map balance_effect (filter (\<lambda>m. mu_MerchantID m = i) ms))"
  by (simp add: balance_of_def)

text \<open>C9: a webhook that succeeds either leaves every balance as it was, or it is a paid event for a payment that was
  not final, and then the balance of the payment's merchant grows by the amount less the fee due, which lies between 0
  and the amount, and no other balance moves.\<close>

theorem HandleWebhook_balance:
  "wp (HandleWebhook gws provider hdrs body)
     (\<lambda>_ w'. (\<forall>i. balance_of (w_db w') i = balance_of (w_db w) i)
        \<or> (\<exists>ev p m fee. webhook_parsed gws provider hdrs body ev \<and> ev_Status ev = PaymentStatusPaid
            \<and> named_payment (w_db w) provider ev = Some p \<and> \<not> payment_IsFinal p
            \<and> live_merchant (w_db w) (p_MerchantID p) = Some m
            \<and> fee = fee_due (w_db w) (local_day w (w_now w)) m p \<and> 0 \<le> fee \<and> fee \<le> p_Amount p
            \<and> (\<forall>i. balance_of (w_db w') i
                  = balance_of (w_db w) i + (if i = p_MerchantID p then p_Amount p - fee else 0))))
     (\<lambda>_ w'. \<forall>i. balance_of (w_db w') i = balance_of (w_db w) i) w"
proof (rule wp_mono [OF HandleWebhook_spec], goal_cases)
  case (1 x w')
  then obtain ev p where p: "webhook_parsed gws provider hdrs body ev" "named_payment (w_db w) provider ev = Some p"
    and alt: "w_db w' = w_db w \<or> \<not> payment_IsFinal p \<and> (\<exists>m. live_merchant (w_db w) (p_MerchantID p) = Some m
       \<and> webhook_commit provider ev p m (local_day w (w_now w)) (w_now w) (w_db w) (w_db w'))"
    by (auto simp: webhook_done_def)
  show ?case
  proof (cases "w_db w' = w_db w")
    case False
    with alt obtain m where m: "\<not> payment_IsFinal p" "live_merchant (w_db w) (p_MerchantID p) = Some m"
      "webhook_commit provider ev p m (local_day w (w_now w)) (w_now w) (w_db w) (w_db w')" by blast
    from m(3) show ?thesis
    proof (cases rule: webhook_commitE)
      case (effect fresh a ms es fee)
      note b = balance_of_appended [OF effect(9)]
      show ?thesis
      proof (cases "ev_Status ev = PaymentStatusPaid")
        case True
        with effect(4) have "fee = fee_due (w_db w) (local_day w (w_now w)) m p" "0 \<le> fee" "fee \<le> p_Amount p"
          "\<And>i. balance_of (w_db w') i = balance_of (w_db w) i + (if i = p_MerchantID p then p_Amount p - fee else 0)"
          unfolding b by (auto simp: webhook_credit_def mutation_row_ok_def cash_in_def balance_effect_def)
        with p m True show ?thesis by blast
      next
        case False
        with effect(4) show ?thesis unfolding b by (simp add: webhook_credit_def)
      qed
    qed simp
  qed simp
qed simp

section \<open>Final payments\<close>

text \<open>A row in a final status stays in the table as it is.\<close>

definition final_kept :: "database \<Rightarrow> database \<Rightarrow> bool" where
  "final_kept db db' \<longleftrightarrow> (\<forall>p \<in> set (db_payments db). payment_IsFinal p \<longrightarrow> p \<in> set (db_payments db'))"

lemma webhook_commit_final_kept:
  assumes s: "schema_ok db" and c: "webhook_commit provider ev p m today t db db'"
  shows "final_kept db db'"
  using c
proof (cases rule: webhook_commitE)
  case (effect fresh a ms es fee)
  note one = find_Some_unique [OF schema_distinct(1) [OF s] effect(1)]
  show ?thesis
    unfolding final_kept_def effect(7) using one effect(2) by (auto intro!: update_where_skips)
qed (simp add: final_kept_def)

text \<open>No webhook changes a payment that is paid, expired, cancelled, failed or refunded, so a payment that was paid
  stays paid and one that expired is never credited.\<close>

theorem HandleWebhook_final_kept:
  assumes "schema_ok (w_db w)"
  shows "final_kept (w_db w) (w_db (snd (HandleWebhook gws provider hdrs body w)))"
proof -
  have "wp (HandleWebhook gws provider hdrs body) (\<lambda>_ w'. final_kept (w_db w) (w_db w')) (\<lambda>_ w'. final_kept (w_db w) (w_db w')) w"
    by (rule wp_mono [OF HandleWebhook_spec])
      (auto simp: webhook_done_def final_kept_def dest: webhook_commit_final_kept [OF assms, unfolded final_kept_def])
  then show ?thesis by (simp add: wp_snd)
qed

lemma find_update_where:
  "(\<And>r. Q (f r) = Q r) \<Longrightarrow> find Q (update_where P f rows) = map_option (\<lambda>r. if P r then f r else r) (find Q rows)"
  by (induction rows) (auto simp: update_where_def)

text \<open>After a successful delivery of a final event, the event names a final payment.\<close>

lemma delivered_final:
  assumes s: "schema_ok db" and d: "webhook_done provider ev today t db db'" and f: "payment_IsFinal (p\<lparr>p_Status := ev_Status ev\<rparr>)"
  shows "\<exists>q. named_payment db' provider ev = Some q \<and> payment_IsFinal q"
proof -
  from d obtain q where q: "named_payment db provider ev = Some q"
    "payment_IsFinal q \<and> db' = db \<or> (\<exists>m. webhook_commit provider ev q m today t db db')"
    by (auto simp: webhook_done_def)
  show ?thesis
  proof (cases "payment_IsFinal q \<and> db' = db")
    case False
    with q(2) obtain m where c: "webhook_commit provider ev q m today t db db'" by blast
    from named_payment_in [OF q(1)] have qin: "q \<in> set (db_payments db)" by simp
    from c [unfolded webhook_commit_def] consider
      fresh where "find (\<lambda>r. p_ID r = p_ID q) (db_payments db) = Some fresh" "payment_IsFinal fresh" "db' = db"
      | "db_payments db' = update_where (\<lambda>r. p_ID r = p_ID q) (with_status_of (apply_event ev q) t) (db_payments db)"
      by (auto simp: webhook_effect_def set_status_def)
    then show ?thesis
    proof cases
      case 1
      with find_own [OF s qin] q(1) show ?thesis by auto
    next
      case 2
      have "named_payment db' provider ev = Some (with_status_of (apply_event ev q) t q)"
        using q(1) unfolding named_payment_def 2 by (subst find_update_where) auto
      then show ?thesis
        using f by (simp add: payment_IsFinal_status)
    qed
  qed (use q in blast)
qed

text \<open>A delivery for a final payment is acknowledged and changes nothing.\<close>

lemma HandleWebhook_final:
  assumes "webhook_parsed gws provider hdrs body ev" "named_payment (w_db w) provider ev = Some q" "payment_IsFinal q"
  shows "wp (HandleWebhook gws provider hdrs body) (\<lambda>_ w'. w_db w' = w_db w) (\<lambda>_ w'. w_db w' = w_db w \<and> stmt_fails w) w"
  using assms
  by (auto simp: HandleWebhook_def webhook_read_def payment_gateway_for_def payment_FindByExternalID_def webhook_parsed_def
      named_payment_def wp_simps wp_query)

text \<open>C14: providers deliver webhooks more than once: after a first successful delivery of an event with a final status,
  every later delivery of the same request changes no table, and it is acknowledged without error when the database
  answers.\<close>

theorem HandleWebhook_redelivery:
  assumes "schema_ok (w_db w)" "HandleWebhook gws provider hdrs body w = (Inr (), w1)"
    and "webhook_parsed gws provider hdrs body ev" "payment_IsFinal (p\<lparr>p_Status := ev_Status ev\<rparr>)"
    and "w_db w2 = w_db w1"
  shows "wp (HandleWebhook gws provider hdrs body) (\<lambda>_ w'. w_db w' = w_db w1) (\<lambda>_ w'. w_db w' = w_db w1 \<and> stmt_fails w2) w2"
proof -
  from wp_run [OF HandleWebhook_spec assms(2)] obtain ev' where
    "webhook_parsed gws provider hdrs body ev'" "webhook_done provider ev' (local_day w (w_now w)) (w_now w) (w_db w) (w_db w1)"
    by auto
  moreover from this(1) assms(3) have "ev' = ev" by (auto simp: webhook_parsed_def)
  ultimately obtain q where "named_payment (w_db w2) provider ev = Some q" "payment_IsFinal q"
    using delivered_final [OF assms(1) _ assms(4)] assms(5) by metis
  from HandleWebhook_final [OF assms(3) this] show ?thesis using assms(5) by simp
qed

section \<open>Webhooks that can never be accepted\<close>

text \<open>C16: a paid event whose resolved fee exceeds the amount is refused on every delivery: the ledger's CHECK
  constraint rejects the credit, the transaction rolls back and the payment stays unpaid.\<close>

theorem HandleWebhook_fee_above_amount:
  assumes "webhook_parsed gws provider hdrs body ev" "ev_Status ev = PaymentStatusPaid" "schema_ok (w_db w)"
    and "named_payment (w_db w) provider ev = Some p" "\<not> payment_IsFinal p"
    and "live_merchant (w_db w) (p_MerchantID p) = Some m"
    and "p_Amount p < fee_due (w_db w) (local_day w (w_now w)) m p"
  shows "wp (HandleWebhook gws provider hdrs body) (\<lambda>_ _. False) (\<lambda>_ w'. w_db w' = w_db w) w"
proof (rule wp_mono [OF HandleWebhook_spec], goal_cases)
  case (1 x w')
  then obtain ev' where "webhook_parsed gws provider hdrs body ev'"
    "webhook_done provider ev' (local_day w (w_now w)) (w_now w) (w_db w) (w_db w')" by blast
  moreover from this(1) assms(1) have "ev' = ev" by (auto simp: webhook_parsed_def)
  ultimately have c: "webhook_commit provider ev p m (local_day w (w_now w)) (w_now w) (w_db w) (w_db w')"
    using assms(4-6) by (auto simp: webhook_done_def)
  from named_payment_in [OF assms(4)] have pin: "p \<in> set (db_payments (w_db w))" by simp
  from c [unfolded webhook_commit_def] show ?case
  proof
    assume "\<exists>fresh. find (\<lambda>r. p_ID r = p_ID p) (db_payments (w_db w)) = Some fresh \<and> payment_IsFinal fresh \<and> w_db w' = w_db w"
    with assms(5) find_own [OF assms(3) pin] show False by auto
  next
    assume "webhook_effect provider ev p m (local_day w (w_now w)) (w_now w) (w_db w) (w_db w')"
    then show False
      using assms(2,7) by (auto simp: webhook_effect_def webhook_credit_def mutation_row_ok_def cash_in_def)
  qed
qed

section \<open>Webhooks that are accepted\<close>

text \<open>\<open>gen_random_uuid()\<close> has not yet produced the identifiers it will produce.\<close>

definition fresh_ids :: "world \<Rightarrow> bool" where
  "fresh_ids w \<longleftrightarrow> inj (\<lambda>n. w_uuid w n 0) \<and> (\<forall>n \<ge> w_stmts w.
     (\<forall>r \<in> set (db_audits (w_db w)). au_ID r \<noteq> w_uuid w n 0) \<and> (\<forall>r \<in> set (db_mutations (w_db w)). mu_ID r \<noteq> w_uuid w n 0)
     \<and> (\<forall>r \<in> set (db_outbox (w_db w)). ob_ID r \<noteq> w_uuid w n 0))"

lemma resolved_fee_ok:
  assumes "no_faults w"
    and "\<And>fee w'. same_tables w w' \<Longrightarrow> no_faults w' \<Longrightarrow> fee = fee_due (w_db w) (local_day w (w_now w)) m p \<Longrightarrow> Q fee w'"
  shows "wp (resolved_fee m p) Q E w"
proof -
  have "reads.obeys (resolved_fee m p)"
    unfolding resolved_fee_def by (intro reads.obeys_intros reads_Resolve)
  then have "same_tables w (snd (resolved_fee m p w))" by (rule reads.obeysD)
  moreover have "wp (resolved_fee m p) (\<lambda>fee w'. fee = fee_due (w_db w) (local_day w (w_now w)) m p \<and> no_faults w')
      (\<lambda>_ _. False) w"
    unfolding resolved_fee_def wp_bind wp_attempt wp_ret
    by (rule wp_mono [OF Resolve_spec [OF assms(1)]]) (auto simp: fee_due_def)
  ultimately show ?thesis
    using assms(2) by (auto simp: wp_def split: prod.splits sum.splits)
qed

lemma payment_exists_iff: "payment_exists db i \<longleftrightarrow> i \<in> p_ID ` set (db_payments db)"
  by (auto simp: payment_exists_def list_ex_iff)

lemma update_where_image:
  assumes "\<And>r. key (f r) = key r"
  shows "key ` set (update_where P f rows) = key ` set rows"
proof -
  have "map key (update_where P f rows) = map key rows" using assms by (simp add: update_where_def)
  then show ?thesis by (metis set_map)
qed

lemma find_ok:
  "no_faults w \<Longrightarrow> w_uuid_ok w i \<Longrightarrow> find (\<lambda>p. p_ID p = i) (db_payments (w_db w)) = Some p \<Longrightarrow> Q p (tick w) \<Longrightarrow>
     wp (payment_FindByIDForUpdate i) Q E w"
  by (simp add: payment_FindByIDForUpdate_def wp_simps wp_query uuid_param_def)

lemma Update_ok:
  assumes n: "no_faults w" and s: "schema_ok (w_db w)" and u: "w_uuid_ok w (p_ID p)"
    and r: "r \<in> set (db_payments (w_db w))" "p_ID r = p_ID p" and ok: "payment_row_ok (with_status_of p (w_now w) r)"
    and Q: "Q () ((tick w)\<lparr>w_db := set_status p (w_now w) (w_db w)\<rparr>)"
  shows "wp (payment_Update p) Q E w"
proof -
  have same: "x = r" if "x \<in> set (db_payments (w_db w))" "p_ID x = p_ID p" for x
    using payment_keys(1) [OF s that(1) r(1)] that(2) r(2) by simp
  have conflict: "\<not> payment_conflict (with_status_of p (w_now w) r) t" if "t \<in> set (db_payments (w_db w))" "p_ID t \<noteq> p_ID p" for t
    using payment_keys(2) [OF s that(1) r(1)] that(2) r(2) by (auto simp: payment_conflict_def)
  have "checked_update payment_row_ok payment_conflict (\<lambda>r. p_ID r = p_ID p) (with_status_of p (w_now w)) (db_payments (w_db w))
      = Inr (update_where (\<lambda>r. p_ID r = p_ID p) (with_status_of p (w_now w)) (db_payments (w_db w)))"
    using ok conflict by (auto dest: same)
  moreover have "find (\<lambda>r. p_ID r = p_ID p) (update_where (\<lambda>r. p_ID r = p_ID p) (with_status_of p (w_now w)) (db_payments (w_db w))) \<noteq> None"
    by (subst find_update_same) (use r in auto)
  ultimately show ?thesis
    using n u Q by (auto simp: payment_Update_def wp_simps wp_exec uuid_param_def set_status_def simp del: checked_update_Inr)
qed

lemma audit_ok:
  assumes "no_faults w" "w_uuid_ok w (au_PaymentID a)" "payment_audit_row_ok a" "payment_exists (w_db w) (au_PaymentID a)"
    and "\<And>r. r \<in> set (db_audits (w_db w)) \<Longrightarrow> au_ID r \<noteq> fresh_uuid w"
    and "\<And>x row. Q x ((tick w)\<lparr>w_db := (w_db w)\<lparr>db_audits := db_audits (w_db w) @ [row]\<rparr>\<rparr>)"
  shows "wp (audit_Save a) Q E w"
  using assms
  by (auto simp: audit_Save_def wp_simps wp_exec uuid_param_def insert_audit_def Let_def payment_audit_row_ok_def
      checked_insert_def list_ex_iff)

lemma outbox_ok:
  assumes "no_faults w" "w_uuid_ok w i" "i \<noteq> '''' \<Longrightarrow> merchant_exists (w_db w) i"
    and "\<And>r. r \<in> set (db_outbox (w_db w)) \<Longrightarrow> ob_ID r \<noteq> fresh_uuid w"
    and "\<And>db. Q () ((tick w)\<lparr>w_db := db\<rparr>)"
  shows "wp (outbox_Insert ty url i pl) Q E w"
  using assms
  by (auto simp: outbox_Insert_def wp_simps wp_exec insert_outbox_def checked_insert_def list_ex_iff outbox_row_ok_def)

lemma payment_row_ok_status:
  "payment_row_ok r \<Longrightarrow> payment_status_ok (p_Status q) \<Longrightarrow> p_FeeAmount q = p_FeeAmount r \<Longrightarrow> payment_row_ok (with_status_of q t r)"
  unfolding payment_row_ok_def with_status_of_def by simp

text \<open>A later world of the same run in which no money has moved yet.\<close>

definition before_credit :: "world \<Rightarrow> world \<Rightarrow> bool" where
  "before_credit w u \<longleftrightarrow>
     no_faults u \<and> w_now u = w_now w \<and> w_local_offset u = w_local_offset w \<and> w_uuid u = w_uuid w \<and> w_uuid_ok u = w_uuid_ok w
     \<and> w_stmts w \<le> w_stmts u \<and> db_mutations (w_db u) = db_mutations (w_db w) \<and> db_outbox (w_db u) = db_outbox (w_db w)
     \<and> db_merchants (w_db u) = db_merchants (w_db w) \<and> db_fee_defaults (w_db u) = db_fee_defaults (w_db w)
     \<and> db_platform_margin (w_db u) = db_platform_margin (w_db w) \<and> db_fee_holidays (w_db u) = db_fee_holidays (w_db w)"

lemma before_credit_due: "before_credit w u \<Longrightarrow> fee_due (w_db u) (local_day u (w_now u)) = fee_due (w_db w) (local_day w (w_now w))"
  using fee_spec_cong [of "w_db u" "w_db w"] by (intro ext) (simp add: before_credit_def fee_due_def local_day_def)

lemma fee_due_apply_event [simp]: "fee_due db today m (apply_event ev p) = fee_due db today m p"
  by (simp add: fee_due_def)

lemma credit_ok:
  assumes u: "before_credit w u" and i: "fresh_ids w" and s: "schema_ok (w_db w)"
    and p: "p \<in> set (db_payments (w_db w))" and m: "m_ID m = p_MerchantID p"
    and ids: "w_uuid_ok w (p_ID p)" "w_uuid_ok w (p_MerchantID p)" and f: "0 \<le> fee" "fee \<le> p_Amount p"
    and new: "\<And>r. r \<in> set (db_mutations (w_db w)) \<Longrightarrow> mu_ReferenceID r = p_ID p \<Longrightarrow> mu_ReferenceType r \<noteq> MutationRefPayment"
    and Q: "\<And>x u'. no_faults u' \<Longrightarrow> Q x u'"
  shows "wp (mutation_Save (cash_in p fee))
     (\<lambda>_ s. if url = '''' then Q () s else wp (outbox_Insert ty url (m_ID m) (pl (w_now s))) Q E s) E u"
proof (rule wp_mutation_Save, goal_cases)
  case 1
  have me: "merchant_exists (w_db w) (p_MerchantID p)"
    using s p by (auto simp: schema_ok_def list_all_iff)
  have o: "wp (outbox_Insert ty url (m_ID m) pl) Q E ((tick u)\<lparr>w_db := (w_db u)\<lparr>db_mutations := x\<rparr>\<rparr>)" for x pl
    by (rule outbox_ok) (use u m ids me i in \<open>auto simp: before_credit_def merchant_exists_def fresh_ids_def fresh_uuid_def intro: Q\<close>)
  show ?case using u o by (auto simp: before_credit_def intro: Q)
next
  case (2 e)
  have "payment_row_ok p" and "merchant_exists (w_db w) (p_MerchantID p)"
    using s p by (auto simp: schema_ok_def table_ok_def list_all_iff)
  then have "mutation_insertable u (cash_in p fee)"
    using u ids f i new by (auto simp: mutation_insertable_def before_credit_def cash_in_def mutation_row_ok_def payment_row_ok_def
        merchant_exists_def mutation_conflict_def new_mutation_def fresh_ids_def fresh_uuid_def)
  with 2 show ?case by simp
qed

lemma wp_ret_eta: "wp (ret x) Q E = Q x"
  by (rule ext) (rule wp_ret)

lemma webhook_tx_succeeds:
  assumes n: "idle w" and s: "schema_ok (w_db w)" and k: "earned (w_db w)" and i: "fresh_ids w"
    and p: "p \<in> set (db_payments (w_db w))" "\<not> payment_IsFinal p" and e: "ev_Status ev = PaymentStatusPaid"
    and m: "m_ID m = p_MerchantID p" and u: "w_uuid_ok w (p_ID p)" "w_uuid_ok w (p_MerchantID p)"
    and f: "0 \<le> fee_due (w_db w) (local_day w (w_now w)) m p" "fee_due (w_db w) (local_day w (w_now w)) m p \<le> p_Amount p"
  shows "wp (webhook_tx provider ev p m) (\<lambda>_ _. True) (\<lambda>_ _. False) w"
proof -
  let ?p = "apply_event ev p"
  have ok: "payment_row_ok p" and me: "merchant_exists (w_db w) (p_MerchantID p)" and pe: "payment_exists (w_db w) (p_ID p)"
    using s p(1) by (auto simp: schema_ok_def table_ok_def list_all_iff payment_exists_def list_ex_iff)
  have paid: "payment_status_ok PaymentStatusPaid" by (simp add: payment_status_ok_def)
  have row: "payment_row_ok (with_status_of ?p t p)" for t
  proof (rule payment_row_ok_status [OF ok])
    show "payment_status_ok (p_Status ?p)" using e paid by simp
    show "p_FeeAmount ?p = p_FeeAmount p" by (simp add: apply_event_def Let_def)
  qed
  have nb: "no_faults (begin_tx w)" using n by simp
  have st: "payment_status_ok (p_Status p)" using ok by (simp add: payment_row_ok_def)
  have fresh: False if "r \<in> set (db_mutations (w_db w))" "mu_ReferenceID r = p_ID p" "mu_ReferenceType r = MutationRefPayment" for r
  proof -
    from k that obtain q where q: "q \<in> set (db_payments (w_db w))" "p_Status q = PaymentStatusPaid" "p_ID q = p_ID p"
      by (auto simp: earned_def)
    from payment_keys(1) [OF s q(1) p(1) q(3)] q(2) p(2) show False by (simp add: payment_IsFinal_def)
  qed
  show ?thesis
    unfolding webhook_tx_def wp_RunInTx Let_def apply_event_simps callback_url_apply_event wp_bind wp_if wp_now
    using n apply (simp split del: if_split)
    apply (rule find_ok [OF nb])
    apply (simp add: u)
    apply (simp add: find_own [OF s p(1)])
    apply (simp add: p(2) e wp_now wp_ret split del: if_split)
    apply (rule Update_ok [of _ _ p])
    apply (simp_all add: nb s u p row split del: if_split)
    apply (rule audit_ok)
    apply (simp_all add: nb u audit_def split del: if_split)
    subgoal using st paid by (simp add: payment_audit_row_ok_def)
    subgoal using pe by (simp add: payment_exists_iff set_status_def update_where_image)
    subgoal using i by (simp add: fresh_ids_def fresh_uuid_def set_status_def)
    subgoal premises pre for row
      apply (rule resolved_fee_ok)
       apply (simp add: nb)
      apply (subst (asm) before_credit_due [of w])
      subgoal using nb by (simp add: before_credit_def set_status_def)
      apply (simp only: wp_ret_eta, rule credit_ok [of w, where Q = "\<lambda>_ w2. if stmt_fails w2 then False else True"])
      using nb i s p m u f fresh
           apply (simp_all add: before_credit_def same_tables_def set_status_def)
      using fresh by blast
    done
qed

lemma read_succeeds:
  assumes n: "idle w" and e: "webhook_parsed gws provider hdrs body ev" and p: "named_payment (w_db w) provider ev = Some p"
    and f: "\<not> payment_IsFinal p" and m: "live_merchant (w_db w) (p_MerchantID p) = Some m" and u: "w_uuid_ok w (p_MerchantID p)"
  shows "webhook_read gws provider hdrs body w = (Inr (Some (ev, p, m)), tick (tick w))"
proof -
  have "wp (webhook_read gws provider hdrs body) (\<lambda>r w'. r = Some (ev, p, m) \<and> w' = tick (tick w)) (\<lambda>_ _. False) w"
    using assms
    by (auto simp: webhook_read_def payment_gateway_for_def payment_FindByExternalID_def merchant_FindByID_def webhook_parsed_def
        named_payment_def live_merchant_def uuid_param_def wp_simps wp_query)
  then show ?thesis
    by (auto simp: wp_def split: prod.splits sum.splits)
qed

text \<open>C15: conversely a paid event is accepted: when the database answers, the payment is not final, its merchant is not
  deleted and the fee due lies between 0 and the amount, the webhook is acknowledged and its effect is committed.\<close>

theorem HandleWebhook_accepts:
  assumes "idle w" "schema_ok (w_db w)" "earned (w_db w)" "fresh_ids w"
    and "webhook_parsed gws provider hdrs body ev" "ev_Status ev = PaymentStatusPaid"
    and "named_payment (w_db w) provider ev = Some p" "\<not> payment_IsFinal p"
    and "live_merchant (w_db w) (p_MerchantID p) = Some m"
    and "w_uuid_ok w (p_ID p)" "w_uuid_ok w (p_MerchantID p)"
    and "0 \<le> fee_due (w_db w) (local_day w (w_now w)) m p" "fee_due (w_db w) (local_day w (w_now w)) m p \<le> p_Amount p"
  shows "wp (HandleWebhook gws provider hdrs body)
     (\<lambda>_ w'. webhook_effect provider ev p m (local_day w (w_now w)) (w_now w) (w_db w) (w_db w')) (\<lambda>_ _. False) w"
proof -
  let ?w = "tick (tick w)"
  have pin: "p \<in> set (db_payments (w_db w))" and mid: "m_ID m = p_MerchantID p"
    using named_payment_in [OF assms(7)] assms(9) by (auto simp: live_merchant_def dest: find_Some_in)
  have "wp (webhook_tx provider ev p m) (\<lambda>_ _. True) (\<lambda>_ _. False) ?w"
    by (rule webhook_tx_succeeds) (use assms pin mid in \<open>simp_all add: fresh_ids_def\<close>)
  moreover note webhook_tx_spec [of provider ev p m ?w]
  ultimately have "wp (webhook_tx provider ev p m)
     (\<lambda>_ w'. webhook_commit provider ev p m (local_day w (w_now w)) (w_now w) (w_db w) (w_db w')) (\<lambda>_ _. False) ?w"
    by (auto simp: wp_def split: prod.splits sum.splits)
  moreover have "\<not> (\<exists>fresh. find (\<lambda>r. p_ID r = p_ID p) (db_payments (w_db w)) = Some fresh \<and> payment_IsFinal fresh)"
    using find_own [OF assms(2) pin] assms(8) by auto
  ultimately show ?thesis
    unfolding HandleWebhook_def webhook_commit_def
    using read_succeeds [OF assms(1,5,7-9,11)] by (auto simp: wp_def bind_def split: prod.splits sum.splits)
qed

section \<open>The properties on a concrete payment\<close>

definition sample_payment :: "int64 \<Rightarrow> payment" where
  "sample_payment amount =
     \<lparr>p_ID = ''P1'', p_MerchantID = ''M1'', p_ExternalID = ''wpay-1'', p_ProviderPaymentID = ''tx-1'', p_Method = PaymentMethodVA,
      p_Provider = ProviderMidtrans, p_Status = PaymentStatusPending, p_Amount = amount, p_FeeAmount = 0,
      p_Currency = CurrencyIDR, p_Description = '''', p_CustomerName = ''Budi'', p_CustomerEmail = ''b@c.id'', p_CustomerPhone = '''',
      p_VANumber = ''880'', p_BankCode = BankBCA, p_QRString = '''', p_QRImageURL = '''', p_ExpiryAt = 1000, p_PaidAt = None,
      p_FailedAt = None, p_CancelledAt = None, p_CreatedAt = 0, p_UpdatedAt = 0, p_Metadata = []\<rparr>"

definition sample_event :: webhook_event where
  "sample_event = \<lparr>ev_ExternalID = ''wpay-1'', ev_Status = PaymentStatusPaid, ev_PaidAt = Some 7, ev_Amount = 0, ev_RawPayload = ''{}''\<rparr>"

definition sample_gateways :: gateways where
  "sample_gateways provider =
     (if provider = ProviderMidtrans
      then Some \<lparr>pg_CreateVA = (\<lambda>_. Inl (PlainErr ''refused'')), pg_CreateQRIS = (\<lambda>_. Inl (PlainErr ''refused'')),
                 pg_CancelPayment = (\<lambda>_. Inl (PlainErr ''refused'')), pg_GetStatus = (\<lambda>_. Inr PaymentStatusPending),
                 pg_ParseWebhook = (\<lambda>_ _. Inr sample_event)\<rparr>
      else None)"

definition payment_db :: "int64 \<Rightarrow> database" where
  "payment_db amount = (sample_db True)\<lparr>db_payments := [sample_payment amount]\<rparr>"

lemma sample_parsed [simp]: "webhook_parsed sample_gateways ProviderMidtrans hdrs body sample_event"
  by (simp add: webhook_parsed_def sample_gateways_def)

lemma sample_event_simps [simp]: "ev_Status sample_event = PaymentStatusPaid" "ev_ExternalID sample_event = ''wpay-1''"
  by (simp_all add: sample_event_def)

lemma sample_payment_simps [simp]:
  "p_ID (sample_payment a) = ''P1''" "p_MerchantID (sample_payment a) = ''M1''" "p_Amount (sample_payment a) = a"
  "p_Status (sample_payment a) = PaymentStatusPending" "p_Provider (sample_payment a) = ProviderMidtrans"
  "p_ExternalID (sample_payment a) = ''wpay-1''" "\<not> payment_IsFinal (sample_payment a)" "p_Method (sample_payment a) = PaymentMethodVA"
  by (simp_all add: sample_payment_def payment_IsFinal_def)

lemma payment_db_ok [simp]: "0 < a \<Longrightarrow> schema_ok (payment_db a)"
  by (simp add: schema_ok_def table_ok_def unique_rows_def payment_db_def sample_db_def empty_database_def sample_payment_def
      payment_row_ok_def payment_status_ok_def payment_method_ok_def provider_ok_def currency_ok_def merchant_exists_def
      sample_merchant_def merchant_row_ok_def provider_known_def)

lemma payment_db_simps [simp]:
  "named_payment (payment_db a) ProviderMidtrans sample_event = Some (sample_payment a)"
  "live_merchant (payment_db a) ''M1'' = Some sample_merchant" "db_mutations (payment_db a) = []"
  "credited (payment_db a)" "earned (payment_db a)" "fresh_ids (quiet_world (payment_db a) t)"
  by (simp_all add: named_payment_def live_merchant_def payment_db_def sample_db_def empty_database_def sample_merchant_def
      live_def credited_def earned_def fresh_ids_def)

lemma payment_db_rows [simp]:
  "db_payments (payment_db a) = [sample_payment a]" "m_ID sample_merchant = ''M1''"
  by (simp_all add: payment_db_def sample_merchant_def)

lemma fresh_ids_tick: "fresh_ids w \<Longrightarrow> fresh_ids (tick w)"
  by (simp add: fresh_ids_def)

lemma payment_db_fee: "fee_due (payment_db a) d sample_merchant (sample_payment a) = min 4500 a + min 500 a" if "0 < a" "a \<le> 10000000"
  using that
  by (simp add: fee_due_def fee_spec_def layered_fee_def base_fee_of_def payment_db_def sample_db_def empty_database_def
      default_of_def margin_of_def holiday_fee_of_def seeded_fee_default_def seeded_platform_margin_def json_val_def
      sample_merchant_def zero_fee_config_def pick_fee_def flat_fee_def percentage_fee_def computeMethodFee_def resolution_def
      isZeroFee_def zero_method_fee_def wrap64_id int64_range_def)

theorem HandleWebhook_accepts_witness:
  "wp (HandleWebhook sample_gateways ProviderMidtrans [] ''{}'')
     (\<lambda>_ w'. webhook_effect ProviderMidtrans sample_event (sample_payment 100000) sample_merchant 0 0
        (payment_db 100000) (w_db w')) (\<lambda>_ _. False) (quiet_world (payment_db 100000) 0)"
proof -
  have "local_day (quiet_world (payment_db 100000) 0) 0 = 0" by (simp add: local_day_def)
  then show ?thesis
    using HandleWebhook_accepts [of "quiet_world (payment_db 100000) 0" sample_gateways ProviderMidtrans "[]" "''{}''"
        sample_event "sample_payment 100000" sample_merchant]
    by (simp add: payment_db_fee)
qed

theorem HandleWebhook_fee_above_amount_witness:
  "wp (HandleWebhook sample_gateways ProviderMidtrans [] ''{}'') (\<lambda>_ _. False) (\<lambda>_ w'. w_db w' = payment_db 4500)
     (quiet_world (payment_db 4500) 0)"
proof -
  have "local_day (quiet_world (payment_db 4500) 0) 0 = 0" by (simp add: local_day_def)
  then show ?thesis
    using HandleWebhook_fee_above_amount [of sample_gateways ProviderMidtrans "[]" "''{}''" sample_event
        "quiet_world (payment_db 4500) 0" "sample_payment 4500" sample_merchant]
    by (simp add: payment_db_fee)
qed

theorem HandleWebhook_reconciles_witness:
  "wp (HandleWebhook sample_gateways ProviderMidtrans [] ''{}'')
     (\<lambda>_ w'. credited (w_db w') \<and> earned (w_db w')) (\<lambda>_ w'. credited (w_db w') \<and> earned (w_db w'))
     (quiet_world (payment_db 100000) 0)"
  using HandleWebhook_reconciles [of "quiet_world (payment_db 100000) 0"] by simp

theorem HandleWebhook_final_kept_witness:
  "final_kept (payment_db 100000)
     (w_db (snd (HandleWebhook sample_gateways ProviderMidtrans [] ''{}'' (quiet_world (payment_db 100000) 0))))"
  using HandleWebhook_final_kept [of "quiet_world (payment_db 100000) 0"] by simp

text \<open>The first delivery of the sample event succeeds.\<close>

lemma sample_delivery: "\<exists>w1. HandleWebhook sample_gateways ProviderMidtrans [] ''{}'' (quiet_world (payment_db 100000) 0) = (Inr (), w1)"
proof -
  let ?w = "quiet_world (payment_db 100000) 0" and ?p = "sample_payment 100000"
  have r: "webhook_read sample_gateways ProviderMidtrans [] ''{}'' ?w = (Inr (Some (sample_event, ?p, sample_merchant)), tick (tick ?w))"
    by (rule read_succeeds) simp_all
  have "wp (webhook_tx ProviderMidtrans sample_event ?p sample_merchant) (\<lambda>_ _. True) (\<lambda>_ _. False) (tick (tick ?w))"
    by (rule webhook_tx_succeeds)
      (simp_all add: fresh_ids_tick payment_db_fee)
  then show ?thesis
    using r by (auto simp: HandleWebhook_def bind_def wp_def split: prod.splits sum.splits)
qed

theorem HandleWebhook_redelivery_witness:
  "\<exists>w1. HandleWebhook sample_gateways ProviderMidtrans [] ''{}'' (quiet_world (payment_db 100000) 0) = (Inr (), w1)
     \<and> wp (HandleWebhook sample_gateways ProviderMidtrans [] ''{}'')
         (\<lambda>_ w'. w_db w' = w_db w1) (\<lambda>_ w'. w_db w' = w_db w1 \<and> stmt_fails w1) w1"
proof -
  from sample_delivery obtain w1 where
    w1: "HandleWebhook sample_gateways ProviderMidtrans [] ''{}'' (quiet_world (payment_db 100000) 0) = (Inr (), w1)" by blast
  have "payment_IsFinal ((sample_payment 100000)\<lparr>p_Status := ev_Status sample_event\<rparr>)" by (simp add: payment_IsFinal_def)
  from HandleWebhook_redelivery [OF _ w1 sample_parsed this refl] w1 show ?thesis by auto
qed

end
