(* ===== verification/Cashin.thy ===== *)
theory Cashin
  imports Webhooks
begin

text \<open>
  Properties of the rest of the payment usecase and of the expiry worker: creation,
  cancellation, expiry, and the audit trail they and the webhooks write.
\<close>

section \<open>Creation\<close>

lemma wp_payment_Save:
  assumes "\<And>row. row = p\<lparr>p_ID := fresh_uuid w, p_PaidAt := None, p_FailedAt := None, p_CancelledAt := None,
                      p_CreatedAt := w_now w, p_UpdatedAt := w_now w\<rparr> \<Longrightarrow> \<not> stmt_fails w \<Longrightarrow>
      payment_row_ok row \<Longrightarrow> merchant_exists (w_db w) (p_MerchantID p) \<Longrightarrow>
      (\<forall>r \<in> set (db_payments (w_db w)). \<not> payment_conflict row r) \<Longrightarrow>
      Q (p\<lparr>p_ID := p_ID row, p_CreatedAt := p_CreatedAt row, p_UpdatedAt := p_UpdatedAt row\<rparr>)
        ((tick w)\<lparr>w_db := (w_db w)\<lparr>db_payments := db_payments (w_db w) @ [row]\<rparr>\<rparr>)"
    and "\<And>e w'. w_db w' = w_db w \<Longrightarrow> \<not> is_panic e \<Longrightarrow> E e w'"
  shows "wp (payment_Save p) Q E w"
  using assms
  by (auto simp: payment_Save_def wp_simps wp_exec uuid_param_def insert_payment_def Let_def split: sum.splits)

text \<open>A new payment: its row and its first audit entry, and nothing else.\<close>

definition created :: "string \<Rightarrow> payment \<Rightarrow> database \<Rightarrow> database \<Rightarrow> bool" where
  "created merchantID row db db' \<longleftrightarrow>
     (\<exists>x t. db' = db\<lparr>db_payments := db_payments db @ [row],
        db_audits := db_audits db @ [(audit (p_ID row) AuditEventPaymentCreated None PaymentStatusPending (''merchant:'' @ merchantID))
          \<lparr>au_ID := x, au_CreatedAt := t\<rparr>]\<rparr>)
     \<and> payment_row_ok row \<and> (\<forall>r \<in> set (db_payments db). p_ID r \<noteq> p_ID row)"

lemma createdI:
  "payment_row_ok row \<Longrightarrow> \<forall>r \<in> set (db_payments db). \<not> payment_conflict row r \<Longrightarrow>
   db' = db\<lparr>db_payments := db_payments db @ [row],
      db_audits := db_audits db @ [(audit (p_ID row) AuditEventPaymentCreated None PaymentStatusPending (''merchant:'' @ i))
        \<lparr>au_ID := x, au_CreatedAt := t\<rparr>]\<rparr> \<Longrightarrow>
   created i row db db'"
  unfolding created_def payment_conflict_def by blast

lemma wp_savePaymentWithAudit:
  assumes "p_PaidAt p = None" "p_FailedAt p = None" "p_CancelledAt p = None"
  shows "wp (savePaymentWithAudit p i)
     (\<lambda>q w'. created i q (w_db w) (w_db w') \<and> q = p\<lparr>p_ID := p_ID q, p_CreatedAt := w_now w, p_UpdatedAt := w_now w\<rparr>)
     (\<lambda>_ w'. w_db w' = w_db w) w"
proof -
  have row: "p\<lparr>p_ID := x, p_PaidAt := None, p_FailedAt := None, p_CancelledAt := None, p_CreatedAt := s, p_UpdatedAt := t\<rparr>
      = p\<lparr>p_ID := x, p_CreatedAt := s, p_UpdatedAt := t\<rparr>" for x s t
    using assms by (cases p) simp
  show ?thesis
    unfolding savePaymentWithAudit_def wp_RunInTx wp_bind wp_wrap
    apply (rule if_both, simp, rule wp_payment_Save, rule wp_audit_Save)
    apply (simp_all add: wp_ret row)
    apply (intro impI)
    apply (rule createdI)
    apply simp_all
    done
qed

text \<open>
  What a creation that succeeds has done. \<open>va_request\<close> and \<open>qris_request\<close> are the requests
  the provider gets.
\<close>

definition va_request :: "create_va_input \<Rightarrow> string \<Rightarrow> create_va_request" where
  "va_request input extID =
     \<lparr>vr_ExternalID = extID, vr_BankCode = cv_BankCode input, vr_Amount = cv_Amount input,
      vr_Currency = cv_Currency input, vr_CustomerName = cv_CustomerName input,
      vr_CustomerEmail = cv_CustomerEmail input, vr_CustomerPhone = cv_CustomerPhone input,
      vr_Description = cv_Description input, vr_ExpiryAt = cv_ExpiryAt input\<rparr>"

definition qris_request :: "create_qris_input \<Rightarrow> string \<Rightarrow> create_qris_request" where
  "qris_request input extID =
     \<lparr>qr_ExternalID = extID, qr_Amount = cq_Amount input, qr_Currency = cq_Currency input,
      qr_CustomerName = cq_CustomerName input, qr_CustomerEmail = cq_CustomerEmail input,
      qr_CustomerPhone = cq_CustomerPhone input, qr_Description = cq_Description input, qr_ExpiryAt = cq_ExpiryAt input\<rparr>"

definition new_payment :: "string \<Rightarrow> provider \<Rightarrow> payment_method \<Rightarrow> int64 \<Rightarrow> currency \<Rightarrow> payment \<Rightarrow> bool" where
  "new_payment merchantID provider meth amount currency p \<longleftrightarrow>
     p_MerchantID p = merchantID \<and> p_Method p = meth \<and> p_Provider p = provider \<and> p_Status p = PaymentStatusPending
     \<and> p_Amount p = amount \<and> 0 < amount \<and> p_FeeAmount p = 0 \<and> p_Currency p = currency \<and> p_PaidAt p = None"

definition va_done :: "gateways \<Rightarrow> create_va_input \<Rightarrow> database \<Rightarrow> database \<Rightarrow> payment_output \<Rightarrow> bool" where
  "va_done gws input db db' out \<longleftrightarrow>
     (\<exists>m gw extID resp p. live_merchant db (cv_MerchantID input) = Some m \<and> merchant_CanTransact m
        \<and> gws (cv_Provider input) = Some gw \<and> pg_CreateVA gw (va_request input extID) = Inr resp
        \<and> new_payment (cv_MerchantID input) (cv_Provider input) PaymentMethodVA (cv_Amount input) (cv_Currency input) p
        \<and> p_ExternalID p = vs_ExternalID resp \<and> p_ProviderPaymentID p = vs_ProviderPaymentID resp \<and> p_VANumber p = vs_VANumber resp
        \<and> created (cv_MerchantID input) p db db' \<and> out = toPaymentOutput p)"

definition qris_done :: "gateways \<Rightarrow> create_qris_input \<Rightarrow> database \<Rightarrow> database \<Rightarrow> payment_output \<Rightarrow> bool" where
  "qris_done gws input db db' out \<longleftrightarrow>
     (\<exists>m gw extID resp p. live_merchant db (cq_MerchantID input) = Some m \<and> merchant_CanTransact m
        \<and> gws (cq_Provider input) = Some gw \<and> pg_CreateQRIS gw (qris_request input extID) = Inr resp
        \<and> new_payment (cq_MerchantID input) (cq_Provider input) PaymentMethodQRIS (cq_Amount input) (cq_Currency input) p
        \<and> p_ExternalID p = qs_ExternalID resp \<and> p_ProviderPaymentID p = qs_ProviderPaymentID resp \<and> p_QRString p = qs_QRString resp
        \<and> created (cq_MerchantID input) p db db' \<and> out = toPaymentOutput p)"

lemma wp_saved:
  assumes "p_PaidAt p = None" "p_FailedAt p = None" "p_CancelledAt p = None"
    and "\<And>q w' x s t. created i q (w_db w) (w_db w') \<Longrightarrow> q = p\<lparr>p_ID := x, p_CreatedAt := s, p_UpdatedAt := t\<rparr> \<Longrightarrow> Q q w'"
    and "\<And>e w'. w_db w' = w_db w \<Longrightarrow> E e w'"
  shows "wp (savePaymentWithAudit p i) Q E w"
  by (rule wp_mono [OF wp_savePaymentWithAudit [OF assms(1-3)]]) (use assms(4,5) in blast)+

lemma created_positive: "created i p db db' \<Longrightarrow> 0 < p_Amount p"
  by (simp add: created_def payment_row_ok_def)

lemma va_doneI:
  "\<lbrakk>live_merchant db (cv_MerchantID input) = Some m; merchant_CanTransact m; gws (cv_Provider input) = Some gw;
    pg_CreateVA gw (va_request input extID) = Inr resp; created (cv_MerchantID input) p db db';
    p_MerchantID p = cv_MerchantID input \<and> p_Method p = PaymentMethodVA \<and> p_Provider p = cv_Provider input
      \<and> p_Status p = PaymentStatusPending \<and> p_Amount p = cv_Amount input \<and> p_FeeAmount p = 0 \<and> p_Currency p = cv_Currency input
      \<and> p_PaidAt p = None \<and> p_ExternalID p = vs_ExternalID resp \<and> p_ProviderPaymentID p = vs_ProviderPaymentID resp
      \<and> p_VANumber p = vs_VANumber resp\<rbrakk>
   \<Longrightarrow> va_done gws input db db' (toPaymentOutput p)"
  unfolding va_done_def new_payment_def using created_positive [of _ p] by metis

lemma qris_doneI:
  "\<lbrakk>live_merchant db (cq_MerchantID input) = Some m; merchant_CanTransact m; gws (cq_Provider input) = Some gw;
    pg_CreateQRIS gw (qris_request input extID) = Inr resp; created (cq_MerchantID input) p db db';
    p_MerchantID p = cq_MerchantID input \<and> p_Method p = PaymentMethodQRIS \<and> p_Provider p = cq_Provider input
      \<and> p_Status p = PaymentStatusPending \<and> p_Amount p = cq_Amount input \<and> p_FeeAmount p = 0 \<and> p_Currency p = cq_Currency input
      \<and> p_PaidAt p = None \<and> p_ExternalID p = qs_ExternalID resp \<and> p_ProviderPaymentID p = qs_ProviderPaymentID resp
      \<and> p_QRString p = qs_QRString resp\<rbrakk>
   \<Longrightarrow> qris_done gws input db db' (toPaymentOutput p)"
  unfolding qris_done_def new_payment_def using created_positive [of _ p] by metis

lemma CreateVA_spec:
  "wp (CreateVA gws input) (\<lambda>out w'. va_done gws input (w_db w) (w_db w') out) (\<lambda>_ w'. w_db w' = w_db w) w"
  unfolding CreateVA_def wp_bind wp_if wp_throw payment_gateway_for_def wp_case_option wp_ret externalID_def wp_now wp_wrap wp_outcome
    wp_rand_bytes va_request_def [symmetric]
proof (rule wp_merchant_FindByID, goal_cases)
  case (1 m w1)
  then have m: "live_merchant (w_db w) (cv_MerchantID input) = Some m" and w1: "w_db w1 = w_db w"
    by (simp_all add: live_merchant_def)
  show ?case
    using w1 by (auto split: option.split sum.split intro!: wp_saved intro: va_doneI [OF m])
qed simp

lemma CreateQRIS_spec:
  "wp (CreateQRIS gws input) (\<lambda>out w'. qris_done gws input (w_db w) (w_db w') out) (\<lambda>_ w'. w_db w' = w_db w) w"
  unfolding CreateQRIS_def wp_bind wp_if wp_throw payment_gateway_for_def wp_case_option wp_ret externalID_def wp_now wp_wrap wp_outcome
    wp_rand_bytes qris_request_def [symmetric]
proof (rule wp_merchant_FindByID, goal_cases)
  case (1 m w1)
  then have m: "live_merchant (w_db w) (cq_MerchantID input) = Some m" and w1: "w_db w1 = w_db w"
    by (simp_all add: live_merchant_def)
  show ?case
    using w1 by (auto split: option.split sum.split intro!: wp_saved intro: qris_doneI [OF m])
qed simp

text \<open>C17: \<open>CreateVA\<close> and \<open>CreateQRIS\<close> either fail and leave every table as it was, or the provider has accepted the request
  it was sent and exactly two rows are new: the pending payment with the merchant, provider, amount and currency asked
  for and the provider's reference, and the first entry of its audit trail. Only an active, live merchant with a webhook
  URL gets that far, and only for a positive amount.\<close>

theorem payment_creation_effect:
  "wp (CreateVA gws va) (\<lambda>out w'. va_done gws va (w_db w) (w_db w') out) (\<lambda>_ w'. w_db w' = w_db w) w
   \<and> wp (CreateQRIS gws qr) (\<lambda>out w'. qris_done gws qr (w_db w) (w_db w') out) (\<lambda>_ w'. w_db w' = w_db w) w"
  by (intro conjI CreateVA_spec CreateQRIS_spec)

section \<open>Cancellation\<close>

text \<open>A status change: the row of \<open>p\<close> takes its status and times, and the trail gets one entry.\<close>

definition moved :: "payment \<Rightarrow> audit_event_type \<Rightarrow> payment_status \<Rightarrow> string \<Rightarrow> time \<Rightarrow> database \<Rightarrow> database \<Rightarrow> bool" where
  "moved p ev old actor t db db' \<longleftrightarrow>
     (\<exists>x s. db' = (set_status p t db)\<lparr>db_audits := db_audits db @
        [(audit (p_ID p) ev (Some old) (p_Status p) actor)\<lparr>au_ID := x, au_CreatedAt := s\<rparr>]\<rparr>)
     \<and> (\<exists>r \<in> set (db_payments db). p_ID r = p_ID p)"

lemma wp_move:
  assumes "\<And>x w'. moved p ev old actor (w_now w) (w_db w) (w_db w') \<Longrightarrow> w_now w' = w_now w \<Longrightarrow> Q x w'"
    and "\<And>e w'. w_db w' = w_db w \<Longrightarrow> E e w'" and "st = p_Status p"
  shows "wp (RunInTx (bind (payment_Update p) (\<lambda>_. audit_Save (audit (p_ID p) ev (Some old) st actor)))) Q E w"
proof -
  have "wp (bind (payment_Update p) (\<lambda>_. audit_Save (audit (p_ID p) ev (Some old) st actor)))
     (\<lambda>_ w'. moved p ev old actor (w_now w) (w_db w) (w_db w') \<and> w_now w' = w_now w) (\<lambda>_ _. True) (begin_tx w)"
    unfolding wp_bind
    by (rule wp_payment_Update, rule wp_audit_Save) (use assms(3) in \<open>auto simp: moved_def set_status_def\<close>)
  then show ?thesis
    unfolding wp_RunInTx by (intro if_both assms(2)) (simp, erule wp_mono, use assms(1,2) in auto)
qed

definition cancelling :: "payment \<Rightarrow> payment" where
  "cancelling p = p\<lparr>p_Status := PaymentStatusCancelling\<rparr>"

lemma cancelling_simps [simp]:
  "p_Provider (cancelling p) = p_Provider p" "p_ID (cancelling p) = p_ID p" "p_Status (cancelling p) = PaymentStatusCancelling"
  "p_MerchantID (cancelling p) = p_MerchantID p" "p_Amount (cancelling p) = p_Amount p" "p_FeeAmount (cancelling p) = p_FeeAmount p"
  by (simp_all add: cancelling_def)

lemma cancel_begin_spec:
  assumes "\<And>p w'. find (\<lambda>p. p_ID p = i) (db_payments (w_db w)) = Some p \<Longrightarrow> p_MerchantID p = m \<Longrightarrow> p_Status p = PaymentStatusPending \<Longrightarrow>
      moved (cancelling p) AuditEventStatusChanged PaymentStatusPending (''merchant:'' @ m) (w_now w)
        (w_db w) (w_db w') \<Longrightarrow> w_now w' = w_now w \<Longrightarrow> Q (cancelling p) w'"
    and "\<And>e w'. w_db w' = w_db w \<Longrightarrow> E e w'"
  shows "wp (cancel_begin m i) Q E w"
  unfolding cancel_begin_def cancelling_def [symmetric] wp_bind wp_if wp_throw Let_def
proof (rule wp_payment_find(1), goal_cases)
  case (1 p w1)
  then have w1: "w_db w1 = w_db w" "w_now w1 = w_now w" by simp_all
  have "wp (RunInTx (bind (payment_Update (cancelling p)) (\<lambda>_. audit_Save
          (audit (p_ID (cancelling p)) AuditEventStatusChanged (Some (p_Status p)) PaymentStatusCancelling (''merchant:'' @ m)))))
        (\<lambda>x. wp (ret (cancelling p)) Q E) E w1"
    if "p_MerchantID p = m" "payment_CanCancel p"
  proof -
    have p: "p_Status p = PaymentStatusPending" using that(2) by (simp add: payment_CanCancel_def)
    show ?thesis
      by (rule wp_move) (use assms 1 w1 that p in \<open>auto simp: wp_ret cancelling_def\<close>)
  qed
  then show ?case using assms(2) w1 by simp
qed (use assms(2) in blast)

text \<open>The payment as the last step of a cancellation writes it, by the provider's answer.\<close>

definition cancel_result :: "payment \<Rightarrow> unit res \<Rightarrow> time \<Rightarrow> payment" where
  "cancel_result p r t =
     (case r of Inl _ \<Rightarrow> p\<lparr>p_Status := PaymentStatusPending, p_CancelledAt := None\<rparr>
              | Inr _ \<Rightarrow> p\<lparr>p_Status := PaymentStatusCancelled, p_CancelledAt := Some t\<rparr>)"

definition cancel_moved :: "string \<Rightarrow> payment \<Rightarrow> unit res \<Rightarrow> time \<Rightarrow> database \<Rightarrow> database \<Rightarrow> bool" where
  "cancel_moved m p r t db db' \<longleftrightarrow>
     moved (cancel_result p r t) (case r of Inl _ \<Rightarrow> AuditEventStatusChanged | Inr _ \<Rightarrow> AuditEventPaymentCancelled)
       PaymentStatusCancelling (case r of Inl _ \<Rightarrow> ''system:cancel_revert'' | Inr _ \<Rightarrow> ''merchant:'' @ m) t db db'"

lemma wp_RunInTx_now: "wp (RunInTx (bind now f)) Q E w = wp (RunInTx (f (w_now w))) Q E w"
  by (simp add: wp_RunInTx wp_bind wp_now)

lemma cancel_finish_spec:
  assumes "\<And>x w'. cancel_moved m p r (w_now w) (w_db w) (w_db w') \<Longrightarrow> Q x w'"
    and "\<And>e w'. w_db w' = w_db w \<Longrightarrow> E e w'"
  shows "wp (cancel_finish m p r) Q E w"
proof (cases r)
  case (Inl e)
  let ?p = "p\<lparr>p_Status := PaymentStatusPending, p_CancelledAt := None\<rparr>"
  have "wp (RunInTx (bind (payment_Update ?p) (\<lambda>_. audit_Save
      (audit (p_ID ?p) AuditEventStatusChanged (Some PaymentStatusCancelling) PaymentStatusPending ''system:cancel_revert''))))
    (\<lambda>x. wp (ret ()) Q E) E w"
    by (rule wp_move) (use assms Inl in \<open>auto simp: wp_ret cancel_moved_def cancel_result_def\<close>)
  then show ?thesis by (simp add: cancel_finish_def Inl wp_bind Let_def)
next
  case (Inr u)
  let ?p = "p\<lparr>p_Status := PaymentStatusCancelled, p_CancelledAt := Some (w_now w)\<rparr>"
  have "wp (RunInTx (bind (payment_Update ?p) (\<lambda>_. audit_Save
      (audit (p_ID ?p) AuditEventPaymentCancelled (Some PaymentStatusCancelling) PaymentStatusCancelled (''merchant:'' @ m)))))
    (\<lambda>x. wp (ret ()) Q E) E w"
    by (rule wp_move) (use assms Inr in \<open>auto simp: wp_ret cancel_moved_def cancel_result_def\<close>)
  then show ?thesis by (simp add: cancel_finish_def Inr wp_bind wp_RunInTx_now Let_def)
qed

definition cancel_started :: "string \<Rightarrow> string \<Rightarrow> payment \<Rightarrow> time \<Rightarrow> database \<Rightarrow> database \<Rightarrow> bool" where
  "cancel_started m i p t db db' \<longleftrightarrow>
     find (\<lambda>p. p_ID p = i) (db_payments db) = Some p \<and> p_MerchantID p = m \<and> p_Status p = PaymentStatusPending
     \<and> moved (cancelling p) AuditEventStatusChanged PaymentStatusPending (''merchant:'' @ m) t db db'"

definition cancel_completed :: "gateways \<Rightarrow> string \<Rightarrow> string \<Rightarrow> time \<Rightarrow> database \<Rightarrow> database \<Rightarrow> bool" where
  "cancel_completed gws m i t db db' \<longleftrightarrow>
     (\<exists>p gw mid. cancel_started m i p t db mid \<and> gws (p_Provider p) = Some gw
        \<and> cancel_moved m (cancelling p) (pg_CancelPayment gw (cancel_id (cancelling p))) t mid db')"

lemma cancel_completedI:
  "cancel_started m i p t db mid \<Longrightarrow> gws (p_Provider p) = Some gw \<Longrightarrow> pg_CancelPayment gw (cancel_id (cancelling p)) = r \<Longrightarrow>
   cancel_moved m (cancelling p) r t mid db' \<Longrightarrow> cancel_completed gws m i t db db'"
  unfolding cancel_completed_def by blast

lemma CancelPayment_spec:
  "wp (CancelPayment gws m i)
     (\<lambda>_ w'. cancel_completed gws m i (w_now w) (w_db w) (w_db w'))
     (\<lambda>_ w'. w_db w' = w_db w \<or> (\<exists>p. cancel_started m i p (w_now w) (w_db w) (w_db w'))) w"
  unfolding CancelPayment_def wp_bind payment_gateway_for_def wp_case_option wp_throw wp_ret wp_attempt wp_outcome
proof (rule cancel_begin_spec, goal_cases)
  case (1 p w1)
  then have s: "cancel_started m i p (w_now w) (w_db w) (w_db w1)" by (simp add: cancel_started_def)
  show ?case
    using 1(5) s by (auto split: option.split sum.split intro!: cancel_finish_spec intro: cancel_completedI [OF s])
qed simp

text \<open>C19: \<open>CancelPayment\<close> succeeds only on a pending payment of the calling merchant, and then the row went through
  cancelling to cancelled when the provider agreed and back to pending when it did not, each change with its audit
  entry; when it fails, either nothing changed or the payment is left in cancelling with one audit entry, and no other
  table is touched in any case.\<close>

theorem CancelPayment_effect:
  "wp (CancelPayment gws m i)
     (\<lambda>_ w'. cancel_completed gws m i (w_now w) (w_db w) (w_db w'))
     (\<lambda>_ w'. w_db w' = w_db w \<or> (\<exists>p. cancel_started m i p (w_now w) (w_db w) (w_db w'))) w"
  by (rule CancelPayment_spec)

section \<open>Expiry\<close>

lemma insert_audits_Inr:
  "insert_audits as db = Inr db' \<Longrightarrow> db' = db\<lparr>db_audits := db_audits db @ as\<rparr>"
proof (induction "as" arbitrary: db)
  case (Cons a as)
  then obtain db1 where "insert_audit a db = Inr db1" "insert_audits as db1 = Inr db'" by (auto split: sum.splits)
  with Cons.IH [OF this(2)] show ?case by (auto simp: insert_audit_def)
qed simp

lemma wp_logged: "wp (logged m) Q E w = wp m (\<lambda>_. Q ()) (\<lambda>e w'. if is_panic e then E e w' else Q () w') w"
  by (simp add: logged_def wp_simps wp_ret_eta)

definition expire :: "time \<Rightarrow> payment \<Rightarrow> payment" where
  "expire t p = p\<lparr>p_Status := PaymentStatusExpired, p_UpdatedAt := t\<rparr>"

definition due_at :: "time \<Rightarrow> payment \<Rightarrow> bool" where
  "due_at t p \<longleftrightarrow> p_Status p = PaymentStatusPending \<and> p_ExpiryAt p < t"

text \<open>One audit entry per expired payment, in the order of the rows.\<close>

definition expired :: "time \<Rightarrow> database \<Rightarrow> database \<Rightarrow> bool" where
  "expired t db db' \<longleftrightarrow>
     (\<exists>as. db' = db\<lparr>db_payments := update_where (due_at t) (expire t) (db_payments db), db_audits := db_audits db @ as\<rparr>
        \<and> map (\<lambda>a. (au_PaymentID a, au_OldStatus a, au_NewStatus a)) as
          = map (\<lambda>p. (p_ID p, Some PaymentStatusPending, PaymentStatusExpired)) (filter (due_at t) (db_payments db)))"

lemma map_expiry_audit:
  "length ks = length ps \<Longrightarrow>
   map (\<lambda>a. (au_PaymentID a, au_OldStatus a, au_NewStatus a)) (map2 (expiry_audit w) ks ps)
   = map (\<lambda>p. (p_ID p, Some PaymentStatusPending, PaymentStatusExpired)) ps"
  by (induction ks ps rule: list_induct2) (auto simp: expiry_audit_def audit_def)

lemma expirePayments_spec:
  "wp expirePayments (\<lambda>_ w'. w_db w' = w_db w \<or> expired (w_now w) (w_db w) (w_db w')) (\<lambda>_ _. False) w"
proof -
  have "expired (w_now w) (w_db w) db"
    if "insert_audits (map2 (expiry_audit w) [0..<length (filter (due_at (w_now w)) (db_payments (w_db w)))] (filter (due_at (w_now w)) (db_payments (w_db w))))
       ((w_db w)\<lparr>db_payments := update_where (due_at (w_now w)) (expire (w_now w)) (db_payments (w_db w))\<rparr>) = Inr db" for db
    unfolding expired_def
    by (rule exI, rule conjI, use insert_audits_Inr [OF that] in simp) (rule map_expiry_audit, simp)
  then show ?thesis
    by (auto simp: expirePayments_def wp_logged wp_exec expired_payments_def Let_def
        due_at_def [abs_def] expire_def [abs_def] split: sum.splits)
qed

text \<open>C20: one run of the expiry worker either changes nothing or moves exactly the pending payments past their expiry
  time to expired, with one audit entry each; no other column, payment or table changes, and the worker never fails.\<close>

theorem expirePayments_effect:
  "wp expirePayments (\<lambda>_ w'. w_db w' = w_db w \<or> expired (w_now w) (w_db w) (w_db w')) (\<lambda>_ _. False) w"
  by (rule expirePayments_spec)

section \<open>The audit trail\<close>

text \<open>
  The trail of a payment is a chain: it starts from no status, each entry starts from the
  status the one before it led to, and the last leads to the status of the row.
\<close>

definition trail :: "database \<Rightarrow> string \<Rightarrow> payment_audit list" where
  "trail db i = filter (\<lambda>a. au_PaymentID a = i) (db_audits db)"

fun chained :: "payment_status option \<Rightarrow> payment_audit list \<Rightarrow> bool" where
  "chained st [] = True"
| "chained st (a # as) = (au_OldStatus a = st \<and> chained (Some (au_NewStatus a)) as)"

fun leads_to :: "payment_status option \<Rightarrow> payment_audit list \<Rightarrow> payment_status option" where
  "leads_to st [] = st"
| "leads_to st (a # as) = leads_to (Some (au_NewStatus a)) as"

lemma chained_append [simp]: "chained st (xs @ ys) = (chained st xs \<and> chained (leads_to st xs) ys)"
  by (induction xs arbitrary: st) auto

lemma leads_to_append [simp]: "leads_to st (xs @ ys) = leads_to (leads_to st xs) ys"
  by (induction xs arbitrary: st) auto

definition trail_ok :: "database \<Rightarrow> bool" where
  "trail_ok db \<longleftrightarrow> (\<forall>p \<in> set (db_payments db).
     chained None (trail db (p_ID p)) \<and> leads_to None (trail db (p_ID p)) = Some (p_Status p))"

lemma trail_append: "db_audits db' = db_audits db @ as \<Longrightarrow> trail db' i = trail db i @ filter (\<lambda>a. au_PaymentID a = i) as"
  by (simp add: trail_def)

text \<open>A change of the status of one payment with the matching entry keeps the trails.\<close>

lemma trail_ok_step:
  assumes t: "trail_ok db" and p: "db_payments db' = update_where (\<lambda>r. p_ID r = i) f (db_payments db)"
    and a: "db_audits db' = db_audits db @ [a]" "au_PaymentID a = i"
    and f: "\<And>r. p_ID (f r) = p_ID r" "\<And>r. p_Status (f r) = au_NewStatus a"
    and o: "\<And>r. r \<in> set (db_payments db) \<Longrightarrow> p_ID r = i \<Longrightarrow> au_OldStatus a = Some (p_Status r)"
  shows "trail_ok db'"
  unfolding trail_ok_def
proof
  fix r' assume "r' \<in> set (db_payments db')"
  then obtain r where r: "r \<in> set (db_payments db)" "r' = (if p_ID r = i then f r else r)"
    unfolding p in_update_where_iff by blast
  with t have "chained None (trail db (p_ID r))" "leads_to None (trail db (p_ID r)) = Some (p_Status r)"
    by (auto simp: trail_ok_def)
  then show "chained None (trail db' (p_ID r')) \<and> leads_to None (trail db' (p_ID r')) = Some (p_Status r')"
    using r a f o [OF r(1)] by (auto simp: trail_append [OF a(1)])
qed

lemma webhook_commit_trail:
  assumes c: "webhook_commit provider ev p m today t db db'" and s: "schema_ok db" and k: "trail_ok db"
  shows "trail_ok db'"
  using c
proof (cases rule: webhook_commitE)
  case (effect fresh a ms es fee)
  note one = find_Some_unique [OF schema_distinct(1) [OF s] effect(1)]
  show ?thesis
    by (rule trail_ok_step [OF k effect(7,8)]) (use effect(3) one in \<open>auto simp: webhook_audit_def\<close>)
qed (use k in simp)

lemma moved_trail:
  assumes "moved p ev old actor t db db'" "trail_ok db"
    and "\<And>r. r \<in> set (db_payments db) \<Longrightarrow> p_ID r = p_ID p \<Longrightarrow> p_Status r = old"
  shows "trail_ok db'"
  using assms
  by (auto simp: moved_def set_status_def audit_def intro!: trail_ok_step [OF assms(2), where i = "p_ID p"])

lemma created_trail:
  assumes c: "created i p db db'" and s: "schema_ok db" and k: "trail_ok db" and p: "p_Status p = PaymentStatusPending"
  shows "trail_ok db'"
proof -
  have none: "filter (\<lambda>a. au_PaymentID a = p_ID p) (db_audits db) = []"
    using c s by (auto simp: created_def schema_ok_def list_all_iff payment_exists_iff filter_empty_conv)
  show ?thesis
    using c k p none by (auto simp: created_def trail_ok_def trail_def audit_def) blast
qed

lemma filter_unique: "distinct (map key xs) \<Longrightarrow> x \<in> set xs \<Longrightarrow> filter (\<lambda>y. key y = key x) xs = [x]"
  by (induction xs) (auto simp: filter_empty_conv image_iff)

lemma filter_map_fst:
  assumes "map f xs = map g ys"
  shows "map f (filter (\<lambda>x. fst (f x) = i) xs) = map g (filter (\<lambda>y. fst (g y) = i) ys)"
  using arg_cong [OF assms, of "filter (\<lambda>z. fst z = i)"] by (simp add: filter_map comp_def)

lemma expired_trail:
  assumes e: "expired t db db'" and s: "schema_ok db" and k: "trail_ok db"
  shows "trail_ok db'"
proof -
  from e obtain as where db': "db_payments db' = update_where (due_at t) (expire t) (db_payments db)" "db_audits db' = db_audits db @ as"
    and m: "map (\<lambda>a. (au_PaymentID a, au_OldStatus a, au_NewStatus a)) as
          = map (\<lambda>p. (p_ID p, Some PaymentStatusPending, PaymentStatusExpired)) (filter (due_at t) (db_payments db))"
    by (auto simp: expired_def)
  have entries: "map (\<lambda>a. (au_PaymentID a, au_OldStatus a, au_NewStatus a)) (filter (\<lambda>a. au_PaymentID a = p_ID r) as)
      = (if due_at t r then [(p_ID r, Some PaymentStatusPending, PaymentStatusExpired)] else [])"
    if "r \<in> set (db_payments db)" for r
  proof -
    have "filter (\<lambda>p. p_ID p = p_ID r) (filter (due_at t) (db_payments db)) = filter (due_at t) [r]"
      by (subst filter_filter, subst conj_commute, subst filter_filter [symmetric])
        (simp only: filter_unique [OF schema_distinct(1) [OF s] that])
    then show ?thesis using filter_map_fst [OF m, of "p_ID r"] by simp
  qed
  show ?thesis
    unfolding trail_ok_def
  proof
    fix r' assume "r' \<in> set (db_payments db')"
    then obtain r where r: "r \<in> set (db_payments db)" "r' = (if due_at t r then expire t r else r)"
      unfolding db' in_update_where_iff by blast
    with k have "chained None (trail db (p_ID r))" "leads_to None (trail db (p_ID r)) = Some (p_Status r)"
      by (auto simp: trail_ok_def)
    then show "chained None (trail db' (p_ID r')) \<and> leads_to None (trail db' (p_ID r')) = Some (p_Status r')"
      using r entries [OF r(1)] by (auto simp: trail_append [OF db'(2)] expire_def due_at_def split: if_splits)
  qed
qed

section \<open>The ledger and trail of the whole usecase\<close>

lemma kept_schema_payments:
  assumes "table_ok payment_row_ok payment_conflict (db_payments db) \<Longrightarrow> table_ok payment_row_ok payment_conflict rows"
    and "map p_ID rows = map p_ID (db_payments db)" "map p_MerchantID rows = map p_MerchantID (db_payments db)"
  shows "kept schema_ok db (db\<lparr>db_payments := rows\<rparr>)"
proof -
  have "payment_exists (db\<lparr>db_payments := rows\<rparr>) = payment_exists db"
    using assms(2) by (intro ext) (simp add: payment_exists_iff, metis set_map)
  moreover have "list_all (\<lambda>p. merchant_exists db (p_MerchantID p)) rows = list_all (\<lambda>p. merchant_exists db (p_MerchantID p)) (db_payments db)"
    using assms(3) by (metis (mono_tags, lifting) list.pred_map comp_def list.pred_cong)
  ultimately show ?thesis
    using assms(1) by (simp add: kept_def schema_ok_def merchant_exists_def)
qed

lemma obeys_payment_Update: "appends.obeys (payment_Update p)" "schema.obeys (payment_Update p)"
proof -
  show "appends.obeys (payment_Update p)"
    unfolding payment_Update_def by (intro appends.db_intros appends.obeys_exec; auto)
  have "kept schema_ok db (db\<lparr>db_payments := rows\<rparr>)"
    if "checked_update payment_row_ok payment_conflict (\<lambda>r. p_ID r = p_ID p) (with_status_of p t) (db_payments db) = Inr rows" for db rows t
  proof (rule kept_schema_payments)
    show "table_ok payment_row_ok payment_conflict rows" if "table_ok payment_row_ok payment_conflict (db_payments db)"
      by (rule table_ok_update [OF that _ _ \<open>checked_update _ _ _ _ _ = _\<close>]) (auto simp: payment_conflict_def)
    show "map p_ID rows = map p_ID (db_payments db)" "map p_MerchantID rows = map p_MerchantID (db_payments db)"
      using that by (auto intro: map_update_where)
  qed
  then show "schema.obeys (payment_Update p)"
    unfolding payment_Update_def by (intro schema.db_intros schema.obeys_exec; auto simp del: checked_update_Inr)
qed

lemma obeys_payment_writes:
  "appends.obeys (payment_Save p)" "schema.obeys (payment_Save p)" "appends.obeys (audit_Save a)" "schema.obeys (audit_Save a)"
  unfolding payment_Save_def audit_Save_def
  by (intro appends.db_intros appends.obeys_exec schema.db_intros schema.obeys_exec;
      auto simp: Let_def dest: append_only_inserts kept_schema_inserts)+

lemma obeys_outcome: "appends.obeys (outcome r)" "schema.obeys (outcome r)"
  by (simp_all add: outcome_def appends.obeys_def appends.lifted_def schema.obeys_def schema.lifted_def kept_def)

lemma obeys_reads: "reads.obeys m \<Longrightarrow> appends.obeys m" "reads.obeys m \<Longrightarrow> schema.obeys m"
  by (simp_all add: reads.obeys_def same_tables_def appends.obeys_def appends.lifted_def schema.obeys_def schema.lifted_def kept_def)

lemma reads_payments:
  "reads.obeys (payment_FindByID i)" "reads.obeys (payment_FindByIDForUpdate i)" "reads.obeys (payment_FindByExternalID pr x)"
  "reads.obeys (payment_List f)" "reads.obeys (merchant_FindByID i)" "reads.obeys (resolved_fee m p)" "reads.obeys (audit_FindByPaymentID i)"
  unfolding payment_FindByID_def payment_FindByIDForUpdate_def payment_FindByExternalID_def payment_List_def merchant_FindByID_def
    resolved_fee_def audit_FindByPaymentID_def
  by (intro reads.obeys_intros reads_query reads_Resolve)+

lemmas payment_obeys =
  appends.db_intros schema.db_intros appends.obeys_RunInTx schema.obeys_RunInTx obeys_payment_Update obeys_payment_writes
  obeys_outcome obeys_mutation_Save outbox_obeys reads_payments [THEN obeys_reads(1)] reads_payments [THEN obeys_reads(2)]

lemma obeys_payment_gateway_for: "appends.obeys (payment_gateway_for gws pr)" "schema.obeys (payment_gateway_for gws pr)"
  unfolding payment_gateway_for_def by (intro appends.obeys_intros schema.obeys_intros)+

lemma obeys_cancel_steps:
  "appends.obeys (cancel_begin m i)" "schema.obeys (cancel_begin m i)"
  "appends.obeys (cancel_finish m p r)" "schema.obeys (cancel_finish m p r)"
  unfolding cancel_begin_def cancel_finish_def Let_def by (intro payment_obeys)+

lemma obeys_webhook_steps:
  "appends.obeys (webhook_read gws pr h b)" "schema.obeys (webhook_read gws pr h b)"
  "appends.obeys (webhook_tx pr ev p m)" "schema.obeys (webhook_tx pr ev p m)"
  unfolding webhook_read_def webhook_tx_def Let_def by (intro payment_obeys obeys_payment_gateway_for)+

lemma obeys_payment_usecase:
  "appends.obeys (CreateVA gws iv)" "schema.obeys (CreateVA gws iv)" "appends.obeys (CreateQRIS gws iq)" "schema.obeys (CreateQRIS gws iq)"
  "appends.obeys (CancelPayment gws m i)" "schema.obeys (CancelPayment gws m i)"
  "appends.obeys (HandleWebhook gws pr h b)" "schema.obeys (HandleWebhook gws pr h b)"
  unfolding CreateVA_def CreateQRIS_def savePaymentWithAudit_def CancelPayment_def HandleWebhook_def
  by (intro payment_obeys obeys_payment_gateway_for obeys_cancel_steps obeys_webhook_steps)+

section \<open>Refused cancellations\<close>

lemma move_ok:
  assumes n: "idle w" and s: "schema_ok (w_db w)" and i: "fresh_ids w" and u: "w_uuid_ok w (p_ID p)"
    and r: "r \<in> set (db_payments (w_db w))" "p_ID r = p_ID p" "payment_row_ok (with_status_of p (w_now w) r)"
    and a: "payment_audit_row_ok (audit (p_ID p) ev (Some old) st actor)" and st: "st = p_Status p"
    and Q: "\<And>x w'. idle w' \<Longrightarrow> fresh_ids w' \<Longrightarrow> w_uuid_ok w' = w_uuid_ok w \<Longrightarrow>
       moved p ev old actor (w_now w) (w_db w) (w_db w') \<Longrightarrow> w_now w' = w_now w \<Longrightarrow> Q x w'"
  shows "wp (RunInTx (bind (payment_Update p) (\<lambda>_. audit_Save (audit (p_ID p) ev (Some old) st actor)))) Q E w"
proof -
  have nb: "no_faults (begin_tx w)" using n by simp
  have E: "w_uuid w x 0 = w_uuid w y 0 \<longleftrightarrow> x = y" for x y using i by (auto simp: fresh_ids_def inj_def)
  let ?d = "set_status p (w_now w) (w_db w)"
  let ?u = "(tick (begin_tx w))\<lparr>w_db := ?d\<rparr>"
  let ?row = "(audit (p_ID p) ev (Some old) st actor)\<lparr>au_ID := fresh_uuid ?u, au_CreatedAt := w_now w\<rparr>"
  let ?v = "end_tx (?d\<lparr>db_audits := db_audits ?d @ [?row]\<rparr>) ((tick ?u)\<lparr>w_db := ?d\<lparr>db_audits := db_audits ?d @ [?row]\<rparr>\<rparr>)"
  have "fresh_ids ?v"
    using i E unfolding fresh_ids_def fresh_uuid_def set_status_def by auto
  moreover have "idle ?v"
    using n unfolding idle_def by simp
  moreover have "moved p ev old actor (w_now w) (w_db w) (w_db ?v)"
    unfolding moved_def end_tx_simps st
    by (intro conjI exI [of _ "fresh_uuid ?u"] exI [of _ "w_now w"]) (use r(1,2) in \<open>auto simp: set_status_def\<close>)
  ultimately have "Q ?row ?v"
    by (intro Q) simp_all
  moreover have "payment_exists ?d (p_ID p)"
    using imageI [OF r(1), of p_ID] r(2) by (simp add: payment_exists_iff set_status_def update_where_image)
  moreover have "\<And>a. a \<in> set (db_audits ?d) \<Longrightarrow> au_ID a \<noteq> fresh_uuid ?u"
    using i by (auto simp: fresh_ids_def fresh_uuid_def set_status_def)
  ultimately show ?thesis
    unfolding wp_RunInTx wp_bind using n
    apply (simp split del: if_split)
    apply (rule Update_ok [OF nb, where r = r])
         apply (simp_all add: s u r split del: if_split)
    using nb a u
    apply (simp add: audit_Save_def wp_simps wp_exec uuid_param_def insert_audit_def Let_def checked_insert_def list_ex_iff
        payment_audit_row_ok_def audit_def)
    done
qed

lemma wp_run_eq: "wp m Q E s \<Longrightarrow> (\<And>x t. m s = (Inr x, t) \<Longrightarrow> Q x t \<Longrightarrow> Q' x t) \<Longrightarrow> (\<And>e t. m s = (Inl e, t) \<Longrightarrow> E e t \<Longrightarrow> E' e t) \<Longrightarrow>
    wp m Q' E' s"
  by (auto simp: wp_def split: prod.splits sum.splits)

lemma pending_row_ok:
  "payment_row_ok r \<Longrightarrow> payment_status_ok (p_Status p) \<Longrightarrow> p_FeeAmount p = p_FeeAmount r \<Longrightarrow> payment_row_ok (with_status_of p t r)"
  by (rule payment_row_ok_status)

lemma cancel_begin_ok:
  assumes n: "idle w" and s: "schema_ok (w_db w)" and i: "fresh_ids w"
    and p: "p \<in> set (db_payments (w_db w))" "p_Status p = PaymentStatusPending" and u: "w_uuid_ok w (p_ID p)"
    and Q: "\<And>w'. idle w' \<Longrightarrow> fresh_ids w' \<Longrightarrow> w_uuid_ok w' = w_uuid_ok w \<Longrightarrow> schema_ok (w_db w') \<Longrightarrow> w_now w' = w_now w \<Longrightarrow>
       cancel_started (p_MerchantID p) (p_ID p) p (w_now w) (w_db w) (w_db w') \<Longrightarrow> Q (cancelling p) w'"
  shows "wp (cancel_begin (p_MerchantID p) (p_ID p)) Q E w"
proof -
  let ?Q = "\<lambda>q w'. q = cancelling p \<and> idle w' \<and> fresh_ids w' \<and> w_uuid_ok w' = w_uuid_ok w \<and> w_now w' = w_now w
     \<and> cancel_started (p_MerchantID p) (p_ID p) p (w_now w) (w_db w) (w_db w')"
  have ok: "payment_row_ok p" using s p(1) by (auto simp: schema_ok_def table_ok_def list_all_iff)
  have "wp (cancel_begin (p_MerchantID p) (p_ID p)) ?Q (\<lambda>_ _. False) w"
  proof -
    have "wp (RunInTx (bind (payment_Update (cancelling p)) (\<lambda>_. audit_Save (audit (p_ID (cancelling p)) AuditEventStatusChanged
        (Some PaymentStatusPending) PaymentStatusCancelling (''merchant:'' @ p_MerchantID p))))) (\<lambda>_. ?Q (cancelling p)) (\<lambda>_ _. False) (tick w)"
      by (rule move_ok [where r = p])
        (use assms ok find_own [OF s p(1)] in
          \<open>auto simp: fresh_ids_tick cancel_started_def payment_audit_row_ok_def audit_def payment_status_ok_def intro!: payment_row_ok_status\<close>)
    then show ?thesis
      using n u p(2) find_own [OF s p(1)]
      by (simp add: cancel_begin_def payment_FindByID_def wp_simps wp_ret_eta wp_query uuid_param_def payment_CanCancel_def
          cancelling_def [symmetric] Let_def)
  qed
  then show ?thesis
  proof (rule wp_run_eq)
    fix q w' assume "cancel_begin (p_MerchantID p) (p_ID p) w = (Inr q, w')" "?Q q w'"
    moreover from schema.obeysD [OF obeys_cancel_steps(2), of w "p_MerchantID p" "p_ID p"] this(1) s have "schema_ok (w_db w')"
      by (simp add: schema.lifted_def kept_def)
    ultimately show "Q q w'" using Q by blast
  qed simp
qed

lemma moved_find:
  assumes "moved p ev old actor t db db'"
  shows "\<exists>q. find (\<lambda>r. p_ID r = p_ID p) (db_payments db') = Some q \<and> p_Status q = p_Status p"
proof -
  from assms have d: "db_payments db' = update_where (\<lambda>r. p_ID r = p_ID p) (with_status_of p t) (db_payments db)"
    and r: "\<exists>r \<in> set (db_payments db). p_ID r = p_ID p" by (auto simp: moved_def set_status_def)
  have "find (\<lambda>r. p_ID r = p_ID p) (db_payments db) \<noteq> None" using r by (auto simp: find_None_iff)
  then obtain x where x: "find (\<lambda>r. p_ID r = p_ID p) (db_payments db) = Some x" by blast
  have "find (\<lambda>r. p_ID r = p_ID p) (db_payments db') = Some (with_status_of p t x)"
    unfolding d by (subst find_update_where) (use x find_Some_in [OF x] in auto)
  then show ?thesis by simp
qed

lemma started_row:
  assumes "cancel_started m i p t db db'"
  shows "\<exists>r \<in> set (db_payments db'). p_ID r = p_ID p \<and> p_FeeAmount r = p_FeeAmount p"
proof -
  from assms obtain x where "x \<in> set (db_payments db)" "p_ID x = p_ID p"
    "db_payments db' = update_where (\<lambda>r. p_ID r = p_ID p) (with_status_of (cancelling p) t) (db_payments db)"
    by (auto simp: cancel_started_def moved_def set_status_def)
  moreover have "p_FeeAmount (with_status_of (cancelling p) t x) = p_FeeAmount p" by (simp add: with_status_of_def)
  ultimately show ?thesis
    by (intro bexI [of _ "with_status_of (cancelling p) t x"])
      (auto intro: update_where_hits [of "\<lambda>r. p_ID r = p_ID p"])
qed

text \<open>When the provider refuses a cancellation, the payment goes back to pending and stays payable, yet the merchant is
  answered without an error, as if it had been cancelled.\<close>

theorem CancelPayment_refusal_reported_as_success:
  assumes "idle w" "schema_ok (w_db w)" "fresh_ids w" "p \<in> set (db_payments (w_db w))" "p_Status p = PaymentStatusPending"
    and "w_uuid_ok w (p_ID p)" "gws (p_Provider p) = Some gw" "pg_CancelPayment gw (cancel_id p) = Inl e" "\<not> is_panic e"
  shows "wp (CancelPayment gws (p_MerchantID p) (p_ID p))
     (\<lambda>_ w'. \<exists>q. find (\<lambda>r. p_ID r = p_ID p) (db_payments (w_db w')) = Some q \<and> p_Status q = PaymentStatusPending) (\<lambda>_ _. False) w"
  unfolding CancelPayment_def wp_bind payment_gateway_for_def wp_case_option wp_throw wp_ret wp_attempt wp_outcome
proof (rule cancel_begin_ok [OF assms(1-6)], goal_cases)
  case (1 w1)
  let ?p = "(cancelling p)\<lparr>p_Status := PaymentStatusPending, p_CancelledAt := None\<rparr>"
  from started_row [OF 1(6)] obtain r where r: "r \<in> set (db_payments (w_db w1))" "p_ID r = p_ID p" "p_FeeAmount r = p_FeeAmount p"
    by blast
  then have rok: "payment_row_ok (with_status_of ?p (w_now w1) r)"
    using 1(4) by (intro payment_row_ok_status) (auto simp: schema_ok_def table_ok_def list_all_iff payment_status_ok_def)
  have "wp (cancel_finish (p_MerchantID p) (cancelling p) (Inl e))
     (\<lambda>_ w'. \<exists>q. find (\<lambda>r. p_ID r = p_ID p) (db_payments (w_db w')) = Some q \<and> p_Status q = PaymentStatusPending) (\<lambda>_ _. False) w1"
  proof -
    have "wp (RunInTx (bind (payment_Update ?p) (\<lambda>_. audit_Save (audit (p_ID ?p) AuditEventStatusChanged
        (Some PaymentStatusCancelling) PaymentStatusPending ''system:cancel_revert''))))
      (\<lambda>_ w'. \<exists>q. find (\<lambda>r. p_ID r = p_ID p) (db_payments (w_db w')) = Some q \<and> p_Status q = PaymentStatusPending) (\<lambda>_ _. False) w1"
      by (rule move_ok [where r = r])
        (use 1 r rok assms(6) in \<open>auto simp: payment_audit_row_ok_def audit_def payment_status_ok_def dest!: moved_find\<close>)
    then show ?thesis by (simp add: cancel_finish_def wp_bind wp_ret_eta wp_ret Let_def)
  qed
  moreover have "cancel_id (cancelling p) = cancel_id p" by (simp add: cancel_id_def cancelling_def)
  ultimately show ?case using assms(7-9) by simp
qed

theorem CancelPayment_refusal_reported_as_success_witness:
  "wp (CancelPayment sample_gateways ''M1'' ''P1'')
     (\<lambda>_ w'. \<exists>q. find (\<lambda>r. p_ID r = ''P1'') (db_payments (w_db w')) = Some q \<and> p_Status q = PaymentStatusPending) (\<lambda>_ _. False)
     (quiet_world (payment_db 100000) 0)"
proof -
  obtain gw where "sample_gateways ProviderMidtrans = Some gw" "\<And>x. pg_CancelPayment gw x = Inl (PlainErr ''refused'')"
    by (simp add: sample_gateways_def)
  then show ?thesis
    using CancelPayment_refusal_reported_as_success [of "quiet_world (payment_db 100000) 0" "sample_payment 100000" sample_gateways]
    by auto
qed

text \<open>A payment whose provider has been disabled cannot be cancelled, and the attempt leaves it in cancelling, from
  where neither a second cancellation nor the expiry worker takes it out.\<close>

theorem CancelPayment_disabled_provider:
  assumes "idle w" "schema_ok (w_db w)" "fresh_ids w" "p \<in> set (db_payments (w_db w))" "p_Status p = PaymentStatusPending"
    and "w_uuid_ok w (p_ID p)" "gws (p_Provider p) = None"
  shows "wp (CancelPayment gws (p_MerchantID p) (p_ID p)) (\<lambda>_ _. False)
     (\<lambda>e w'. http_status e = 400 \<and> (\<exists>q. find (\<lambda>r. p_ID r = p_ID p) (db_payments (w_db w')) = Some q
        \<and> p_Status q = PaymentStatusCancelling \<and> \<not> payment_CanCancel q \<and> (\<forall>t. \<not> due_at t q))) w"
  unfolding CancelPayment_def wp_bind payment_gateway_for_def wp_case_option wp_throw wp_ret wp_attempt wp_outcome
proof (rule cancel_begin_ok [OF assms(1-6)], goal_cases)
  case (1 w1)
  from moved_find [of "cancelling p"] 1(6) obtain q where
    "find (\<lambda>r. p_ID r = p_ID p) (db_payments (w_db w1)) = Some q" "p_Status q = PaymentStatusCancelling"
    by (fastforce simp: cancel_started_def)
  then show ?case using assms(7) by (simp add: payment_CanCancel_def due_at_def)
qed

theorem CancelPayment_disabled_provider_witness:
  "wp (CancelPayment (\<lambda>_. None) ''M1'' ''P1'') (\<lambda>_ _. False)
     (\<lambda>e w'. http_status e = 400 \<and> (\<exists>q. find (\<lambda>r. p_ID r = ''P1'') (db_payments (w_db w')) = Some q
        \<and> p_Status q = PaymentStatusCancelling \<and> \<not> payment_CanCancel q \<and> (\<forall>t. \<not> due_at t q)))
     (quiet_world (payment_db 100000) 0)"
  using CancelPayment_disabled_provider [of "quiet_world (payment_db 100000) 0" "sample_payment 100000" "\<lambda>_. None"] by simp

end
