(* ===== verification/Disbursements.thy ===== *)
theory Disbursements
  imports Cashin
begin

text \<open>
  Cash-out: the disbursement repository
  (internal/infrastructure/database/postgres/disbursement_repo.go with its SQL in
  query/disbursement.sql) and the disbursement usecase
  (internal/usecase/impl/disbursement.go). The provider adapters are the
  \<open>DisbursementGateway\<close> port of internal/domain/gateway/gateway.go.
\<close>

section \<open>The gateway port\<close>

record disburse_request =
  dr_ExternalID :: string
  dr_BankCode :: bank_code
  dr_AccountNumber :: string
  dr_AccountName :: string
  dr_Amount :: int64
  dr_Currency :: currency
  dr_Description :: string

record disburse_response =
  ds_ExternalID :: string
  ds_Status :: disbursement_status
  ds_Amount :: int64

record disbursement_webhook_event =
  de_ExternalID :: string
  de_Status :: disbursement_status
  de_FailureReason :: string
  de_Amount :: int64
  de_RawPayload :: string

record disbursement_gateway =
  dg_Disburse :: "disburse_request \<Rightarrow> disburse_response res"
  dg_GetDisbursementStatus :: "string \<Rightarrow> disburse_response res"
  dg_ParseDisbursementWebhook :: "headers \<Rightarrow> string \<Rightarrow> disbursement_webhook_event res"

type_synonym disbursement_gateways = "provider \<Rightarrow> disbursement_gateway option"

section \<open>Repository\<close>

definition disbursement_Save :: "disbursement \<Rightarrow> (world, disbursement) action" where
  "disbursement_Save d =
     bind (wrap ''insert disbursement''
       (exec (\<lambda>w. uuid_param w (d_MerchantID d)
          (let row = d\<lparr>d_ID := fresh_uuid w, d_FailureReason := '''', d_CompletedAt := None, d_FailedAt := None,
                      d_CreatedAt := w_now w, d_UpdatedAt := w_now w\<rparr>
           in map_sum id (Pair row) (insert_disbursement row (w_db w)))))) (\<lambda>row.
     ret (d\<lparr>d_ID := d_ID row, d_CreatedAt := d_CreatedAt row, d_UpdatedAt := d_UpdatedAt row\<rparr>))"

definition disbursement_FindByID :: "string \<Rightarrow> (world, disbursement) action" where
  "disbursement_FindByID i =
     bind (wrap ''get disbursement by id''
            (query (\<lambda>w. uuid_param w i (Inr (find (\<lambda>d. d_ID d = i) (db_disbursements (w_db w))))))) (\<lambda>r.
     case r of
       None \<Rightarrow> throw (NotFound (''disbursement '' @ i @ '' not found''))
     | Some d \<Rightarrow> ret d)"

definition disbursement_FindByExternalID :: "provider \<Rightarrow> string \<Rightarrow> (world, disbursement) action" where
  "disbursement_FindByExternalID provider extID =
     bind (wrap ''get disbursement by external_id''
            (query (\<lambda>w. Inr (find (\<lambda>d. d_Provider d = provider \<and> d_ExternalID d = extID) (db_disbursements (w_db w)))))) (\<lambda>r.
     case r of
       None \<Rightarrow> throw (NotFound (''disbursement with external_id '' @ extID @ '' not found''))
     | Some d \<Rightarrow> ret d)"

text \<open>\<open>UpdateDisbursementStatus\<close>: six columns of the row.\<close>

definition with_outcome_of :: "disbursement \<Rightarrow> time \<Rightarrow> disbursement \<Rightarrow> disbursement" where
  "with_outcome_of d t r =
     r\<lparr>d_Status := d_Status d, d_ExternalID := d_ExternalID d, d_FailureReason := d_FailureReason d,
       d_CompletedAt := d_CompletedAt d, d_FailedAt := d_FailedAt d, d_UpdatedAt := t\<rparr>"

definition disbursement_Update :: "disbursement \<Rightarrow> (world, unit) action" where
  "disbursement_Update d =
     bind (wrap ''update disbursement''
       (exec (\<lambda>w. uuid_param w (d_ID d)
          (map_sum id (\<lambda>rows. (find (\<lambda>r. d_ID r = d_ID d) rows, (w_db w)\<lparr>db_disbursements := rows\<rparr>))
            (checked_update disbursement_row_ok disbursement_conflict (\<lambda>r. d_ID r = d_ID d) (with_outcome_of d (w_now w))
               (db_disbursements (w_db w))))))) (\<lambda>r.
     bind (one_row ''update disbursement'' r) (\<lambda>_. ret ()))"

record list_disbursement_filter =
  ld_MerchantID :: string
  ld_Status :: "disbursement_status option"
  ld_Provider :: "provider option"
  ld_StartDate :: "time option"
  ld_EndDate :: "time option"
  ld_Page :: int
  ld_Limit :: int

definition disbursement_matches :: "list_disbursement_filter \<Rightarrow> disbursement \<Rightarrow> bool" where
  "disbursement_matches f d \<longleftrightarrow>
     (ld_MerchantID f \<noteq> '''' \<longrightarrow> d_MerchantID d = ld_MerchantID f)
     \<and> (case ld_Status f of None \<Rightarrow> True | Some x \<Rightarrow> disbursement_status_str (d_Status d) = disbursement_status_str x)
     \<and> (case ld_Provider f of None \<Rightarrow> True | Some x \<Rightarrow> provider_str (d_Provider d) = provider_str x)
     \<and> (case ld_StartDate f of None \<Rightarrow> True | Some t \<Rightarrow> t \<le> d_CreatedAt d)
     \<and> (case ld_EndDate f of None \<Rightarrow> True | Some t \<Rightarrow> d_CreatedAt d \<le> t)"

definition disbursement_List :: "list_disbursement_filter \<Rightarrow> (world, disbursement list \<times> int64) action" where
  "disbursement_List f =
     bind (wrap ''count disbursements''
            (query (\<lambda>w. optional_uuid w (ld_MerchantID f)
               (Inr (int (length (filter (disbursement_matches f) (db_disbursements (w_db w))))))))) (\<lambda>total.
     if total = 0 then ret ([], 0)
     else case normalizePage (ld_Page f) (ld_Limit f) of (page, limit) \<Rightarrow>
       bind (wrap ''list disbursements''
              (query (\<lambda>w. optional_uuid w (ld_MerchantID f)
                 (sql_page page limit (order_desc d_CreatedAt (filter (disbursement_matches f) (db_disbursements (w_db w)))))))) (\<lambda>rows.
       ret (rows, total)))"

text \<open>
  The two sums of the cash-out checks. \<open>(NOW() AT TIME ZONE 'Asia/Jakarta')::DATE::TIMESTAMPTZ\<close> is
  the calendar day in Jakarta (UTC+7), and then midnight of that day in the time zone of the
  database session.
\<close>

definition sum_where :: "(disbursement \<Rightarrow> bool) \<Rightarrow> disbursement list \<Rightarrow> int" where
  "sum_where P ds = sum_list (map d_Amount (filter P ds))"

definition jakarta_offset :: int where
  "jakarta_offset = 7 * 3600 * second"

definition jakarta_day_start :: "int \<Rightarrow> time \<Rightarrow> time" where
  "jakarta_day_start session_offset t = ((t + jakarta_offset) div day) * day - session_offset * second"

definition counts_today :: "string \<Rightarrow> time \<Rightarrow> disbursement \<Rightarrow> bool" where
  "counts_today merchantID start d \<longleftrightarrow>
     d_MerchantID d = merchantID \<and> disbursement_status_str (d_Status d) \<notin> {''failed'', ''cancelled''} \<and> start \<le> d_CreatedAt d"

definition counts_pending :: "string \<Rightarrow> disbursement \<Rightarrow> bool" where
  "counts_pending merchantID d \<longleftrightarrow>
     d_MerchantID d = merchantID \<and> disbursement_status_str (d_Status d) \<in> {''pending'', ''processing''}"

definition SumDisbursementsToday :: "string \<Rightarrow> (world, int64) action" where
  "SumDisbursementsToday merchantID =
     wrap ''sum disbursements today''
       (query (\<lambda>w. uuid_param w merchantID
          (bigint (sum_where (counts_today merchantID (jakarta_day_start (w_session_offset w) (w_now w))) (db_disbursements (w_db w))))))"

definition SumPendingDisbursements :: "string \<Rightarrow> (world, int64) action" where
  "SumPendingDisbursements merchantID =
     wrap ''sum pending disbursements''
       (query (\<lambda>w. uuid_param w merchantID (bigint (sum_where (counts_pending merchantID) (db_disbursements (w_db w))))))"

section \<open>Usecase: disbursing\<close>

record disburse_input =
  di_MerchantID :: string
  di_Provider :: provider
  di_BankAccountID :: string
  di_Amount :: int64
  di_Currency :: currency
  di_Description :: string

record disbursement_output =
  do_ID :: string
  do_ExternalID :: string
  do_Provider :: provider
  do_Status :: disbursement_status
  do_BankCode :: bank_code
  do_AccountNumber :: string
  do_AccountName :: string
  do_Amount :: int64
  do_FeeAmount :: int64
  do_Currency :: currency
  do_Description :: string
  do_FailureReason :: string
  do_CompletedAt :: "time option"
  do_CreatedAt :: time

definition toDisbursementOutput :: "disbursement \<Rightarrow> disbursement_output" where
  "toDisbursementOutput d =
     \<lparr>do_ID = d_ID d, do_ExternalID = d_ExternalID d, do_Provider = d_Provider d, do_Status = d_Status d,
      do_BankCode = d_BankCode d, do_AccountNumber = d_AccountNumber d, do_AccountName = d_AccountName d,
      do_Amount = d_Amount d, do_FeeAmount = d_FeeAmount d, do_Currency = d_Currency d, do_Description = d_Description d,
      do_FailureReason = d_FailureReason d, do_CompletedAt = d_CompletedAt d, do_CreatedAt = d_CreatedAt d\<rparr>"

definition disbGateway :: "disbursement_gateways \<Rightarrow> provider \<Rightarrow> (world, disbursement_gateway) action" where
  "disbGateway gws provider =
     (case gws provider of
        None \<Rightarrow> throw (BadRequest (''provider '' @ provider_str provider @ '' does not support disbursement or is not enabled''))
      | Some gw \<Rightarrow> ret gw)"

text \<open>The checks before the reservation, and the fee, which is zero when it cannot be resolved.\<close>

definition disburse_read :: "disbursement_gateways \<Rightarrow> disburse_input \<Rightarrow>
    (world, merchant \<times> bank_account \<times> disbursement_gateway \<times> int64) action" where
  "disburse_read gws input =
     bind (merchant_FindByID (di_MerchantID input)) (\<lambda>merchant.
     if \<not> merchant_CanTransact merchant then throw (Forbidden ''merchant account is not active'')
     else
       bind (FindBankAccountByID (di_BankAccountID input)) (\<lambda>account.
       if ba_MerchantID account \<noteq> di_MerchantID input
       then throw (NotFound (''bank account '' @ di_BankAccountID input @ '' not found''))
       else if \<not> ba_IsVerified account
       then throw (UnprocessableEntity
              (''bank account '' @ di_BankAccountID input @ '' is not verified - contact admin to verify''))
       else
         bind (disbGateway gws (di_Provider input)) (\<lambda>gw.
         bind (attempt (resolver_ResolveDisbursement merchant (di_Amount input))) (\<lambda>res.
         ret (merchant, account, gw, case res of Inl _ \<Rightarrow> 0 | Inr r \<Rightarrow> fr_TotalFee r)))))"

definition lock_merchant :: "string \<Rightarrow> (world, unit) action" where
  "lock_merchant merchantID =
     bind (wrap ''lock merchant''
            (query (\<lambda>w. uuid_param w merchantID (Inr (find (\<lambda>m. m_ID m = merchantID) (db_merchants (w_db w))))))) (\<lambda>r.
     bind (one_row ''lock merchant'' r) (\<lambda>_. ret ()))"

definition reserved_disbursement :: "disburse_input \<Rightarrow> bank_account \<Rightarrow> int64 \<Rightarrow> disbursement" where
  "reserved_disbursement input account fee =
     \<lparr>d_ID = '''', d_MerchantID = di_MerchantID input, d_ExternalID = '''', d_Provider = di_Provider input,
      d_Status = DisbursementStatusPending, d_BankCode = ba_BankCode account, d_AccountNumber = ba_AccountNumber account,
      d_AccountName = ba_AccountName account, d_Amount = di_Amount input, d_FeeAmount = fee, d_Currency = di_Currency input,
      d_Description = di_Description input, d_FailureReason = '''', d_CompletedAt = None, d_FailedAt = None,
      d_CreatedAt = zero_time, d_UpdatedAt = zero_time\<rparr>"

text \<open>The reservation: lock, balance less pending, daily limit, INSERT, in one transaction.\<close>

definition disburse_reserve :: "disburse_input \<Rightarrow> merchant \<Rightarrow> bank_account \<Rightarrow> int64 \<Rightarrow> (world, disbursement) action" where
  "disburse_reserve input merchant account fee =
     RunInTx (
       bind (lock_merchant (di_MerchantID input)) (\<lambda>_.
       bind (wrap ''get balance'' (mutation_GetBalance (di_MerchantID input))) (\<lambda>balance.
       bind (wrap ''sum pending disbursements'' (SumPendingDisbursements (di_MerchantID input))) (\<lambda>pendingTotal.
       let available = wrap64 (balance - pendingTotal) in
       if available < di_Amount input
       then throw (UnprocessableEntity
              (''insufficient balance: available '' @ fmt_d available @ '' IDR (balance '' @ fmt_d balance @ '' - pending ''
               @ fmt_d pendingTotal @ ''), need '' @ fmt_d (di_Amount input) @ '' IDR''))
       else
         bind (if m_DailyCashoutLimit merchant > 0
               then bind (wrap ''check daily limit'' (SumDisbursementsToday (di_MerchantID input))) (\<lambda>todayTotal.
                    when_do (wrap64 (todayTotal + di_Amount input) > m_DailyCashoutLimit merchant)
                      (throw (UnprocessableEntity
                        (''daily cashout limit exceeded: limit '' @ fmt_d (m_DailyCashoutLimit merchant) @ '' IDR, used ''
                         @ fmt_d todayTotal @ '' IDR, requested '' @ fmt_d (di_Amount input) @ '' IDR''))))
               else ret ()) (\<lambda>_.
         disbursement_Save (reserved_disbursement input account fee))))))"

definition disburse_request_of :: "disburse_input \<Rightarrow> bank_account \<Rightarrow> string \<Rightarrow> disburse_request" where
  "disburse_request_of input account extID =
     \<lparr>dr_ExternalID = extID, dr_BankCode = ba_BankCode account, dr_AccountNumber = ba_AccountNumber account,
      dr_AccountName = ba_AccountName account, dr_Amount = di_Amount input, dr_Currency = di_Currency input,
      dr_Description = di_Description input\<rparr>"

text \<open>
  What follows the provider's answer: a failed reservation is marked so that its funds are
  released, with only a log line when that fails; an accepted one takes the provider's
  reference and status.
\<close>

definition disburse_finish :: "provider \<Rightarrow> disbursement \<Rightarrow> disburse_response res \<Rightarrow> (world, disbursement_output) action" where
  "disburse_finish provider d answer =
     (case answer of
        Inl err \<Rightarrow>
          bind (attempt (disbursement_Update (d\<lparr>d_Status := DisbursementStatusFailed, d_FailureReason := err_Error err\<rparr>))) (\<lambda>_.
          throw (Wrapped (''disburse via '' @ provider_str provider) err))
      | Inr resp \<Rightarrow>
          let d = d\<lparr>d_ExternalID := ds_ExternalID resp, d_Status := ds_Status resp\<rparr> in
          bind (wrap ''update disbursement after provider'' (disbursement_Update d)) (\<lambda>_.
          ret (toDisbursementOutput d)))"

definition Disburse :: "disbursement_gateways \<Rightarrow> disburse_input \<Rightarrow> (world, disbursement_output) action" where
  "Disburse gws input =
     bind (disburse_read gws input) (\<lambda>(merchant, account, gw, fee).
     bind (disburse_reserve input merchant account fee) (\<lambda>d.
     bind externalID (\<lambda>extID.
     bind (attempt (outcome (dg_Disburse gw (disburse_request_of input account extID)))) (\<lambda>answer.
     disburse_finish (di_Provider input) d answer))))"

section \<open>Usecase: reading\<close>

definition GetDisbursement :: "string \<Rightarrow> string \<Rightarrow> (world, disbursement_output) action" where
  "GetDisbursement merchantID disbursementID =
     bind (disbursement_FindByID disbursementID) (\<lambda>d.
     if d_MerchantID d \<noteq> merchantID then throw (NotFound (''disbursement '' @ disbursementID @ '' not found''))
     else ret (toDisbursementOutput d))"

record list_disbursements_input =
  lx_MerchantID :: string
  lx_Status :: string
  lx_StartDate :: string
  lx_EndDate :: string
  lx_Page :: int
  lx_Limit :: int

record disbursement_list_output =
  dl_Items :: "disbursement_output list"
  dl_Total :: int64
  dl_Page :: int
  dl_Limit :: int

definition ListDisbursements :: "list_disbursements_input \<Rightarrow> (world, disbursement_list_output) action" where
  "ListDisbursements input =
     (let page = (if lx_Page input < 1 then 1 else lx_Page input);
          limit = (if lx_Limit input < 1 then 20 else lx_Limit input);
          limit = (if limit > 100 then 100 else limit)
      in bind (disbursement_List
                \<lparr>ld_MerchantID = lx_MerchantID input, ld_Status = nonempty disbursement_status_of (lx_Status input),
                 ld_Provider = None, ld_StartDate = optional_date (lx_StartDate input),
                 ld_EndDate = optional_date (lx_EndDate input), ld_Page = page, ld_Limit = limit\<rparr>) (\<lambda>(disbursements, total).
         ret \<lparr>dl_Items = map toDisbursementOutput disbursements, dl_Total = total, dl_Page = page, dl_Limit = limit\<rparr>))"

section \<open>Usecase: callbacks\<close>

definition cash_out :: "disbursement \<Rightarrow> mutation" where
  "cash_out d =
     \<lparr>mu_ID = '''', mu_ReferenceID = d_ID d, mu_ReferenceType = MutationRefDisbursement, mu_MerchantID = d_MerchantID d,
      mu_Type = MutationTypeCashOut, mu_Amount = wrap64 (d_Amount d + d_FeeAmount d), mu_FeeAmount = 0,
      mu_Currency = d_Currency d,
      mu_Description = ''Disbursement to '' @ bank_code_str (d_BankCode d) @ '' '' @ d_AccountNumber d,
      mu_CreatedAt = zero_time\<rparr>"

definition disbursement_payload :: "disbursement \<Rightarrow> time \<Rightarrow> payload" where
  "disbursement_payload d t =
     \<lparr>pl_EventType = ''disbursement.'' @ disbursement_status_str (d_Status d), pl_DeliveryID = '''', pl_CreatedAt = t,
      pl_Data = DisbursementData
        \<lparr>dd_DisbursementID = d_ID d, dd_MerchantID = d_MerchantID d, dd_Status = disbursement_status_str (d_Status d),
         dd_Provider = provider_str (d_Provider d), dd_BankCode = bank_code_str (d_BankCode d),
         dd_AccountNumber = d_AccountNumber d, dd_AccountName = d_AccountName d, dd_Amount = d_Amount d,
         dd_FeeAmount = d_FeeAmount d, dd_Currency = currency_str (d_Currency d), dd_CompletedAt = d_CompletedAt d,
         dd_FailedAt = d_FailedAt d, dd_FailureReason = d_FailureReason d, dd_CreatedAt = d_CreatedAt d\<rparr>\<rparr>"

definition apply_callback :: "disbursement_webhook_event \<Rightarrow> disbursement \<Rightarrow> disbursement" where
  "apply_callback ev d = d\<lparr>d_Status := de_Status ev, d_FailureReason := de_FailureReason ev\<rparr>"

definition callback_read :: "disbursement_gateways \<Rightarrow> provider \<Rightarrow> headers \<Rightarrow> string \<Rightarrow> (world, (disbursement \<times> merchant) option) action" where
  "callback_read gws provider hdrs body =
     bind (disbGateway gws provider) (\<lambda>gw.
     bind (wrap ''parse disbursement webhook'' (outcome (dg_ParseDisbursementWebhook gw hdrs body))) (\<lambda>ev.
     bind (wrap ''find disbursement'' (disbursement_FindByExternalID provider (de_ExternalID ev))) (\<lambda>d.
     if disbursement_IsFinal d then ret None
     else
       let d = apply_callback ev d in
       bind (wrap ''find merchant'' (merchant_FindByID (d_MerchantID d))) (\<lambda>merchant.
       ret (Some (d, merchant))))))"

definition callback_tx :: "disbursement \<Rightarrow> merchant \<Rightarrow> (world, unit) action" where
  "callback_tx d merchant =
     RunInTx (
       bind (disbursement_Update d) (\<lambda>_.
       bind (if d_Status d = DisbursementStatusCompleted
             then bind (mutation_Save (cash_out d)) (\<lambda>_. ret ())
             else ret ()) (\<lambda>_.
       if m_WebhookURL merchant = '''' then ret ()
       else
         bind now (\<lambda>t.
         outbox_Insert (''disbursement.'' @ disbursement_status_str (d_Status d)) (m_WebhookURL merchant) (m_ID merchant)
           (disbursement_payload d t)))))"

definition HandleDisbursementCallback :: "disbursement_gateways \<Rightarrow> provider \<Rightarrow> headers \<Rightarrow> string \<Rightarrow> (world, unit) action" where
  "HandleDisbursementCallback gws provider hdrs body =
     bind (callback_read gws provider hdrs body) (\<lambda>r.
     case r of
       None \<Rightarrow> ret ()
     | Some (d, merchant) \<Rightarrow> callback_tx d merchant)"

end
