(* ===== verification/Cashout.thy ===== *)
theory Cashout
  imports Disbursements
begin

text \<open>
  Properties of the disbursement usecase: what a disbursement reserves and leaves behind, what
  a provider callback commits, and the balance of the merchant in between.
\<close>

section \<open>Proof rules of the repository\<close>

lemma wp_disbursement_Save:
  assumes "\<And>row. row = d\<lparr>d_ID := fresh_uuid w, d_FailureReason := '''', d_CompletedAt := None, d_FailedAt := None,
                      d_CreatedAt := w_now w, d_UpdatedAt := w_now w\<rparr> \<Longrightarrow> \<not> stmt_fails w \<Longrightarrow>
      disbursement_row_ok row \<Longrightarrow> merchant_exists (w_db w) (d_MerchantID d) \<Longrightarrow>
      (\<forall>r \<in> set (db_disbursements (w_db w)). \<not> disbursement_conflict row r) \<Longrightarrow>
      Q (d\<lparr>d_ID := d_ID row, d_CreatedAt := d_CreatedAt row, d_UpdatedAt := d_UpdatedAt row\<rparr>)
        ((tick w)\<lparr>w_db := (w_db w)\<lparr>db_disbursements := db_disbursements (w_db w) @ [row]\<rparr>\<rparr>)"
    and "\<And>e w'. w_db w' = w_db w \<Longrightarrow> \<not> is_panic e \<Longrightarrow> E e w'"
  shows "wp (disbursement_Save d) Q E w"
  using assms
  by (auto simp: disbursement_Save_def wp_simps wp_exec uuid_param_def insert_disbursement_def Let_def split: sum.splits)

lemma wp_disbursement_FindByExternalID:
  assumes "\<And>d w'. find (\<lambda>d. d_Provider d = pr \<and> d_ExternalID d = x) (db_disbursements (w_db w)) = Some d \<Longrightarrow> \<not> stmt_fails w
       \<Longrightarrow> w' = tick w \<Longrightarrow> Q d w'"
    and "\<And>e w'. w_db w' = w_db w \<Longrightarrow> \<not> is_panic e \<Longrightarrow> E e w'"
  shows "wp (disbursement_FindByExternalID pr x) Q E w"
  using assms
  by (auto simp: disbursement_FindByExternalID_def wp_simps wp_query split: option.splits)

definition set_outcome :: "disbursement \<Rightarrow> time \<Rightarrow> database \<Rightarrow> database" where
  "set_outcome d t db = db\<lparr>db_disbursements := update_where (\<lambda>r. d_ID r = d_ID d) (with_outcome_of d t) (db_disbursements db)\<rparr>"

lemma with_outcome_of_simps [simp]:
  "d_ID (with_outcome_of d t r) = d_ID r" "d_MerchantID (with_outcome_of d t r) = d_MerchantID r"
  "d_Amount (with_outcome_of d t r) = d_Amount r" "d_FeeAmount (with_outcome_of d t r) = d_FeeAmount r"
  "d_Status (with_outcome_of d t r) = d_Status d" "d_Provider (with_outcome_of d t r) = d_Provider r"
  "d_ExternalID (with_outcome_of d t r) = d_ExternalID d" "d_CreatedAt (with_outcome_of d t r) = d_CreatedAt r"
  by (simp_all add: with_outcome_of_def)

lemma wp_disbursement_Update:
  assumes "\<And>r. r \<in> set (db_disbursements (w_db w)) \<Longrightarrow> d_ID r = d_ID d \<Longrightarrow> \<not> stmt_fails w \<Longrightarrow>
       checked_update disbursement_row_ok disbursement_conflict (\<lambda>r. d_ID r = d_ID d) (with_outcome_of d (w_now w))
         (db_disbursements (w_db w)) = Inr (db_disbursements (set_outcome d (w_now w) (w_db w))) \<Longrightarrow>
       Q () ((tick w)\<lparr>w_db := set_outcome d (w_now w) (w_db w)\<rparr>)"
    and "\<And>e w'. w_db w' = w_db w \<Longrightarrow> \<not> is_panic e \<Longrightarrow> E e w'"
  shows "wp (disbursement_Update d) Q E w"
proof -
  have none: "find (\<lambda>r. d_ID r = d_ID d) (update_where (\<lambda>r. d_ID r = d_ID d) (with_outcome_of d t) rows) = None \<Longrightarrow>
      update_where (\<lambda>r. d_ID r = d_ID d) (with_outcome_of d t) rows = rows" for t rows
    by (subst (asm) find_update_same) (auto simp: update_where_def intro: map_idI)
  have some: "find (\<lambda>r. d_ID r = d_ID d) (update_where (\<lambda>r. d_ID r = d_ID d) (with_outcome_of d t) rows) = Some x \<Longrightarrow>
      \<exists>r \<in> set rows. d_ID r = d_ID d" for t rows x
    by (auto dest!: find_Some_in in_update_where)
  show ?thesis
    unfolding disbursement_Update_def
    by (auto simp: wp_simps wp_exec uuid_param_def none split: sum.splits option.splits
        intro!: assms(2)) (drule some, erule bexE, rule assms(1) [unfolded set_outcome_def], assumption, assumption, auto)
qed

lemma wp_lock_merchant:
  assumes "merchant_exists (w_db w) i \<Longrightarrow> \<not> stmt_fails w \<Longrightarrow> w_uuid_ok w i \<Longrightarrow> Q () (tick w)"
    and "\<And>e w'. w_db w' = w_db w \<Longrightarrow> \<not> is_panic e \<Longrightarrow> E e w'"
  shows "wp (lock_merchant i) Q E w"
  using assms
  by (auto simp: lock_merchant_def wp_simps wp_query uuid_param_def merchant_exists_def list_ex_iff
      dest!: find_Some_in split: option.splits)

definition pending_of :: "database \<Rightarrow> string \<Rightarrow> int" where
  "pending_of db i = sum_where (counts_pending i) (db_disbursements db)"

definition today_of :: "world \<Rightarrow> string \<Rightarrow> int" where
  "today_of w i = sum_where (counts_today i (jakarta_day_start (w_session_offset w) (w_now w))) (db_disbursements (w_db w))"

lemma wp_sums:
  assumes E: "\<And>e w'. w_db w' = w_db w \<Longrightarrow> \<not> is_panic e \<Longrightarrow> E e w'"
  shows "(\<not> stmt_fails w \<Longrightarrow> int64_range (balance_of (w_db w) i) \<Longrightarrow> Q (balance_of (w_db w) i) (tick w)) \<Longrightarrow> wp (mutation_GetBalance i) Q E w"
    "(\<not> stmt_fails w \<Longrightarrow> int64_range (pending_of (w_db w) i) \<Longrightarrow> Q (pending_of (w_db w) i) (tick w)) \<Longrightarrow> wp (SumPendingDisbursements i) Q E w"
    "(\<not> stmt_fails w \<Longrightarrow> int64_range (today_of w i) \<Longrightarrow> Q (today_of w i) (tick w)) \<Longrightarrow> wp (SumDisbursementsToday i) Q E w"
  using E
  by (auto simp: mutation_GetBalance_def SumPendingDisbursements_def SumDisbursementsToday_def wp_simps wp_query uuid_param_def
      bigint_def pending_of_def today_of_def)

section \<open>Disbursing\<close>

text \<open>The reservation a disbursement inserts, and the two checks it has passed.\<close>

definition reserved :: "disburse_input \<Rightarrow> bank_account \<Rightarrow> int64 \<Rightarrow> time \<Rightarrow> disbursement \<Rightarrow> database \<Rightarrow> database \<Rightarrow> bool" where
  "reserved input account fee t d db db' \<longleftrightarrow>
     db' = db\<lparr>db_disbursements := db_disbursements db @ [d]\<rparr>
     \<and> d = (reserved_disbursement input account fee)\<lparr>d_ID := d_ID d, d_CreatedAt := t, d_UpdatedAt := t\<rparr>
     \<and> disbursement_row_ok d \<and> (\<forall>r \<in> set (db_disbursements db). d_ID r \<noteq> d_ID d)"

definition funded :: "database \<Rightarrow> disburse_input \<Rightarrow> bool" where
  "funded db input \<longleftrightarrow> di_Amount input \<le> wrap64 (balance_of db (di_MerchantID input) - pending_of db (di_MerchantID input))"

definition within_limit :: "world \<Rightarrow> merchant \<Rightarrow> disburse_input \<Rightarrow> bool" where
  "within_limit w merchant input \<longleftrightarrow>
     m_DailyCashoutLimit merchant \<le> 0 \<or> wrap64 (today_of w (di_MerchantID input) + di_Amount input) \<le> m_DailyCashoutLimit merchant"

lemma today_of_simps [simp]:
  "today_of (tick w) i = today_of w i" "today_of (begin_tx w) i = today_of w i"
  by (simp_all add: today_of_def)

lemma reservedI:
  assumes "row = (reserved_disbursement input account fee)\<lparr>d_ID := x, d_FailureReason := '''', d_CompletedAt := None, d_FailedAt := None,
      d_CreatedAt := t, d_UpdatedAt := t\<rparr>"
    and "disbursement_row_ok row" "\<forall>r \<in> set (db_disbursements db). \<not> disbursement_conflict row r"
    and "d = (reserved_disbursement input account fee)\<lparr>d_ID := d_ID row, d_CreatedAt := d_CreatedAt row, d_UpdatedAt := d_UpdatedAt row\<rparr>"
  shows "reserved input account fee t d db (db\<lparr>db_disbursements := db_disbursements db @ [row]\<rparr>)"
proof -
  have "d = row" using assms(1,4) by (simp add: reserved_disbursement_def)
  with assms show ?thesis unfolding reserved_def disbursement_conflict_def by (auto simp: reserved_disbursement_def)
qed

lemma disburse_reserve_spec:
  "wp (disburse_reserve input merchant account fee)
     (\<lambda>d w'. reserved input account fee (w_now w) d (w_db w) (w_db w') \<and> funded (w_db w) input \<and> within_limit w merchant input
        \<and> w_now w' = w_now w)
     (\<lambda>_ w'. w_db w' = w_db w) w"
proof -
  let ?Q = "\<lambda>d w'. reserved input account fee (w_now w) d (w_db w) (w_db w') \<and> funded (w_db w) input \<and> within_limit w merchant input
        \<and> w_now w' = w_now w"
  have save: "wp (disbursement_Save (reserved_disbursement input account fee)) ?Q (\<lambda>_ _. True) u"
    if "w_db u = w_db w" "w_now u = w_now w" "funded (w_db w) input" "within_limit w merchant input" for u
    by (rule wp_disbursement_Save) (use that in \<open>auto intro!: reservedI\<close>)
  have body: "wp (bind (lock_merchant (di_MerchantID input)) (\<lambda>_.
       bind (wrap ''get balance'' (mutation_GetBalance (di_MerchantID input))) (\<lambda>balance.
       bind (wrap ''sum pending disbursements'' (SumPendingDisbursements (di_MerchantID input))) (\<lambda>pendingTotal.
       let available = wrap64 (balance - pendingTotal) in
       if available < di_Amount input
       then throw (UnprocessableEntity (msg1 available balance pendingTotal))
       else
         bind (if m_DailyCashoutLimit merchant > 0
               then bind (wrap ''check daily limit'' (SumDisbursementsToday (di_MerchantID input))) (\<lambda>todayTotal.
                    when_do (wrap64 (todayTotal + di_Amount input) > m_DailyCashoutLimit merchant)
                      (throw (UnprocessableEntity (msg2 todayTotal))))
               else ret ()) (\<lambda>_.
         disbursement_Save (reserved_disbursement input account fee)))))) ?Q (\<lambda>_ _. True) (begin_tx w)" for msg1 msg2
    unfolding wp_bind wp_wrap wp_if wp_throw wp_when_do wp_ret Let_def
    apply (rule wp_lock_merchant)
     apply (rule wp_sums(1), simp)
     apply (rule wp_sums(2), simp)
     apply (intro if_both)
       apply simp
      apply (rule wp_sums(3), simp)
      apply (intro if_both)
       apply simp
      apply (rule save, simp, simp, simp add: funded_def, simp add: within_limit_def today_of_def)
     apply (rule save, simp, simp, simp add: funded_def, simp add: within_limit_def)
    apply simp_all
    done
  show ?thesis
    unfolding disburse_reserve_def wp_RunInTx
    by (rule if_both, simp, rule wp_mono [OF body]) auto
qed

definition accepted :: "disbursement \<Rightarrow> disburse_response \<Rightarrow> disbursement" where
  "accepted d resp = d\<lparr>d_ExternalID := ds_ExternalID resp, d_Status := ds_Status resp\<rparr>"

definition refused :: "disbursement \<Rightarrow> go_error \<Rightarrow> disbursement" where
  "refused d err = d\<lparr>d_Status := DisbursementStatusFailed, d_FailureReason := err_Error err\<rparr>"

text \<open>The update of a reservation that is the last row of its table.\<close>

lemma set_outcome_reserved:
  assumes "reserved input account fee t0 d db mid" "d_ID d' = d_ID d"
  shows "set_outcome d' t mid = db\<lparr>db_disbursements := db_disbursements db @ [with_outcome_of d' t d]\<rparr>"
proof -
  have "update_where (\<lambda>r. d_ID r = d_ID d) (with_outcome_of d' t) (db_disbursements db) = db_disbursements db"
    using assms(1) by (auto simp: reserved_def update_where_def intro!: map_idI)
  moreover have "db_disbursements mid = db_disbursements db @ [d]" "mid = db\<lparr>db_disbursements := db_disbursements mid\<rparr>"
    using assms(1) by (auto simp: reserved_def)
  ultimately show ?thesis
    using assms(2) by (simp add: set_outcome_def) (simp add: update_where_def)
qed

lemma disburse_finish_spec:
  assumes "\<And>resp w'. answer = Inr resp \<Longrightarrow> w_db w' = set_outcome (accepted d resp) (w_now w) (w_db w) \<Longrightarrow> Q (toDisbursementOutput (accepted d resp)) w'"
    and "\<And>err e w'. answer = Inl err \<Longrightarrow> w_db w' = set_outcome (refused d err) (w_now w) (w_db w) \<Longrightarrow> E e w'"
    and "\<And>e w'. w_db w' = w_db w \<Longrightarrow> E e w'"
  shows "wp (disburse_finish pr d answer) Q E w"
proof (cases answer)
  case (Inl err)
  then show ?thesis
    unfolding disburse_finish_def refused_def [symmetric]
    by (simp add: wp_bind wp_attempt wp_throw) (rule wp_disbursement_Update, use assms in \<open>auto simp: wp_throw\<close>)
next
  case (Inr resp)
  then show ?thesis
    unfolding disburse_finish_def accepted_def [symmetric]
    by (simp add: wp_bind wp_wrap wp_ret Let_def) (rule wp_disbursement_Update, use assms in \<open>auto simp: wp_ret\<close>)
qed

text \<open>Who may disburse: everything the handler checks before it reserves.\<close>

definition may_disburse :: "database \<Rightarrow> disbursement_gateways \<Rightarrow> disburse_input \<Rightarrow> merchant \<Rightarrow> bank_account \<Rightarrow> disbursement_gateway \<Rightarrow> bool" where
  "may_disburse db gws input merchant account gw \<longleftrightarrow>
     live_merchant db (di_MerchantID input) = Some merchant \<and> merchant_CanTransact merchant
     \<and> account \<in> set (db_bank_accounts db) \<and> ba_ID account = di_BankAccountID input
     \<and> ba_MerchantID account = di_MerchantID input \<and> ba_IsVerified account
     \<and> gws (di_Provider input) = Some gw"

definition disbursement_fee_due :: "world \<Rightarrow> merchant \<Rightarrow> int64 \<Rightarrow> int64" where
  "disbursement_fee_due w m amount =
     (case disbursement_fee_spec (w_db w) (local_day w (w_now w)) m amount of None \<Rightarrow> 0 | Some r \<Rightarrow> fr_TotalFee r)"

lemma wp_disbursement_fee:
  assumes "\<And>r w'. same_tables w w' \<Longrightarrow>
      (no_faults w \<longrightarrow> (case r of Inl _ \<Rightarrow> 0 | Inr r \<Rightarrow> fr_TotalFee r) = disbursement_fee_due w m a) \<Longrightarrow> Q r w'"
    and "\<And>e w'. same_tables w w' \<Longrightarrow> E e w'"
  shows "wp (attempt (resolver_ResolveDisbursement m a)) Q E w"
proof -
  have "no_faults w \<longrightarrow> wp (attempt (resolver_ResolveDisbursement m a))
      (\<lambda>r _. (case r of Inl _ \<Rightarrow> 0 | Inr r \<Rightarrow> fr_TotalFee r) = disbursement_fee_due w m a) (\<lambda>_ _. False) w"
    unfolding wp_attempt by (auto intro!: wp_mono [OF ResolveDisbursement_spec] simp: disbursement_fee_due_def)
  moreover have "reads.obeys (attempt (resolver_ResolveDisbursement m a))"
    by (intro reads.obeys_intros reads_Resolve)
  ultimately show ?thesis
    using reads.obeysD [of "attempt (resolver_ResolveDisbursement m a)" w] assms
    by (auto simp: wp_def split: prod.splits sum.splits)
qed

lemma wp_FindBankAccountByID:
  assumes "\<And>a w'. a \<in> set (db_bank_accounts (w_db w)) \<Longrightarrow> ba_ID a = i \<Longrightarrow> w' = tick w \<Longrightarrow> Q a w'"
    and "\<And>e w'. w_db w' = w_db w \<Longrightarrow> \<not> is_panic e \<Longrightarrow> E e w'"
  shows "wp (FindBankAccountByID i) Q E w"
  using assms
  by (auto simp: FindBankAccountByID_def wp_simps wp_query uuid_param_def dest!: find_Some_in split: option.splits)

lemma wp_disburse_read:
  assumes Q: "\<And>merchant account gw fee w'. may_disburse (w_db w) gws input merchant account gw \<Longrightarrow>
      w_db w' = w_db w \<Longrightarrow> w_now w' = w_now w \<Longrightarrow> today_of w' = today_of w \<Longrightarrow>
      (no_faults w \<longrightarrow> fee = disbursement_fee_due w merchant (di_Amount input)) \<Longrightarrow> Q (merchant, account, gw, fee) w'"
    and E: "\<And>e w'. w_db w' = w_db w \<Longrightarrow> E e w'"
  shows "wp (disburse_read gws input) Q E w"
  unfolding disburse_read_def disbGateway_def wp_bind wp_if wp_throw wp_case_option wp_ret
  apply (rule wp_merchant_FindByID)
   apply (intro if_both E)
    apply simp
   apply (rule wp_FindBankAccountByID)
    apply (intro if_both E)
      apply simp
     apply simp
  subgoal premises p for merchant w1 account w2
    using p
    apply (simp split: option.split add: E)
    apply (intro allI impI wp_disbursement_fee Q)
        apply (auto simp: may_disburse_def live_merchant_def same_tables_def today_of_def disbursement_fee_due_def local_day_def E)
    done
   apply (simp_all add: E)
  done

text \<open>
  \<open>disbursing gws input w answer d mid\<close>: a run of \<open>Disburse\<close> from \<open>w\<close> has passed its checks, inserted the
  reservation \<open>d\<close>, giving \<open>mid\<close>, and got the provider's \<open>answer\<close> to the request it sent.
\<close>

definition disbursing :: "disbursement_gateways \<Rightarrow> disburse_input \<Rightarrow> world \<Rightarrow> disburse_response res \<Rightarrow> disbursement \<Rightarrow> database \<Rightarrow> bool" where
  "disbursing gws input w answer d mid \<longleftrightarrow>
     (\<exists>merchant account gw fee extID. may_disburse (w_db w) gws input merchant account gw
        \<and> funded (w_db w) input \<and> within_limit w merchant input
        \<and> reserved input account fee (w_now w) d (w_db w) mid
        \<and> answer = dg_Disburse gw (disburse_request_of input account extID)
        \<and> (no_faults w \<longrightarrow> fee = disbursement_fee_due w merchant (di_Amount input)))"

definition with_disbursement :: "disbursement \<Rightarrow> database \<Rightarrow> database" where
  "with_disbursement d db = db\<lparr>db_disbursements := db_disbursements db @ [d]\<rparr>"

lemma disbursing_mid: "disbursing gws input w answer d mid \<Longrightarrow> mid = with_disbursement d (w_db w)"
  by (auto simp: disbursing_def reserved_def with_disbursement_def)

lemma disbursing_outcome:
  "disbursing gws input w answer d mid \<Longrightarrow> d_ID d' = d_ID d \<Longrightarrow> set_outcome d' t mid = with_disbursement (with_outcome_of d' t d) (w_db w)"
  by (auto simp: disbursing_def with_disbursement_def dest: set_outcome_reserved)

lemma accepted_ID [simp]: "d_ID (accepted d resp) = d_ID d" and refused_ID [simp]: "d_ID (refused d err) = d_ID d"
  by (simp_all add: accepted_def refused_def)

definition disburse_failed :: "disbursement_gateways \<Rightarrow> disburse_input \<Rightarrow> world \<Rightarrow> database \<Rightarrow> bool" where
  "disburse_failed gws input w db' \<longleftrightarrow>
     db' = w_db w
     \<or> (\<exists>answer d mid. disbursing gws input w answer d mid
          \<and> (db' = with_disbursement d (w_db w)
             \<or> (\<exists>err. answer = Inl err \<and> db' = with_disbursement (with_outcome_of (refused d err) (w_now w) d) (w_db w))))"

definition disburse_done :: "disbursement_gateways \<Rightarrow> disburse_input \<Rightarrow> world \<Rightarrow> disbursement_output \<Rightarrow> database \<Rightarrow> bool" where
  "disburse_done gws input w out db' \<longleftrightarrow>
     (\<exists>resp d mid. disbursing gws input w (Inr resp) d mid
        \<and> db' = with_disbursement (with_outcome_of (accepted d resp) (w_now w) d) (w_db w)
        \<and> out = toDisbursementOutput (accepted d resp))"

lemma disburse_failedI:
  assumes "disbursing gws input w answer d mid"
  shows "db' = mid \<Longrightarrow> disburse_failed gws input w db'"
    and "answer = Inl err \<Longrightarrow> db' = set_outcome (refused d err) (w_now w) mid \<Longrightarrow> disburse_failed gws input w db'"
  using assms disbursing_mid [OF assms] disbursing_outcome [OF assms refused_ID] unfolding disburse_failed_def by metis+

lemma disburse_doneI:
  assumes "disbursing gws input w (Inr resp) d mid" "db' = set_outcome (accepted d resp) (w_now w) mid"
  shows "disburse_done gws input w (toDisbursementOutput (accepted d resp)) db'"
  using assms disbursing_outcome [OF assms(1) accepted_ID] unfolding disburse_done_def by metis

lemma Disburse_spec:
  "wp (Disburse gws input) (\<lambda>out w'. disburse_done gws input w out (w_db w')) (\<lambda>_ w'. disburse_failed gws input w (w_db w')) w"
  unfolding Disburse_def wp_bind wp_case_prod externalID_def wp_now wp_rand_bytes wp_ret wp_attempt wp_outcome
proof (rule wp_disburse_read, goal_cases)
  case (1 merchant account gw fee w1)
  show ?case
    unfolding prod.case
  proof (rule wp_mono [OF disburse_reserve_spec], goal_cases)
    case (1 d w2)
    let ?ans = "\<lambda>x. dg_Disburse gw (disburse_request_of input account x)"
    have D: "disbursing gws input w (?ans x) d (w_db w2)" for x
      unfolding disbursing_def
      apply (rule exI [of _ merchant], rule exI [of _ account], rule exI [of _ gw], rule exI [of _ fee], rule exI [of _ x])
      using 1 \<open>may_disburse _ _ _ _ _ _\<close> \<open>w_db w1 = _\<close> \<open>w_now w1 = _\<close> \<open>today_of w1 = _\<close> \<open>no_faults w \<longrightarrow> _\<close>
      by (auto simp: within_limit_def)
    have F: "disburse_failed gws input w db'"
      if "db' = w_db w2 \<or> (\<exists>err. ?ans x = Inl err \<and> db' = set_outcome (refused d err) (w_now w) (w_db w2))" for db' x
      using that disburse_failedI [OF D [of x]] by blast
    have S: "disburse_done gws input w (toDisbursementOutput (accepted d resp)) db'"
      if "?ans x = Inr resp" "db' = set_outcome (accepted d resp) (w_now w) (w_db w2)" for db' x resp
      using that D [of x] by (auto intro: disburse_doneI)
    have "w_now w2 = w_now w" using 1 \<open>w_now w1 = _\<close> by simp
    then show ?case
      by (auto split: sum.split intro!: disburse_finish_spec F S)
  next
    case (2 e w2)
    then show ?case using \<open>w_db w1 = _\<close> by (simp add: disburse_failed_def)
  qed
next
  case (2 e w')
  then show ?case by (simp add: disburse_failed_def)
qed


section \<open>Callbacks\<close>

definition callback_debit :: "disbursement \<Rightarrow> mutation list \<Rightarrow> bool" where
  "callback_debit d ms \<longleftrightarrow>
     (if d_Status d = DisbursementStatusCompleted
      then (\<exists>i t. ms = [(cash_out d)\<lparr>mu_ID := i, mu_CreatedAt := t\<rparr>]) \<and> mutation_row_ok (cash_out d)
      else ms = [])"

definition callback_notice :: "disbursement \<Rightarrow> merchant \<Rightarrow> time \<Rightarrow> outbox_event list \<Rightarrow> bool" where
  "callback_notice d merchant t es \<longleftrightarrow>
     (if m_WebhookURL merchant = '''' then es = []
      else \<exists>e. es = [e] \<and> ob_EventType e = ''disbursement.'' @ disbursement_status_str (d_Status d)
             \<and> ob_TargetUrl e = m_WebhookURL merchant \<and> ob_DeliveredAt e = None \<and> ob_AttemptCount e = 0
             \<and> ob_Payload e = disbursement_payload d t)"

definition callback_effect :: "disbursement \<Rightarrow> merchant \<Rightarrow> time \<Rightarrow> database \<Rightarrow> database \<Rightarrow> bool" where
  "callback_effect d merchant t db db' \<longleftrightarrow>
     (\<exists>ms es. callback_debit d ms \<and> callback_notice d merchant t es \<and> (\<exists>r \<in> set (db_disbursements db). d_ID r = d_ID d)
        \<and> checked_update disbursement_row_ok disbursement_conflict (\<lambda>r. d_ID r = d_ID d) (with_outcome_of d t) (db_disbursements db)
            = Inr (db_disbursements db')
        \<and> db' = (set_outcome d t db)\<lparr>db_mutations := db_mutations db @ ms, db_outbox := db_outbox db @ es\<rparr>)"

lemma set_outcome_simps [simp]:
  "db_mutations (set_outcome d t db) = db_mutations db" "db_outbox (set_outcome d t db) = db_outbox db"
  "db_payments (set_outcome d t db) = db_payments db" "db_merchants (set_outcome d t db) = db_merchants db"
  "db_disbursements (set_outcome d t db) = update_where (\<lambda>r. d_ID r = d_ID d) (with_outcome_of d t) (db_disbursements db)"
  by (simp_all add: set_outcome_def)

lemma callback_effectI:
  assumes "r \<in> set (db_disbursements db)" "d_ID r = d_ID d"
    and "checked_update disbursement_row_ok disbursement_conflict (\<lambda>r. d_ID r = d_ID d) (with_outcome_of d t) (db_disbursements db)
            = Inr (db_disbursements (set_outcome d t db))"
    and "callback_debit d ms" "callback_notice d merchant t es"
    and "db' = (set_outcome d t db)\<lparr>db_mutations := db_mutations db @ ms, db_outbox := db_outbox db @ es\<rparr>"
  shows "callback_effect d merchant t db db'"
  unfolding callback_effect_def
  by (rule exI [of _ ms], rule exI [of _ es]) (use assms in auto)

lemma callback_tx_spec:
  "wp (callback_tx d merchant) (\<lambda>_ w'. callback_effect d merchant (w_now w) (w_db w) (w_db w')) (\<lambda>_ w'. w_db w' = w_db w) w"
proof -
  let ?Q = "\<lambda>_ w'. callback_effect d merchant (w_now w) (w_db w) (w_db w')"
  have notice: "wp (if m_WebhookURL merchant = '''' then ret ()
        else bind now (\<lambda>t. outbox_Insert (''disbursement.'' @ disbursement_status_str (d_Status d)) (m_WebhookURL merchant) (m_ID merchant)
           (disbursement_payload d t))) ?Q (\<lambda>_ _. True) u"
    if r: "r \<in> set (db_disbursements (w_db w))" "d_ID r = d_ID d"
      "checked_update disbursement_row_ok disbursement_conflict (\<lambda>r. d_ID r = d_ID d) (with_outcome_of d (w_now w))
         (db_disbursements (w_db w)) = Inr (db_disbursements (set_outcome d (w_now w) (w_db w)))"
      and ms: "callback_debit d ms"
      and u: "w_db u = (set_outcome d (w_now w) (w_db w))\<lparr>db_mutations := db_mutations (w_db w) @ ms\<rparr>" "w_now u = w_now w" for r ms u
  proof (cases "m_WebhookURL merchant = ''''")
    case True
    then show ?thesis
      using u by (auto simp: wp_ret callback_notice_def intro!: callback_effectI [OF r ms, where es = "[]"])
  next
    case False
    then show ?thesis
      using u by (auto simp: wp_bind wp_now intro!: wp_outbox_Insert)
        (rule callback_effectI [OF r ms], auto simp: callback_notice_def)
  qed
  have "wp (bind (disbursement_Update d) (\<lambda>_.
       bind (if d_Status d = DisbursementStatusCompleted then bind (mutation_Save (cash_out d)) (\<lambda>_. ret ()) else ret ()) (\<lambda>_.
       if m_WebhookURL merchant = '''' then ret ()
       else bind now (\<lambda>t. outbox_Insert (''disbursement.'' @ disbursement_status_str (d_Status d)) (m_WebhookURL merchant) (m_ID merchant)
           (disbursement_payload d t))))) ?Q (\<lambda>_ _. True) (begin_tx w)"
    unfolding wp_bind [of "disbursement_Update d"] wp_bind [of "if d_Status d = DisbursementStatusCompleted then _ else _"]
  proof (rule wp_disbursement_Update, goal_cases)
    case (1 r)
    then have r: "r \<in> set (db_disbursements (w_db w))" "d_ID r = d_ID d"
      "checked_update disbursement_row_ok disbursement_conflict (\<lambda>r. d_ID r = d_ID d) (with_outcome_of d (w_now w))
         (db_disbursements (w_db w)) = Inr (db_disbursements (set_outcome d (w_now w) (w_db w)))" by simp_all
    show ?case
    proof (cases "d_Status d = DisbursementStatusCompleted")
      case True
      show ?thesis
        unfolding if_P [OF True] wp_bind wp_ret_eta
        by (rule wp_mutation_Save_db, rule notice [OF r, unfolded wp_bind])
          (use True in \<open>auto simp: callback_debit_def mutation_insertable_def new_mutation_def\<close>)
    next
      case False
      show ?thesis
        unfolding if_not_P [OF False] wp_ret
        by (rule notice [of r "[]", OF r]) (use False in \<open>auto simp: callback_debit_def set_outcome_def\<close>)
    qed
  qed simp
  then show ?thesis
    unfolding callback_tx_def wp_RunInTx by (intro if_both, simp) (erule wp_mono; simp)
qed

definition callback_parsed :: "disbursement_gateways \<Rightarrow> provider \<Rightarrow> headers \<Rightarrow> string \<Rightarrow> disbursement_webhook_event \<Rightarrow> bool" where
  "callback_parsed gws provider hdrs body ev \<longleftrightarrow>
     (\<exists>gw. gws provider = Some gw \<and> dg_ParseDisbursementWebhook gw hdrs body = Inr ev)"

definition named_disbursement :: "database \<Rightarrow> provider \<Rightarrow> disbursement_webhook_event \<Rightarrow> disbursement option" where
  "named_disbursement db provider ev =
     find (\<lambda>d. d_Provider d = provider \<and> d_ExternalID d = de_ExternalID ev) (db_disbursements db)"

definition callback_done :: "provider \<Rightarrow> disbursement_webhook_event \<Rightarrow> time \<Rightarrow> database \<Rightarrow> database \<Rightarrow> bool" where
  "callback_done provider ev t db db' \<longleftrightarrow>
     (\<exists>d. named_disbursement db provider ev = Some d
        \<and> (disbursement_IsFinal d \<and> db' = db
           \<or> \<not> disbursement_IsFinal d \<and> (\<exists>m. live_merchant db (d_MerchantID d) = Some m
               \<and> callback_effect (apply_callback ev d) m t db db')))"

lemma apply_callback_simps [simp]:
  "d_ID (apply_callback ev d) = d_ID d" "d_Status (apply_callback ev d) = de_Status ev"
  "d_MerchantID (apply_callback ev d) = d_MerchantID d" "d_Amount (apply_callback ev d) = d_Amount d"
  "d_FeeAmount (apply_callback ev d) = d_FeeAmount d" "d_ExternalID (apply_callback ev d) = d_ExternalID d"
  "d_Provider (apply_callback ev d) = d_Provider d"
  by (simp_all add: apply_callback_def)

lemma callback_read_spec:
  "wp (callback_read gws provider hdrs body)
     (\<lambda>r w'. same_tables w w' \<and> (\<exists>ev d. callback_parsed gws provider hdrs body ev \<and> named_disbursement (w_db w) provider ev = Some d
        \<and> (disbursement_IsFinal d \<and> r = None
           \<or> \<not> disbursement_IsFinal d \<and> (\<exists>m. live_merchant (w_db w) (d_MerchantID d) = Some m \<and> r = Some (apply_callback ev d, m)))))
     (\<lambda>_ w'. w_db w' = w_db w) w"
  unfolding callback_read_def disbGateway_def wp_bind wp_case_option wp_throw wp_ret wp_wrap wp_outcome wp_if Let_def
  apply (simp split: option.split sum.split, intro allI impI conjI)
  apply (rule wp_disbursement_FindByExternalID)
   apply (intro conjI impI)
  subgoal by (simp add: same_tables_def)
  subgoal by (auto simp: callback_parsed_def named_disbursement_def)
  subgoal by (rule wp_merchant_FindByID)
      (auto simp: callback_parsed_def named_disbursement_def live_merchant_def same_tables_def)
  subgoal by simp
  done

lemma HandleDisbursementCallback_spec:
  "wp (HandleDisbursementCallback gws provider hdrs body)
     (\<lambda>_ w'. \<exists>ev. callback_parsed gws provider hdrs body ev \<and> callback_done provider ev (w_now w) (w_db w) (w_db w'))
     (\<lambda>_ w'. w_db w' = w_db w) w"
  unfolding HandleDisbursementCallback_def wp_bind
proof (rule wp_mono [OF callback_read_spec], goal_cases)
  case (1 r w1)
  then have w1: "w_db w1 = w_db w" "w_now w1 = w_now w" by (auto simp: same_tables_def)
  show ?case
  proof (cases r)
    case None
    with 1 w1 show ?thesis by (auto simp: wp_ret callback_done_def)
  next
    case (Some x)
    then obtain d m where r: "r = Some (d, m)" by (cases x) auto
    with 1 w1 show ?thesis
      by (auto simp: callback_done_def intro!: wp_mono [OF callback_tx_spec])
  qed
qed auto

text \<open>C31: a disbursement callback that returns an error has changed no table; one that succeeds either found the disbursement
  in a final status and changed nothing, or committed together the new status, for a completed one the cash-out of the
  amount and the fee, and the merchant's notification.\<close>

theorem HandleDisbursementCallback_effect:
  "wp (HandleDisbursementCallback gws provider hdrs body)
     (\<lambda>_ w'. \<exists>ev. callback_parsed gws provider hdrs body ev \<and> callback_done provider ev (w_now w) (w_db w) (w_db w'))
     (\<lambda>_ w'. w_db w' = w_db w) w"
  by (rule HandleDisbursementCallback_spec)

section \<open>Solvency\<close>

text \<open>
  What the reservation pattern secures: the amounts a merchant has pending are covered by its
  balance and the fees its completed disbursements were charged. The fees are the gap, because
  a reservation sets aside the amount alone.
\<close>

definition fees_of :: "database \<Rightarrow> string \<Rightarrow> int" where
  "fees_of db i = sum_list (map d_FeeAmount (filter (\<lambda>d. d_MerchantID d = i \<and> d_Status d = DisbursementStatusCompleted) (db_disbursements db)))"

definition solvent :: "database \<Rightarrow> string \<Rightarrow> bool" where
  "solvent db i \<longleftrightarrow> pending_of db i \<le> balance_of db i + fees_of db i"

text \<open>Pending amount and completed fees of one row, as sums over the table.\<close>

definition exposure :: "string \<Rightarrow> disbursement \<Rightarrow> int" where
  "exposure i d = (if counts_pending i d then d_Amount d else 0)
     - (if d_MerchantID d = i \<and> d_Status d = DisbursementStatusCompleted then d_FeeAmount d else 0)"

lemma sum_if_filter: "sum_list (map (\<lambda>d. if P d then f d else (0 :: int)) ds) = sum_list (map f (filter P ds))"
  by (induction ds) auto

lemma solvent_iff: "solvent db i \<longleftrightarrow> sum_list (map (exposure i) (db_disbursements db)) \<le> balance_of db i"
proof -
  have "sum_list (map (exposure i) (db_disbursements db)) = pending_of db i - fees_of db i"
    by (simp add: exposure_def [abs_def] sum_list_subtractf sum_if_filter pending_of_def fees_of_def sum_where_def)
  then show ?thesis by (auto simp: solvent_def)
qed

lemma wrap64_le: "0 \<le> x \<Longrightarrow> wrap64 x \<le> x"
  unfolding wrap64_def by (simp add: signed_take_bit_eq_take_bit_minus take_bit_int_less_eq_self_iff)
    (smt (verit) of_bool_def mult_nonneg_nonneg take_bit_int_less_eq_self_iff zero_le_power)

lemma wrap64_below: "- (2 ^ 63) \<le> x \<Longrightarrow> wrap64 x \<le> x"
  by (cases "0 \<le> x") (auto simp: wrap64_le int64_range_def)

lemma exposure_new_row:
  assumes "disbursement_row_ok d" "d_Amount r = d_Amount d" "d_FeeAmount r = d_FeeAmount d" "d_MerchantID r = d_MerchantID d"
  shows "exposure i r \<le> (if d_MerchantID d = i then d_Amount d else 0)"
  using assms by (auto simp: exposure_def counts_pending_def disbursement_row_ok_def)

lemma fees_nonneg: "schema_ok db \<Longrightarrow> 0 \<le> fees_of db i"
  by (auto simp: fees_of_def schema_ok_def table_ok_def list_all_iff disbursement_row_ok_def intro!: sum_list_nonneg)

lemma solvent_with_disbursement:
  assumes s: "schema_ok (w_db w)" and k: "solvent (w_db w) i"
    and r: "- (2 ^ 63) \<le> balance_of (w_db w) i - pending_of (w_db w) i"
    and d: "disbursing gws input w answer d mid"
    and x: "d_Amount x = d_Amount d" "d_FeeAmount x = d_FeeAmount d" "d_MerchantID x = d_MerchantID d"
  shows "solvent (with_disbursement x (w_db w)) i"
proof -
  from d have ok: "disbursement_row_ok d" and m: "d_MerchantID d = di_MerchantID input" "d_Amount d = di_Amount input"
    and f: "funded (w_db w) input"
    by (auto simp: disbursing_def reserved_def reserved_disbursement_def) (metis disbursement.simps disbursement.update_convs)+
  have e: "exposure i x \<le> (if d_MerchantID d = i then d_Amount d else 0)" by (rule exposure_new_row [OF ok x])
  have b: "balance_of (with_disbursement x (w_db w)) i = balance_of (w_db w) i"
    by (rule balance_of_same) (simp add: with_disbursement_def)
  show ?thesis
  proof (cases "d_MerchantID d = i")
    case True
    with f m wrap64_below [OF r] have "di_Amount input \<le> balance_of (w_db w) i - pending_of (w_db w) i" by (simp add: funded_def)
    moreover have "sum_list (map (exposure i) (db_disbursements (w_db w))) = pending_of (w_db w) i - fees_of (w_db w) i"
      by (simp add: exposure_def [abs_def] sum_list_subtractf sum_if_filter pending_of_def fees_of_def sum_where_def)
    ultimately show ?thesis
      using e True m fees_nonneg [OF s, of i] unfolding solvent_iff b by (simp add: with_disbursement_def)
  next
    case False
    with e k show ?thesis unfolding solvent_iff b by (simp add: with_disbursement_def)
  qed
qed

lemma solvent_callback:
  assumes s: "schema_ok db" and k: "solvent db i"
    and c: "callback_effect (apply_callback ev d) m t db db'" and d: "d \<in> set (db_disbursements db)" "\<not> disbursement_IsFinal d"
  shows "solvent db' i"
proof -
  let ?d = "apply_callback ev d" and ?x = "exposure i"
  from c obtain ms es where ms: "callback_debit ?d ms"
    and db': "db_mutations db' = db_mutations db @ ms"
      "db_disbursements db' = update_where (\<lambda>r. d_ID r = d_ID d) (with_outcome_of ?d t) (db_disbursements db)"
    by (auto simp: callback_effect_def)
  have ok: "disbursement_row_ok d" using s d(1) by (auto simp: schema_ok_def table_ok_def list_all_iff)
  have sum: "sum_list (map ?x (db_disbursements db')) = sum_list (map ?x (db_disbursements db)) + (?x (with_outcome_of ?d t d) - ?x d)"
    unfolding db'(2) by (rule sum_update_where [OF schema_distinct(2) [OF s] d(1)])
  have old: "?x d = (if d_MerchantID d = i then d_Amount d else 0)"
    using ok d(2) by (cases "d_Status d") (auto simp: exposure_def counts_pending_def disbursement_IsFinal_def disbursement_row_ok_def disbursement_status_ok_def)
  have "sum_list (map balance_effect (filter (\<lambda>m. mu_MerchantID m = i) ms))
      \<ge> ?x (with_outcome_of ?d t d) - ?x d"
  proof (cases "de_Status ev = DisbursementStatusCompleted")
    case True
    have "wrap64 (d_Amount d + d_FeeAmount d) \<le> d_Amount d + d_FeeAmount d"
      by (rule wrap64_le) (use ok in \<open>simp add: disbursement_row_ok_def\<close>)
    moreover have "?x (with_outcome_of ?d t d) = (if d_MerchantID d = i then - d_FeeAmount d else 0)"
      using True by (simp add: exposure_def counts_pending_def)
    moreover obtain x s where "ms = [(cash_out ?d)\<lparr>mu_ID := x, mu_CreatedAt := s\<rparr>]"
      using True ms by (auto simp: callback_debit_def)
    ultimately show ?thesis
      by (simp add: old balance_effect_def cash_out_def)
  next
    case False
    then have "?x (with_outcome_of ?d t d) \<le> (if d_MerchantID d = i then d_Amount d else 0)" "ms = []"
      using ms ok by (auto simp: callback_debit_def exposure_def counts_pending_def disbursement_row_ok_def)
    then show ?thesis by (simp add: old)
  qed
  with k sum show ?thesis
    by (simp add: solvent_iff balance_of_appended [OF db'(1)])
qed

section \<open>Effects\<close>

lemma obeys_disbursement_writes:
  "appends.obeys (disbursement_Save d)" "schema.obeys (disbursement_Save d)"
  "appends.obeys (disbursement_Update d)" "schema.obeys (disbursement_Update d)"
proof -
  show "appends.obeys (disbursement_Save d)" "schema.obeys (disbursement_Save d)"
    unfolding disbursement_Save_def
    by (intro appends.db_intros appends.obeys_exec schema.db_intros schema.obeys_exec;
        auto simp: Let_def dest: append_only_inserts kept_schema_inserts)+
  show "appends.obeys (disbursement_Update d)"
    unfolding disbursement_Update_def by (intro appends.db_intros appends.obeys_exec; auto)
  have "kept schema_ok db (db\<lparr>db_disbursements := rows\<rparr>)"
    if "checked_update disbursement_row_ok disbursement_conflict (\<lambda>r. d_ID r = d_ID d) (with_outcome_of d t) (db_disbursements db) = Inr rows" for db rows t
  proof -
    have "table_ok disbursement_row_ok disbursement_conflict rows" if "table_ok disbursement_row_ok disbursement_conflict (db_disbursements db)"
      by (rule table_ok_update [OF that _ _ \<open>checked_update _ _ _ _ _ = _\<close>]) (auto simp: disbursement_conflict_def)
    then show ?thesis by (simp add: kept_def schema_ok_def merchant_exists_def payment_exists_def)
  qed
  then show "schema.obeys (disbursement_Update d)"
    unfolding disbursement_Update_def by (intro schema.db_intros schema.obeys_exec; auto simp del: checked_update_Inr)
qed

lemma reads_disbursements:
  "reads.obeys (disbursement_FindByID i)" "reads.obeys (disbursement_FindByExternalID pr x)" "reads.obeys (lock_merchant i)"
  "reads.obeys (SumPendingDisbursements i)" "reads.obeys (SumDisbursementsToday i)" "reads.obeys (mutation_GetBalance i)"
  "reads.obeys (FindBankAccountByID i)" "reads.obeys (disbGateway gws pr)"
  unfolding disbursement_FindByID_def disbursement_FindByExternalID_def lock_merchant_def SumPendingDisbursements_def
    SumDisbursementsToday_def mutation_GetBalance_def FindBankAccountByID_def disbGateway_def
  by (intro reads.obeys_intros reads_query reads_misc)+

lemmas disbursement_obeys =
  payment_obeys obeys_disbursement_writes reads_disbursements [THEN obeys_reads(1)] reads_disbursements [THEN obeys_reads(2)]
  reads_Resolve [THEN obeys_reads(1)] reads_Resolve [THEN obeys_reads(2)]

lemma obeys_disburse_steps:
  "appends.obeys (disburse_read gws i)" "schema.obeys (disburse_read gws i)"
  "appends.obeys (disburse_reserve i m a f)" "schema.obeys (disburse_reserve i m a f)"
  "appends.obeys (disburse_finish pr d ans)" "schema.obeys (disburse_finish pr d ans)"
  "appends.obeys (callback_read gws pr h b)" "schema.obeys (callback_read gws pr h b)"
  "appends.obeys (callback_tx d m)" "schema.obeys (callback_tx d m)"
  unfolding disburse_read_def disburse_reserve_def disburse_finish_def callback_read_def callback_tx_def Let_def
  by (intro disbursement_obeys)+

lemma obeys_disbursement_usecase:
  "appends.obeys (Disburse gws i)" "schema.obeys (Disburse gws i)"
  "appends.obeys (HandleDisbursementCallback gws pr h b)" "schema.obeys (HandleDisbursementCallback gws pr h b)"
  unfolding Disburse_def HandleDisbursementCallback_def
  by (intro disbursement_obeys obeys_disburse_steps)+

lemma disbursement_keys:
  assumes "schema_ok db" "x \<in> set (db_disbursements db)" "y \<in> set (db_disbursements db)"
  shows "d_ID x = d_ID y \<Longrightarrow> x = y"
    and "d_ExternalID x \<noteq> '''' \<Longrightarrow> d_Provider x = d_Provider y \<Longrightarrow> d_ExternalID x = d_ExternalID y \<Longrightarrow> x = y"
proof -
  have u: "sorted_wrt (\<lambda>r s. \<not> disbursement_conflict s r) (db_disbursements db)"
    using assms(1) by (simp add: schema_ok_def table_ok_def unique_rows_def)
  have "x = y \<or> \<not> disbursement_conflict x y"
    using u assms(2,3)
    by (auto simp: in_set_conv_nth sorted_wrt_iff_nth_less)
      (metis conflict_sym(2) linorder_neqE_nat)
  then show "d_ID x = d_ID y \<Longrightarrow> x = y"
    "d_ExternalID x \<noteq> '''' \<Longrightarrow> d_Provider x = d_Provider y \<Longrightarrow> d_ExternalID x = d_ExternalID y \<Longrightarrow> x = y"
    by (auto simp: disbursement_conflict_def)
qed

lemma named_disbursement_in: "named_disbursement db provider ev = Some d \<Longrightarrow>
    d \<in> set (db_disbursements db) \<and> d_Provider d = provider \<and> d_ExternalID d = de_ExternalID ev"
  by (auto simp: named_disbursement_def dest: find_Some_in)

lemma named_disbursement_eq:
  assumes "schema_ok db" "d \<in> set (db_disbursements db)" "d_ExternalID d \<noteq> ''''" "d_ExternalID d = de_ExternalID ev"
  shows "named_disbursement db (d_Provider d) ev = Some d"
proof (cases "named_disbursement db (d_Provider d) ev")
  case None
  with assms show ?thesis by (auto simp: named_disbursement_def find_None_iff)
next
  case (Some x)
  from named_disbursement_in [OF Some] have "x \<in> set (db_disbursements db)" "d_Provider d = d_Provider x" "d_ExternalID d = d_ExternalID x"
    using assms(4) by simp_all
  from disbursement_keys(2) [OF assms(1,2) this(1) assms(3) this(2,3)] Some show ?thesis by simp
qed

text \<open>A callback for a final disbursement is acknowledged and changes nothing.\<close>

lemma callback_final:
  assumes "callback_parsed gws provider hdrs body ev" "named_disbursement (w_db w) provider ev = Some d" "disbursement_IsFinal d"
  shows "wp (HandleDisbursementCallback gws provider hdrs body) (\<lambda>_ w'. w_db w' = w_db w) (\<lambda>_ w'. w_db w' = w_db w \<and> stmt_fails w) w"
  using assms
  by (auto simp: HandleDisbursementCallback_def callback_read_def disbGateway_def disbursement_FindByExternalID_def callback_parsed_def
      named_disbursement_def wp_simps wp_query)

section \<open>Synchronous completion\<close>

lemma disburse_done_row:
  assumes "disburse_done gws input w out db'"
  shows "\<exists>row. row \<in> set (db_disbursements db') \<and> d_ExternalID row = do_ExternalID out \<and> d_Status row = do_Status out
     \<and> d_Provider row = di_Provider input \<and> d_MerchantID row = di_MerchantID input \<and> d_Amount row = di_Amount input
     \<and> db_mutations db' = db_mutations (w_db w)"
proof -
  from assms obtain resp d mid where d: "disbursing gws input w (Inr resp) d mid"
    "db' = with_disbursement (with_outcome_of (accepted d resp) (w_now w) d) (w_db w)" "out = toDisbursementOutput (accepted d resp)"
    by (auto simp: disburse_done_def)
  then obtain account fee where "reserved input account fee (w_now w) d (w_db w) mid" by (auto simp: disbursing_def)
  then have "d = (reserved_disbursement input account fee)\<lparr>d_ID := d_ID d, d_CreatedAt := w_now w, d_UpdatedAt := w_now w\<rparr>"
    by (simp add: reserved_def)
  from arg_cong [OF this, of d_Provider] arg_cong [OF this, of d_MerchantID] arg_cong [OF this, of d_Amount] d(2,3) show ?thesis
    by (intro exI [of _ "with_outcome_of (accepted d resp) (w_now w) d"])
      (simp add: with_disbursement_def accepted_def toDisbursementOutput_def reserved_disbursement_def)
qed

text \<open>C33: when a provider completes a disbursement synchronously, the merchant is never debited: no ledger entry is written with
  the disbursement, and the callback that would write one finds it final and changes nothing.\<close>

theorem Disburse_completed_never_debited:
  assumes "schema_ok (w_db w)" "Disburse gws input w = (Inr out, w1)"
    and "do_Status out = DisbursementStatusCompleted" "do_ExternalID out \<noteq> ''''"
    and "callback_parsed gws (di_Provider input) hdrs body ev" "de_ExternalID ev = do_ExternalID out" "w_db w2 = w_db w1"
  shows "balance_of (w_db w1) i = balance_of (w_db w) i
    \<and> wp (HandleDisbursementCallback gws (di_Provider input) hdrs body) (\<lambda>_ w'. w_db w' = w_db w1) (\<lambda>_ w'. w_db w' = w_db w1) w2"
proof -
  from wp_run [OF Disburse_spec assms(2)] have disb: "disburse_done gws input w out (w_db w1)" by simp
  from schema.obeysD [OF obeys_disbursement_usecase(2), of w gws input] assms(1,2) have s1: "schema_ok (w_db w1)"
    by (simp add: schema.lifted_def kept_def)
  from disburse_done_row [OF disb] obtain row where row: "row \<in> set (db_disbursements (w_db w1))"
    "d_ExternalID row = do_ExternalID out" "d_Status row = DisbursementStatusCompleted" "d_Provider row = di_Provider input"
    "db_mutations (w_db w1) = db_mutations (w_db w)" using assms(3) by auto

  have "named_disbursement (w_db w2) (di_Provider input) ev = Some row"
    using named_disbursement_eq [OF s1 row(1)] row assms(4,6,7) by simp
  from callback_final [OF assms(5) this] row(3) assms(7)
  have "wp (HandleDisbursementCallback gws (di_Provider input) hdrs body) (\<lambda>_ w'. w_db w' = w_db w1) (\<lambda>_ w'. w_db w' = w_db w1) w2"
    by (auto simp: disbursement_IsFinal_def elim!: wp_mono)
  with balance_of_same [OF row(5)] show ?thesis by simp
qed

section \<open>A concrete disbursement\<close>

definition sample_account :: bank_account where
  "sample_account =
     \<lparr>ba_ID = ''A1'', ba_MerchantID = ''M1'', ba_BankCode = BankBCA, ba_AccountNumber = ''123'', ba_AccountName = ''Toko'',
      ba_IsPrimary = True, ba_IsVerified = True, ba_CreatedAt = 0, ba_UpdatedAt = 0\<rparr>"

definition sample_disburse :: disburse_input where
  "sample_disburse =
     \<lparr>di_MerchantID = ''M1'', di_Provider = ProviderMidtrans, di_BankAccountID = ''A1'', di_Amount = 50000,
      di_Currency = CurrencyIDR, di_Description = ''''\<rparr>"

definition sample_callback :: disbursement_webhook_event where
  "sample_callback =
     \<lparr>de_ExternalID = ''ref-1'', de_Status = DisbursementStatusCompleted, de_FailureReason = '''', de_Amount = 50000, de_RawPayload = ''{}''\<rparr>"

definition sample_cashout_gateway :: disbursement_gateway where
  "sample_cashout_gateway =
     \<lparr>dg_Disburse = (\<lambda>r. Inr \<lparr>ds_ExternalID = ''ref-1'', ds_Status = DisbursementStatusCompleted, ds_Amount = dr_Amount r\<rparr>),
      dg_GetDisbursementStatus = (\<lambda>_. Inl (PlainErr ''refused'')),
      dg_ParseDisbursementWebhook = (\<lambda>_ _. Inr sample_callback)\<rparr>"

definition sample_disbursement_gateways :: disbursement_gateways where
  "sample_disbursement_gateways provider = (if provider = ProviderMidtrans then Some sample_cashout_gateway else None)"

definition sample_funds :: mutation where
  "sample_funds =
     \<lparr>mu_ID = ''X1'', mu_ReferenceID = ''P1'', mu_ReferenceType = MutationRefPayment, mu_MerchantID = ''M1'',
      mu_Type = MutationTypeCashIn, mu_Amount = 54500, mu_FeeAmount = 4500, mu_Currency = CurrencyIDR,
      mu_Description = '''', mu_CreatedAt = 0\<rparr>"

definition cash_db :: "disbursement list \<Rightarrow> database" where
  "cash_db ds = (sample_db True)\<lparr>db_bank_accounts := [sample_account], db_mutations := [sample_funds], db_disbursements := ds\<rparr>"

lemma cash_db_simps [simp]:
  "db_merchants (cash_db ds) = [sample_merchant]" "db_bank_accounts (cash_db ds) = [sample_account]"
  "db_mutations (cash_db ds) = [sample_funds]" "db_disbursements (cash_db ds) = ds" "db_payments (cash_db ds) = []"
  "db_outbox (cash_db ds) = []" "db_audits (cash_db ds) = []" "live_merchant (cash_db ds) ''M1'' = Some sample_merchant"
  by (simp_all add: cash_db_def sample_db_def empty_database_def live_merchant_def live_def sample_merchant_def)

lemma balance_cash_db [simp]: "balance_of (cash_db ds) ''M1'' = 50000"
  by (simp add: balance_of_def balance_effect_def sample_funds_def)

lemma cash_db_fee: "0 < a \<Longrightarrow> a \<le> 10000000 \<Longrightarrow>
    disbursement_fee_spec (cash_db ds) d sample_merchant a = Some (resolution (min 5000 a) (min 1000 a) 0 ''global_default'' '''')"
  by (simp add: disbursement_fee_spec_def layered_fee_def base_fee_of_def cash_db_def sample_db_def empty_database_def
      default_of_def margin_of_def holiday_fee_of_def seeded_fee_default_def seeded_platform_margin_def json_val_def
      sample_merchant_def zero_fee_config_def flat_fee_def percentage_fee_def computeMethodFee_def
      isZeroFee_def zero_method_fee_def wrap64_id int64_range_def)

lemma schema_ok_cash_db: "list_all disbursement_row_ok ds \<Longrightarrow> unique_rows disbursement_conflict ds \<Longrightarrow> schema_ok (cash_db ds)"
  by (simp add: schema_ok_def table_ok_def unique_rows_def cash_db_def sample_db_def empty_database_def
      merchant_exists_def sample_merchant_def merchant_row_ok_def sample_funds_def mutation_row_ok_def currency_ok_def
      sample_account_def bank_account_row_ok_def bank_code_ok_def)

lemma sample_cashout_simps [simp]:
  "sample_disbursement_gateways ProviderMidtrans = Some sample_cashout_gateway"
  "callback_parsed sample_disbursement_gateways ProviderMidtrans hdrs body sample_callback"
  "de_Status sample_callback = DisbursementStatusCompleted" "de_ExternalID sample_callback = ''ref-1''"
  "di_MerchantID sample_disburse = ''M1''" "di_Provider sample_disburse = ProviderMidtrans"
  "di_BankAccountID sample_disburse = ''A1''" "di_Amount sample_disburse = 50000"
  "ba_ID sample_account = ''A1''" "ba_MerchantID sample_account = ''M1''" "ba_IsVerified sample_account"
  "merchant_CanTransact sample_merchant" "live sample_merchant" "m_DailyCashoutLimit sample_merchant = 0"
  by (simp_all add: sample_disbursement_gateways_def callback_parsed_def sample_cashout_gateway_def sample_callback_def
      sample_disburse_def sample_account_def sample_merchant_def merchant_CanTransact_def merchant_IsActive_def live_def)

lemma sample_fee:
  assumes w: "no_faults w" "w_db w = cash_db []"
    and Q: "\<And>w'. same_tables w w' \<Longrightarrow> w_db w' = cash_db [] \<Longrightarrow> no_faults w' \<Longrightarrow> Q (resolution 5000 1000 0 ''global_default'' '''') w'"
  shows "wp (resolver_ResolveDisbursement sample_merchant 50000) Q E w"
proof -
  have "wp (resolver_ResolveDisbursement sample_merchant 50000)
    (\<lambda>r w'. r = resolution 5000 1000 0 ''global_default'' '''' \<and> w_db w' = cash_db [] \<and> no_faults w') (\<lambda>_ _. False) w"
    by (rule wp_mono [OF ResolveDisbursement_spec]) (use w in \<open>auto simp: cash_db_fee\<close>)
  then show ?thesis
    using reads.obeysD [OF reads_Resolve(2), of w sample_merchant 50000] Q
    by (auto simp: wp_def split: prod.splits sum.splits)
qed

lemma sample_dispatch [simp]:
  "fr_TotalFee (resolution 5000 1000 0 s h) = 6000"
  "dg_Disburse sample_cashout_gateway r = Inr \<lparr>ds_ExternalID = ''ref-1'', ds_Status = DisbursementStatusCompleted, ds_Amount = dr_Amount r\<rparr>"
  by (simp_all add: resolution_def int64_range_def sample_cashout_gateway_def)

lemma sample_reservation_ok:
  "disbursement_row_ok ((reserved_disbursement sample_disburse sample_account 6000)
     \<lparr>d_ID := i, d_FailureReason := f, d_CompletedAt := a, d_FailedAt := b, d_CreatedAt := c, d_UpdatedAt := u\<rparr>)"
  by (simp add: disbursement_row_ok_def reserved_disbursement_def disbursement_status_ok_def provider_ok_def provider_known_def
      currency_ok_def bank_code_ok_def sample_disburse_def sample_account_def)

lemma Disburse_sample_run:
  "wp (Disburse sample_disbursement_gateways sample_disburse)
     (\<lambda>out _. do_Status out = DisbursementStatusCompleted \<and> do_ExternalID out = ''ref-1'') (\<lambda>_ _. False) (quiet_world (cash_db []) 0)"
  apply (simp add: Disburse_def disburse_read_def merchant_FindByID_def FindBankAccountByID_def disbGateway_def wp_simps wp_query
      uuid_param_def wp_ret_eta externalID_def)
  apply (rule sample_fee)
    apply simp_all
  apply (simp add: disburse_reserve_def wp_RunInTx wp_simps lock_merchant_def wp_query uuid_param_def same_tables_def
    mutation_GetBalance_def SumPendingDisbursements_def sum_where_def bigint_def int64_range_def)
  apply (simp add: disbursement_Save_def wp_simps wp_exec uuid_param_def insert_disbursement_def Let_def checked_insert_def
      sample_reservation_ok merchant_exists_def)
  apply (simp add: disburse_finish_def disbursement_Update_def wp_simps wp_exec uuid_param_def Let_def checked_update_def
      with_outcome_of_def disbursement_row_ok_def reserved_disbursement_def disbursement_status_ok_def provider_ok_def provider_known_def
      currency_ok_def bank_code_ok_def sample_disburse_def sample_account_def toDisbursementOutput_def)
  done

theorem Disburse_completed_never_debited_witness:
  "\<exists>out w1. Disburse sample_disbursement_gateways sample_disburse (quiet_world (cash_db []) 0) = (Inr out, w1)
     \<and> do_Status out = DisbursementStatusCompleted \<and> balance_of (w_db w1) ''M1'' = 50000
     \<and> wp (HandleDisbursementCallback sample_disbursement_gateways ProviderMidtrans [] ''{}'')
         (\<lambda>_ w'. w_db w' = w_db w1) (\<lambda>_ w'. w_db w' = w_db w1) w1"
proof -
  from Disburse_sample_run obtain out w1 where
    w1: "Disburse sample_disbursement_gateways sample_disburse (quiet_world (cash_db []) 0) = (Inr out, w1)"
    and out: "do_Status out = DisbursementStatusCompleted" "do_ExternalID out = ''ref-1''"
    by (auto simp: wp_def split: prod.splits sum.splits)
  have "schema_ok (cash_db [])" by (rule schema_ok_cash_db) (simp_all add: unique_rows_def)
  then show ?thesis
    using Disburse_completed_never_debited [of "quiet_world (cash_db []) 0" sample_disbursement_gateways sample_disburse out w1
        "[]" "''{}''" sample_callback w1 "''M1''"] w1 out by simp
qed

section \<open>Callbacks that are accepted\<close>

text \<open>Every cash-out of the ledger belongs to a completed disbursement.\<close>

definition settled :: "database \<Rightarrow> bool" where
  "settled db \<longleftrightarrow> (\<forall>m \<in> set (db_mutations db). mu_ReferenceType m = MutationRefDisbursement \<longrightarrow>
     (\<exists>d \<in> set (db_disbursements db). d_Status d = DisbursementStatusCompleted \<and> d_ID d = mu_ReferenceID m))"

lemma disbursement_Update_ok:
  assumes n: "no_faults w" and s: "schema_ok (w_db w)" and r: "r \<in> set (db_disbursements (w_db w))" and u: "w_uuid_ok w (d_ID r)"
    and d: "d_ID d = d_ID r" "d_ExternalID d = d_ExternalID r" and ok: "disbursement_row_ok (with_outcome_of d (w_now w) r)"
    and Q: "Q () ((tick w)\<lparr>w_db := set_outcome d (w_now w) (w_db w)\<rparr>)"
  shows "wp (disbursement_Update d) Q E w"
proof -
  let ?f = "with_outcome_of d (w_now w)" and ?rows = "db_disbursements (w_db w)"
  have same: "x = r" if "x \<in> set ?rows" "d_ID x = d_ID r" for x
    using disbursement_keys(1) [OF s that(1) r that(2)] .
  have conflict: "\<not> disbursement_conflict (?f r) t" if "t \<in> set ?rows" "d_ID t \<noteq> d_ID r" for t
  proof
    assume "disbursement_conflict (?f r) t"
    with that(2) d(2) have "d_ExternalID r \<noteq> ''''" "d_Provider r = d_Provider t" "d_ExternalID r = d_ExternalID t"
      by (auto simp: disbursement_conflict_def)
    from disbursement_keys(2) [OF s r that(1) this] that(2) show False by simp
  qed
  have "checked_update disbursement_row_ok disbursement_conflict (\<lambda>x. d_ID x = d_ID r) ?f ?rows = Inr (update_where (\<lambda>x. d_ID x = d_ID r) ?f ?rows)"
    using ok conflict by (auto dest: same)
  moreover have "find (\<lambda>x. d_ID x = d_ID r) (update_where (\<lambda>x. d_ID x = d_ID r) ?f ?rows) \<noteq> None"
    by (subst find_update_same) (use r in auto)
  then obtain y where "find (\<lambda>x. d_ID x = d_ID r) (update_where (\<lambda>x. d_ID x = d_ID r) ?f ?rows) = Some y" by blast
  ultimately show ?thesis
    using n u Q [unfolded set_outcome_def] d
    by (simp add: disbursement_Update_def wp_bind wp_wrap wp_exec wp_one_row wp_ret uuid_param_def del: checked_update_Inr)
qed

lemma mutation_ok:
  assumes "no_faults w" "w_uuid_ok w (mu_ReferenceID m)" "w_uuid_ok w (mu_MerchantID m)" "mutation_row_ok m"
    and "merchant_exists (w_db w) (mu_MerchantID m)"
    and "\<And>r. r \<in> set (db_mutations (w_db w)) \<Longrightarrow> mu_ID r \<noteq> fresh_uuid w"
    and "\<And>r. r \<in> set (db_mutations (w_db w)) \<Longrightarrow> mu_ReferenceID r = mu_ReferenceID m \<Longrightarrow> mu_ReferenceType r \<noteq> mu_ReferenceType m"
    and "Q (new_mutation w m) ((tick w)\<lparr>w_db := (w_db w)\<lparr>db_mutations := db_mutations (w_db w) @ [new_mutation w m]\<rparr>\<rparr>)"
  shows "wp (mutation_Save m) Q E w"
proof -
  have "mutation_insertable w m"
    using assms(1-7) by (auto simp: mutation_insertable_def mutation_conflict_def new_mutation_def)
  with assms(8) show ?thesis by (intro wp_mutation_Save) simp_all
qed

lemma callback_tx_succeeds:
  assumes n: "idle w" and s: "schema_ok (w_db w)" and k: "settled (w_db w)" and i: "fresh_ids w"
    and d: "d \<in> set (db_disbursements (w_db w))" "\<not> disbursement_IsFinal d" and e: "de_Status ev = DisbursementStatusCompleted"
    and m: "m_ID m = d_MerchantID d" "merchant_exists (w_db w) (d_MerchantID d)"
    and u: "w_uuid_ok w (d_ID d)" "w_uuid_ok w (d_MerchantID d)" and f: "int64_range (d_Amount d + d_FeeAmount d)"
  shows "wp (callback_tx (apply_callback ev d) m) (\<lambda>_ _. True) (\<lambda>_ _. False) w"
proof -
  have ok: "disbursement_row_ok d" using s d(1) by (auto simp: schema_ok_def table_ok_def list_all_iff)
  then have row: "disbursement_row_ok (with_outcome_of (apply_callback ev d) t d)" for t
    using e by (simp add: disbursement_row_ok_def disbursement_status_ok_def with_outcome_of_def)
  have cash: "mutation_row_ok (cash_out (apply_callback ev d))"
    using ok f by (simp add: mutation_row_ok_def cash_out_def disbursement_row_ok_def apply_callback_def)
  have fresh: False if "r \<in> set (db_mutations (w_db w))" "mu_ReferenceID r = d_ID d" "mu_ReferenceType r = MutationRefDisbursement" for r
  proof -
    from k that obtain x where x: "x \<in> set (db_disbursements (w_db w))" "d_Status x = DisbursementStatusCompleted" "d_ID x = d_ID d"
      by (auto simp: settled_def)
    from disbursement_keys(1) [OF s x(1) d(1) x(3)] x(2) d(2) show False by (simp add: disbursement_IsFinal_def)
  qed
  have nb: "no_faults (begin_tx w)" using n by simp
  show ?thesis
    unfolding callback_tx_def wp_RunInTx wp_bind wp_if wp_now
    using n apply (simp split del: if_split)
    apply (rule disbursement_Update_ok [OF nb, where r = d])
          apply (simp_all add: s d u row e split del: if_split)
    apply (rule mutation_ok)
           apply (simp_all add: nb u cash split del: if_split)
    subgoal using u by (simp add: cash_out_def)
    subgoal using u by (simp add: cash_out_def)
    subgoal using m by (simp add: cash_out_def merchant_exists_def)
    subgoal using i by (simp add: fresh_ids_def fresh_uuid_def)
    subgoal using fresh by (auto simp: cash_out_def)
    subgoal
      unfolding wp_ret_eta
      apply (intro if_both)
      subgoal using nb by simp
      subgoal by simp
      subgoal
        apply (rule outbox_ok)
        using nb u m i by (auto simp: merchant_exists_def fresh_ids_def fresh_uuid_def)
      done
    done
qed

lemma callback_read_succeeds:
  assumes n: "idle w" and e: "callback_parsed gws provider hdrs body ev" and d: "named_disbursement (w_db w) provider ev = Some d"
    and f: "\<not> disbursement_IsFinal d" and m: "live_merchant (w_db w) (d_MerchantID d) = Some m" and u: "w_uuid_ok w (d_MerchantID d)"
  shows "callback_read gws provider hdrs body w = (Inr (Some (apply_callback ev d, m)), tick (tick w))"
proof -
  have "wp (callback_read gws provider hdrs body) (\<lambda>r w'. r = Some (apply_callback ev d, m) \<and> w' = tick (tick w)) (\<lambda>_ _. False) w"
    using assms
    by (auto simp: callback_read_def disbGateway_def disbursement_FindByExternalID_def merchant_FindByID_def callback_parsed_def
        named_disbursement_def live_merchant_def uuid_param_def Let_def wp_simps wp_query)
  then show ?thesis
    by (auto simp: wp_def split: prod.splits sum.splits)
qed

lemma callback_debit_balance:
  assumes "callback_effect (apply_callback ev d) m t db db'" "de_Status ev = DisbursementStatusCompleted"
    and "int64_range (d_Amount d + d_FeeAmount d)"
  shows "balance_of db' i = balance_of db i - (if i = d_MerchantID d then d_Amount d + d_FeeAmount d else 0)"
proof -
  from assms(1) obtain ms where ms: "callback_debit (apply_callback ev d) ms" "db_mutations db' = db_mutations db @ ms"
    by (auto simp: callback_effect_def)
  with assms(2) obtain x s where "ms = [(cash_out (apply_callback ev d))\<lparr>mu_ID := x, mu_CreatedAt := s\<rparr>]"
    by (auto simp: callback_debit_def)
  with assms(3) show ?thesis
    by (simp add: balance_of_appended [OF ms(2)] balance_effect_def cash_out_def)
qed

text \<open>C32: the callback that completes a disbursement is accepted and debits the amount and the fee, although the reservation
  was checked against the amount alone: a merchant that disburses all it has is left with a balance of minus the fee.\<close>

theorem HandleDisbursementCallback_debits_fee:
  assumes "idle w" "schema_ok (w_db w)" "settled (w_db w)" "fresh_ids w"
    and "callback_parsed gws provider hdrs body ev" "de_Status ev = DisbursementStatusCompleted"
    and "named_disbursement (w_db w) provider ev = Some d" "\<not> disbursement_IsFinal d"
    and "live_merchant (w_db w) (d_MerchantID d) = Some m"
    and "w_uuid_ok w (d_ID d)" "w_uuid_ok w (d_MerchantID d)" "int64_range (d_Amount d + d_FeeAmount d)"
  shows "wp (HandleDisbursementCallback gws provider hdrs body)
     (\<lambda>_ w'. \<forall>i. balance_of (w_db w') i = balance_of (w_db w) i - (if i = d_MerchantID d then d_Amount d + d_FeeAmount d else 0))
     (\<lambda>_ _. False) w"
proof -
  let ?w = "tick (tick w)"
  have din: "d \<in> set (db_disbursements (w_db w))" and mid: "m_ID m = d_MerchantID d"
    and me: "merchant_exists (w_db w) (d_MerchantID d)"
    using named_disbursement_in [OF assms(7)] assms(9)
    by (auto simp: live_merchant_def merchant_exists_def list_ex_iff dest!: find_Some_in)
  have "wp (callback_tx (apply_callback ev d) m) (\<lambda>_ _. True) (\<lambda>_ _. False) ?w"
    by (rule callback_tx_succeeds) (use assms din mid me in \<open>simp_all add: fresh_ids_tick\<close>)
  moreover note callback_tx_spec [of "apply_callback ev d" m ?w]
  ultimately have "wp (callback_tx (apply_callback ev d) m)
     (\<lambda>_ w'. callback_effect (apply_callback ev d) m (w_now w) (w_db w) (w_db w')) (\<lambda>_ _. False) ?w"
    by (auto simp: wp_def split: prod.splits sum.splits)
  then show ?thesis
    unfolding HandleDisbursementCallback_def
    using callback_read_succeeds [OF assms(1,5,7-9,11)] callback_debit_balance [OF _ assms(6,12)]
    by (auto simp: wp_def bind_def split: prod.splits sum.splits)
qed

definition sample_reservation :: disbursement where
  "sample_reservation = (reserved_disbursement sample_disburse sample_account 6000)
     \<lparr>d_ID := ''D1'', d_ExternalID := ''ref-1'', d_Status := DisbursementStatusProcessing, d_CreatedAt := 0, d_UpdatedAt := 0\<rparr>"

lemma sample_reservation_simps [simp]:
  "d_ID sample_reservation = ''D1''" "d_MerchantID sample_reservation = ''M1''" "d_Amount sample_reservation = 50000"
  "d_FeeAmount sample_reservation = 6000" "d_Provider sample_reservation = ProviderMidtrans"
  "d_ExternalID sample_reservation = ''ref-1''" "\<not> disbursement_IsFinal sample_reservation"
  "d_Status sample_reservation = DisbursementStatusProcessing"
  by (simp_all add: sample_reservation_def reserved_disbursement_def disbursement_IsFinal_def sample_disburse_def)

lemma sample_reservation_db [simp]:
  "schema_ok (cash_db [sample_reservation])" "settled (cash_db ds)" "fresh_ids (quiet_world (cash_db ds) t)"
  "named_disbursement (cash_db [sample_reservation]) ProviderMidtrans sample_callback = Some sample_reservation"
proof -
  show "schema_ok (cash_db [sample_reservation])"
    by (rule schema_ok_cash_db)
      (simp_all add: unique_rows_def disbursement_row_ok_def sample_reservation_def reserved_disbursement_def disbursement_status_ok_def
        provider_ok_def provider_known_def currency_ok_def bank_code_ok_def sample_disburse_def sample_account_def)
qed (simp_all add: settled_def sample_funds_def fresh_ids_def named_disbursement_def quiet_world_def inj_def)

theorem HandleDisbursementCallback_debits_fee_witness:
  "wp (HandleDisbursementCallback sample_disbursement_gateways ProviderMidtrans [] ''{}'')
     (\<lambda>_ w'. balance_of (w_db w') ''M1'' = -6000) (\<lambda>_ _. False) (quiet_world (cash_db [sample_reservation]) 0)"
  by (rule wp_mono [OF HandleDisbursementCallback_debits_fee [of "quiet_world (cash_db [sample_reservation]) 0" sample_disbursement_gateways
        ProviderMidtrans "[]" "''{}''" sample_callback sample_reservation sample_merchant]])
    (simp_all add: int64_range_def)

section \<open>The daily limit\<close>

lemma day_pos [simp]: "0 < day"
  by (simp add: day_def second_def)

lemma day_start_le: "(a div day) * day \<le> b \<longleftrightarrow> a div day \<le> b div day"
proof
  assume "a div day \<le> b div day"
  then have "(a div day) * day \<le> (b div day) * day" by (rule mult_right_mono) (simp add: less_imp_le)
  also have "\<dots> \<le> b" by (metis day_pos div_mult_mod_eq add_increasing2 order_refl pos_mod_sign)
  finally show "(a div day) * day \<le> b" .
next
  assume "(a div day) * day \<le> b"
  then have "(a div day * day) div day \<le> b div day" by (rule zdiv_mono1) simp
  then show "a div day \<le> b div day" using day_pos by simp
qed

definition jakarta_day :: "time \<Rightarrow> int" where
  "jakarta_day t = (t + jakarta_offset) div day"

lemma jakarta_start_wib: "jakarta_day_start (7 * 3600) t \<le> c \<longleftrightarrow> jakarta_day t \<le> jakarta_day c"
proof -
  have "7 * 3600 * second = jakarta_offset" by (simp add: jakarta_offset_def)
  then have "jakarta_day_start (7 * 3600) t \<le> c \<longleftrightarrow> (t + jakarta_offset) div day * day \<le> c + jakarta_offset"
    unfolding jakarta_day_start_def by linarith
  then show ?thesis by (simp only: day_start_le jakarta_day_def)
qed

lemma jakarta_start_utc:
  assumes "(t + jakarta_offset) mod day < jakarta_offset"
  shows "t < jakarta_day_start 0 t"
  using assms div_mult_mod_eq [of "t + jakarta_offset" day] unfolding jakarta_day_start_def by linarith

text \<open>C34: the sum the daily limit is checked against is that of the disbursements of the current day in Jakarta when the database
  session runs in Jakarta's time zone; in a UTC session it is zero during the first seven hours of that day, whatever has
  been disbursed since midnight.\<close>

theorem SumDisbursementsToday_window:
  assumes "no_faults w" "w_uuid_ok w i" "int64_range (today_of w i)"
    and "\<And>d. d \<in> set (db_disbursements (w_db w)) \<Longrightarrow> d_CreatedAt d \<le> w_now w"
  shows "wp (SumDisbursementsToday i)
     (\<lambda>n _. (w_session_offset w = 7 * 3600 \<longrightarrow>
          n = sum_where (\<lambda>d. d_MerchantID d = i \<and> disbursement_status_str (d_Status d) \<notin> {''failed'', ''cancelled''}
                \<and> jakarta_day (d_CreatedAt d) = jakarta_day (w_now w)) (db_disbursements (w_db w)))
        \<and> (w_session_offset w = 0 \<and> (w_now w + jakarta_offset) mod day < jakarta_offset \<longrightarrow> n = 0))
     (\<lambda>_ _. False) w"
proof -
  have wib: "filter (counts_today i (jakarta_day_start (7 * 3600) (w_now w))) (db_disbursements (w_db w))
     = filter (\<lambda>d. d_MerchantID d = i \<and> disbursement_status_str (d_Status d) \<notin> {''failed'', ''cancelled''}
                \<and> jakarta_day (d_CreatedAt d) = jakarta_day (w_now w)) (db_disbursements (w_db w))"
  proof (rule filter_cong [OF refl])
    fix d assume "d \<in> set (db_disbursements (w_db w))"
    from assms(4) [OF this] have "jakarta_day (d_CreatedAt d) \<le> jakarta_day (w_now w)"
      unfolding jakarta_day_def by (intro zdiv_mono1) simp_all
    then show "counts_today i (jakarta_day_start (7 * 3600) (w_now w)) d \<longleftrightarrow>
        d_MerchantID d = i \<and> disbursement_status_str (d_Status d) \<notin> {''failed'', ''cancelled''} \<and> jakarta_day (d_CreatedAt d) = jakarta_day (w_now w)"
      unfolding counts_today_def jakarta_start_wib by auto
  qed
  have utc: "today_of w i = 0" if "w_session_offset w = 0" "(w_now w + jakarta_offset) mod day < jakarta_offset"
  proof -
    from jakarta_start_utc [OF that(2)] assms(4)
    have "filter (counts_today i (jakarta_day_start 0 (w_now w))) (db_disbursements (w_db w)) = []"
      by (fastforce simp: filter_empty_conv counts_today_def)
    with that(1) show ?thesis by (simp add: today_of_def sum_where_def)
  qed
  have "wp (SumDisbursementsToday i) (\<lambda>n _. n = today_of w i) (\<lambda>_ _. False) w"
    using assms(1-3) by (simp add: SumDisbursementsToday_def wp_simps wp_query uuid_param_def bigint_def today_of_def)
  then show ?thesis
    by (rule wp_mono) (use wib utc in \<open>auto simp: today_of_def sum_where_def\<close>)
qed

text \<open>Half past midnight in Jakarta, with a disbursement made at midnight.\<close>

theorem SumDisbursementsToday_window_witness:
  "wp (SumDisbursementsToday ''M1'') (\<lambda>n _. n = 0) (\<lambda>_ _. False)
     (quiet_world (cash_db [sample_reservation\<lparr>d_CreatedAt := 17 * 3600 * second\<rparr>]) (17 * 3600 * second + 1800 * second))"
proof -
  let ?t = "17 * 3600 * second + 1800 * second"
  let ?w = "quiet_world (cash_db [sample_reservation\<lparr>d_CreatedAt := 17 * 3600 * second\<rparr>]) ?t"
  have m: "(?t + jakarta_offset) mod day < jakarta_offset" by (simp add: jakarta_offset_def day_def second_def)
  have "today_of ?w ''M1'' = 0"
    by (simp add: today_of_def jakarta_day_start_def jakarta_offset_def day_def second_def sum_where_def counts_today_def)
  then show ?thesis
    by (intro wp_mono [OF SumDisbursementsToday_window [of ?w "''M1''"]])
      (use m in \<open>auto simp: int64_range_def second_def\<close>)
qed

end
