(* ===== verification/Tokens.thy ===== *)
theory Tokens
  imports Database
begin

text \<open>
  Admin sessions: base64url, the HS256 tokens of pkg/jwtutil/jwt.go, the admin middleware of
  internal/delivery/http/middleware/admin_auth.go and the permission matrix of
  internal/delivery/http/router.go. HMAC-SHA256 and the JSON text of the claims are
  parameters.
\<close>

section \<open>base64.RawURLEncoding\<close>

text \<open>Six bits to a character of the URL alphabet and back; a byte is a \<open>char\<close>.\<close>

definition b64_char :: "nat \<Rightarrow> char" where
  "b64_char n =
     (if n < 26 then char_of (65 + n) else if n < 52 then char_of (71 + n)
      else if n < 62 then char_of (n - 4) else if n = 62 then CHR ''-'' else CHR ''_'')"

definition b64_val :: "char \<Rightarrow> nat option" where
  "b64_val c =
     (let n = (of_char c :: nat) in
      if 65 \<le> n \<and> n \<le> 90 then Some (n - 65) else if 97 \<le> n \<and> n \<le> 122 then Some (n - 71)
      else if 48 \<le> n \<and> n \<le> 57 then Some (n + 4) else if c = CHR ''-'' then Some 62
      else if c = CHR ''_'' then Some 63 else None)"

fun b64_encode :: "nat list \<Rightarrow> nat list" where
  "b64_encode [] = []"
| "b64_encode [x] = [x div 4, (x mod 4) * 16]"
| "b64_encode [x, y] = [x div 4, (x mod 4) * 16 + y div 16, (y mod 16) * 4]"
| "b64_encode (x # y # z # bs) =
     x div 4 # ((x mod 4) * 16 + y div 16) # ((y mod 16) * 4 + z div 64) # z mod 64 # b64_encode bs"

text \<open>The decoder is not strict: it ignores the unused bits of the last character.\<close>

fun b64_decode :: "nat list \<Rightarrow> nat list option" where
  "b64_decode [] = Some []"
| "b64_decode [a] = None"
| "b64_decode [a, b] = Some [a * 4 + b div 16]"
| "b64_decode [a, b, c] = Some [a * 4 + b div 16, (b mod 16) * 16 + c div 4]"
| "b64_decode (a # b # c # d # xs) =
     map_option (\<lambda>bs. (a * 4 + b div 16) # ((b mod 16) * 16 + c div 4) # ((c mod 4) * 64 + d) # bs) (b64_decode xs)"

definition base64url :: "string \<Rightarrow> string" where
  "base64url s = map b64_char (b64_encode (map of_char s))"

text \<open>\<open>DecodeString\<close> skips line breaks.\<close>

definition DecodeString :: "string \<Rightarrow> string option" where
  "DecodeString s =
     (case those (map b64_val (filter (\<lambda>c. c \<noteq> CHR 0x0A \<and> c \<noteq> CHR 0x0D) s)) of
        None \<Rightarrow> None
      | Some xs \<Rightarrow> map_option (map char_of) (b64_decode xs))"

lemma b64_val_char: "n < 64 \<Longrightarrow> b64_val (b64_char n) = Some n"
  by (auto simp: b64_val_def b64_char_def Let_def)

lemma b64_encode_range: "list_all (\<lambda>x. x < 256) bs \<Longrightarrow> list_all (\<lambda>x. x < 64) (b64_encode bs)"
  by (induction bs rule: b64_encode.induct) (auto simp: less_mult_imp_div_less)

lemma b64_roundtrip: "list_all (\<lambda>x. x < 256) bs \<Longrightarrow> b64_decode (b64_encode bs) = Some bs"
proof (induction bs rule: b64_encode.induct)
  case (4 x y z bs)
  then have "y < 256" "z < 256" by simp_all
  then have "y div 16 < 16" "z div 64 < 4" by (simp_all add: less_mult_imp_div_less)
  with 4 show ?case by simp
next
  case (3 x y)
  then have "y div 16 < 16" by (simp add: less_mult_imp_div_less)
  then show ?case by simp
qed simp_all

lemma b64_char_plain: "n < 64 \<Longrightarrow> b64_char n \<notin> {CHR ''.'', CHR 0x0A, CHR 0x0D}"
  using b64_val_char [of n] by (auto simp: b64_val_def Let_def)

lemma base64url_chars: "c \<in> set (base64url s) \<Longrightarrow> \<exists>n < 64. c = b64_char n"
proof -
  have "list_all (\<lambda>x. x < 64) (b64_encode (map of_char s))" by (rule b64_encode_range) (simp add: list_all_iff)
  then show "c \<in> set (base64url s) \<Longrightarrow> \<exists>n < 64. c = b64_char n" by (auto simp: base64url_def list_all_iff)
qed

lemma those_map_Some: "(\<And>x. x \<in> set xs \<Longrightarrow> f x = Some (g x)) \<Longrightarrow> those (map f xs) = Some (map g xs)"
  by (induction xs) auto

lemma base64url_roundtrip: "DecodeString (base64url s) = Some s"
proof -
  let ?bs = "map of_char s :: nat list"
  have bs: "list_all (\<lambda>x. x < 256) ?bs" by (simp add: list_all_iff)
  have "filter (\<lambda>c. c \<noteq> CHR 0x0A \<and> c \<noteq> CHR 0x0D) (base64url s) = base64url s"
    by (rule filter_True) (auto dest!: base64url_chars dest: b64_char_plain)
  moreover have "those (map b64_val (base64url s)) = Some (b64_encode ?bs)"
    using b64_encode_range [OF bs] those_map_Some [of "b64_encode ?bs" "b64_val \<circ> b64_char" id]
    by (auto simp: base64url_def list_all_iff b64_val_char comp_def)
  moreover have "map char_of ?bs = s" by (simp add: comp_def)
  ultimately show ?thesis
    by (simp add: DecodeString_def b64_roundtrip [OF bs])
qed

section \<open>Tokens\<close>

record claims =
  cl_Sub :: string
  cl_Email :: string
  cl_Role :: string
  cl_Type :: string
  cl_Exp :: int64
  cl_Iat :: int64

definition TokenTypeAccess :: string where
  "TokenTypeAccess = ''access''"

definition TokenTypeRefresh :: string where
  "TokenTypeRefresh = ''refresh''"

text \<open>HMAC-SHA256 of a key and a message, and the JSON encoding of the claims.\<close>

record jwt_env =
  jw_hmac :: "string \<Rightarrow> string \<Rightarrow> string"
  jw_marshal :: "claims \<Rightarrow> string"
  jw_unmarshal :: "string \<Rightarrow> claims option"

definition jwtHeader :: string where
  \<open>jwtHeader = base64url ''{"alg":"HS256","typ":"JWT"}''\<close>

definition jwt_sign :: "jwt_env \<Rightarrow> string \<Rightarrow> string \<Rightarrow> string" where
  "jwt_sign env secret data = base64url (jw_hmac env secret data)"

definition unix :: "time \<Rightarrow> int" where
  "unix t = t div second"

definition jwt_Generate :: "jwt_env \<Rightarrow> time \<Rightarrow> string \<Rightarrow> claims \<Rightarrow> string" where
  "jwt_Generate env t secret c =
     (let c = c\<lparr>cl_Iat := unix t\<rparr>;
          payload = base64url (jw_marshal env c);
          sig = jwt_sign env secret (jwtHeader @ ''.'' @ payload)
      in jwtHeader @ ''.'' @ payload @ ''.'' @ sig)"

text \<open>\<open>strings.SplitN(token, ".", 3)\<close> gives three parts when there are two dots.\<close>

definition cut_dot :: "string \<Rightarrow> (string \<times> string) option" where
  "cut_dot s = (if CHR ''.'' \<in> set s
     then Some (takeWhile (\<lambda>c. c \<noteq> CHR ''.'') s, tl (dropWhile (\<lambda>c. c \<noteq> CHR ''.'') s)) else None)"

definition split_token :: "string \<Rightarrow> (string \<times> string \<times> string) option" where
  "split_token s =
     (case cut_dot s of
        None \<Rightarrow> None
      | Some (a, r) \<Rightarrow> map_option (\<lambda>(b, c). (a, b, c)) (cut_dot r))"

definition jwt_Verify :: "jwt_env \<Rightarrow> time \<Rightarrow> string \<Rightarrow> string \<Rightarrow> claims res" where
  "jwt_Verify env t secret token =
     (case split_token token of
        None \<Rightarrow> Inl (PlainErr ''invalid token format'')
      | Some (h, payload, sig) \<Rightarrow>
          if jwt_sign env secret (h @ ''.'' @ payload) \<noteq> sig then Inl (PlainErr ''invalid signature'')
          else
            (case DecodeString payload of
               None \<Rightarrow> Inl (PlainErr ''invalid token payload encoding'')
             | Some raw \<Rightarrow>
                 (case jw_unmarshal env raw of
                    None \<Rightarrow> Inl (PlainErr ''invalid token payload'')
                  | Some c \<Rightarrow>
                      if unix t > cl_Exp c then Inl (PlainErr ''token expired'') else Inr c)))"

lemma cut_dot_append: "CHR ''.'' \<notin> set a \<Longrightarrow> cut_dot (a @ ''.'' @ r) = Some (a, r)"
  by (auto simp: cut_dot_def takeWhile_append dropWhile_append)

lemma base64url_no_dot: "CHR ''.'' \<notin> set (base64url s)"
  by (auto dest!: base64url_chars dest: b64_char_plain)

lemma jwt_Verify_Generate_iff:
  assumes "jw_unmarshal env (jw_marshal env (c\<lparr>cl_Iat := unix t\<rparr>)) = Some (c\<lparr>cl_Iat := unix t\<rparr>)"
  shows "jwt_Verify env t' secret (jwt_Generate env t secret c) =
    (if unix t' \<le> cl_Exp c then Inr (c\<lparr>cl_Iat := unix t\<rparr>) else Inl (PlainErr ''token expired''))"
proof -
  let ?p = "base64url (jw_marshal env (c\<lparr>cl_Iat := unix t\<rparr>))"
  have "split_token (jwt_Generate env t secret c) = Some (jwtHeader, ?p, jwt_sign env secret (jwtHeader @ ''.'' @ ?p))"
    using cut_dot_append [OF base64url_no_dot] by (simp add: split_token_def jwt_Generate_def Let_def jwtHeader_def)
  then show ?thesis
    using assms by (simp add: jwt_Verify_def base64url_roundtrip)
qed

section \<open>The admin middleware\<close>

text \<open>\<open>raw\<close> is the Authorization header, empty when absent; the result is what the handlers find in the context.\<close>

definition cut_prefix :: "string \<Rightarrow> string \<Rightarrow> string option" where
  "cut_prefix pre s = (if take (length pre) s = pre then Some (drop (length pre) s) else None)"

definition AdminJWTAuth :: "jwt_env \<Rightarrow> string \<Rightarrow> time \<Rightarrow> string \<Rightarrow> (string \<times> string) res" where
  "AdminJWTAuth env secret t raw =
     (case cut_prefix ''Bearer '' raw of
        None \<Rightarrow> Inl (Unauthorized ''missing bearer token'')
      | Some token \<Rightarrow>
          if token = '''' then Inl (Unauthorized ''missing bearer token'')
          else
            (case jwt_Verify env t secret token of
               Inl _ \<Rightarrow> Inl (Unauthorized ''invalid token'')
             | Inr claims \<Rightarrow>
                 if cl_Type claims \<noteq> TokenTypeAccess then Inl (Unauthorized ''not an access token'')
                 else Inr (cl_Sub claims, cl_Role claims)))"

definition RequireRole :: "admin_role list \<Rightarrow> string option \<Rightarrow> unit res" where
  "RequireRole roles role =
     (case role of
        None \<Rightarrow> Inl (Forbidden ''insufficient role'')
      | Some role \<Rightarrow>
          if list_ex (\<lambda>r. admin_role_str r = role) roles then Inr () else Inl (Forbidden ''insufficient role''))"

text \<open>
  The admin routes, in the order \<open>registerAdminRoutes\<close> mounts them, and the guards of each: the
  token check, except for the two public routes, and the \<open>RequireRole\<close> of its group and its own.
\<close>

datatype admin_route =
    RouteLogin | RouteRefreshToken | RouteGetMe | RouteChangePassword
  | RouteCreateMerchant | RouteListMerchants | RouteGetMerchant | RouteApproveMerchant | RouteSuspendMerchant
  | RouteDeactivateMerchant | RouteSetMerchantFee | RouteUpdateCashoutLimit | RouteRegenerateAPIKey | RouteDeleteMerchant
  | RouteListMerchantBankAccounts | RouteVerifyBankAccount
  | RouteListAllPayments | RouteGetPayment | RouteListAllDisbursements | RouteGetDisbursement | RouteListAllMutations
  | RouteGetProviderBalances | RouteUpdateProviderBalance | RouteCreateAdmin | RouteListAdmins | RouteDeactivateAdmin
  | RouteGetFeeDefault | RouteUpdateFeeDefault | RouteGetPlatformMargin | RouteUpdatePlatformMargin
  | RouteListHolidays | RouteCreateHoliday | RouteUpdateHoliday

definition admin_public :: "admin_route \<Rightarrow> bool" where
  "admin_public route \<longleftrightarrow> route = RouteLogin \<or> route = RouteRefreshToken"

fun group_roles :: "admin_route \<Rightarrow> admin_role list option" where
  "group_roles RouteListAllMutations = Some [AdminRoleSuperAdmin, AdminRoleFinance]"
| "group_roles RouteGetProviderBalances = Some [AdminRoleSuperAdmin, AdminRoleFinance]"
| "group_roles RouteUpdateProviderBalance = Some [AdminRoleSuperAdmin, AdminRoleFinance]"
| "group_roles RouteCreateAdmin = Some [AdminRoleSuperAdmin]"
| "group_roles RouteListAdmins = Some [AdminRoleSuperAdmin]"
| "group_roles RouteDeactivateAdmin = Some [AdminRoleSuperAdmin]"
| "group_roles RouteGetFeeDefault = Some [AdminRoleSuperAdmin, AdminRoleFinance]"
| "group_roles RouteUpdateFeeDefault = Some [AdminRoleSuperAdmin, AdminRoleFinance]"
| "group_roles RouteGetPlatformMargin = Some [AdminRoleSuperAdmin, AdminRoleFinance]"
| "group_roles RouteUpdatePlatformMargin = Some [AdminRoleSuperAdmin, AdminRoleFinance]"
| "group_roles RouteListHolidays = Some [AdminRoleSuperAdmin, AdminRoleFinance]"
| "group_roles RouteCreateHoliday = Some [AdminRoleSuperAdmin, AdminRoleFinance]"
| "group_roles RouteUpdateHoliday = Some [AdminRoleSuperAdmin, AdminRoleFinance]"
| "group_roles _ = None"

fun route_roles :: "admin_route \<Rightarrow> admin_role list option" where
  "route_roles RouteCreateMerchant = Some [AdminRoleSuperAdmin, AdminRoleOps]"
| "route_roles RouteApproveMerchant = Some [AdminRoleSuperAdmin, AdminRoleOps]"
| "route_roles RouteSuspendMerchant = Some [AdminRoleSuperAdmin, AdminRoleOps]"
| "route_roles RouteDeactivateMerchant = Some [AdminRoleSuperAdmin, AdminRoleOps]"
| "route_roles RouteSetMerchantFee = Some [AdminRoleSuperAdmin, AdminRoleFinance]"
| "route_roles RouteUpdateCashoutLimit = Some [AdminRoleSuperAdmin, AdminRoleFinance]"
| "route_roles RouteRegenerateAPIKey = Some [AdminRoleSuperAdmin, AdminRoleOps]"
| "route_roles RouteDeleteMerchant = Some [AdminRoleSuperAdmin]"
| "route_roles RouteVerifyBankAccount = Some [AdminRoleSuperAdmin, AdminRoleOps]"
| "route_roles RouteUpdateFeeDefault = Some [AdminRoleSuperAdmin, AdminRoleFinance]"
| "route_roles RouteUpdatePlatformMargin = Some [AdminRoleSuperAdmin]"
| "route_roles RouteCreateHoliday = Some [AdminRoleSuperAdmin, AdminRoleFinance]"
| "route_roles RouteUpdateHoliday = Some [AdminRoleSuperAdmin, AdminRoleFinance]"
| "route_roles _ = None"

definition guard_roles :: "admin_role list option \<Rightarrow> string option \<Rightarrow> unit res" where
  "guard_roles roles role = (case roles of None \<Rightarrow> Inr () | Some rs \<Rightarrow> RequireRole rs role)"

text \<open>The middleware chain in front of a handler: the context it runs with, empty on the public routes.\<close>

definition admin_gate :: "jwt_env \<Rightarrow> string \<Rightarrow> time \<Rightarrow> string \<Rightarrow> admin_route \<Rightarrow> (string \<times> string) option res" where
  "admin_gate env secret t raw route =
     (if admin_public route then Inr None
      else
        (case AdminJWTAuth env secret t raw of
           Inl e \<Rightarrow> Inl e
         | Inr (i, role) \<Rightarrow>
             (case guard_roles (group_roles route) (Some role) of
                Inl e \<Rightarrow> Inl e
              | Inr _ \<Rightarrow>
                  (case guard_roles (route_roles route) (Some role) of
                     Inl e \<Rightarrow> Inl e
                   | Inr _ \<Rightarrow> Inr (Some (i, role))))))"

text \<open>The roles a route admits, all when neither its group nor the route itself names any.\<close>

definition admits :: "admin_route \<Rightarrow> string \<Rightarrow> bool" where
  "admits route role \<longleftrightarrow>
     (\<forall>rs. group_roles route = Some rs \<longrightarrow> role \<in> admin_role_str ` set rs)
     \<and> (\<forall>rs. route_roles route = Some rs \<longrightarrow> role \<in> admin_role_str ` set rs)"

lemma guard_roles_eq:
  "guard_roles rs (Some role) =
     (if \<forall>l. rs = Some l \<longrightarrow> role \<in> admin_role_str ` set l then Inr () else Inl (Forbidden ''insufficient role''))"
  by (auto simp: guard_roles_def RequireRole_def list_ex_iff split: option.splits)

lemma admin_gate_iff:
  "\<not> admin_public route \<Longrightarrow>
   admin_gate env secret t raw route = Inr (Some (i, role)) \<longleftrightarrow> AdminJWTAuth env secret t raw = Inr (i, role) \<and> admits route role"
  by (cases "AdminJWTAuth env secret t raw") (auto simp: admin_gate_def admits_def guard_roles_eq split: if_splits)

definition is_token_of :: "jwt_env \<Rightarrow> string \<Rightarrow> string \<Rightarrow> claims \<Rightarrow> bool" where
  "is_token_of env secret token c \<longleftrightarrow>
     (\<exists>h p raw. token = h @ ''.'' @ p @ ''.'' @ base64url (jw_hmac env secret (h @ ''.'' @ p))
        \<and> DecodeString p = Some raw \<and> jw_unmarshal env raw = Some c)"

lemma cut_dot_Some: "cut_dot s = Some (a, r) \<Longrightarrow> s = a @ ''.'' @ r"
proof -
  assume c: "cut_dot s = Some (a, r)"
  then have dot: "CHR ''.'' \<in> set s" and ar: "a = takeWhile (\<lambda>c. c \<noteq> CHR ''.'') s" "r = tl (dropWhile (\<lambda>c. c \<noteq> CHR ''.'') s)"
    by (auto simp: cut_dot_def split: if_splits)
  from dot have ne: "dropWhile (\<lambda>c. c \<noteq> CHR ''.'') s \<noteq> []" by (simp add: dropWhile_eq_Nil_conv)
  from hd_dropWhile [OF ne] have "hd (dropWhile (\<lambda>c. c \<noteq> CHR ''.'') s) = CHR ''.''" by simp
  with ne have "dropWhile (\<lambda>c. c \<noteq> CHR ''.'') s = CHR ''.'' # r" unfolding ar by (metis list.collapse)
  then have "takeWhile (\<lambda>c. c \<noteq> CHR ''.'') s @ CHR ''.'' # r = s" by (metis takeWhile_dropWhile_id)
  with ar(1) show ?thesis by simp
qed

lemma jwt_Verify_sound: "jwt_Verify env t secret token = Inr c \<Longrightarrow> is_token_of env secret token c \<and> unix t \<le> cl_Exp c"
proof -
  assume v: "jwt_Verify env t secret token = Inr c"
  then obtain h p raw where "split_token token = Some (h, p, base64url (jw_hmac env secret (h @ ''.'' @ p)))"
    "DecodeString p = Some raw" "jw_unmarshal env raw = Some c" "unix t \<le> cl_Exp c"
    by (auto simp: jwt_Verify_def jwt_sign_def split: option.splits if_splits)
  moreover from this(1) have "token = h @ ''.'' @ p @ ''.'' @ base64url (jw_hmac env secret (h @ ''.'' @ p))"
    by (auto simp: split_token_def split: option.splits dest!: cut_dot_Some)
  ultimately show ?thesis unfolding is_token_of_def by blast
qed

lemma AdminJWTAuth_sound:
  assumes "AdminJWTAuth env secret t raw = Inr (i, role)"
  shows "\<exists>token c. raw = ''Bearer '' @ token \<and> is_token_of env secret token c \<and> unix t \<le> cl_Exp c
     \<and> cl_Type c = TokenTypeAccess \<and> i = cl_Sub c \<and> role = cl_Role c"
proof -
  from assms obtain token c where t: "cut_prefix ''Bearer '' raw = Some token" "jwt_Verify env t secret token = Inr c"
    "cl_Type c = TokenTypeAccess" "i = cl_Sub c" "role = cl_Role c"
    by (auto simp: AdminJWTAuth_def split: option.splits if_splits sum.splits)
  moreover from t(1) have "raw = ''Bearer '' @ token"
    unfolding cut_prefix_def by (metis append_take_drop_id option.distinct(1) option.inject)
  ultimately show ?thesis using jwt_Verify_sound by blast
qed

text \<open>C35: a handler behind the admin middleware runs only for a request whose bearer token carries the HMAC of its content
  under the server's secret, is an access token that has not expired, and names a role that every role list of the route
  admits; the admin id and role the handler sees are those of the token.\<close>

theorem admin_gate_sound:
  assumes "\<not> admin_public route" and "admin_gate env secret t raw route = Inr (Some (i, role))"
  shows "\<exists>token c. raw = ''Bearer '' @ token \<and> is_token_of env secret token c \<and> unix t \<le> cl_Exp c
     \<and> cl_Type c = TokenTypeAccess \<and> i = cl_Sub c \<and> role = cl_Role c \<and> admits route role"
  using assms admin_gate_iff AdminJWTAuth_sound by metis

lemma jwt_Generate_nonempty: "jwt_Generate env t secret c \<noteq> ''''"
  by (simp add: jwt_Generate_def Let_def)

text \<open>C36: a token round-trips: verifying what \<open>Generate\<close> signed gives back its claims until they expire; sent as a bearer
  token it opens exactly the routes that admit its role when it is an access token, and none when it is a refresh token.\<close>

theorem jwt_roundtrip:
  assumes "jw_unmarshal env (jw_marshal env (c\<lparr>cl_Iat := unix t\<rparr>)) = Some (c\<lparr>cl_Iat := unix t\<rparr>)"
  shows "(jwt_Verify env t' secret (jwt_Generate env t secret c) = Inr (c\<lparr>cl_Iat := unix t\<rparr>)) = (unix t' \<le> cl_Exp c)
    \<and> (admin_public route
       \<or> (admin_gate env secret t' (''Bearer '' @ jwt_Generate env t secret c) route = Inr (Some (cl_Sub c, cl_Role c)))
          = (cl_Type c = TokenTypeAccess \<and> unix t' \<le> cl_Exp c \<and> admits route (cl_Role c)))"
  using jwt_Generate_nonempty [of env t secret c]
  by (auto simp: jwt_Verify_Generate_iff [OF assms] admin_gate_iff AdminJWTAuth_def cut_prefix_def split: if_splits)

text \<open>A codec and a MAC on which the hypotheses hold.\<close>

definition sample_claims :: claims where
  "sample_claims = \<lparr>cl_Sub = ''A1'', cl_Email = ''a@b.id'', cl_Role = ''finance'', cl_Type = ''access'', cl_Exp = 3600, cl_Iat = 0\<rparr>"

definition sample_jwt_env :: jwt_env where
  "sample_jwt_env =
     \<lparr>jw_hmac = (\<lambda>k d. k @ d), jw_marshal = (\<lambda>c. cl_Role c),
      jw_unmarshal = (\<lambda>s. if s = ''finance'' then Some sample_claims else None)\<rparr>"

theorem jwt_roundtrip_witness:
  "admin_gate sample_jwt_env ''secret'' (5 * second) (''Bearer '' @ jwt_Generate sample_jwt_env 0 ''secret'' sample_claims)
     RouteUpdateFeeDefault = Inr (Some (''A1'', ''finance''))
   \<and> admin_gate sample_jwt_env ''secret'' (5 * second) (''Bearer '' @ jwt_Generate sample_jwt_env 0 ''secret'' sample_claims)
     RouteCreateAdmin \<noteq> Inr (Some (''A1'', ''finance''))"
proof -
  have c: "sample_claims\<lparr>cl_Iat := unix 0\<rparr> = sample_claims" by (simp add: sample_claims_def unix_def)
  have h: "jw_unmarshal sample_jwt_env (jw_marshal sample_jwt_env (sample_claims\<lparr>cl_Iat := unix 0\<rparr>)) = Some (sample_claims\<lparr>cl_Iat := unix 0\<rparr>)"
    unfolding c by (simp add: sample_jwt_env_def sample_claims_def)
  have s: "cl_Type sample_claims = TokenTypeAccess" "unix (5 * second) \<le> cl_Exp sample_claims"
    "cl_Role sample_claims = ''finance''" "cl_Sub sample_claims = ''A1''"
    by (simp_all add: sample_claims_def TokenTypeAccess_def unix_def second_def)
  show ?thesis
    using jwt_roundtrip [OF h, of "5 * second" "''secret''" RouteUpdateFeeDefault]
      jwt_roundtrip [OF h, of "5 * second" "''secret''" RouteCreateAdmin] s
    by (simp add: admits_def admin_public_def)
qed

theorem admin_gate_sound_witness:
  "\<exists>token c. ''Bearer '' @ jwt_Generate sample_jwt_env 0 ''secret'' sample_claims = ''Bearer '' @ token
     \<and> is_token_of sample_jwt_env ''secret'' token c \<and> unix (5 * second) \<le> cl_Exp c
     \<and> cl_Type c = TokenTypeAccess \<and> ''A1'' = cl_Sub c \<and> ''finance'' = cl_Role c \<and> admits RouteUpdateFeeDefault ''finance''"
proof (rule admin_gate_sound)
  show "\<not> admin_public RouteUpdateFeeDefault" by (simp add: admin_public_def)
  have c: "sample_claims\<lparr>cl_Iat := unix 0\<rparr> = sample_claims" by (simp add: sample_claims_def unix_def)
  have h: "jw_unmarshal sample_jwt_env (jw_marshal sample_jwt_env (sample_claims\<lparr>cl_Iat := unix 0\<rparr>)) = Some (sample_claims\<lparr>cl_Iat := unix 0\<rparr>)"
    unfolding c by (simp add: sample_jwt_env_def sample_claims_def)
  show "admin_gate sample_jwt_env ''secret'' (5 * second) (''Bearer '' @ jwt_Generate sample_jwt_env 0 ''secret'' sample_claims)
      RouteUpdateFeeDefault = Inr (Some (''A1'', ''finance''))"
    by (simp add: admin_gate_iff admin_public_def AdminJWTAuth_def cut_prefix_def jwt_Generate_nonempty jwt_Verify_Generate_iff [OF h])
      (simp add: sample_claims_def TokenTypeAccess_def unix_def second_def admits_def)
qed

end
