(* ===== verification/Admins.thy ===== *)
theory Admins
  imports Tokens Cashin Disbursements
begin

text \<open>
  Administration: the admin and provider-balance repositories
  (internal/infrastructure/database/postgres/admin_repo.go, provider_balance_repo.go) and the
  admin usecase (internal/usecase/impl/admin.go). bcrypt is a parameter.
\<close>

section \<open>The admin repository\<close>

definition admin_Save :: "admin \<Rightarrow> (world, admin) action" where
  "admin_Save a =
     bind (wrap ''insert admin''
       (exec (\<lambda>w.
          let row = a\<lparr>ad_ID := fresh_uuid w, ad_IsActive := True, ad_LastLoginAt := None,
                      ad_CreatedAt := w_now w, ad_UpdatedAt := w_now w\<rparr>
          in map_sum id (Pair row) (insert_admin row (w_db w))))) (\<lambda>row.
     ret (a\<lparr>ad_ID := ad_ID row, ad_IsActive := ad_IsActive row, ad_CreatedAt := ad_CreatedAt row, ad_UpdatedAt := ad_UpdatedAt row\<rparr>))"

definition admin_FindByID :: "string \<Rightarrow> (world, admin) action" where
  "admin_FindByID i =
     bind (wrap ''get admin by id'' (query (\<lambda>w. Inr (find (\<lambda>a. ad_ID a = i) (db_admins (w_db w)))))) (\<lambda>r.
     case r of
       None \<Rightarrow> throw (NotFound (''admin '' @ i @ '' not found''))
     | Some a \<Rightarrow> ret a)"

definition admin_FindByEmail :: "string \<Rightarrow> (world, admin) action" where
  "admin_FindByEmail email =
     bind (wrap ''get admin by email'' (query (\<lambda>w. Inr (find (\<lambda>a. ad_Email a = email) (db_admins (w_db w)))))) (\<lambda>r.
     case r of
       None \<Rightarrow> throw (NotFound ''admin not found'')
     | Some a \<Rightarrow> ret a)"

definition update_admins :: "string \<Rightarrow> (world \<Rightarrow> admin \<Rightarrow> admin) \<Rightarrow> world \<Rightarrow> database" where
  "update_admins i f w = (w_db w)\<lparr>db_admins := update_where (\<lambda>a. ad_ID a = i) (f w) (db_admins (w_db w))\<rparr>"

definition admin_UpdateLastLogin :: "string \<Rightarrow> (world, unit) action" where
  "admin_UpdateLastLogin i =
     wrap ''update admin last_login_at''
       (exec (\<lambda>w. Inr ((), update_admins i (\<lambda>w a. a\<lparr>ad_LastLoginAt := Some (w_now w), ad_UpdatedAt := w_now w\<rparr>) w)))"

definition admin_Update :: "admin \<Rightarrow> (world, admin) action" where
  "admin_Update a =
     bind (wrap ''update admin''
       (exec (\<lambda>w. map_sum id (\<lambda>rows. (find (\<lambda>r. ad_ID r = ad_ID a) rows, (w_db w)\<lparr>db_admins := rows\<rparr>))
          (checked_update admin_row_ok (\<lambda>_ _. False) (\<lambda>r. ad_ID r = ad_ID a)
             (\<lambda>r. r\<lparr>ad_Role := ad_Role a, ad_IsActive := ad_IsActive a, ad_UpdatedAt := w_now w\<rparr>) (db_admins (w_db w)))))) (\<lambda>r.
     case r of
       None \<Rightarrow> throw (NotFound (''admin '' @ ad_ID a @ '' not found''))
     | Some row \<Rightarrow> ret (a\<lparr>ad_UpdatedAt := ad_UpdatedAt row\<rparr>))"

definition admin_UpdatePassword :: "string \<Rightarrow> string \<Rightarrow> (world, unit) action" where
  "admin_UpdatePassword i hash =
     wrap ''update admin password''
       (exec (\<lambda>w. Inr ((), update_admins i (\<lambda>w a. a\<lparr>ad_PasswordHash := hash, ad_UpdatedAt := w_now w\<rparr>) w)))"

definition admin_List :: "int \<Rightarrow> int \<Rightarrow> (world, admin list \<times> int64) action" where
  "admin_List page limit =
     (case normalizePage page limit of (page, limit) \<Rightarrow>
       bind (wrap ''count admins'' (query (\<lambda>w. Inr (int (length (db_admins (w_db w))))))) (\<lambda>total.
       if total = 0 then ret ([], 0)
       else
         bind (wrap ''list admins'' (query (\<lambda>w. sql_page page limit (order_desc ad_CreatedAt (db_admins (w_db w)))))) (\<lambda>rows.
         ret (rows, total))))"

section \<open>The provider-balance repository\<close>

definition provider_balance_Upsert :: "provider_balance \<Rightarrow> (world, provider_balance) action" where
  "provider_balance_Upsert b =
     bind (wrap ''upsert provider balance''
       (exec (\<lambda>w.
          if \<not> provider_balance_row_ok b then Inl ''violates check constraint''
          else
            let rows = db_provider_balances (w_db w) in
            case find (\<lambda>r. pb_Provider r = pb_Provider b) rows of
              None \<Rightarrow>
                (let row = b\<lparr>pb_ID := fresh_uuid w, pb_CreatedAt := w_now w, pb_UpdatedAt := w_now w\<rparr>
                 in Inr (row, (w_db w)\<lparr>db_provider_balances := rows @ [row]\<rparr>))
            | Some r \<Rightarrow>
                (let f = (\<lambda>r. r\<lparr>pb_BalanceIDR := pb_BalanceIDR b, pb_LastReconciledAt := pb_LastReconciledAt b,
                              pb_Note := pb_Note b, pb_UpdatedAt := w_now w\<rparr>)
                 in Inr (f r, (w_db w)\<lparr>db_provider_balances := update_where (\<lambda>r. pb_Provider r = pb_Provider b) f rows\<rparr>))))) (\<lambda>row.
     ret (b\<lparr>pb_ID := pb_ID row, pb_CreatedAt := pb_CreatedAt row, pb_UpdatedAt := pb_UpdatedAt row\<rparr>))"

definition provider_balance_FindByProvider :: "provider \<Rightarrow> (world, provider_balance) action" where
  "provider_balance_FindByProvider provider =
     bind (wrap ''get provider balance''
            (query (\<lambda>w. Inr (find (\<lambda>b. pb_Provider b = provider) (db_provider_balances (w_db w)))))) (\<lambda>r.
     case r of
       None \<Rightarrow> throw (NotFound (''provider balance for '' @ provider_str provider @ '' not found''))
     | Some b \<Rightarrow> ret b)"

definition provider_balance_ListAll :: "(world, provider_balance list) action" where
  "provider_balance_ListAll =
     wrap ''list provider balances'' (query (\<lambda>w. Inr (sort_key pb_Provider (db_provider_balances (w_db w)))))"

section \<open>Usecase: sessions\<close>

record admin_config =
  ac_JWTSecret :: string
  ac_AccessTokenTTLHours :: int
  ac_RefreshTokenTTLHours :: int

text \<open>bcrypt: the hash of a password, salted from the world's randomness or refused, and the comparison.\<close>

record admin_env =
  ae_jwt :: jwt_env
  ae_Generate :: "world \<Rightarrow> string \<Rightarrow> string res"
  ae_Compare :: "string \<Rightarrow> string \<Rightarrow> bool"
  ae_cfg :: admin_config

record admin_token_output =
  at_AccessToken :: string
  at_RefreshToken :: string
  at_ExpiresAt :: time

definition hours :: "int \<Rightarrow> int64" where
  "hours n = wrap64 (n * 3600 * second)"

definition session_claims :: "admin \<Rightarrow> string \<Rightarrow> time \<Rightarrow> claims" where
  "session_claims admin ty expiry =
     \<lparr>cl_Sub = ad_ID admin, cl_Email = ad_Email admin, cl_Role = admin_role_str (ad_Role admin), cl_Type = ty,
      cl_Exp = unix expiry, cl_Iat = 0\<rparr>"

definition issueTokens :: "admin_env \<Rightarrow> admin \<Rightarrow> (world, admin_token_output) action" where
  "issueTokens env admin =
     bind now (\<lambda>t.
     let accessExp = t + hours (ac_AccessTokenTTLHours (ae_cfg env));
         refreshExp = t + hours (ac_RefreshTokenTTLHours (ae_cfg env));
         sign = jwt_Generate (ae_jwt env) t (ac_JWTSecret (ae_cfg env))
     in ret \<lparr>at_AccessToken = sign (session_claims admin TokenTypeAccess accessExp),
             at_RefreshToken = sign (session_claims admin TokenTypeRefresh refreshExp), at_ExpiresAt = accessExp\<rparr>)"

definition admin_Login :: "admin_env \<Rightarrow> string \<Rightarrow> string \<Rightarrow> (world, admin_token_output) action" where
  "admin_Login env email password =
     bind (attempt (admin_FindByEmail email)) (\<lambda>r.
     case r of
       Inl _ \<Rightarrow> throw (Unauthorized ''invalid credentials'')
     | Inr admin \<Rightarrow>
         if \<not> ad_IsActive admin then throw (Unauthorized ''invalid credentials'')
         else if \<not> ae_Compare env (ad_PasswordHash admin) password then throw (Unauthorized ''invalid credentials'')
         else
           bind (attempt (admin_UpdateLastLogin (ad_ID admin))) (\<lambda>_.
           issueTokens env admin))"

definition admin_RefreshToken :: "admin_env \<Rightarrow> string \<Rightarrow> (world, admin_token_output) action" where
  "admin_RefreshToken env token =
     bind now (\<lambda>t.
     case jwt_Verify (ae_jwt env) t (ac_JWTSecret (ae_cfg env)) token of
       Inl _ \<Rightarrow> throw (Unauthorized ''invalid refresh token'')
     | Inr claims \<Rightarrow>
         if cl_Type claims \<noteq> TokenTypeRefresh then throw (Unauthorized ''not a refresh token'')
         else
           bind (attempt (admin_FindByID (cl_Sub claims))) (\<lambda>r.
           case r of
             Inl _ \<Rightarrow> throw (Unauthorized ''admin no longer exists'')
           | Inr admin \<Rightarrow>
               if \<not> ad_IsActive admin then throw (Unauthorized ''account is deactivated'')
               else issueTokens env admin))"

section \<open>Usecase: merchants\<close>

definition normalizePagination :: "int \<Rightarrow> int \<Rightarrow> int \<times> int" where
  "normalizePagination page limit =
     (let page = (if page < 1 then 1 else page);
          limit = (if limit < 1 then 20 else limit);
          limit = (if limit > 100 then 100 else limit)
      in (page, limit))"

definition admin_CreateMerchant :: "(string \<Rightarrow> string) \<Rightarrow> create_merchant_input \<Rightarrow> (world, create_merchant_output) action" where
  "admin_CreateMerchant sha input = merchant_Create sha input"

record merchant_list_output =
  mx_Items :: "merchant_output list"
  mx_Total :: int64
  mx_Page :: int
  mx_Limit :: int

definition admin_ListMerchants :: "list_merchant_filter \<Rightarrow> (world, merchant_list_output) action" where
  "admin_ListMerchants f =
     bind (wrap ''list merchants'' (merchant_List f)) (\<lambda>(merchants, total).
     case normalizePagination (lf_Page f) (lf_Limit f) of (page, limit) \<Rightarrow>
       ret \<lparr>mx_Items = map (\<lambda>m. toMerchantOutput m 0) merchants, mx_Total = total, mx_Page = page, mx_Limit = limit\<rparr>)"

definition admin_GetMerchant :: "string \<Rightarrow> (world, merchant_output) action" where
  "admin_GetMerchant i = merchant_Get i"

definition admin_ApproveMerchant :: "string \<Rightarrow> (world, unit) action" where
  "admin_ApproveMerchant i = merchant_Activate i"

definition admin_SuspendMerchant :: "string \<Rightarrow> (world, unit) action" where
  "admin_SuspendMerchant i = merchant_Suspend i"

definition admin_DeactivateMerchant :: "string \<Rightarrow> (world, unit) action" where
  "admin_DeactivateMerchant i =
     bind (merchant_FindByID i) (\<lambda>m.
     bind (merchant_Update (m\<lparr>m_Status := MerchantStatusInactive\<rparr>)) (\<lambda>_. ret ()))"

definition admin_DeleteMerchant :: "string \<Rightarrow> (world, unit) action" where
  "admin_DeleteMerchant i = merchant_SoftDelete i"

definition fee_map :: "method_fee \<Rightarrow> method_fee \<Rightarrow> method_fee \<Rightarrow> any_map" where
  "fee_map va qris disb = [(''va'', AnyFee va), (''qris'', AnyFee qris), (''disbursement'', AnyFee disb)]"

definition fee_log :: "string \<Rightarrow> string \<Rightarrow> string \<Rightarrow> string \<Rightarrow> any_map option \<Rightarrow> any_map \<Rightarrow> string \<Rightarrow> fee_audit_log" where
  "fee_log ty i adminID email old new reason =
     \<lparr>fl_ID = '''', fl_EntityType = ty, fl_EntityID = i, fl_AdminID = adminID, fl_AdminEmail = email,
      fl_OldValue = old, fl_NewValue = new, fl_Reason = reason, fl_CreatedAt = zero_time\<rparr>"

record set_merchant_fee_input =
  sm_MerchantID :: string
  sm_AdminID :: string
  sm_FeeConfig :: fee_config
  sm_Reason :: string

definition admin_UpdateMerchantFee :: "set_merchant_fee_input \<Rightarrow> (world, unit) action" where
  "admin_UpdateMerchantFee input =
     bind (admin_FindByID (sm_AdminID input)) (\<lambda>admin.
     bind (merchant_FindByID (sm_MerchantID input)) (\<lambda>m.
     let old = fee_map (fc_VA (m_FeeConfig m)) (fc_QRIS (m_FeeConfig m)) (fc_Disbursement (m_FeeConfig m));
         fee = sm_FeeConfig input
     in bind (wrap ''update merchant fee'' (merchant_Update (m\<lparr>m_FeeConfig := fee\<rparr>))) (\<lambda>_.
        fee_WriteAuditLog (fee_log ''merchant_fee'' (sm_MerchantID input) (sm_AdminID input) (ad_Email admin) (Some old)
          (fee_map (fc_VA fee) (fc_QRIS fee) (fc_Disbursement fee)) (sm_Reason input)))))"

definition admin_UpdateDailyCashoutLimit :: "string \<Rightarrow> int64 \<Rightarrow> (world, unit) action" where
  "admin_UpdateDailyCashoutLimit i limitIDR =
     bind (merchant_FindByID i) (\<lambda>m.
     bind (wrap ''update daily cashout limit'' (merchant_Update (m\<lparr>m_DailyCashoutLimit := limitIDR\<rparr>))) (\<lambda>_. ret ()))"

definition admin_RegenerateMerchantAPIKey :: "(string \<Rightarrow> string) \<Rightarrow> string \<Rightarrow> (world, string) action" where
  "admin_RegenerateMerchantAPIKey sha i = merchant_RegenerateAPIKey sha i"

definition admin_VerifyBankAccount :: "string \<Rightarrow> string \<Rightarrow> (world, unit) action" where
  "admin_VerifyBankAccount merchantID accountID =
     bind (FindBankAccountByID accountID) (\<lambda>a.
     if ba_MerchantID a \<noteq> merchantID then throw (NotFound ''bank account not found'')
     else bind (UpdateBankAccount (a\<lparr>ba_IsVerified := True\<rparr>)) (\<lambda>_. ret ()))"

definition admin_ListMerchantBankAccounts :: "string \<Rightarrow> (world, bank_account_output list) action" where
  "admin_ListMerchantBankAccounts i = ListBankAccounts i"

section \<open>Usecase: visibility\<close>

record admin_filter =
  af_MerchantID :: string
  af_Status :: string
  af_Provider :: string
  af_Type :: string
  af_Start :: string
  af_End :: string
  af_Page :: int
  af_Limit :: int

definition admin_ListAllPayments :: "admin_filter \<Rightarrow> (world, payment_list_output) action" where
  "admin_ListAllPayments f =
     bind (wrap ''list payments'' (payment_List
        \<lparr>lp_MerchantID = af_MerchantID f, lp_Status = nonempty payment_status_of (af_Status f), lp_Method = None,
         lp_Provider = nonempty provider_of (af_Provider f), lp_StartDate = optional_time (af_Start f),
         lp_EndDate = optional_time (af_End f), lp_Page = af_Page f, lp_Limit = af_Limit f\<rparr>)) (\<lambda>(payments, total).
     case normalizePagination (af_Page f) (af_Limit f) of (page, limit) \<Rightarrow>
       ret \<lparr>pl_Items = map toPaymentOutput payments, pl_Total = total, pl_Page = page, pl_Limit = limit\<rparr>)"

definition admin_GetPayment :: "string \<Rightarrow> (world, payment_output) action" where
  "admin_GetPayment i = bind (payment_FindByID i) (\<lambda>p. ret (toPaymentOutput p))"

definition admin_ListAllDisbursements :: "admin_filter \<Rightarrow> (world, disbursement_list_output) action" where
  "admin_ListAllDisbursements f =
     bind (wrap ''list disbursements'' (disbursement_List
        \<lparr>ld_MerchantID = af_MerchantID f, ld_Status = nonempty disbursement_status_of (af_Status f),
         ld_Provider = nonempty provider_of (af_Provider f), ld_StartDate = optional_time (af_Start f),
         ld_EndDate = optional_time (af_End f), ld_Page = af_Page f, ld_Limit = af_Limit f\<rparr>)) (\<lambda>(disbursements, total).
     case normalizePagination (af_Page f) (af_Limit f) of (page, limit) \<Rightarrow>
       ret \<lparr>dl_Items = map toDisbursementOutput disbursements, dl_Total = total, dl_Page = page, dl_Limit = limit\<rparr>)"

definition admin_GetDisbursement :: "string \<Rightarrow> (world, disbursement_output) action" where
  "admin_GetDisbursement i = bind (disbursement_FindByID i) (\<lambda>d. ret (toDisbursementOutput d))"

definition admin_ListAllMutations :: "admin_filter \<Rightarrow> (world, mutation_list_output) action" where
  "admin_ListAllMutations f =
     bind (wrap ''list mutations'' (mutation_List
        \<lparr>lm_MerchantID = af_MerchantID f, lm_Type = nonempty mutation_type_of (af_Type f),
         lm_StartDate = optional_time (af_Start f), lm_EndDate = optional_time (af_End f),
         lm_Page = af_Page f, lm_Limit = af_Limit f\<rparr>)) (\<lambda>(mutations, total).
     case normalizePagination (af_Page f) (af_Limit f) of (page, limit) \<Rightarrow>
       ret \<lparr>ml_Items = map toMutationOutput mutations, ml_Total = total, ml_Page = page, ml_Limit = limit\<rparr>)"

definition admin_GetProviderBalances :: "(world, provider_balance list) action" where
  "admin_GetProviderBalances = provider_balance_ListAll"

definition admin_UpdateProviderBalance :: "provider \<Rightarrow> int64 \<Rightarrow> (world, unit) action" where
  "admin_UpdateProviderBalance provider balanceIDR =
     bind (provider_balance_Upsert
       \<lparr>pb_ID = '''', pb_Provider = provider, pb_BalanceIDR = balanceIDR, pb_LastReconciledAt = None, pb_Note = '''',
        pb_CreatedAt = zero_time, pb_UpdatedAt = zero_time\<rparr>) (\<lambda>_. ret ())"

section \<open>Usecase: admins\<close>

record admin_output =
  ao_ID :: string
  ao_Email :: string
  ao_Role :: admin_role
  ao_IsActive :: bool
  ao_LastLoginAt :: "time option"
  ao_CreatedAt :: time

definition toAdminOutput :: "admin \<Rightarrow> admin_output" where
  "toAdminOutput a =
     \<lparr>ao_ID = ad_ID a, ao_Email = ad_Email a, ao_Role = ad_Role a, ao_IsActive = ad_IsActive a,
      ao_LastLoginAt = ad_LastLoginAt a, ao_CreatedAt = ad_CreatedAt a\<rparr>"

definition bcrypt_hash :: "admin_env \<Rightarrow> string \<Rightarrow> (world, string) action" where
  "bcrypt_hash env password = (\<lambda>w. (ae_Generate env w password, w))"

definition admin_CreateAdmin :: "admin_env \<Rightarrow> string \<Rightarrow> string \<Rightarrow> admin_role \<Rightarrow> (world, admin_output) action" where
  "admin_CreateAdmin env email password role =
     bind (wrap ''hash password'' (bcrypt_hash env password)) (\<lambda>hash.
     bind (wrap ''create admin'' (admin_Save
       \<lparr>ad_ID = '''', ad_Email = email, ad_PasswordHash = hash, ad_Role = role, ad_IsActive = True,
        ad_LastLoginAt = None, ad_CreatedAt = zero_time, ad_UpdatedAt = zero_time\<rparr>)) (\<lambda>a.
     ret (toAdminOutput a)))"

definition admin_ListAdmins :: "int \<Rightarrow> int \<Rightarrow> (world, admin_output list \<times> int64) action" where
  "admin_ListAdmins page limit =
     bind (wrap ''list admins'' (admin_List page limit)) (\<lambda>(admins, total). ret (map toAdminOutput admins, total))"

definition admin_DeactivateAdmin :: "string \<Rightarrow> string \<Rightarrow> (world, unit) action" where
  "admin_DeactivateAdmin callerID adminID =
     (if callerID = adminID then throw (BadRequest ''cannot deactivate your own account'')
      else
        bind (admin_FindByID adminID) (\<lambda>a.
        bind (admin_Update (a\<lparr>ad_IsActive := False\<rparr>)) (\<lambda>_. ret ())))"

definition admin_GetMe :: "string \<Rightarrow> (world, admin_output) action" where
  "admin_GetMe adminID = bind (admin_FindByID adminID) (\<lambda>a. ret (toAdminOutput a))"

definition admin_ChangePassword :: "admin_env \<Rightarrow> string \<Rightarrow> string \<Rightarrow> string \<Rightarrow> (world, unit) action" where
  "admin_ChangePassword env adminID oldPassword newPassword =
     bind (admin_FindByID adminID) (\<lambda>a.
     if \<not> ae_Compare env (ad_PasswordHash a) oldPassword then throw (Unauthorized ''incorrect current password'')
     else
       bind (wrap ''hash new password'' (bcrypt_hash env newPassword)) (\<lambda>hash.
       admin_UpdatePassword adminID hash))"

section \<open>Usecase: fees\<close>

definition admin_GetFeeDefault :: "(world, fee_default) action" where
  "admin_GetFeeDefault = fee_GetDefault"

definition admin_UpdateFeeDefault :: "string \<Rightarrow> string \<Rightarrow> fee_config \<Rightarrow> (world, unit) action" where
  "admin_UpdateFeeDefault adminID reason fee =
     bind (admin_FindByID adminID) (\<lambda>admin.
     bind fee_GetDefault (\<lambda>f.
     let old = fee_map (fd_VA f) (fd_QRIS f) (fd_Disbursement f) in
     bind (fee_UpdateDefault (f\<lparr>fd_VA := fc_VA fee, fd_QRIS := fc_QRIS fee, fd_Disbursement := fc_Disbursement fee,
                                fd_UpdatedBy := adminID\<rparr>)) (\<lambda>_.
     fee_WriteAuditLog (fee_log ''global_default'' ''singleton'' adminID (ad_Email admin) (Some old)
       (fee_map (fc_VA fee) (fc_QRIS fee) (fc_Disbursement fee)) reason))))"

definition admin_GetPlatformMargin :: "(world, platform_margin) action" where
  "admin_GetPlatformMargin = fee_GetMargin"

definition admin_UpdatePlatformMargin :: "string \<Rightarrow> string \<Rightarrow> bool \<Rightarrow> fee_config \<Rightarrow> (world, unit) action" where
  "admin_UpdatePlatformMargin adminID reason enabled margin =
     bind (admin_FindByID adminID) (\<lambda>admin.
     bind fee_GetMargin (\<lambda>m.
     let old = (''enabled'', AnyBool (pm_Enabled m)) # fee_map (pm_VA m) (pm_QRIS m) (pm_Disbursement m) in
     bind (fee_UpdateMargin (m\<lparr>pm_Enabled := enabled, pm_VA := fc_VA margin, pm_QRIS := fc_QRIS margin,
                               pm_Disbursement := fc_Disbursement margin, pm_UpdatedBy := adminID\<rparr>)) (\<lambda>_.
     fee_WriteAuditLog (fee_log ''platform_margin'' ''singleton'' adminID (ad_Email admin) (Some old)
       ((''enabled'', AnyBool enabled) # fee_map (fc_VA margin) (fc_QRIS margin) (fc_Disbursement margin)) reason))))"

definition admin_CreateHoliday :: "string \<Rightarrow> fee_holiday \<Rightarrow> (world, fee_holiday) action" where
  "admin_CreateHoliday adminID h =
     bind (fee_CreateHoliday (h\<lparr>h_CreatedBy := adminID, h_UpdatedBy := adminID\<rparr>)) (\<lambda>h.
     bind (fee_WriteAuditLog (fee_log ''holiday_surcharge'' (h_ID h) adminID '''' None
       [(''name'', AnyString (h_Name h)), (''date'', AnyDate (h_Date h)), (''surcharge'', AnyFee (h_Surcharge h))]
       ''holiday created'')) (\<lambda>_. ret h))"

definition admin_UpdateHoliday :: "string \<Rightarrow> fee_holiday \<Rightarrow> (world, fee_holiday) action" where
  "admin_UpdateHoliday adminID h =
     bind (fee_UpdateHoliday (h\<lparr>h_UpdatedBy := adminID\<rparr>)) (\<lambda>h.
     bind (fee_WriteAuditLog (fee_log ''holiday_surcharge'' (h_ID h) adminID '''' None
       [(''name'', AnyString (h_Name h)), (''date'', AnyDate (h_Date h)), (''is_active'', AnyBool (h_IsActive h)),
        (''surcharge'', AnyFee (h_Surcharge h))]
       ''holiday updated'')) (\<lambda>_. ret h))"

definition admin_ListHolidays :: "int \<Rightarrow> int \<Rightarrow> (world, fee_holiday list \<times> int) action" where
  "admin_ListHolidays page limit = fee_ListHolidays page limit"

section \<open>Sessions\<close>

lemma wp_admin_find:
  assumes "\<And>a w'. a \<in> set (db_admins (w_db w)) \<Longrightarrow> ad_ID a = i \<Longrightarrow> w' = tick w \<Longrightarrow> Q a w'"
    and "\<And>e w'. w_db w' = w_db w \<Longrightarrow> \<not> is_panic e \<Longrightarrow> E e w'"
  shows "wp (admin_FindByID i) Q E w"
  using assms by (auto simp: admin_FindByID_def wp_simps wp_query dest!: find_Some_in split: option.splits)

lemma wp_admin_FindByEmail:
  assumes "\<And>a w'. a \<in> set (db_admins (w_db w)) \<Longrightarrow> ad_Email a = i \<Longrightarrow> w' = tick w \<Longrightarrow> Q a w'"
    and "\<And>e w'. w_db w' = w_db w \<Longrightarrow> \<not> is_panic e \<Longrightarrow> E e w'"
  shows "wp (admin_FindByEmail i) Q E w"
  using assms by (auto simp: admin_FindByEmail_def wp_simps wp_query dest!: find_Some_in split: option.splits)

text \<open>The tokens of a session that starts at \<open>t\<close>.\<close>

definition session_of :: "admin_env \<Rightarrow> admin \<Rightarrow> time \<Rightarrow> admin_token_output" where
  "session_of env admin t =
     (let accessExp = t + hours (ac_AccessTokenTTLHours (ae_cfg env));
          refreshExp = t + hours (ac_RefreshTokenTTLHours (ae_cfg env));
          sign = jwt_Generate (ae_jwt env) t (ac_JWTSecret (ae_cfg env))
      in \<lparr>at_AccessToken = sign (session_claims admin TokenTypeAccess accessExp),
          at_RefreshToken = sign (session_claims admin TokenTypeRefresh refreshExp), at_ExpiresAt = accessExp\<rparr>)"

lemma issueTokens_eq: "issueTokens env a w = (Inr (session_of env a (w_now w)), w)"
  by (simp add: issueTokens_def session_of_def bind_def now_def gets_def ret_def Let_def)

lemma wp_issueTokens: "wp (issueTokens env a) Q E w = Q (session_of env a (w_now w)) w"
  by (simp add: wp_def issueTokens_eq)

definition logged_in :: "admin_env \<Rightarrow> string \<Rightarrow> string \<Rightarrow> admin \<Rightarrow> world \<Rightarrow> database \<Rightarrow> bool" where
  "logged_in env email password a w db' \<longleftrightarrow>
     a \<in> set (db_admins (w_db w)) \<and> ad_Email a = email \<and> ad_IsActive a \<and> ae_Compare env (ad_PasswordHash a) password
     \<and> (db' = w_db w \<or> db' = update_admins (ad_ID a) (\<lambda>w a. a\<lparr>ad_LastLoginAt := Some (w_now w), ad_UpdatedAt := w_now w\<rparr>) w)"

lemma admin_Login_spec:
  "wp (admin_Login env email password)
     (\<lambda>tok w'. \<exists>a. logged_in env email password a w (w_db w') \<and> tok = session_of env a (w_now w))
     (\<lambda>e w'. e = Unauthorized ''invalid credentials'' \<and> w_db w' = w_db w) w"
  unfolding admin_Login_def wp_bind wp_attempt [of "admin_FindByEmail email"]
  apply (rule wp_admin_FindByEmail)
  subgoal for a w1
    by (auto simp: wp_simps admin_UpdateLastLogin_def wp_exec wp_issueTokens logged_in_def update_admins_def split: if_splits)
  by (simp add: wp_simps)

text \<open>Every failed login, whether the email is unknown, the account deactivated, the password wrong or the database down,
  is the same 401 error and changes nothing; a login succeeds only for an active admin whose stored hash matches the
  password, and it changes at most that admin's last login time.\<close>

theorem admin_Login_uniform:
  "wp (admin_Login env email password)
     (\<lambda>tok w'. \<exists>a. logged_in env email password a w (w_db w') \<and> tok = session_of env a (w_now w))
     (\<lambda>e w'. e = Unauthorized ''invalid credentials'' \<and> w_db w' = w_db w) w"
  by (rule admin_Login_spec)

section \<open>The fee audit log\<close>

text \<open>A change of the default fee with its log entry.\<close>

definition default_changed :: "fee_config \<Rightarrow> database \<Rightarrow> database \<Rightarrow> bool" where
  "default_changed fee db db' \<longleftrightarrow>
     (\<exists>by t. db' = db\<lparr>db_fee_defaults := map (\<lambda>r. r\<lparr>fdr_Va := JsonOk (fc_VA fee), fdr_Qris := JsonOk (fc_QRIS fee),
        fdr_Disbursement := JsonOk (fc_Disbursement fee), fdr_UpdatedBy := by, fdr_UpdatedAt := t\<rparr>) (db_fee_defaults db)\<rparr>)"

definition default_logged :: "string \<Rightarrow> string \<Rightarrow> fee_config \<Rightarrow> database \<Rightarrow> database \<Rightarrow> bool" where
  "default_logged adminID reason fee db db' \<longleftrightarrow>
     (\<exists>mid a va qris disb i t. default_changed fee db mid \<and> a \<in> set (db_admins db) \<and> ad_ID a = adminID
        \<and> default_of db = Some (va, qris, disb)
        \<and> db' = mid\<lparr>db_fee_audit_logs := db_fee_audit_logs db @
            [(fee_log ''global_default'' ''singleton'' adminID (ad_Email a) (Some (fee_map va qris disb))
               (fee_map (fc_VA fee) (fc_QRIS fee) (fc_Disbursement fee)) reason)\<lparr>fl_ID := i, fl_CreatedAt := t\<rparr>]\<rparr>)"

lemma wp_GetDefault_any:
  assumes "\<And>f w'. default_of (w_db w) = Some (fd_VA f, fd_QRIS f, fd_Disbursement f) \<Longrightarrow> w_db w' = w_db w \<Longrightarrow> Q f w'"
    and "\<And>e w'. w_db w' = w_db w \<Longrightarrow> E e w'"
  shows "wp fee_GetDefault Q E w"
  using assms
  by (auto simp: fee_GetDefault_def wp_simps wp_query first_row_def toEntityFeeDefault_def default_of_def json_val_def
      split: list.splits json_col.splits option.splits)

lemma wp_UpdateDefault:
  assumes "\<And>r w'. default_changed \<lparr>fc_VA = fd_VA f, fc_QRIS = fd_QRIS f, fc_Disbursement = fd_Disbursement f\<rparr> (w_db w) (w_db w') \<Longrightarrow> Q r w'"
    and "\<And>e w'. w_db w' = w_db w \<Longrightarrow> E e w'"
  shows "wp (fee_UpdateDefault f) Q E w"
proof -
  have none: "db_fee_defaults (w_db w) = [] \<Longrightarrow> (w_db w)\<lparr>db_fee_defaults := []\<rparr> = w_db w" by (cases "w_db w") simp
  show ?thesis
    using none
    by (auto simp: fee_UpdateDefault_def wp_simps wp_exec Let_def first_row_def default_changed_def
        intro!: assms exI split: option.splits list.splits)
qed

lemma fee_config_eta [simp]: "\<lparr>fc_VA = fc_VA fee, fc_QRIS = fc_QRIS fee, fc_Disbursement = fc_Disbursement fee\<rparr> = (fee :: fee_config)"
  by (cases fee) simp

lemma default_loggedI:
  assumes "default_changed fee db mid" "a \<in> set (db_admins db)" "ad_ID a = adminID" "default_of db = Some (va, qris, disb)"
    and "db' = mid\<lparr>db_fee_audit_logs := db_fee_audit_logs mid @
            [(fee_log ''global_default'' ''singleton'' adminID (ad_Email a) (Some (fee_map va qris disb))
               (fee_map (fc_VA fee) (fc_QRIS fee) (fc_Disbursement fee)) reason)\<lparr>fl_ID := i, fl_CreatedAt := t\<rparr>]\<rparr>"
  shows "default_logged adminID reason fee db db'"
proof -
  have "db_fee_audit_logs mid = db_fee_audit_logs db" using assms(1) by (auto simp: default_changed_def)
  then show ?thesis unfolding default_logged_def using assms by metis
qed

lemma admin_UpdateFeeDefault_spec:
  "wp (admin_UpdateFeeDefault adminID reason fee)
     (\<lambda>_ w'. default_logged adminID reason fee (w_db w) (w_db w'))
     (\<lambda>_ w'. w_db w' = w_db w \<or> default_changed fee (w_db w) (w_db w')) w"
  unfolding admin_UpdateFeeDefault_def wp_bind Let_def
  apply (rule wp_admin_find)
   apply (rule wp_GetDefault_any)
    apply (rule wp_UpdateDefault)
  subgoal for a w1 f w2 r w3
    by (auto simp: fee_WriteAuditLog_def wp_exec insert_fee_audit_log_def intro: default_loggedI split: sum.splits)
  by simp_all

text \<open>A change of the default fee that succeeds is logged with the admin, the old and the new fees and the reason, and
  nothing else changes; one that fails has changed nothing, or it has changed the fees and left no log entry, because
  the two statements run in no common transaction.\<close>

theorem admin_UpdateFeeDefault_audit:
  "wp (admin_UpdateFeeDefault adminID reason fee)
     (\<lambda>_ w'. default_logged adminID reason fee (w_db w) (w_db w'))
     (\<lambda>_ w'. w_db w' = w_db w \<or> default_changed fee (w_db w) (w_db w')) w"
  by (rule admin_UpdateFeeDefault_spec)

text \<open>The second case does happen: the audit statement fails after the update.\<close>

definition sample_admin :: admin where
  "sample_admin =
     \<lparr>ad_ID = ''A1'', ad_Email = ''ops@wanpey.id'', ad_PasswordHash = ''h'', ad_Role = AdminRoleFinance, ad_IsActive = True,
      ad_LastLoginAt = None, ad_CreatedAt = 0, ad_UpdatedAt = 0\<rparr>"

definition losing_world :: world where
  "losing_world = (quiet_world ((sample_db True)\<lparr>db_admins := [sample_admin]\<rparr>) 0)\<lparr>w_fault := \<lambda>n. n = 3\<rparr>"

lemma admin_UpdateFeeDefault_unlogged:
  "wp (admin_UpdateFeeDefault ''A1'' ''new contract'' zero_fee_config) (\<lambda>_ _. False)
     (\<lambda>_ w'. db_fee_audit_logs (w_db w') = [] \<and> default_of (w_db w') = Some (zero_method_fee, zero_method_fee, zero_method_fee))
     losing_world"
  by (simp add: admin_UpdateFeeDefault_def admin_FindByID_def fee_GetDefault_def fee_UpdateDefault_def fee_WriteAuditLog_def wp_simps
      wp_query wp_exec losing_world_def quiet_world_def stmt_fails_def tick_def sample_db_def empty_database_def sample_admin_def
      first_row_def toEntityFeeDefault_def seeded_fee_default_def json_val_def Let_def abort_tx_def default_of_def zero_fee_config_def)

section \<open>Effects\<close>

lemma obeys_admin_repo:
  "appends.obeys (admin_Save a)" "schema.obeys (admin_Save a)" "appends.obeys (admin_UpdateLastLogin i)" "schema.obeys (admin_UpdateLastLogin i)"
  "appends.obeys (admin_Update a)" "schema.obeys (admin_Update a)" "appends.obeys (admin_UpdatePassword i h)" "schema.obeys (admin_UpdatePassword i h)"
  "appends.obeys (provider_balance_Upsert b)" "schema.obeys (provider_balance_Upsert b)"
  unfolding admin_Save_def admin_UpdateLastLogin_def admin_Update_def admin_UpdatePassword_def provider_balance_Upsert_def update_admins_def
  by (intro appends.db_intros appends.obeys_exec schema.db_intros schema.obeys_exec;
      auto simp: Let_def insert_admin_def intro!: kept_schema_same split: option.splits if_splits)+

end
