(* ===== verification/Cache.thy ===== *)
theory Cache
  imports Entity "HOL-Library.AList"
begin

text \<open>
  The key-value cache: the port of internal/infrastructure/cache/cache.go as a record of
  operations, its in-memory implementation (memory.go), and the contract its clients rely
  on as a locale, interpreted on that implementation. Every operation runs under the
  cache's lock, so it is one step; its time argument is what \<open>time.Now()\<close> returned in it.
  The Redis implementation is in Redis.
\<close>

section \<open>The port\<close>

record 'c cache_ops =
  co_Get :: "time \<Rightarrow> string \<Rightarrow> ('c, string) action"
  co_Set :: "time \<Rightarrow> string \<Rightarrow> string \<Rightarrow> int \<Rightarrow> ('c, unit) action"
  co_SetNX :: "time \<Rightarrow> string \<Rightarrow> string \<Rightarrow> int \<Rightarrow> ('c, bool) action"
  co_Del :: "time \<Rightarrow> string list \<Rightarrow> ('c, unit) action"
  co_Exists :: "time \<Rightarrow> string \<Rightarrow> ('c, bool) action"

definition ErrCacheMiss :: go_error where
  "ErrCacheMiss = PlainErr ''cache: key not found''"

text \<open>
  \<open>view c k t\<close> is what a reader sees under \<open>k\<close> at time \<open>t\<close> if nobody writes in between. The
  laws say what each operation does to every key at every later time; an operation that
  fails may still have had its effect, but only on its own keys.
\<close>

locale cache_store =
  fixes ops :: "'c cache_ops" and view :: "'c \<Rightarrow> string \<Rightarrow> time \<Rightarrow> string option"
  assumes get_keeps: "t \<le> u \<Longrightarrow> view (snd (co_Get ops t k c)) k' u = view c k' u"
    and get_hit: "co_Get ops t k c = (Inr v, c') \<Longrightarrow> view c k t = Some v"
    and get_miss: "co_Get ops t k c = (Inl ErrCacheMiss, c') \<Longrightarrow> view c k t = None"
    and set_done: "fst (co_Set ops t k v ttl c) = Inr () \<Longrightarrow> zero_time < t \<Longrightarrow> 0 < ttl \<Longrightarrow> t \<le> u \<Longrightarrow>
      view (snd (co_Set ops t k v ttl c)) k u = (if u \<le> t + ttl then Some v else None)"
    and set_frame: "t \<le> u \<Longrightarrow> k' \<noteq> k \<Longrightarrow> view (snd (co_Set ops t k v ttl c)) k' u = view c k' u"
    and setnx_done: "fst (co_SetNX ops t k v ttl c) = Inr True \<Longrightarrow> zero_time < t \<Longrightarrow> 0 < ttl \<Longrightarrow> t \<le> u \<Longrightarrow>
      view (snd (co_SetNX ops t k v ttl c)) k u = (if u \<le> t + ttl then Some v else None)"
    and setnx_free: "fst (co_SetNX ops t k v ttl c) = Inr True \<Longrightarrow> view c k t = None"
    and setnx_taken: "fst (co_SetNX ops t k v ttl c) = Inr False \<Longrightarrow> view c k t \<noteq> None"
    and setnx_keeps: "fst (co_SetNX ops t k v ttl c) = Inr False \<Longrightarrow> t \<le> u \<Longrightarrow>
      view (snd (co_SetNX ops t k v ttl c)) k' u = view c k' u"
    and setnx_fail: "fst (co_SetNX ops t k v ttl c) = Inl e \<Longrightarrow> view c k t \<noteq> None \<Longrightarrow> t \<le> u \<Longrightarrow>
      view (snd (co_SetNX ops t k v ttl c)) k u = view c k u"
    and setnx_frame: "t \<le> u \<Longrightarrow> k' \<noteq> k \<Longrightarrow> view (snd (co_SetNX ops t k v ttl c)) k' u = view c k' u"
    and del_frame: "t \<le> u \<Longrightarrow> k' \<notin> set ks \<Longrightarrow> view (snd (co_Del ops t ks c)) k' u = view c k' u"
    and del_done: "fst (co_Del ops t ks c) = Inr () \<Longrightarrow> t \<le> u \<Longrightarrow> k' \<in> set ks \<Longrightarrow> view (snd (co_Del ops t ks c)) k' u = None"
begin

text \<open>A claim made by \<open>SetNX\<close> excludes every other claim of the key while it lasts.\<close>

lemma claim_excludes:
  "view c k t \<noteq> None \<Longrightarrow> fst (co_SetNX ops t k v ttl c) \<noteq> Inr True"
  using setnx_free [of t k v ttl c] by auto

lemma setnx_present:
  assumes "view c k t \<noteq> None" "t \<le> u"
  shows "view (snd (co_SetNX ops t k v ttl c)) k' u = view c k' u"
proof (cases "k' = k")
  case True
  show ?thesis
  proof (cases "fst (co_SetNX ops t k v ttl c)")
    case (Inr b)
    then show ?thesis using setnx_keeps assms claim_excludes [OF assms(1)] by (cases b) auto
  qed (use True assms setnx_fail in auto)
qed (simp add: setnx_frame assms)

end

text \<open>A cache that a background task sweeps.\<close>

locale swept_cache = cache_store +
  fixes sweep :: "time \<Rightarrow> 'a \<Rightarrow> 'a"
  assumes sweep_keeps: "t \<le> u \<Longrightarrow> view (sweep t c) k u = view c k u"

section \<open>The in-memory cache\<close>

record mem_item =
  mi_value :: string
  mi_expiresAt :: time

definition item_expired :: "time \<Rightarrow> mem_item \<Rightarrow> bool" where
  "item_expired t m \<longleftrightarrow> mi_expiresAt m \<noteq> zero_time \<and> mi_expiresAt m < t"

text \<open>The Go map as an association list with distinct keys.\<close>

record memory_cache =
  mc_items :: "(string \<times> mem_item) list"
  mc_maxItems :: nat

definition defaultMaxItems :: nat where
  "defaultMaxItems = 100000"

definition newMemoryCache :: memory_cache where
  "newMemoryCache = \<lparr>mc_items = [], mc_maxItems = defaultMaxItems\<rparr>"

definition expiry :: "time \<Rightarrow> int \<Rightarrow> time" where
  "expiry t ttl = (if ttl \<le> 0 then zero_time else t + ttl)"

definition mc_put :: "string \<Rightarrow> mem_item \<Rightarrow> memory_cache \<Rightarrow> memory_cache" where
  "mc_put k m c = c\<lparr>mc_items := AList.update k m (mc_items c)\<rparr>"

definition mc_delete :: "string \<Rightarrow> memory_cache \<Rightarrow> memory_cache" where
  "mc_delete k c = c\<lparr>mc_items := AList.delete k (mc_items c)\<rparr>"

definition mc_expired :: "time \<Rightarrow> memory_cache \<Rightarrow> string \<Rightarrow> bool" where
  "mc_expired t c k = (case map_of (mc_items c) k of None \<Rightarrow> False | Some m \<Rightarrow> item_expired t m)"

definition evictExpired :: "time \<Rightarrow> memory_cache \<Rightarrow> memory_cache" where
  "evictExpired t c = fold mc_delete (filter (mc_expired t c) (map fst (mc_items c))) c"

definition capacity_error :: "memory_cache \<Rightarrow> go_error" where
  "capacity_error c = PlainErr (''cache: capacity limit reached ('' @ fmt_d (int (mc_maxItems c)) @ '' items)'')"

definition mc_Get :: "time \<Rightarrow> string \<Rightarrow> (memory_cache, string) action" where
  "mc_Get t k = (\<lambda>c.
     case map_of (mc_items c) k of
       None \<Rightarrow> (Inl ErrCacheMiss, c)
     | Some m \<Rightarrow> if item_expired t m then (Inl ErrCacheMiss, mc_delete k c) else (Inr (mi_value m), c))"

definition mc_Set :: "time \<Rightarrow> string \<Rightarrow> string \<Rightarrow> int \<Rightarrow> (memory_cache, unit) action" where
  "mc_Set t k v ttl = (\<lambda>c.
     if map_of (mc_items c) k = None \<and> mc_maxItems c \<le> length (mc_items c) then (Inl (capacity_error c), c)
     else (Inr (), mc_put k \<lparr>mi_value = v, mi_expiresAt = expiry t ttl\<rparr> c))"

definition mc_SetNX :: "time \<Rightarrow> string \<Rightarrow> string \<Rightarrow> int \<Rightarrow> (memory_cache, bool) action" where
  "mc_SetNX t k v ttl = (\<lambda>c.
     if (case map_of (mc_items c) k of None \<Rightarrow> False | Some m \<Rightarrow> \<not> item_expired t m) then (Inr False, c)
     else if mc_maxItems c \<le> length (mc_items c) then (Inl (capacity_error c), c)
     else (Inr True, mc_put k \<lparr>mi_value = v, mi_expiresAt = expiry t ttl\<rparr> c))"

definition mc_Del :: "time \<Rightarrow> string list \<Rightarrow> (memory_cache, unit) action" where
  "mc_Del t ks = (\<lambda>c. (Inr (), fold mc_delete ks c))"

definition mc_Exists :: "time \<Rightarrow> string \<Rightarrow> (memory_cache, bool) action" where
  "mc_Exists t k = (\<lambda>c.
     (Inr (case map_of (mc_items c) k of None \<Rightarrow> False | Some m \<Rightarrow> \<not> item_expired t m), c))"

definition memory_cache_ops :: "memory_cache cache_ops" where
  "memory_cache_ops =
     \<lparr>co_Get = mc_Get, co_Set = mc_Set, co_SetNX = mc_SetNX, co_Del = mc_Del, co_Exists = mc_Exists\<rparr>"

definition mc_view :: "memory_cache \<Rightarrow> string \<Rightarrow> time \<Rightarrow> string option" where
  "mc_view c k t =
     (case map_of (mc_items c) k of None \<Rightarrow> None | Some m \<Rightarrow> if item_expired t m then None else Some (mi_value m))"

lemmas mc_defs = mc_Get_def mc_Set_def mc_SetNX_def mc_Del_def mc_Exists_def memory_cache_ops_def

lemma mc_view_put: "mc_view (mc_put k m c) k' t =
    (if k' = k then if item_expired t m then None else Some (mi_value m) else mc_view c k' t)"
  by (simp add: mc_view_def mc_put_def update_conv')

lemma mc_view_delete: "mc_view (mc_delete k c) k' t = (if k' = k then None else mc_view c k' t)"
  by (simp add: mc_view_def mc_delete_def delete_conv')

lemma mc_view_deletes: "mc_view (fold mc_delete ks c) k' t = (if k' \<in> set ks then None else mc_view c k' t)"
  by (induction ks arbitrary: c) (auto simp: mc_view_delete)

lemma item_expired_mono: "item_expired t m \<Longrightarrow> t \<le> u \<Longrightarrow> item_expired u m"
  by (simp add: item_expired_def)

lemma expired_expiry: "zero_time < t \<Longrightarrow> 0 < ttl \<Longrightarrow>
    item_expired u \<lparr>mi_value = v, mi_expiresAt = expiry t ttl\<rparr> \<longleftrightarrow> t + ttl < u"
  by (auto simp: item_expired_def expiry_def)

interpretation memory: cache_store memory_cache_ops mc_view
proof
  show "t \<le> u \<Longrightarrow> mc_view (snd (co_Get memory_cache_ops t k c)) k' u = mc_view c k' u" for t u k c k'
    by (auto simp: mc_defs mc_view_delete split: option.splits) (auto simp: mc_view_def dest: item_expired_mono)
qed (auto simp: mc_defs mc_view_put mc_view_deletes expired_expiry, auto simp: mc_view_def split: option.splits if_splits)

lemma mc_view_evict:
  assumes "t \<le> u"
  shows "mc_view (evictExpired t c) k u = mc_view c k u"
proof -
  have "mc_view c k u = None" if "mc_expired t c k"
    using that assms by (auto simp: mc_expired_def mc_view_def dest: item_expired_mono split: option.splits)
  then show ?thesis
    by (auto simp: evictExpired_def mc_view_deletes)
qed

interpretation memory: swept_cache memory_cache_ops mc_view evictExpired
  by unfold_locales (rule mc_view_evict)

text \<open>The cache never holds more than its limit, and a key at most once.\<close>

definition cache_ok :: "memory_cache \<Rightarrow> bool" where
  "cache_ok c \<longleftrightarrow> distinct (map fst (mc_items c)) \<and> length (mc_items c) \<le> mc_maxItems c"


lemma cache_ok_put: "cache_ok c \<Longrightarrow> map_of (mc_items c) k \<noteq> None \<or> length (mc_items c) < mc_maxItems c \<Longrightarrow> cache_ok (mc_put k m c)"
proof -
  have "length (AList.update k m xs) = (if k \<in> fst ` set xs then length xs else Suc (length xs))" for xs
    by (induction xs) auto
  then show "cache_ok c \<Longrightarrow> map_of (mc_items c) k \<noteq> None \<or> length (mc_items c) < mc_maxItems c \<Longrightarrow> cache_ok (mc_put k m c)"
    by (auto simp: cache_ok_def mc_put_def distinct_update map_of_eq_None_iff)
qed

lemma cache_ok_delete: "cache_ok c \<Longrightarrow> cache_ok (mc_delete k c)"
  by (auto simp: cache_ok_def mc_delete_def distinct_delete intro: order_trans [OF length_delete_le])

lemma cache_ok_deletes: "cache_ok c \<Longrightarrow> cache_ok (fold mc_delete ks c)"
  by (induction ks arbitrary: c) (auto intro: cache_ok_delete)

lemma cache_ok_evict: "cache_ok c \<Longrightarrow> cache_ok (evictExpired t c)"
  unfolding evictExpired_def by (rule cache_ok_deletes)

lemma cache_ok_ops:
  "kept.obeys cache_ok (mc_Get t k)" "kept.obeys cache_ok (mc_Set t k v ttl)"
  "kept.obeys cache_ok (mc_SetNX t k v ttl)" "kept.obeys cache_ok (mc_Del t ks)" "kept.obeys cache_ok (mc_Exists t k)"
  by (auto simp: kept.obeys_def kept_def mc_defs intro: cache_ok_delete cache_ok_deletes cache_ok_put split: option.splits)

lemma memory_ops_eq [simp]:
  "mc_view c k t = None \<Longrightarrow> length (mc_items c) < mc_maxItems c \<Longrightarrow>
     co_SetNX memory_cache_ops t k v ttl c = (Inr True, mc_put k \<lparr>mi_value = v, mi_expiresAt = expiry t ttl\<rparr> c)"
  "mc_view c k t = Some x \<Longrightarrow> co_SetNX memory_cache_ops t k v ttl c = (Inr False, c)"
  "mc_view c k t = Some x \<Longrightarrow> co_Get memory_cache_ops t k c = (Inr x, c)"
  "co_Set memory_cache_ops t k v ttl (mc_put k m c) = (Inr (), mc_put k \<lparr>mi_value = v, mi_expiresAt = expiry t ttl\<rparr> (mc_put k m c))"
  by (auto simp: mc_defs mc_view_def split: option.splits if_splits) (simp add: mc_put_def update_conv')

end
