(* ===== verification/Idempotency.thy ===== *)
theory Idempotency
  imports Cache
begin

text \<open>
  The idempotency middleware (internal/delivery/http/middleware/idempotency.go) over any
  cache: the claim before the handler, the bookkeeping after it, and their composition; then
  the replay guarantee of one request after another and the mutual exclusion of concurrent
  ones, proved from the cache's contract and instantiated on the in-memory cache. The JSON
  text of a stored response and of an error envelope is a parameter.
\<close>

section \<open>The middleware\<close>

definition idempotencyTTL :: int where
  "idempotencyTTL = 24 * 3600 * second"

definition processingGuard :: string where
  "processingGuard = ''__processing__''"

definition processingTTL :: int where
  "processingTTL = 30 * second"

record cached_response =
  cr_StatusCode :: nat
  cr_Headers :: "(string \<times> string) list"
  cr_Body :: string

text \<open>What a handler leaves: the error it returned, or the response it wrote.\<close>

record handler_result =
  hr_err :: "go_error option"
  hr_status :: nat
  hr_headers :: "string \<rightharpoonup> string"
  hr_body :: string

record idem_env =
  ie_Marshal :: "cached_response \<Rightarrow> string"
  ie_Unmarshal :: "string \<Rightarrow> cached_response option"
  ie_envelope :: "nat \<Rightarrow> string \<Rightarrow> string"

text \<open>The key header, the authenticated merchant if any, and the headers already on the response.\<close>

record idem_request =
  iq_Key :: string
  iq_MerchantID :: "string option"
  iq_Headers :: "string \<rightharpoonup> string"

definition redis_key :: "string \<Rightarrow> string \<Rightarrow> string" where
  "redis_key merchantID key = ''idempotency:'' @ merchantID @ '':'' @ key"

definition extractSafeHeaders :: "(string \<rightharpoonup> string) \<Rightarrow> (string \<times> string) list" where
  "extractSafeHeaders h =
     concat (map (\<lambda>k. case h k of None \<Rightarrow> [] | Some v \<Rightarrow> if v \<noteq> '''' then [(k, v)] else [])
       [''Content-Type'', ''X-Request-Id''])"

text \<open>Writing a JSON body keeps a content type already set.\<close>

definition json_blob :: "nat \<Rightarrow> (string \<rightharpoonup> string) \<Rightarrow> string \<Rightarrow> handler_result" where
  "json_blob status h body =
     \<lparr>hr_err = None, hr_status = status,
      hr_headers = (if h ''Content-Type'' = None \<or> h ''Content-Type'' = Some '''' then h(''Content-Type'' \<mapsto> ''application/json'') else h),
      hr_body = body\<rparr>"

datatype idem_outcome = Run "string option" | Reply handler_result

text \<open>
  Before the handler. \<open>Run (Some k)\<close>: this request holds the claim on \<open>k\<close>; \<open>Run None\<close>: the
  handler runs unguarded. The two cache calls read the clock at \<open>t1\<close> and \<open>t2\<close>.
\<close>

definition idem_claim :: "'c cache_ops \<Rightarrow> idem_env \<Rightarrow> time \<Rightarrow> time \<Rightarrow> idem_request \<Rightarrow> ('c, idem_outcome) action" where
  "idem_claim ops env t1 t2 req =
     (if iq_Key req = '''' \<or> iq_MerchantID req = None \<or> iq_MerchantID req = Some '''' then ret (Run None)
      else
        let k = redis_key (the (iq_MerchantID req)) (iq_Key req) in
        bind (attempt (co_SetNX ops t1 k processingGuard processingTTL)) (\<lambda>r.
        case r of
          Inl _ \<Rightarrow> ret (Run None)
        | Inr claimed \<Rightarrow>
            if claimed then ret (Run (Some k))
            else
              bind (attempt (co_Get ops t2 k)) (\<lambda>g.
              case g of
                Inl _ \<Rightarrow> ret (Run None)
              | Inr val \<Rightarrow>
                  if val = processingGuard
                  then ret (Reply (json_blob 409 (iq_Headers req)
                         (ie_envelope env 409 ''a request with this idempotency key is already being processed'')))
                  else
                    (case ie_Unmarshal env val of
                       Some resp \<Rightarrow>
                         ret (Reply (json_blob (cr_StatusCode resp)
                           ((iq_Headers req ++ map_of (cr_Headers resp))(''X-Idempotency-Replayed'' \<mapsto> ''true'')) (cr_Body resp)))
                     | None \<Rightarrow> ret (Run None)))))"

text \<open>After a guarded handler.\<close>

definition cached_of :: "handler_result \<Rightarrow> cached_response" where
  "cached_of out =
     \<lparr>cr_StatusCode = hr_status out, cr_Headers = extractSafeHeaders (hr_headers out), cr_Body = hr_body out\<rparr>"

definition idem_finish :: "'c cache_ops \<Rightarrow> idem_env \<Rightarrow> time \<Rightarrow> string \<Rightarrow> handler_result \<Rightarrow> ('c, unit) action" where
  "idem_finish ops env t k out =
     (if hr_err out \<noteq> None \<or> 500 \<le> hr_status out
      then bind (attempt (co_Del ops t [k])) (\<lambda>_. ret ())
      else bind (attempt (co_Set ops t k (ie_Marshal env (cached_of out)) idempotencyTTL)) (\<lambda>_. ret ()))"

definition on_cache :: "('c, 'a) action \<Rightarrow> ('c \<times> 'w, 'a) action" where
  "on_cache m = (\<lambda>(c, w). case m c of (r, c') \<Rightarrow> (r, (c', w)))"

definition on_world :: "('w, 'a) action \<Rightarrow> ('c \<times> 'w, 'a) action" where
  "on_world m = (\<lambda>(c, w). case m w of (r, w') \<Rightarrow> (r, (c, w')))"

definition Idempotency :: "'c cache_ops \<Rightarrow> idem_env \<Rightarrow> time \<Rightarrow> time \<Rightarrow> time \<Rightarrow> idem_request \<Rightarrow>
    ('w, handler_result) action \<Rightarrow> ('c \<times> 'w, handler_result) action" where
  "Idempotency ops env t1 t2 t3 req next =
     bind (on_cache (idem_claim ops env t1 t2 req)) (\<lambda>o'.
     case o' of
       Reply out \<Rightarrow> ret out
     | Run None \<Rightarrow> on_world next
     | Run (Some k) \<Rightarrow>
         bind (on_world next) (\<lambda>out.
         bind (on_cache (idem_finish ops env t3 k out)) (\<lambda>_.
         ret out)))"

section \<open>Concurrent requests\<close>

text \<open>
  Requests that carry a key and an identity: the cache, the clock, and the guarded handlers
  in flight, each with its key and the time of its claim. The server cancels a request after
  at most 30 seconds (buildEcho in internal/delivery/http/server.go); a step is timely when
  no handler in flight is older than that.
\<close>

definition request_timeout :: "int \<Rightarrow> int" where
  "request_timeout n =
     (let d = wrap64 (n * second) in if d \<le> 0 \<or> 30 * second < d then 30 * second else d)"

record 'c flight =
  sf_cache :: 'c
  sf_clock :: time
  sf_running :: "(string \<times> time) list"

definition timely :: "time \<Rightarrow> 'c flight \<Rightarrow> bool" where
  "timely t s \<longleftrightarrow> sf_clock s \<le> t \<and> (\<forall>(k, t0) \<in> set (sf_running s). t \<le> t0 + processingTTL)"

fun holding :: "idem_outcome \<Rightarrow> time \<Rightarrow> (string \<times> time) list" where
  "holding (Run (Some k)) t = [(k, t)]"
| "holding _ t = []"

inductive idem_step :: "'c cache_ops \<Rightarrow> (time \<Rightarrow> 'c \<Rightarrow> 'c) \<Rightarrow> idem_env \<Rightarrow> 'c flight \<Rightarrow> 'c flight \<Rightarrow> bool"
  for ops sweep env where
  claim: "\<lbrakk>timely t2 s; sf_clock s \<le> t1; t1 \<le> t2; idem_claim ops env t1 t2 req (sf_cache s) = (Inr o', c)\<rbrakk> \<Longrightarrow>
    idem_step ops sweep env s \<lparr>sf_cache = c, sf_clock = t2, sf_running = holding o' t1 @ sf_running s\<rparr>"
| finish: "\<lbrakk>timely t s; (k, t0) \<in> set (sf_running s); idem_finish ops env t k out (sf_cache s) = (r, c)\<rbrakk> \<Longrightarrow>
    idem_step ops sweep env s \<lparr>sf_cache = c, sf_clock = t, sf_running = remove1 (k, t0) (sf_running s)\<rparr>"
| sweep: "timely t s \<Longrightarrow>
    idem_step ops sweep env s \<lparr>sf_cache = sweep t (sf_cache s), sf_clock = t, sf_running = sf_running s\<rparr>"

inductive_cases idem_stepE: "idem_step ops sweep env s s'"

lemma remove1_keys:
  "distinct (map fst xs) \<Longrightarrow> (k, v) \<in> set xs \<Longrightarrow>
     distinct (map fst (remove1 (k, v) xs)) \<and> set (remove1 (k, v) xs) = {p \<in> set xs. fst p \<noteq> k}"
proof (induction xs)
  case (Cons x xs)
  show ?case
  proof (cases "x = (k, v)")
    case True
    with Cons.prems show ?thesis by force
  next
    case False
    with Cons.prems have kv: "(k, v) \<in> set xs" "distinct (map fst xs)" "fst x \<notin> fst ` set xs" by auto
    then have "fst x \<noteq> k" by (metis fst_conv image_eqI)
    moreover have "fst x \<notin> fst ` set (remove1 (k, v) xs)" using kv(3) set_remove1_subset [of "(k, v)" xs] by blast
    ultimately show ?thesis using False Cons.IH [OF kv(2,1)] by auto
  qed
qed simp

context swept_cache
begin

definition guarded :: "'a flight \<Rightarrow> bool" where
  "guarded s \<longleftrightarrow> zero_time < sf_clock s \<and> distinct (map fst (sf_running s))
     \<and> (\<forall>(k, t0) \<in> set (sf_running s). t0 \<le> sf_clock s
          \<and> (\<forall>u. sf_clock s \<le> u \<longrightarrow> u \<le> t0 + processingTTL \<longrightarrow> view (sf_cache s) k u = Some processingGuard))"

lemma guarded_present:
  "guarded s \<Longrightarrow> timely t s \<Longrightarrow> (k, t0) \<in> set (sf_running s) \<Longrightarrow> view (sf_cache s) k t = Some processingGuard"
  by (force simp: guarded_def timely_def)

text \<open>A claim leaves every key that is present as it was, and takes only an absent one.\<close>

lemma idem_claim_view:
  assumes "idem_claim ops env t1 t2 req c = (Inr o', c')" "view c k t1 \<noteq> None" "t1 \<le> t2" "t2 \<le> u"
  shows "view c' k u = view c k u \<and> (\<forall>t. holding o' t \<noteq> [(k, t)])"
proof -
  define k' where "k' = redis_key (the (iq_MerchantID req)) (iq_Key req)"
  obtain r c1 where nx: "co_SetNX ops t1 k' processingGuard processingTTL c = (r, c1)" by fastforce
  obtain g c2 where gt: "co_Get ops t2 k' c1 = (g, c2)" by fastforce
  have v1: "view c1 k u = view c k u"
    using setnx_present [of c k t1 u processingGuard processingTTL k] setnx_frame [of t1 u k k' processingGuard processingTTL c] nx assms(2-4)
    by (cases "k = k'") auto
  have v2: "view c2 k u = view c1 k u"
    using get_keeps [OF assms(4), of k' c1 k] gt by simp
  have "k \<noteq> k'" if "r = Inr True"
    using that claim_excludes [OF assms(2), of processingGuard processingTTL] nx by auto
  then have "c' \<in> {c, c1, c2} \<and> (\<forall>t. holding o' t \<noteq> [(k, t)])"
    using assms(1) unfolding idem_claim_def k'_def [symmetric] Let_def
    by (auto simp: nx gt bind_def attempt_def ret_def split: if_splits sum.splits option.splits)
  with v1 v2 show ?thesis by auto
qed

lemma idem_claim_taken:
  assumes "idem_claim ops env t1 t2 req c = (Inr (Run (Some k)), c')" "zero_time < t1" "t1 \<le> u"
  shows "view c' k u = (if u \<le> t1 + processingTTL then Some processingGuard else None)"
proof -
  obtain r c1 where nx: "co_SetNX ops t1 (redis_key (the (iq_MerchantID req)) (iq_Key req)) processingGuard processingTTL c = (r, c1)"
    by fastforce
  have "0 < processingTTL" by (simp add: processingTTL_def second_def)
  moreover have "r = Inr True \<and> c' = c1 \<and> k = redis_key (the (iq_MerchantID req)) (iq_Key req)"
    using assms(1) nx
    by (auto simp: idem_claim_def bind_def attempt_def ret_def Let_def split: if_splits sum.splits option.splits prod.splits)
  ultimately show ?thesis
    using setnx_done [of t1 k processingGuard processingTTL c u] nx assms(2,3) by simp
qed

lemma idem_finish_frame:
  assumes "idem_finish ops env t k out c = (r, c')" "k' \<noteq> k" "t \<le> u"
  shows "view c' k' u = view c k' u"
proof -
  obtain d c1 where dl: "co_Del ops t [k] c = (d, c1)" by fastforce
  obtain s c2 where st: "co_Set ops t k (ie_Marshal env (cached_of out)) idempotencyTTL c = (s, c2)" by fastforce
  have "c' \<in> {c1, c2}"
    using assms(1) by (auto simp: idem_finish_def dl st bind_def attempt_def ret_def split: if_splits sum.splits)
  then show ?thesis
    using del_frame [of t u k' "[k]" c] set_frame [of t u k' k "ie_Marshal env (cached_of out)" idempotencyTTL c] dl st assms(2,3) by auto
qed

lemma guarded_step:
  assumes "idem_step ops sweep env s s'" "guarded s"
  shows "guarded s'"
  using assms(1)
proof cases
  case (claim t2 t1 req o' c)
  note G = assms(2) [unfolded guarded_def]
  have old: "view c k u = view (sf_cache s) k u \<and> (\<forall>t. holding o' t \<noteq> [(k, t)])"
    if "(k, t0) \<in> set (sf_running s)" "t2 \<le> u" for k t0 u
  proof (rule idem_claim_view [OF claim(5) _ claim(4) that(2)])
    have "timely t1 s" using claim(2-4) by (force simp: timely_def)
    then show "view (sf_cache s) k t1 \<noteq> None" using guarded_present [OF assms(2) _ that(1)] by simp
  qed
  have running: "\<forall>(k, t0) \<in> set (sf_running s). t0 \<le> t2
      \<and> (\<forall>u. t2 \<le> u \<longrightarrow> u \<le> t0 + processingTTL \<longrightarrow> view c k u = Some processingGuard)"
    using G old claim(2-4) by (fastforce simp: timely_def)
  show ?thesis
  proof (cases "\<exists>k. o' = Run (Some k)")
    case True
    then obtain k where k: "o' = Run (Some k)" by blast
    have "k \<notin> fst ` set (sf_running s)" using old [of k _ t2] k by auto
    moreover have "\<forall>u. t2 \<le> u \<longrightarrow> u \<le> t1 + processingTTL \<longrightarrow> view c k u = Some processingGuard"
      using idem_claim_taken [OF claim(5) [unfolded k]] G claim(3,4) by force
    ultimately show ?thesis using running G claim k by (simp add: guarded_def)
  next
    case False
    then have "holding o' t1 = []" by (cases "(o', t1)" rule: holding.cases) auto
    then show ?thesis using running G claim by (simp add: guarded_def)
  qed
next
  case (finish t k t0 out r c)
  note G = assms(2) [unfolded guarded_def]
  note rm = remove1_keys [of "sf_running s", OF _ finish(3)]
  have "view c k' u = view (sf_cache s) k' u" if "k' \<noteq> k" "t \<le> u" for k' u
    by (rule idem_finish_frame [OF finish(4) that])
  with G finish(2) have "\<forall>(k', t') \<in> set (sf_running s). k' \<noteq> k \<longrightarrow> t' \<le> t
      \<and> (\<forall>u. t \<le> u \<longrightarrow> u \<le> t' + processingTTL \<longrightarrow> view c k' u = Some processingGuard)"
    by (fastforce simp: timely_def)
  then show ?thesis
    using G rm finish(1,2) by (auto simp: guarded_def timely_def)
next
  case (sweep t)
  then show ?thesis
    using assms(2) by (auto simp: guarded_def timely_def sweep_keeps)
qed

end

lemma request_timeout_within_claim: "0 < request_timeout n \<and> request_timeout n \<le> processingTTL"
  by (auto simp: request_timeout_def processingTTL_def second_def Let_def)

section \<open>The guarantees on the in-memory cache\<close>

text \<open>The response a retry receives: status and body of the first one, its safe headers, and the replay mark.\<close>

definition replay_of :: "handler_result \<Rightarrow> idem_request \<Rightarrow> handler_result" where
  "replay_of out req =
     json_blob (hr_status out)
       ((iq_Headers req ++ map_of (extractSafeHeaders (hr_headers out)))(''X-Idempotency-Replayed'' \<mapsto> ''true'')) (hr_body out)"

definition conflict_reply :: "idem_env \<Rightarrow> idem_request \<Rightarrow> handler_result" where
  "conflict_reply env req =
     json_blob 409 (iq_Headers req)
       (ie_envelope env 409 ''a request with this idempotency key is already being processed'')"

definition keyed :: "idem_request \<Rightarrow> string \<Rightarrow> bool" where
  "keyed req k \<longleftrightarrow>
     iq_Key req \<noteq> '''' \<and> (\<exists>m. iq_MerchantID req = Some m \<and> m \<noteq> '''' \<and> k = redis_key m (iq_Key req))"

lemma idem_claim_conflict:
  "keyed req k \<Longrightarrow> mc_view c k t1 = Some processingGuard \<Longrightarrow> mc_view c k t2 = Some processingGuard \<Longrightarrow>
     idem_claim memory_cache_ops env t1 t2 req c = (Inr (Reply (conflict_reply env req)), c)"
  by (auto simp: keyed_def idem_claim_def Let_def conflict_reply_def bind_def attempt_def ret_def)

lemma Idempotency_replay_run:
  "keyed req k \<Longrightarrow> mc_view c k u1 = Some v \<Longrightarrow> mc_view c k u2 = Some v \<Longrightarrow> v \<noteq> processingGuard \<Longrightarrow>
     ie_Unmarshal env v = Some (cached_of out) \<Longrightarrow>
     Idempotency memory_cache_ops env u1 u2 u3 req next (c, w) = (Inr (replay_of out req), (c, w))"
  by (auto simp: keyed_def Idempotency_def idem_claim_def Let_def replay_of_def cached_of_def bind_def attempt_def ret_def on_cache_def)

lemma Idempotency_first_run:
  assumes "keyed req k" "mc_view c k t1 = None" "length (mc_items c) < mc_maxItems c"
    and "next w = (Inr out, w')" "hr_err out = None" "hr_status out < 500" "zero_time < t3"
  shows "\<exists>c'. Idempotency memory_cache_ops env t1 t2 t3 req next (c, w) = (Inr out, (c', w'))
     \<and> (\<forall>u. t3 \<le> u \<longrightarrow> mc_view c' k u = (if u \<le> t3 + idempotencyTTL then Some (ie_Marshal env (cached_of out)) else None))"
proof -
  have "0 < idempotencyTTL" by (simp add: idempotencyTTL_def second_def)
  with assms show ?thesis
    by (auto simp: keyed_def Idempotency_def idem_claim_def Let_def idem_finish_def bind_def attempt_def ret_def on_cache_def
        on_world_def mc_view_put expired_expiry)
qed

lemma guarded_reachable:
  assumes "rtranclp (idem_step memory_cache_ops evictExpired env) s0 s" "sf_running s0 = []" "zero_time < sf_clock s0"
  shows "memory.guarded s"
  using assms(1)
proof (induction rule: rtranclp_induct)
  case base
  then show ?case using assms(2,3) by (simp add: memory.guarded_def)
qed (rule memory.guarded_step)



section \<open>Samples\<close>

definition sample_out :: handler_result where
  "sample_out =
     \<lparr>hr_err = None, hr_status = 201, hr_headers = [''Content-Type'' \<mapsto> ''application/json''], hr_body = ''{}''\<rparr>"

definition sample_idem :: idem_env where
  "sample_idem =
     \<lparr>ie_Marshal = (\<lambda>r. cr_Body r),
      ie_Unmarshal = (\<lambda>s. Some \<lparr>cr_StatusCode = 201, cr_Headers = [(''Content-Type'', ''application/json'')], cr_Body = s\<rparr>),
      ie_envelope = (\<lambda>status msg. msg)\<rparr>"

definition sample_keyed :: idem_request where
  "sample_keyed = \<lparr>iq_Key = ''order-1'', iq_MerchantID = Some ''M1'', iq_Headers = Map.empty\<rparr>"

definition sample_key :: string where
  "sample_key = redis_key ''M1'' ''order-1''"

definition sample_flight :: "memory_cache flight" where
  "sample_flight =
     \<lparr>sf_cache = mc_put sample_key \<lparr>mi_value = processingGuard, mi_expiresAt = processingTTL\<rparr> newMemoryCache, sf_clock = 0,
      sf_running = [(sample_key, 0)]\<rparr>"

lemma keyed_sample [simp]: "keyed sample_keyed sample_key"
  by (simp add: keyed_def sample_keyed_def sample_key_def)

lemma sample_cached [simp]:
  "cached_of sample_out = \<lparr>cr_StatusCode = 201, cr_Headers = [(''Content-Type'', ''application/json'')], cr_Body = ''{}''\<rparr>"
  by (simp add: cached_of_def sample_out_def extractSafeHeaders_def)

lemma empty_cache_simps [simp]:
  "mc_view newMemoryCache k t = None" "length (mc_items newMemoryCache) < mc_maxItems newMemoryCache"
  by (simp_all add: mc_view_def newMemoryCache_def defaultMaxItems_def)

lemma keyed_claim:
  assumes "keyed req k" "mc_view c k t1 = None" "length (mc_items c) < mc_maxItems c"
  shows "idem_claim memory_cache_ops env t1 t2 req c =
    (Inr (Run (Some k)), mc_put k \<lparr>mi_value = processingGuard, mi_expiresAt = expiry t1 processingTTL\<rparr> c)"
  using assms by (auto simp: keyed_def idem_claim_def Let_def bind_def attempt_def ret_def)



text \<open>
  Without that deadline single flight fails: a handler that outlives its claim lets a second
  one in, and when it then fails it deletes the second one's claim, so that a third runs
  beside the second, two seconds after it.
\<close>

lemma late_handler_releases_successor:
  assumes "keyed req k" "hr_err out \<noteq> None"
  shows "\<exists>c1 c2 c3 c4. idem_claim memory_cache_ops env 0 0 req newMemoryCache = (Inr (Run (Some k)), c1)
    \<and> idem_claim memory_cache_ops env (31 * second) (31 * second) req c1 = (Inr (Run (Some k)), c2)
    \<and> idem_finish memory_cache_ops env (32 * second) k out c2 = (Inr (), c3)
    \<and> idem_claim memory_cache_ops env (33 * second) (33 * second) req c3 = (Inr (Run (Some k)), c4)"
proof -
  let ?c1 = "mc_put k \<lparr>mi_value = processingGuard, mi_expiresAt = expiry 0 processingTTL\<rparr> newMemoryCache"
  let ?c2 = "mc_put k \<lparr>mi_value = processingGuard, mi_expiresAt = expiry (31 * second) processingTTL\<rparr> ?c1"
  have size: "length (mc_items ?c1) < mc_maxItems ?c1" "length (mc_items (mc_delete k ?c2)) < mc_maxItems (mc_delete k ?c2)"
    by (simp_all add: mc_put_def mc_delete_def newMemoryCache_def defaultMaxItems_def)
  have gone: "mc_view ?c1 k (31 * second) = None" "mc_view (mc_delete k ?c2) k (33 * second) = None"
    by (simp_all add: mc_view_put mc_view_delete item_expired_def expiry_def zero_time_def processingTTL_def second_def)
  have "idem_finish memory_cache_ops env (32 * second) k out ?c2 = (Inr (), mc_delete k ?c2)"
    using assms(2) by (simp add: idem_finish_def bind_def attempt_def ret_def mc_defs)
  moreover note keyed_claim [OF assms(1) gone(1) size(1), of env "31 * second"]
    keyed_claim [OF assms(1) gone(2) size(2), of env "33 * second"]
    keyed_claim [OF assms(1) empty_cache_simps, of env 0 0]
  ultimately show ?thesis by blast
qed

end
