(* ===== verification/Wire.thy ===== *)
theory Wire
  imports Calendar Tokens Disbursements
begin

text \<open>
  What the provider adapters under internal/infrastructure/provider share: the decoding of
  JSON values into structs (encoding/json), HTTP calls, the time layouts, and the environment
  of the process. The JSON text, the hashes and the network are parameters; everything built
  on a parsed JSON value is a definition.
\<close>

section \<open>encoding/json: from a value into a struct\<close>

text \<open>
  A member sets the field whose name it matches up to case; null leaves a field alone; a
  later member overwrites an earlier one; a value of the wrong type is an error. Strings are
  the bytes of the UTF-8 text, so case folding beyond ASCII is left out.
\<close>

type_synonym members = "(string \<times> json) list"

definition names :: "string \<Rightarrow> string \<Rightarrow> bool" where
  "names field k \<longleftrightarrow> ToLower k = ToLower field"

definition json_field :: "(json \<Rightarrow> 'a option) \<Rightarrow> 'a \<Rightarrow> string \<Rightarrow> members \<Rightarrow> 'a option" where
  "json_field dec zero field ms =
     fold (\<lambda>(k, v) acc. if names field k \<and> v \<noteq> JNull then (case acc of None \<Rightarrow> None | Some _ \<Rightarrow> dec v) else acc) ms (Some zero)"

fun dec_string :: "json \<Rightarrow> string option" where
  "dec_string (JStr s) = Some s"
| "dec_string _ = None"

definition parse_int64 :: "string \<Rightarrow> int64 option" where
  "parse_int64 s =
     (let (neg, ds) = (case s of c # r \<Rightarrow> if c = CHR ''-'' then (True, r) else (False, s) | [] \<Rightarrow> (False, s));
          n = (if neg then - int (digits_val ds) else int (digits_val ds))
      in if ds \<noteq> [] \<and> list_all is_digit ds \<and> int64_range n then Some n else None)"

text \<open>\<open>strconv.ParseInt\<close>, whose value on an error is 0, or the nearest bound on overflow.\<close>

definition go_ParseInt :: "string \<Rightarrow> int64" where
  "go_ParseInt s =
     (let (neg, ds) = (case s of c # r \<Rightarrow> if c = CHR ''-'' then (True, r) else if c = CHR ''+'' then (False, r) else (False, s)
                       | [] \<Rightarrow> (False, s));
          n = (if neg then - int (digits_val ds) else int (digits_val ds))
      in if ds = [] \<or> \<not> list_all is_digit ds then 0 else max (- (2 ^ 63)) (min (2 ^ 63 - 1) n))"

fun dec_int64 :: "json \<Rightarrow> int64 option" where
  "dec_int64 (JNum lit) = parse_int64 lit"
| "dec_int64 _ = None"

fun dec_members :: "json \<Rightarrow> members option" where
  "dec_members (JObj ms) = Some ms"
| "dec_members JNull = Some []"
| "dec_members _ = None"

definition str_field :: "string \<Rightarrow> members \<Rightarrow> string option" where
  "str_field = json_field dec_string ''''"

definition int_field :: "string \<Rightarrow> members \<Rightarrow> int64 option" where
  "int_field = json_field dec_int64 0"

text \<open>A slice of structs; a nested struct, whose repeated members are decoded one after the other.\<close>

fun dec_list :: "(json \<Rightarrow> 'a option) \<Rightarrow> json \<Rightarrow> 'a list option" where
  "dec_list dec (JArr vs) = those (map dec vs)"
| "dec_list dec _ = None"

definition nested :: "string \<Rightarrow> members \<Rightarrow> members option" where
  "nested field ms =
     map_option concat (those (map (\<lambda>(k, v). if names field k then dec_members v else Some []) ms))"

text \<open>Running the decoders of several fields; any error is the error of the whole.\<close>

definition dec_bind :: "'a option \<Rightarrow> ('a \<Rightarrow> 'b option) \<Rightarrow> 'b option" where
  "dec_bind x f = (case x of None \<Rightarrow> None | Some y \<Rightarrow> f y)"

section \<open>The process environment of an adapter\<close>

record api_request =
  hq_Method :: string
  hq_URL :: string
  hq_Headers :: "(string \<times> string) list"
  hq_Body :: string

text \<open>The body is what \<open>io.ReadAll\<close> returned.\<close>

record api_response =
  hp_StatusCode :: int
  hp_Body :: "string res"

record provider_env =
  pe_now :: time
  pe_local_offset :: int
  pe_json_parse :: "string \<Rightarrow> json option"
  pe_json_text :: "json \<Rightarrow> string"
  pe_url_ok :: "string \<Rightarrow> bool"
  pe_do :: "api_request \<Rightarrow> api_response res"
  pe_sha256 :: "string \<Rightarrow> nat list"
  pe_sha512 :: "string \<Rightarrow> nat list"
  pe_hmac_sha256 :: "string \<Rightarrow> string \<Rightarrow> nat list"
  pe_hmac_sha512 :: "string \<Rightarrow> string \<Rightarrow> nat list"
  pe_rsa_parse :: "string \<Rightarrow> string res"
  pe_rsa_sign :: "string \<Rightarrow> string \<Rightarrow> nat list res"
  pe_float_int :: "string \<Rightarrow> int"

definition json_error :: go_error where
  "json_error = PlainErr ''json: cannot unmarshal''"

definition json_unmarshal :: "provider_env \<Rightarrow> (members \<Rightarrow> 'a option) \<Rightarrow> string \<Rightarrow> 'a res" where
  "json_unmarshal env dec body =
     (case dec_bind (dec_bind (pe_json_parse env body) dec_members) dec of None \<Rightarrow> Inl json_error | Some x \<Rightarrow> Inr x)"

text \<open>\<open>headers[k]\<close> of a Go map: the empty string if the key is absent.\<close>

definition header_of :: "headers \<Rightarrow> string \<Rightarrow> string" where
  "header_of hs k = (case map_of hs k of None \<Rightarrow> '''' | Some v \<Rightarrow> v)"

definition res_bind :: "'a res \<Rightarrow> ('a \<Rightarrow> 'b res) \<Rightarrow> 'b res" where
  "res_bind r f = (case r of Inl e \<Rightarrow> Inl e | Inr x \<Rightarrow> f x)"

definition res_wrap :: "string \<Rightarrow> 'a res \<Rightarrow> 'a res" where
  "res_wrap msg r = (case r of Inl e \<Rightarrow> Inl (wrap_err msg e) | Inr x \<Rightarrow> Inr x)"

definition fail :: "string \<Rightarrow> 'a res" where
  "fail msg = Inl (PlainErr msg)"

lemma res_bind_simps [simp]: "res_bind (Inl e) f = Inl e" "res_bind (Inr x) f = f x"
  by (simp_all add: res_bind_def)

lemma res_bind_Inr: "res_bind r f = Inr y \<longleftrightarrow> (\<exists>x. r = Inr x \<and> f x = Inr y)"
  by (cases r) simp_all

lemma res_wrap_Inr [simp]: "res_wrap msg r = Inr x \<longleftrightarrow> r = Inr x"
  by (cases r) (simp_all add: res_wrap_def)

lemma fail_Inr [simp]: "fail msg \<noteq> Inr x" "\<not> (fail msg = Inr x)"
  by (simp_all add: fail_def)

text \<open>Build the request, send it, read the body.\<close>

definition http_send :: "provider_env \<Rightarrow> string \<Rightarrow> api_request \<Rightarrow> (int \<times> string) res" where
  "http_send env msg req =
     (if \<not> pe_url_ok env (hq_URL req) then Inl (Wrapped ''build request'' (PlainErr ''parse url''))
      else res_bind (res_wrap msg (pe_do env req)) (\<lambda>resp.
           res_bind (res_wrap ''read response'' (hp_Body resp)) (\<lambda>b. Inr (hp_StatusCode resp, b))))"

section \<open>Encodings\<close>

text \<open>\<open>base64.StdEncoding\<close>, with padding.\<close>

definition std_char :: "nat \<Rightarrow> char" where
  "std_char n = (if n = 62 then CHR ''+'' else if n = 63 then CHR ''/'' else b64_char n)"

definition base64_std :: "nat list \<Rightarrow> string" where
  "base64_std bs = map std_char (b64_encode bs) @ replicate ((3 - length bs mod 3) mod 3) (CHR ''='')"

definition basic_auth :: "string \<Rightarrow> string" where
  "basic_auth key = ''Basic '' @ base64_std (map of_char (key @ '':''))"

lemma basic_auth_sample: "basic_auth ''Aladdin'' = ''Basic QWxhZGRpbjo=''"
  by code_simp

text \<open>Civil dates of a day number (0 is 1970-01-01), and the layouts the adapters print.\<close>

definition civil :: "int \<Rightarrow> int \<times> int \<times> int" where
  "civil n =
     (let z = n + 719468; era = z div 146097; doe = z mod 146097;
          yoe = (doe - doe div 1460 + doe div 36524 - doe div 146096) div 365;
          doy = doe - (365 * yoe + yoe div 4 - yoe div 100);
          mp = (5 * doy + 2) div 153; m = (if mp < 10 then mp + 3 else mp - 9)
      in (yoe + era * 400 + (if m \<le> 2 then 1 else 0), m, doy - (153 * mp + 2) div 5 + 1))"

definition pad :: "nat \<Rightarrow> int \<Rightarrow> string" where
  "pad k n = (let ds = decimal (nat n) in replicate (k - length ds) (CHR ''0'') @ ds)"

definition format_date :: "string \<Rightarrow> time \<Rightarrow> string" where
  "format_date sep t = (case civil (t div day) of (y, m, d) \<Rightarrow> pad 4 y @ sep @ pad 2 m @ sep @ pad 2 d)"

definition format_clock :: "string \<Rightarrow> time \<Rightarrow> string" where
  "format_clock sep t =
     (let s = (t mod day) div second in pad 2 (s div 3600) @ sep @ pad 2 (s div 60 mod 60) @ sep @ pad 2 (s mod 60))"

text \<open>\<open>t.UTC().Format(time.RFC3339)\<close> and \<open>t.Format("2006-01-02 15:04:05")\<close> in a zone of the given offset.\<close>

definition format_rfc3339_utc :: "time \<Rightarrow> string" where
  "format_rfc3339_utc t = format_date ''-'' t @ ''T'' @ format_clock '':'' t @ ''Z''"

definition format_datetime :: "int \<Rightarrow> time \<Rightarrow> string" where
  "format_datetime off t =
     format_date ''-'' (t + off * second) @ '' '' @ format_clock '':'' (t + off * second)"

text \<open>\<open>time.Parse("2006-01-02 15:04:05", s)\<close>: no zone, so the clock is read as UTC.\<close>

definition parse_datetime :: "string \<Rightarrow> time option" where
  "parse_datetime s =
     (case (parse_date (take 10 s), drop 10 s) of
        (Some d, c # r) \<Rightarrow>
          if c = CHR '' '' then map_option (\<lambda>t. d + t) (parse_clock (dropWhile (\<lambda>c. c = CHR '' '') r @ ''Z'')) else None
      | _ \<Rightarrow> None)"

end
