(* ===== verification/Midtrans.thy ===== *)
theory Midtrans
  imports Wire
begin

text \<open>
  The Midtrans adapter (internal/infrastructure/provider/midtrans/midtrans.go): a cash-in
  gateway. A function of the Go \<open>Gateway\<close> takes the process environment and the gateway's
  configuration.
\<close>

record midtrans_config =
  mtc_Enabled :: bool
  mtc_ServerKey :: string
  mtc_IsProduction :: bool

record midtrans =
  mt_serverKey :: string
  mt_baseURL :: string

definition midtrans_New :: "midtrans_config \<Rightarrow> midtrans option res" where
  "midtrans_New cfg =
     (if \<not> mtc_Enabled cfg then Inr None
      else if mtc_ServerKey cfg = '''' then fail ''midtrans: server_key is required when enabled''
      else Inr (Some \<lparr>mt_serverKey = mtc_ServerKey cfg,
                      mt_baseURL = (if mtc_IsProduction cfg then ''https://api.midtrans.com'' else ''https://api.sandbox.midtrans.com'')\<rparr>))"

section \<open>Responses\<close>

record va_num =
  vn_Bank :: string
  vn_VANumber :: string

record qr_action =
  qa_Name :: string
  qa_URL :: string

record charge_response =
  cg_StatusCode :: string
  cg_StatusMessage :: string
  cg_OrderID :: string
  cg_TransactionStatus :: string
  cg_GrossAmount :: string
  cg_ExpiryTime :: string
  cg_VANumbers :: "va_num list"
  cg_PermataVANumber :: string
  cg_BillKey :: string
  cg_BillerCode :: string
  cg_QRString :: string
  cg_Actions :: "qr_action list"

record status_response =
  sr_TransactionStatus :: string
  sr_FraudStatus :: string
  sr_StatusCode :: string
  sr_StatusMessage :: string

record mt_notification =
  mn_OrderID :: string
  mn_TransactionStatus :: string
  mn_FraudStatus :: string
  mn_GrossAmount :: string
  mn_StatusCode :: string
  mn_SignatureKey :: string
  mn_SettlementTime :: string

definition dec_va_num :: "json \<Rightarrow> va_num option" where
  "dec_va_num v =
     dec_bind (dec_members v) (\<lambda>ms.
     dec_bind (str_field ''bank'' ms) (\<lambda>b.
     dec_bind (str_field ''va_number'' ms) (\<lambda>n.
     Some \<lparr>vn_Bank = b, vn_VANumber = n\<rparr>)))"

definition dec_qr_action :: "json \<Rightarrow> qr_action option" where
  "dec_qr_action v =
     dec_bind (dec_members v) (\<lambda>ms.
     dec_bind (str_field ''name'' ms) (\<lambda>n.
     dec_bind (str_field ''url'' ms) (\<lambda>u.
     Some \<lparr>qa_Name = n, qa_URL = u\<rparr>)))"

definition dec_charge_response :: "members \<Rightarrow> charge_response option" where
  "dec_charge_response ms =
     dec_bind (str_field ''status_code'' ms) (\<lambda>sc.
     dec_bind (str_field ''status_message'' ms) (\<lambda>sm.
     dec_bind (str_field ''order_id'' ms) (\<lambda>oi.
     dec_bind (str_field ''transaction_status'' ms) (\<lambda>ts.
     dec_bind (str_field ''gross_amount'' ms) (\<lambda>ga.
     dec_bind (str_field ''expiry_time'' ms) (\<lambda>et.
     dec_bind (json_field (dec_list dec_va_num) [] ''va_numbers'' ms) (\<lambda>vas.
     dec_bind (str_field ''permata_va_number'' ms) (\<lambda>pv.
     dec_bind (str_field ''bill_key'' ms) (\<lambda>bk.
     dec_bind (str_field ''biller_code'' ms) (\<lambda>bc.
     dec_bind (str_field ''qr_string'' ms) (\<lambda>qs.
     dec_bind (json_field (dec_list dec_qr_action) [] ''actions'' ms) (\<lambda>acts.
     Some \<lparr>cg_StatusCode = sc, cg_StatusMessage = sm, cg_OrderID = oi, cg_TransactionStatus = ts, cg_GrossAmount = ga,
           cg_ExpiryTime = et, cg_VANumbers = vas, cg_PermataVANumber = pv, cg_BillKey = bk, cg_BillerCode = bc,
           cg_QRString = qs, cg_Actions = acts\<rparr>))))))))))))"

definition dec_status_response :: "members \<Rightarrow> status_response option" where
  "dec_status_response ms =
     dec_bind (str_field ''transaction_status'' ms) (\<lambda>ts.
     dec_bind (str_field ''fraud_status'' ms) (\<lambda>fs.
     dec_bind (str_field ''status_code'' ms) (\<lambda>sc.
     dec_bind (str_field ''status_message'' ms) (\<lambda>sm.
     Some \<lparr>sr_TransactionStatus = ts, sr_FraudStatus = fs, sr_StatusCode = sc, sr_StatusMessage = sm\<rparr>))))"

definition dec_mt_notification :: "members \<Rightarrow> mt_notification option" where
  "dec_mt_notification ms =
     dec_bind (str_field ''order_id'' ms) (\<lambda>oi.
     dec_bind (str_field ''transaction_status'' ms) (\<lambda>ts.
     dec_bind (str_field ''fraud_status'' ms) (\<lambda>fs.
     dec_bind (str_field ''gross_amount'' ms) (\<lambda>ga.
     dec_bind (str_field ''status_code'' ms) (\<lambda>sc.
     dec_bind (str_field ''signature_key'' ms) (\<lambda>sk.
     dec_bind (str_field ''settlement_time'' ms) (\<lambda>st.
     Some \<lparr>mn_OrderID = oi, mn_TransactionStatus = ts, mn_FraudStatus = fs, mn_GrossAmount = ga, mn_StatusCode = sc,
           mn_SignatureKey = sk, mn_SettlementTime = st\<rparr>)))))))"

definition assertSuccess :: "charge_response \<Rightarrow> unit res" where
  "assertSuccess r =
     (if cg_StatusCode r \<noteq> ''200'' \<and> cg_StatusCode r \<noteq> ''201''
      then fail (''status '' @ cg_StatusCode r @ '': '' @ cg_StatusMessage r) else Inr ())"

definition mt_mapStatus :: "string \<Rightarrow> string \<Rightarrow> payment_status" where
  "mt_mapStatus txStatus fraudStatus =
     (if txStatus = ''settlement'' \<or> txStatus = ''capture''
      then (if fraudStatus = ''accept'' \<or> fraudStatus = '''' then PaymentStatusPaid else PaymentStatusFailed)
      else if txStatus = ''pending'' then PaymentStatusPending
      else if txStatus = ''expire'' then PaymentStatusExpired
      else if txStatus = ''cancel'' then PaymentStatusCancelled
      else PaymentStatusFailed)"

section \<open>Calls\<close>

definition mt_headers :: "midtrans \<Rightarrow> (string \<times> string) list" where
  "mt_headers g = [(''Accept'', ''application/json''), (''Authorization'', basic_auth (mt_serverKey g))]"

definition mt_post :: "provider_env \<Rightarrow> midtrans \<Rightarrow> string \<Rightarrow> json option \<Rightarrow> (members \<Rightarrow> 'a option) \<Rightarrow> 'a res" where
  "mt_post env g path body dec =
     res_bind (http_send env ''midtrans http''
       \<lparr>hq_Method = ''POST'', hq_URL = mt_baseURL g @ path,
        hq_Headers = (''Content-Type'', ''application/json'') # mt_headers g,
        hq_Body = (case body of None \<Rightarrow> '''' | Some b \<Rightarrow> pe_json_text env b)\<rparr>) (\<lambda>(status, b).
     json_unmarshal env dec b)"

definition mt_get :: "provider_env \<Rightarrow> midtrans \<Rightarrow> string \<Rightarrow> (members \<Rightarrow> 'a option) \<Rightarrow> 'a res" where
  "mt_get env g path dec =
     res_bind (http_send env ''midtrans http''
       \<lparr>hq_Method = ''GET'', hq_URL = mt_baseURL g @ path, hq_Headers = mt_headers g, hq_Body = ''''\<rparr>) (\<lambda>(status, b).
     json_unmarshal env dec b)"

definition buildVARequest :: "provider_env \<Rightarrow> create_va_request \<Rightarrow> json" where
  "buildVARequest env req =
     (let minutes = go_div (vr_ExpiryAt req - pe_now env) (60 * second);
          expiryMinutes = (if minutes < 1 then 1440 else minutes)
      in JObj ([(''transaction_details'', JObj [(''order_id'', JStr (vr_ExternalID req)), (''gross_amount'', JNum (fmt_d (vr_Amount req)))]),
                (''customer_details'', JObj [(''first_name'', JStr (vr_CustomerName req)), (''email'', JStr (vr_CustomerEmail req)),
                   (''phone'', JStr (vr_CustomerPhone req))]),
                (''custom_expiry'', JObj [(''expiry_duration'', JNum (fmt_d expiryMinutes)), (''unit'', JStr ''minute'')])]
               @ (if vr_BankCode req = BankMandiri
                  then [(''payment_type'', JStr ''echannel''),
                        (''echannel'', JObj [(''bill_info1'', JStr (vr_Description req)), (''bill_info2'', JStr ''Payment'')])]
                  else [(''payment_type'', JStr ''bank_transfer''),
                        (''bank_transfer'', JObj [(''bank'', JStr (ToLower (bank_code_str (vr_BankCode req))))])])))"

definition extractVANumber :: "charge_response \<Rightarrow> bank_code \<Rightarrow> string \<times> string" where
  "extractVANumber resp bank =
     (if bank = BankMandiri then (cg_BillKey resp, cg_BillerCode resp)
      else if bank = BankPermata then (cg_PermataVANumber resp, '''')
      else case cg_VANumbers resp of v # _ \<Rightarrow> (vn_VANumber v, '''') | [] \<Rightarrow> ('''', ''''))"

definition mt_CreateVA :: "provider_env \<Rightarrow> midtrans \<Rightarrow> create_va_request \<Rightarrow> create_va_response res" where
  "mt_CreateVA env g req =
     res_bind (mt_post env g ''/v2/charge'' (Some (buildVARequest env req)) dec_charge_response) (\<lambda>resp.
     res_bind (res_wrap ''midtrans create_va'' (assertSuccess resp)) (\<lambda>_.
     let (vaNumber, billerCode) = extractVANumber resp (vr_BankCode req);
         expiry = (case parse_datetime (cg_ExpiryTime resp) of
                     Some t \<Rightarrow> if t = zero_time then vr_ExpiryAt req else t
                   | None \<Rightarrow> vr_ExpiryAt req)
     in Inr \<lparr>vs_ExternalID = cg_OrderID resp, vs_ProviderPaymentID = cg_OrderID resp, vs_VANumber = vaNumber,
             vs_BillerCode = billerCode, vs_BankCode = vr_BankCode req, vs_Amount = vr_Amount req, vs_ExpiryAt = expiry\<rparr>))"

definition findActionURL :: "qr_action list \<Rightarrow> string \<Rightarrow> string" where
  "findActionURL actions name = (case find (\<lambda>a. qa_Name a = name) actions of None \<Rightarrow> '''' | Some a \<Rightarrow> qa_URL a)"

definition fetchQRString :: "provider_env \<Rightarrow> midtrans \<Rightarrow> string \<Rightarrow> string" where
  "fetchQRString env g qrURL =
     (case res_bind (http_send env ''midtrans http''
             \<lparr>hq_Method = ''GET'', hq_URL = qrURL, hq_Headers = [(''Authorization'', basic_auth (mt_serverKey g))], hq_Body = ''''\<rparr>)
             (\<lambda>(status, b). json_unmarshal env (str_field ''qr_string'') b) of
        Inl _ \<Rightarrow> ''''
      | Inr s \<Rightarrow> s)"

definition mt_CreateQRIS :: "provider_env \<Rightarrow> midtrans \<Rightarrow> create_qris_request \<Rightarrow> create_qris_response res" where
  "mt_CreateQRIS env g req =
     res_bind (mt_post env g ''/v2/charge'' (Some (JObj
       [(''payment_type'', JStr ''qris''),
        (''transaction_details'', JObj [(''order_id'', JStr (qr_ExternalID req)), (''gross_amount'', JNum (fmt_d (qr_Amount req)))]),
        (''customer_details'', JObj [(''first_name'', JStr (qr_CustomerName req)), (''email'', JStr (qr_CustomerEmail req)),
           (''phone'', JStr (qr_CustomerPhone req))]),
        (''qris'', JObj [(''acquirer'', JStr ''gopay'')])])) dec_charge_response) (\<lambda>resp.
     res_bind (res_wrap ''midtrans create_qris'' (assertSuccess resp)) (\<lambda>_.
     let qrImageURL = findActionURL (cg_Actions resp) ''generate-qr-code'';
         qrString = (if cg_QRString resp = '''' \<and> qrImageURL \<noteq> '''' then fetchQRString env g qrImageURL else cg_QRString resp)
     in Inr \<lparr>qs_ExternalID = cg_OrderID resp, qs_ProviderPaymentID = cg_OrderID resp, qs_QRString = qrString,
             qs_QRImageURL = qrImageURL, qs_Amount = qr_Amount req, qs_ExpiryAt = qr_ExpiryAt req\<rparr>))"

definition mt_CancelPayment :: "provider_env \<Rightarrow> midtrans \<Rightarrow> string \<Rightarrow> unit res" where
  "mt_CancelPayment env g extID =
     res_bind (mt_post env g (''/v2/'' @ extID @ ''/cancel'') None dec_charge_response) (\<lambda>resp.
     res_wrap ''midtrans cancel'' (assertSuccess resp))"

definition mt_GetStatus :: "provider_env \<Rightarrow> midtrans \<Rightarrow> string \<Rightarrow> payment_status res" where
  "mt_GetStatus env g extID =
     res_bind (mt_get env g (''/v2/'' @ extID @ ''/status'') dec_status_response) (\<lambda>resp.
     Inr (mt_mapStatus (sr_TransactionStatus resp) (sr_FraudStatus resp)))"

section \<open>Webhooks\<close>

definition mt_signature :: "provider_env \<Rightarrow> midtrans \<Rightarrow> mt_notification \<Rightarrow> string" where
  "mt_signature env g n =
     hex_encode (pe_sha512 env (mn_OrderID n @ mn_StatusCode n @ mn_GrossAmount n @ mt_serverKey g))"

definition verifySignature :: "provider_env \<Rightarrow> midtrans \<Rightarrow> mt_notification \<Rightarrow> bool" where
  "verifySignature env g n \<longleftrightarrow> mt_signature env g n = mn_SignatureKey n"

definition mt_ParseWebhook :: "provider_env \<Rightarrow> midtrans \<Rightarrow> headers \<Rightarrow> string \<Rightarrow> webhook_event res" where
  "mt_ParseWebhook env g hs body =
     res_bind (res_wrap ''midtrans webhook: unmarshal'' (json_unmarshal env dec_mt_notification body)) (\<lambda>n.
     if \<not> verifySignature env g n then fail ''midtrans webhook: invalid signature''
     else
       let status = mt_mapStatus (mn_TransactionStatus n) (mn_FraudStatus n);
           paidAt = (if status = PaymentStatusPaid \<and> mn_SettlementTime n \<noteq> '''' then parse_datetime (mn_SettlementTime n) else None)
       in Inr \<lparr>ev_ExternalID = mn_OrderID n, ev_Status = status, ev_PaidAt = paidAt,
               ev_Amount = go_ParseInt (takeWhile (\<lambda>c. c \<noteq> CHR ''.'') (mn_GrossAmount n)), ev_RawPayload = body\<rparr>)"

definition midtrans_gateway :: "provider_env \<Rightarrow> midtrans \<Rightarrow> payment_gateway" where
  "midtrans_gateway env g =
     \<lparr>pg_CreateVA = mt_CreateVA env g, pg_CreateQRIS = mt_CreateQRIS env g, pg_CancelPayment = mt_CancelPayment env g,
      pg_GetStatus = mt_GetStatus env g, pg_ParseWebhook = mt_ParseWebhook env g\<rparr>"

end
