(* ===== verification/Xendit.thy ===== *)
theory Xendit
  imports Wire
begin

text \<open>
  The Xendit adapter (internal/infrastructure/provider/xendit/xendit.go): cash-in over the
  Payment Request API v3 and cash-out over Payouts v2.
\<close>

record xendit_config =
  xc_Enabled :: bool
  xc_SecretKey :: string
  xc_WebhookToken :: string

record xendit =
  xd_secretKey :: string
  xd_webhookToken :: string

definition xendit_New :: "xendit_config \<Rightarrow> xendit option res" where
  "xendit_New cfg =
     (if \<not> xc_Enabled cfg then Inr None
      else if xc_SecretKey cfg = '''' then fail ''xendit: secret_key is required when enabled''
      else Inr (Some \<lparr>xd_secretKey = xc_SecretKey cfg, xd_webhookToken = xc_WebhookToken cfg\<rparr>))"

definition xd_baseURL :: string where
  "xd_baseURL = ''https://api.xendit.co''"

fun bank_known :: "bank_code \<Rightarrow> bool" where
  "bank_known (BankOther _) = False"
| "bank_known _ = True"

definition vaChannelCode :: "bank_code \<Rightarrow> string option" where
  "vaChannelCode b = (if bank_known b then Some (bank_code_str b @ ''_VIRTUAL_ACCOUNT'') else None)"

definition disbChannelCode :: "bank_code \<Rightarrow> string option" where
  "disbChannelCode b = (if bank_known b then Some (''ID_'' @ bank_code_str b) else None)"

section \<open>Responses\<close>

record xd_action =
  xa_Type :: string
  xa_Descriptor :: string
  xa_Value :: string

record payment_request_response =
  pq_PaymentRequestID :: string
  pq_ReferenceID :: string
  pq_Status :: string
  pq_RequestAmount :: int64
  pq_ChannelCode :: string
  pq_Actions :: "xd_action list"

record xd_disb_response =
  xr_ID :: string
  xr_Status :: string
  xr_Amount :: int64

record xd_payment_notification =
  xn_ReferenceID :: string
  xn_Status :: string
  xn_Amount :: int64

record xd_disb_notification =
  xw_ID :: string
  xw_Status :: string
  xw_Amount :: int64
  xw_FailureCode :: string

definition dec_xd_action :: "json \<Rightarrow> xd_action option" where
  "dec_xd_action v =
     dec_bind (dec_members v) (\<lambda>ms.
     dec_bind (str_field ''type'' ms) (\<lambda>t.
     dec_bind (str_field ''descriptor'' ms) (\<lambda>d.
     dec_bind (str_field ''value'' ms) (\<lambda>x.
     Some \<lparr>xa_Type = t, xa_Descriptor = d, xa_Value = x\<rparr>))))"

definition dec_payment_request :: "members \<Rightarrow> payment_request_response option" where
  "dec_payment_request ms =
     dec_bind (str_field ''payment_request_id'' ms) (\<lambda>i.
     dec_bind (str_field ''reference_id'' ms) (\<lambda>r.
     dec_bind (str_field ''status'' ms) (\<lambda>s.
     dec_bind (int_field ''request_amount'' ms) (\<lambda>a.
     dec_bind (str_field ''channel_code'' ms) (\<lambda>c.
     dec_bind (json_field (dec_list dec_xd_action) [] ''actions'' ms) (\<lambda>acts.
     Some \<lparr>pq_PaymentRequestID = i, pq_ReferenceID = r, pq_Status = s, pq_RequestAmount = a, pq_ChannelCode = c,
           pq_Actions = acts\<rparr>))))))"

definition dec_xd_disb :: "members \<Rightarrow> xd_disb_response option" where
  "dec_xd_disb ms =
     dec_bind (str_field ''id'' ms) (\<lambda>i.
     dec_bind (str_field ''status'' ms) (\<lambda>s.
     dec_bind (int_field ''amount'' ms) (\<lambda>a.
     Some \<lparr>xr_ID = i, xr_Status = s, xr_Amount = a\<rparr>)))"

text \<open>The fields of the two notifications that are read, after the members every notification decodes.\<close>

definition dec_xd_payment_notification :: "members \<Rightarrow> xd_payment_notification option" where
  "dec_xd_payment_notification ms =
     dec_bind (str_field ''event'' ms) (\<lambda>_.
     dec_bind (str_field ''business_id'' ms) (\<lambda>_.
     dec_bind (nested ''data'' ms) (\<lambda>d.
     dec_bind (str_field ''payment_request_id'' d) (\<lambda>_.
     dec_bind (str_field ''reference_id'' d) (\<lambda>r.
     dec_bind (str_field ''status'' d) (\<lambda>s.
     dec_bind (int_field ''amount'' d) (\<lambda>a.
     dec_bind (str_field ''channel_code'' d) (\<lambda>_.
     Some \<lparr>xn_ReferenceID = r, xn_Status = s, xn_Amount = a\<rparr>))))))))"

definition dec_xd_disb_notification :: "members \<Rightarrow> xd_disb_notification option" where
  "dec_xd_disb_notification ms =
     dec_bind (str_field ''event'' ms) (\<lambda>_.
     dec_bind (nested ''data'' ms) (\<lambda>d.
     dec_bind (str_field ''id'' d) (\<lambda>i.
     dec_bind (str_field ''reference_id'' d) (\<lambda>_.
     dec_bind (str_field ''status'' d) (\<lambda>s.
     dec_bind (int_field ''amount'' d) (\<lambda>a.
     dec_bind (str_field ''failure_code'' d) (\<lambda>f.
     Some \<lparr>xw_ID = i, xw_Status = s, xw_Amount = a, xw_FailureCode = f\<rparr>)))))))"

definition xd_findAction :: "payment_request_response \<Rightarrow> string \<Rightarrow> string" where
  "xd_findAction r descriptor =
     (case find (\<lambda>a. xa_Descriptor a = descriptor) (pq_Actions r) of None \<Rightarrow> '''' | Some a \<Rightarrow> xa_Value a)"

definition xd_mapPaymentStatus :: "string \<Rightarrow> payment_status" where
  "xd_mapPaymentStatus s =
     (let u = ToUpper s in
      if u = ''SUCCEEDED'' then PaymentStatusPaid
      else if u = ''REQUIRES_ACTION'' \<or> u = ''ACCEPTING_PAYMENTS'' \<or> u = ''AUTHORIZED'' then PaymentStatusPending
      else if u = ''EXPIRED'' then PaymentStatusExpired
      else if u = ''CANCELED'' then PaymentStatusCancelled
      else PaymentStatusFailed)"

definition xd_mapDisbStatus :: "string \<Rightarrow> disbursement_status" where
  "xd_mapDisbStatus s =
     (let u = ToUpper s in
      if u = ''ACCEPTED'' \<or> u = ''REQUESTED'' then DisbursementStatusProcessing
      else if u = ''SUCCEEDED'' then DisbursementStatusCompleted
      else if u = ''FAILED'' \<or> u = ''CANCELLED'' \<or> u = ''REVERSED'' then DisbursementStatusFailed
      else DisbursementStatusPending)"

section \<open>Calls\<close>

text \<open>A status of 400 or more is an error, worded by the error body if it can be read.\<close>

record xd_api_error =
  xe_ErrorCode :: string
  xe_Message :: string
  xe_Errors :: "string list"

definition dec_api_error :: "members \<Rightarrow> xd_api_error option" where
  "dec_api_error ms =
     dec_bind (str_field ''error_code'' ms) (\<lambda>c.
     dec_bind (str_field ''message'' ms) (\<lambda>m.
     dec_bind (json_field (dec_list (\<lambda>v. if v = JNull then Some '''' else dec_string v)) [] ''errors'' ms) (\<lambda>es.
     Some \<lparr>xe_ErrorCode = c, xe_Message = m, xe_Errors = es\<rparr>)))"

definition fmt_strings :: "string list \<Rightarrow> string" where
  "fmt_strings xs = ''['' @ concat (case xs of [] \<Rightarrow> [] | y # ys \<Rightarrow> y # map (\<lambda>x. '' '' @ x) ys) @ '']''"

definition xd_doRequest :: "provider_env \<Rightarrow> api_request \<Rightarrow> (members \<Rightarrow> 'a option) \<Rightarrow> 'a res" where
  "xd_doRequest env req dec =
     res_bind (http_send env ''xendit http'' req) (\<lambda>(status, b).
     if status \<ge> 400
     then (case json_unmarshal env dec_api_error b of
             Inr err \<Rightarrow>
               if xe_Message err \<noteq> ''''
               then (if xe_Errors err \<noteq> []
                     then fail (xe_ErrorCode err @ '': '' @ xe_Message err @ '' - '' @ fmt_strings (xe_Errors err))
                     else fail (xe_ErrorCode err @ '': '' @ xe_Message err))
               else fail (''HTTP '' @ fmt_d status @ '': '' @ b)
           | Inl _ \<Rightarrow> fail (''HTTP '' @ fmt_d status @ '': '' @ b))
     else json_unmarshal env dec b)"

definition xd_headers :: "xendit \<Rightarrow> (string \<times> string) list" where
  "xd_headers g =
     [(''Content-Type'', ''application/json''), (''Accept'', ''application/json''), (''Authorization'', basic_auth (xd_secretKey g))]"

definition xd_requestV3 :: "provider_env \<Rightarrow> xendit \<Rightarrow> string \<Rightarrow> string \<Rightarrow> json option \<Rightarrow> (members \<Rightarrow> 'a option) \<Rightarrow> 'a res" where
  "xd_requestV3 env g meth path body dec =
     xd_doRequest env
       \<lparr>hq_Method = meth, hq_URL = xd_baseURL @ path, hq_Headers = xd_headers g @ [(''api-version'', ''2024-11-11'')],
        hq_Body = (case body of None \<Rightarrow> '''' | Some b \<Rightarrow> pe_json_text env b)\<rparr> dec"

definition xd_request :: "provider_env \<Rightarrow> xendit \<Rightarrow> string \<Rightarrow> string \<Rightarrow> string \<Rightarrow> json option \<Rightarrow> (members \<Rightarrow> 'a option) \<Rightarrow> 'a res" where
  "xd_request env g meth path idempotencyKey body dec =
     xd_doRequest env
       \<lparr>hq_Method = meth, hq_URL = xd_baseURL @ path,
        hq_Headers = xd_headers g @ (if idempotencyKey \<noteq> '''' then [(''Idempotency-key'', idempotencyKey)] else []),
        hq_Body = (case body of None \<Rightarrow> '''' | Some b \<Rightarrow> pe_json_text env b)\<rparr> dec"

definition xd_charge_body :: "string \<Rightarrow> int64 \<Rightarrow> string \<Rightarrow> members \<Rightarrow> time \<Rightarrow> string \<Rightarrow> json" where
  "xd_charge_body reference amount channel props expiry description =
     JObj ([(''reference_id'', JStr reference), (''type'', JStr ''PAY''), (''country'', JStr ''ID''), (''currency'', JStr ''IDR''),
            (''request_amount'', JNum (fmt_d amount)), (''channel_code'', JStr channel),
            (''channel_properties'', JObj (props @
               (if expiry \<noteq> zero_time then [(''expires_at'', JStr (format_rfc3339_utc expiry))] else [])))]
           @ (if description \<noteq> '''' then [(''description'', JStr description)] else []))"

definition xd_CreateVA :: "provider_env \<Rightarrow> xendit \<Rightarrow> create_va_request \<Rightarrow> create_va_response res" where
  "xd_CreateVA env g req =
     (case vaChannelCode (vr_BankCode req) of
        None \<Rightarrow> fail (''xendit: unsupported bank code '' @ bank_code_str (vr_BankCode req) @ '' for VA'')
      | Some channel \<Rightarrow>
          res_bind (res_wrap ''xendit create_va''
            (xd_requestV3 env g ''POST'' ''/v3/payment_requests''
               (Some (xd_charge_body (vr_ExternalID req) (vr_Amount req) channel [(''display_name'', JStr (vr_CustomerName req))]
                        (vr_ExpiryAt req) (vr_Description req))) dec_payment_request)) (\<lambda>resp.
          let vaNumber = xd_findAction resp ''VIRTUAL_ACCOUNT_NUMBER'' in
          if vaNumber = '''' then fail ''xendit create_va: VIRTUAL_ACCOUNT_NUMBER not found in actions''
          else Inr \<lparr>vs_ExternalID = vr_ExternalID req, vs_ProviderPaymentID = pq_PaymentRequestID resp, vs_VANumber = vaNumber,
                    vs_BillerCode = '''', vs_BankCode = vr_BankCode req, vs_Amount = vr_Amount req, vs_ExpiryAt = vr_ExpiryAt req\<rparr>))"

definition xd_CreateQRIS :: "provider_env \<Rightarrow> xendit \<Rightarrow> create_qris_request \<Rightarrow> create_qris_response res" where
  "xd_CreateQRIS env g req =
     res_bind (res_wrap ''xendit create_qris''
       (xd_requestV3 env g ''POST'' ''/v3/payment_requests''
          (Some (xd_charge_body (qr_ExternalID req) (qr_Amount req) ''QRIS'' [(''qr_string_type'', JStr ''DYNAMIC'')]
                   (qr_ExpiryAt req) (qr_Description req))) dec_payment_request)) (\<lambda>resp.
     let qrString = xd_findAction resp ''QR_STRING'' in
     if qrString = '''' then fail ''xendit create_qris: QR_STRING not found in actions''
     else Inr \<lparr>qs_ExternalID = qr_ExternalID req, qs_ProviderPaymentID = pq_PaymentRequestID resp, qs_QRString = qrString,
               qs_QRImageURL = '''', qs_Amount = qr_Amount req, qs_ExpiryAt = qr_ExpiryAt req\<rparr>)"

definition xd_CancelPayment :: "provider_env \<Rightarrow> xendit \<Rightarrow> string \<Rightarrow> unit res" where
  "xd_CancelPayment env g providerPaymentID =
     res_bind (res_wrap ''xendit cancel''
       (xd_requestV3 env g ''POST'' (''/v3/payment_requests/'' @ providerPaymentID @ ''/cancel'') None dec_payment_request)) (\<lambda>_.
     Inr ())"

definition xd_GetStatus :: "provider_env \<Rightarrow> xendit \<Rightarrow> string \<Rightarrow> payment_status res" where
  "xd_GetStatus env g providerPaymentID =
     res_bind (res_wrap ''xendit get_status''
       (xd_requestV3 env g ''GET'' (''/v3/payment_requests/'' @ providerPaymentID) None dec_payment_request)) (\<lambda>resp.
     Inr (xd_mapPaymentStatus (pq_Status resp)))"

definition xd_Disburse :: "provider_env \<Rightarrow> xendit \<Rightarrow> disburse_request \<Rightarrow> disburse_response res" where
  "xd_Disburse env g req =
     (case disbChannelCode (dr_BankCode req) of
        None \<Rightarrow> fail (''xendit disburse: unsupported bank code '' @ bank_code_str (dr_BankCode req))
      | Some channel \<Rightarrow>
          res_bind (res_wrap ''xendit disburse''
            (xd_request env g ''POST'' ''/v2/payouts'' (dr_ExternalID req)
               (Some (JObj
                 [(''reference_id'', JStr (dr_ExternalID req)), (''channel_code'', JStr channel),
                  (''channel_properties'', JObj [(''account_holder_name'', JStr (dr_AccountName req)),
                     (''account_number'', JStr (dr_AccountNumber req))]),
                  (''amount'', JNum (fmt_d (dr_Amount req))), (''currency'', JStr ''IDR''), (''description'', JStr (dr_Description req))]))
               dec_xd_disb)) (\<lambda>resp.
          Inr \<lparr>ds_ExternalID = xr_ID resp, ds_Status = xd_mapDisbStatus (xr_Status resp), ds_Amount = dr_Amount req\<rparr>))"

definition xd_GetDisbursementStatus :: "provider_env \<Rightarrow> xendit \<Rightarrow> string \<Rightarrow> disburse_response res" where
  "xd_GetDisbursementStatus env g extID =
     res_bind (res_wrap ''xendit get_disbursement_status''
       (xd_request env g ''GET'' (''/v2/payouts/'' @ extID) '''' None dec_xd_disb)) (\<lambda>resp.
     Inr \<lparr>ds_ExternalID = xr_ID resp, ds_Status = xd_mapDisbStatus (xr_Status resp), ds_Amount = xr_Amount resp\<rparr>)"

section \<open>Webhooks\<close>

definition xd_ParseWebhook :: "provider_env \<Rightarrow> xendit \<Rightarrow> headers \<Rightarrow> string \<Rightarrow> webhook_event res" where
  "xd_ParseWebhook env g hs body =
     (if header_of hs ''x-callback-token'' \<noteq> xd_webhookToken g then fail ''xendit webhook: invalid callback token''
      else
        res_bind (res_wrap ''xendit webhook: unmarshal'' (json_unmarshal env dec_xd_payment_notification body)) (\<lambda>n.
        Inr \<lparr>ev_ExternalID = xn_ReferenceID n, ev_Status = xd_mapPaymentStatus (xn_Status n), ev_PaidAt = None,
             ev_Amount = xn_Amount n, ev_RawPayload = body\<rparr>))"

definition xd_ParseDisbursementWebhook :: "provider_env \<Rightarrow> xendit \<Rightarrow> headers \<Rightarrow> string \<Rightarrow> disbursement_webhook_event res" where
  "xd_ParseDisbursementWebhook env g hs body =
     (if header_of hs ''x-callback-token'' \<noteq> xd_webhookToken g then fail ''xendit disbursement webhook: invalid callback token''
      else
        res_bind (res_wrap ''xendit disbursement webhook: unmarshal'' (json_unmarshal env dec_xd_disb_notification body)) (\<lambda>n.
        Inr \<lparr>de_ExternalID = xw_ID n, de_Status = xd_mapDisbStatus (xw_Status n), de_FailureReason = xw_FailureCode n,
             de_Amount = xw_Amount n, de_RawPayload = body\<rparr>))"

definition xendit_gateway :: "provider_env \<Rightarrow> xendit \<Rightarrow> payment_gateway" where
  "xendit_gateway env g =
     \<lparr>pg_CreateVA = xd_CreateVA env g, pg_CreateQRIS = xd_CreateQRIS env g, pg_CancelPayment = xd_CancelPayment env g,
      pg_GetStatus = xd_GetStatus env g, pg_ParseWebhook = xd_ParseWebhook env g\<rparr>"

definition xendit_disbursement_gateway :: "provider_env \<Rightarrow> xendit \<Rightarrow> disbursement_gateway" where
  "xendit_disbursement_gateway env g =
     \<lparr>dg_Disburse = xd_Disburse env g, dg_GetDisbursementStatus = xd_GetDisbursementStatus env g,
      dg_ParseDisbursementWebhook = xd_ParseDisbursementWebhook env g\<rparr>"

end
