(* ===== verification/Ipaymu.thy ===== *)
theory Ipaymu
  imports Wire
begin

text \<open>The iPaymu adapter (internal/infrastructure/provider/ipaymu/ipaymu.go): a cash-in gateway.\<close>

record ipaymu_config =
  ic_Enabled :: bool
  ic_APIKey :: string
  ic_VA :: string
  ic_IsProduction :: bool
  ic_NotifyURL :: string
  ic_WebhookSecret :: string

record ipaymu =
  ip_apiKey :: string
  ip_va :: string
  ip_baseURL :: string
  ip_notifyURL :: string
  ip_webhookSecret :: string

definition ipaymu_New :: "ipaymu_config \<Rightarrow> ipaymu option res" where
  "ipaymu_New cfg =
     (if \<not> ic_Enabled cfg then Inr None
      else if ic_APIKey cfg = '''' \<or> ic_VA cfg = '''' then fail ''ipaymu: api_key and va are required when enabled''
      else
        let base = (if ic_IsProduction cfg then ''https://my.ipaymu.com/api/v2'' else ''https://sandbox.ipaymu.com/api/v2'');
            notify = (if ic_NotifyURL cfg = '''' then base @ ''/notify'' else ic_NotifyURL cfg);
            notify = (if ic_WebhookSecret cfg \<noteq> '''' then notify @ ''?wt='' @ ic_WebhookSecret cfg else notify)
        in Inr (Some \<lparr>ip_apiKey = ic_APIKey cfg, ip_va = ic_VA cfg, ip_baseURL = base, ip_notifyURL = notify,
                      ip_webhookSecret = ic_WebhookSecret cfg\<rparr>))"

fun vaChannel :: "bank_code \<Rightarrow> string option" where
  "vaChannel (BankOther _) = None"
| "vaChannel b = Some (ToLower (bank_code_str b))"

definition ip_mapStatus :: "string \<Rightarrow> payment_status" where
  "ip_mapStatus status =
     (let s = ToLower status in
      if s = ''paid'' \<or> s = ''settled'' \<or> s = ''1'' then PaymentStatusPaid
      else if s = ''pending'' \<or> s = ''waiting'' \<or> s = ''0'' then PaymentStatusPending
      else if s = ''expired'' \<or> s = ''2'' then PaymentStatusExpired
      else if s = ''cancelled'' \<or> s = ''3'' then PaymentStatusCancelled
      else PaymentStatusFailed)"

section \<open>Responses\<close>

record ip_payment_response =
  iy_Status :: int64
  iy_Message :: string
  iy_SessionID :: string
  iy_ReferenceID :: string
  iy_PaymentNo :: string
  iy_QrString :: string
  iy_QrImage :: string

record ip_transaction_response =
  it_Status :: int64
  it_PaidStatus :: string

record ip_notification =
  in_ReferenceID :: string
  in_StatusCode :: string
  in_Amount :: int64

definition dec_ip_payment :: "members \<Rightarrow> ip_payment_response option" where
  "dec_ip_payment ms =
     dec_bind (int_field ''Status'' ms) (\<lambda>s.
     dec_bind (str_field ''Message'' ms) (\<lambda>m.
     dec_bind (nested ''Data'' ms) (\<lambda>d.
     dec_bind (str_field ''SessionId'' d) (\<lambda>si.
     dec_bind (str_field ''ReferenceId'' d) (\<lambda>ri.
     dec_bind (str_field ''PaymentNo'' d) (\<lambda>pn.
     dec_bind (str_field ''PaymentName'' d) (\<lambda>_.
     dec_bind (str_field ''QrString'' d) (\<lambda>qs.
     dec_bind (str_field ''QrImage'' d) (\<lambda>qi.
     dec_bind (str_field ''Expired'' d) (\<lambda>_.
     Some \<lparr>iy_Status = s, iy_Message = m, iy_SessionID = si, iy_ReferenceID = ri, iy_PaymentNo = pn, iy_QrString = qs,
           iy_QrImage = qi\<rparr>))))))))))"

definition dec_ip_transaction :: "members \<Rightarrow> ip_transaction_response option" where
  "dec_ip_transaction ms =
     dec_bind (int_field ''Status'' ms) (\<lambda>s.
     dec_bind (str_field ''Message'' ms) (\<lambda>_.
     dec_bind (nested ''Data'' ms) (\<lambda>d.
     dec_bind (int_field ''TransactionId'' d) (\<lambda>_.
     dec_bind (str_field ''ReferenceId'' d) (\<lambda>_.
     dec_bind (str_field ''SessionId'' d) (\<lambda>_.
     dec_bind (int_field ''Status'' d) (\<lambda>_.
     dec_bind (str_field ''PaidStatus'' d) (\<lambda>ps.
     dec_bind (int_field ''Amount'' d) (\<lambda>_.
     Some \<lparr>it_Status = s, it_PaidStatus = ps\<rparr>)))))))))"

definition dec_ip_notification :: "members \<Rightarrow> ip_notification option" where
  "dec_ip_notification ms =
     dec_bind (str_field ''reference_id'' ms) (\<lambda>r.
     dec_bind (str_field ''status_code'' ms) (\<lambda>c.
     dec_bind (str_field ''status'' ms) (\<lambda>_.
     dec_bind (int_field ''amount'' ms) (\<lambda>a.
     dec_bind (str_field ''created_at'' ms) (\<lambda>_.
     Some \<lparr>in_ReferenceID = r, in_StatusCode = c, in_Amount = a\<rparr>)))))"

section \<open>Calls\<close>

definition ip_signature :: "provider_env \<Rightarrow> ipaymu \<Rightarrow> string \<Rightarrow> string" where
  "ip_signature env g body =
     (let bodyHash = ToLower (hex_encode (pe_sha256 env body));
          stringToSign = ''POST:'' @ ip_va g @ '':'' @ bodyHash @ '':'' @ ip_apiKey g
      in hex_encode (pe_hmac_sha256 env (ip_apiKey g) stringToSign))"

text \<open>\<open>time.Now().Format("20060102150405")\<close>, in local time.\<close>

definition ip_timestamp :: "provider_env \<Rightarrow> string" where
  "ip_timestamp env =
     (let t = pe_now env + pe_local_offset env * second in format_date '''' t @ format_clock '''' t)"

definition ip_post :: "provider_env \<Rightarrow> ipaymu \<Rightarrow> string \<Rightarrow> json \<Rightarrow> (members \<Rightarrow> 'a option) \<Rightarrow> 'a res" where
  "ip_post env g path body dec =
     (let b = pe_json_text env body in
      res_bind (http_send env ''ipaymu http''
        \<lparr>hq_Method = ''POST'', hq_URL = ip_baseURL g @ path,
         hq_Headers = [(''Content-Type'', ''application/json''), (''Accept'', ''application/json''), (''va'', ip_va g),
                       (''signature'', ip_signature env g b), (''timestamp'', ip_timestamp env)],
         hq_Body = b\<rparr>) (\<lambda>(status, rb).
      json_unmarshal env dec rb))"

definition buildBody :: "provider_env \<Rightarrow> string \<Rightarrow> int64 \<Rightarrow> string \<Rightarrow> string \<Rightarrow> string \<Rightarrow> string \<Rightarrow> time \<Rightarrow> string \<Rightarrow> string \<Rightarrow> string \<Rightarrow> json" where
  "buildBody env description amount name email phone referenceID expiryAt meth channel notifyURL =
     (let description = (if description = '''' then referenceID else description);
          opt = (\<lambda>k v. if v \<noteq> '''' then [(k, JStr v)] else [])
      in JObj ([(''product'', JArr [JStr description]), (''qty'', JArr [JNum ''1'']), (''price'', JArr [JNum (fmt_d amount)]),
                (''amount'', JNum (fmt_d amount)), (''description'', JArr [JStr description]), (''referenceId'', JStr referenceID),
                (''expiredDate'', JStr (format_datetime (pe_local_offset env) expiryAt)), (''paymentMethod'', JStr meth),
                (''paymentChannel'', JStr channel), (''notifyUrl'', JStr notifyURL)]
               @ opt ''name'' name @ opt ''email'' email @ opt ''phone'' phone))"

definition ip_CreateVA :: "provider_env \<Rightarrow> ipaymu \<Rightarrow> create_va_request \<Rightarrow> create_va_response res" where
  "ip_CreateVA env g req =
     (case vaChannel (vr_BankCode req) of
        None \<Rightarrow> fail (''ipaymu: unsupported bank code '' @ bank_code_str (vr_BankCode req))
      | Some channel \<Rightarrow>
          res_bind (res_wrap ''ipaymu create_va''
            (ip_post env g ''/payment/direct''
               (buildBody env (vr_Description req) (vr_Amount req) (vr_CustomerName req) (vr_CustomerEmail req)
                  (vr_CustomerPhone req) (vr_ExternalID req) (vr_ExpiryAt req) ''va'' channel (ip_notifyURL g))
               dec_ip_payment)) (\<lambda>resp.
          if iy_Status resp \<noteq> 200 then fail (''ipaymu create_va: '' @ iy_Message resp)
          else Inr \<lparr>vs_ExternalID = iy_ReferenceID resp, vs_ProviderPaymentID = iy_SessionID resp, vs_VANumber = iy_PaymentNo resp,
                    vs_BillerCode = '''', vs_BankCode = vr_BankCode req, vs_Amount = vr_Amount req, vs_ExpiryAt = vr_ExpiryAt req\<rparr>))"

definition ip_CreateQRIS :: "provider_env \<Rightarrow> ipaymu \<Rightarrow> create_qris_request \<Rightarrow> create_qris_response res" where
  "ip_CreateQRIS env g req =
     res_bind (res_wrap ''ipaymu create_qris''
       (ip_post env g ''/payment/direct''
          (buildBody env (qr_Description req) (qr_Amount req) (qr_CustomerName req) (qr_CustomerEmail req)
             (qr_CustomerPhone req) (qr_ExternalID req) (qr_ExpiryAt req) ''qris'' ''qris'' (ip_notifyURL g))
          dec_ip_payment)) (\<lambda>resp.
     if iy_Status resp \<noteq> 200 then fail (''ipaymu create_qris: '' @ iy_Message resp)
     else Inr \<lparr>qs_ExternalID = iy_ReferenceID resp, qs_ProviderPaymentID = iy_SessionID resp, qs_QRString = iy_QrString resp,
               qs_QRImageURL = iy_QrImage resp, qs_Amount = qr_Amount req, qs_ExpiryAt = qr_ExpiryAt req\<rparr>)"

definition ip_CancelPayment :: "string \<Rightarrow> unit res" where
  "ip_CancelPayment i = fail ''ipaymu: cancel payment not supported''"

definition ip_GetStatus :: "provider_env \<Rightarrow> ipaymu \<Rightarrow> string \<Rightarrow> payment_status res" where
  "ip_GetStatus env g providerPaymentID =
     res_bind (res_wrap ''ipaymu get_status''
       (ip_post env g ''/transaction'' (JObj [(''transactionId'', JStr providerPaymentID)]) dec_ip_transaction)) (\<lambda>resp.
     Inr (ip_mapStatus (it_PaidStatus resp)))"

section \<open>Webhooks\<close>

definition ip_ParseWebhook :: "provider_env \<Rightarrow> ipaymu \<Rightarrow> headers \<Rightarrow> string \<Rightarrow> webhook_event res" where
  "ip_ParseWebhook env g hs body =
     (if ip_webhookSecret g \<noteq> '''' \<and> header_of hs ''x-wt'' \<noteq> ip_webhookSecret g then fail ''ipaymu webhook: invalid token''
      else
        res_bind (res_wrap ''ipaymu webhook: unmarshal'' (json_unmarshal env dec_ip_notification body)) (\<lambda>n.
        Inr \<lparr>ev_ExternalID = in_ReferenceID n, ev_Status = ip_mapStatus (in_StatusCode n), ev_PaidAt = None,
             ev_Amount = in_Amount n, ev_RawPayload = body\<rparr>))"

definition ipaymu_gateway :: "provider_env \<Rightarrow> ipaymu \<Rightarrow> payment_gateway" where
  "ipaymu_gateway env g =
     \<lparr>pg_CreateVA = ip_CreateVA env g, pg_CreateQRIS = ip_CreateQRIS env g, pg_CancelPayment = ip_CancelPayment,
      pg_GetStatus = ip_GetStatus env g, pg_ParseWebhook = ip_ParseWebhook env g\<rparr>"

text \<open>
  The status poll reads the field documented as "unpaid" or "paid", and maps "unpaid" to
  failed: an open payment is reported as failed.
\<close>

lemma ip_GetStatus_unpaid:
  "ip_post env g ''/transaction'' (JObj [(''transactionId'', JStr i)]) dec_ip_transaction = Inr resp \<Longrightarrow>
     it_PaidStatus resp = ''unpaid'' \<Longrightarrow> ip_GetStatus env g i = Inr PaymentStatusFailed"
  by (simp add: ip_GetStatus_def ip_mapStatus_def res_wrap_def ToLower_def char_lower_def)

end
