(* ===== verification/Doku.thy ===== *)
theory Doku
  imports Wire
begin

text \<open>
  The DOKU adapter (internal/infrastructure/provider/doku/doku.go): cash-in and cash-out over
  SNAP. The gateway caches its B2B access token under a mutex, so its operations are actions
  on that cache. RSA and the hashes are parameters.
\<close>

record doku_config =
  dc_Enabled :: bool
  dc_ClientID :: string
  dc_SecretKey :: string
  dc_PrivateKeyPEM :: string
  dc_IsProduction :: bool

record doku =
  dk_clientID :: string
  dk_secretKey :: string
  dk_hmacKey :: string
  dk_privateKey :: string
  dk_baseURL :: string

record doku_token =
  dt_token :: string
  dt_exp :: time

definition no_token :: doku_token where
  "no_token = \<lparr>dt_token = '''', dt_exp = zero_time\<rparr>"

definition is_space :: "char \<Rightarrow> bool" where
  "is_space c \<longleftrightarrow> c \<in> {CHR '' '', CHR 0x09, CHR 0x0A, CHR 0x0B, CHR 0x0C, CHR 0x0D}"

definition TrimSpace :: "string \<Rightarrow> string" where
  "TrimSpace s = rev (dropWhile is_space (rev (dropWhile is_space s)))"

definition doku_New :: "provider_env \<Rightarrow> doku_config \<Rightarrow> doku option res" where
  "doku_New env cfg =
     (if \<not> dc_Enabled cfg then Inr None
      else if dc_ClientID cfg = '''' \<or> dc_SecretKey cfg = '''' then fail ''doku: client_id and secret_key are required when enabled''
      else if dc_PrivateKeyPEM cfg = '''' then fail ''doku: private_key is required when enabled (RSA PKCS8 PEM for B2B token)''
      else
        res_bind (res_wrap ''doku: parse private_key_pem'' (pe_rsa_parse env (dc_PrivateKeyPEM cfg))) (\<lambda>key.
        Inr (Some \<lparr>dk_clientID = dc_ClientID cfg, dk_secretKey = dc_SecretKey cfg, dk_hmacKey = TrimSpace (dc_SecretKey cfg),
                   dk_privateKey = key,
                   dk_baseURL = (if dc_IsProduction cfg then ''https://api.doku.com'' else ''https://api-sandbox.doku.com'')\<rparr>)))"

definition bankChannel :: "bank_code \<Rightarrow> string" where
  "bankChannel b = (case b of BankOther _ \<Rightarrow> '''' | _ \<Rightarrow> ''VIRTUAL_ACCOUNT_BANK_'' @ bank_code_str b)"

definition dk_mapStatus :: "string \<Rightarrow> payment_status" where
  "dk_mapStatus code =
     (if code = ''00'' \<or> code = ''2002700'' then PaymentStatusPaid
      else if code = ''03'' then PaymentStatusPending
      else if code = ''05'' then PaymentStatusCancelled
      else PaymentStatusFailed)"

definition dk_mapDisbStatus :: "string \<Rightarrow> disbursement_status" where
  "dk_mapDisbStatus code =
     (if code = ''2000000'' \<or> code = ''00'' then DisbursementStatusCompleted
      else if code = ''2020000'' then DisbursementStatusProcessing
      else DisbursementStatusFailed)"

section \<open>Responses\<close>

text \<open>\<open>baseResponse\<close> is embedded, so its members are decoded from the same object.\<close>

record dk_base =
  db_ResponseCode :: string
  db_ResponseMessage :: string

record dk_va_response = dk_base +
  dv_VirtualAccountNo :: string

record dk_qr_response = dk_base +
  dq_ReferenceNo :: string
  dq_QRContent :: string

record dk_disb_response = dk_base +
  dp_PartnerReferenceNo :: string

record dk_va_notification =
  dn_ResponseCode :: string
  dn_TrxID :: string
  dn_Amount :: int64

record dk_disb_notification =
  dw_ResponseCode :: string
  dw_PartnerReferenceNo :: string
  dw_Amount :: int64
  dw_FailureCode :: string

record dk_token_response =
  tk_ResponseCode :: string
  tk_ResponseMessage :: string
  tk_AccessToken :: string
  tk_ExpiresIn :: json

definition dec_dk_base :: "members \<Rightarrow> dk_base option" where
  "dec_dk_base ms =
     dec_bind (str_field ''responseCode'' ms) (\<lambda>c.
     dec_bind (str_field ''responseMessage'' ms) (\<lambda>m.
     Some \<lparr>db_ResponseCode = c, db_ResponseMessage = m\<rparr>))"

definition dec_dk_va :: "members \<Rightarrow> dk_va_response option" where
  "dec_dk_va ms =
     dec_bind (dec_dk_base ms) (\<lambda>b.
     dec_bind (dec_bind (nested ''virtualAccountData'' ms) (str_field ''virtualAccountNo'')) (\<lambda>n.
     Some \<lparr>db_ResponseCode = db_ResponseCode b, db_ResponseMessage = db_ResponseMessage b, dv_VirtualAccountNo = n\<rparr>))"

definition dec_dk_qr :: "members \<Rightarrow> dk_qr_response option" where
  "dec_dk_qr ms =
     dec_bind (dec_dk_base ms) (\<lambda>b.
     dec_bind (str_field ''referenceNo'' ms) (\<lambda>r.
     dec_bind (str_field ''qrContent'' ms) (\<lambda>q.
     Some \<lparr>db_ResponseCode = db_ResponseCode b, db_ResponseMessage = db_ResponseMessage b, dq_ReferenceNo = r,
           dq_QRContent = q\<rparr>)))"

definition dec_dk_disb :: "members \<Rightarrow> dk_disb_response option" where
  "dec_dk_disb ms =
     dec_bind (dec_dk_base ms) (\<lambda>b.
     dec_bind (str_field ''partnerReferenceNo'' ms) (\<lambda>r.
     Some \<lparr>db_ResponseCode = db_ResponseCode b, db_ResponseMessage = db_ResponseMessage b, dp_PartnerReferenceNo = r\<rparr>))"

definition dec_dk_va_notification :: "members \<Rightarrow> dk_va_notification option" where
  "dec_dk_va_notification ms =
     dec_bind (str_field ''responseCode'' ms) (\<lambda>c.
     dec_bind (str_field ''trxId'' ms) (\<lambda>t.
     dec_bind (int_field ''amount'' ms) (\<lambda>a.
     Some \<lparr>dn_ResponseCode = c, dn_TrxID = t, dn_Amount = a\<rparr>)))"

definition dec_dk_disb_notification :: "members \<Rightarrow> dk_disb_notification option" where
  "dec_dk_disb_notification ms =
     dec_bind (str_field ''responseCode'' ms) (\<lambda>c.
     dec_bind (str_field ''partnerReferenceNo'' ms) (\<lambda>r.
     dec_bind (int_field ''amount'' ms) (\<lambda>a.
     dec_bind (str_field ''failureCode'' ms) (\<lambda>f.
     Some \<lparr>dw_ResponseCode = c, dw_PartnerReferenceNo = r, dw_Amount = a, dw_FailureCode = f\<rparr>))))"

definition dec_dk_token :: "members \<Rightarrow> dk_token_response option" where
  "dec_dk_token ms =
     dec_bind (str_field ''responseCode'' ms) (\<lambda>c.
     dec_bind (str_field ''responseMessage'' ms) (\<lambda>m.
     dec_bind (str_field ''accessToken'' ms) (\<lambda>a.
     dec_bind (json_field Some JNull ''expiresIn'' ms) (\<lambda>e.
     Some \<lparr>tk_ResponseCode = c, tk_ResponseMessage = m, tk_AccessToken = a, tk_ExpiresIn = e\<rparr>))))"

section \<open>The access token\<close>

definition sscanf_d :: "string \<Rightarrow> int \<Rightarrow> int" where
  "sscanf_d s dflt =
     (let r = dropWhile (\<lambda>c. c = CHR '' '' \<or> c = CHR 0x09) s;
          sg = takeWhile (\<lambda>c. c = CHR ''-'' \<or> c = CHR ''+'') (take 1 r);
          ds = takeWhile (\<lambda>c. is_digit c \<or> c = CHR ''_'') (drop (length sg) r)
      in case parse_int64 ((if sg = ''-'' then ''-'' else []) @ ds) of Some n \<Rightarrow> n | None \<Rightarrow> dflt)"

definition expires_in :: "provider_env \<Rightarrow> json \<Rightarrow> int" where
  "expires_in env v =
     (case v of
        JNum lit \<Rightarrow> (case parse_int64 lit of Some n \<Rightarrow> int64_of_f64 (f64_of_int n) | None \<Rightarrow> pe_float_int env lit)
      | JStr s \<Rightarrow> sscanf_d s 900
      | _ \<Rightarrow> 900)"

definition wib_timestamp :: "time \<Rightarrow> string" where
  "wib_timestamp t =
     (let u = t + 7 * 3600 * second in format_date ''-'' u @ ''T'' @ format_clock '':'' u @ ''+07:00'')"

definition token_live :: "time \<Rightarrow> doku_token \<Rightarrow> bool" where
  "token_live t st \<longleftrightarrow> dt_token st \<noteq> '''' \<and> t < dt_exp st - 30 * second"

definition request_token :: "provider_env \<Rightarrow> doku \<Rightarrow> doku_token res" where
  "request_token env g =
     (let ts = wib_timestamp (pe_now env) in
      res_bind (res_wrap ''doku token: sign'' (pe_rsa_sign env (dk_privateKey g) (dk_clientID g @ ''|'' @ ts))) (\<lambda>sig.
      let req = \<lparr>hq_Method = ''POST'', hq_URL = dk_baseURL g @ ''/authorization/v1/access-token/b2b'',
                 hq_Headers = [(''Content-Type'', ''application/json''), (''X-CLIENT-KEY'', dk_clientID g), (''X-TIMESTAMP'', ts),
                               (''X-SIGNATURE'', base64_std sig)],
                 hq_Body = pe_json_text env (JObj [(''grantType'', JStr ''client_credentials'')])\<rparr>
      in if \<not> pe_url_ok env (hq_URL req) then fail ''parse url''
         else
           res_bind (res_wrap ''doku token'' (pe_do env req)) (\<lambda>resp.
           res_bind (res_wrap ''doku token: read response'' (hp_Body resp)) (\<lambda>rb.
           res_bind (res_wrap ''doku token decode'' (json_unmarshal env dec_dk_token rb)) (\<lambda>tok.
           if tk_AccessToken tok = ''''
           then fail (''doku token: '' @ tk_ResponseCode tok @ '' - '' @ tk_ResponseMessage tok @ '' (HTTP '' @ fmt_d (hp_StatusCode resp) @ '')'')
           else Inr \<lparr>dt_token = tk_AccessToken tok,
                     dt_exp = pe_now env + wrap64 (expires_in env (tk_ExpiresIn tok) * second)\<rparr>)))))"

definition accessToken :: "provider_env \<Rightarrow> doku \<Rightarrow> (doku_token, string) action" where
  "accessToken env g = (\<lambda>st.
     if token_live (pe_now env) st then (Inr (dt_token st), st)
     else (case request_token env g of Inl e \<Rightarrow> (Inl e, st) | Inr st' \<Rightarrow> (Inr (dt_token st'), st')))"

section \<open>Calls\<close>

definition sha256_lower_hex :: "provider_env \<Rightarrow> string \<Rightarrow> string" where
  "sha256_lower_hex env b = ToLower (hex_encode (pe_sha256 env b))"

definition dk_send :: "provider_env \<Rightarrow> doku \<Rightarrow> string \<Rightarrow> string \<Rightarrow> json \<Rightarrow> (members \<Rightarrow> 'a option) \<Rightarrow> string \<Rightarrow> 'a res" where
  "dk_send env g path extID body dec token =
     (let b = pe_json_text env body; ts = wib_timestamp (pe_now env);
          sig = hex_encode (pe_hmac_sha512 env (dk_hmacKey g)
                  (''POST:'' @ path @ '':'' @ token @ '':'' @ sha256_lower_hex env b @ '':'' @ ts))
      in res_bind (http_send env ''doku http''
           \<lparr>hq_Method = ''POST'', hq_URL = dk_baseURL g @ path,
            hq_Headers = [(''Content-Type'', ''application/json''), (''Accept'', ''application/json''),
                          (''Authorization'', ''Bearer '' @ token), (''X-PARTNER-ID'', dk_clientID g),
                          (''X-EXTERNAL-ID'', extID @ ''-'' @ fmt_d (pe_now env)), (''X-TIMESTAMP'', ts), (''X-SIGNATURE'', sig),
                          (''CHANNEL-ID'', ''H2H'')],
            hq_Body = b\<rparr>) (\<lambda>(status, rb).
         json_unmarshal env dec rb))"

definition dk_post :: "provider_env \<Rightarrow> doku \<Rightarrow> string \<Rightarrow> string \<Rightarrow> json \<Rightarrow> (members \<Rightarrow> 'a option) \<Rightarrow> (doku_token, 'a) action" where
  "dk_post env g path extID body dec =
     bind (accessToken env g) (\<lambda>token st. (dk_send env g path extID body dec token, st))"

definition dk_amount :: "int64 \<Rightarrow> json" where
  "dk_amount a = JObj [(''value'', JStr (fmt_d (f64_trunc (f64_of_int a)) @ ''.00'')), (''currency'', JStr ''IDR'')]"

definition dk_CreateVA :: "provider_env \<Rightarrow> doku \<Rightarrow> create_va_request \<Rightarrow> (doku_token, create_va_response) action" where
  "dk_CreateVA env g req =
     bind (wrap ''doku create_va''
       (dk_post env g ''/virtual-accounts/bi-snap-va/v1.1/transfer-va/create-va'' (vr_ExternalID req)
          (JObj [(''partnerServiceId'', JStr (dk_clientID g)), (''customerNo'', JStr (vr_ExternalID req)),
                 (''virtualAccountNo'', JStr (dk_clientID g @ vr_ExternalID req)), (''virtualAccountName'', JStr (vr_CustomerName req)),
                 (''virtualAccountEmail'', JStr (vr_CustomerEmail req)), (''virtualAccountPhone'', JStr (vr_CustomerPhone req)),
                 (''trxId'', JStr (vr_ExternalID req)), (''totalAmount'', dk_amount (vr_Amount req)),
                 (''additionalInfo'', JObj [(''channel'', JStr (bankChannel (vr_BankCode req)))]),
                 (''virtualAccountTrxType'', JStr ''C''), (''expiredDate'', JStr (wib_timestamp (vr_ExpiryAt req)))])
          dec_dk_va)) (\<lambda>resp.
     if db_ResponseCode resp \<noteq> ''2002700'' then throw (PlainErr (''doku create_va: '' @ db_ResponseMessage resp))
     else if dv_VirtualAccountNo resp = '''' then throw (PlainErr ''doku create_va: empty virtualAccountNo in response'')
     else ret \<lparr>vs_ExternalID = vr_ExternalID req, vs_ProviderPaymentID = '''', vs_VANumber = dv_VirtualAccountNo resp,
               vs_BillerCode = '''', vs_BankCode = vr_BankCode req, vs_Amount = vr_Amount req, vs_ExpiryAt = vr_ExpiryAt req\<rparr>)"

definition dk_CreateQRIS :: "provider_env \<Rightarrow> doku \<Rightarrow> create_qris_request \<Rightarrow> (doku_token, create_qris_response) action" where
  "dk_CreateQRIS env g req =
     bind (wrap ''doku create_qris''
       (dk_post env g ''/snap-adapter/b2b/v1.0/qr/qr-mpm-generate'' (qr_ExternalID req)
          (JObj [(''partnerReferenceNo'', JStr (qr_ExternalID req)), (''amount'', dk_amount (qr_Amount req)),
                 (''feeAmount'', JObj [(''value'', JStr ''0.00''), (''currency'', JStr ''IDR'')]),
                 (''validityPeriod'', JStr (format_rfc3339_utc (qr_ExpiryAt req)))])
          dec_dk_qr)) (\<lambda>resp.
     ret \<lparr>qs_ExternalID = dq_ReferenceNo resp, qs_ProviderPaymentID = '''', qs_QRString = dq_QRContent resp, qs_QRImageURL = '''',
          qs_Amount = qr_Amount req, qs_ExpiryAt = qr_ExpiryAt req\<rparr>)"

definition dk_CancelPayment :: "provider_env \<Rightarrow> doku \<Rightarrow> string \<Rightarrow> (doku_token, unit) action" where
  "dk_CancelPayment env g extID =
     bind (wrap ''doku cancel''
       (dk_post env g ''/snap-adapter/b2b/v1.0/qr/qr-expire'' extID (JObj [(''partnerReferenceNo'', JStr extID)]) dec_dk_base)) (\<lambda>_.
     ret ())"

definition dk_GetStatus :: "provider_env \<Rightarrow> doku \<Rightarrow> string \<Rightarrow> (doku_token, payment_status) action" where
  "dk_GetStatus env g extID =
     bind (wrap ''doku get_status''
       (dk_post env g ''/virtual-accounts/bi-snap-va/v1.1/transfer-va/inquiry'' extID
          (JObj [(''partnerServiceId'', JStr ''''), (''trxId'', JStr extID)]) dec_dk_va)) (\<lambda>resp.
     ret (dk_mapStatus (db_ResponseCode resp)))"

definition dk_Disburse :: "provider_env \<Rightarrow> doku \<Rightarrow> disburse_request \<Rightarrow> (doku_token, disburse_response) action" where
  "dk_Disburse env g req =
     bind (wrap ''doku disburse''
       (dk_post env g ''/snap/v1.1/emoney/transfer-bank'' (dr_ExternalID req)
          (JObj [(''partnerReferenceNo'', JStr (dr_ExternalID req)), (''beneficiaryAccountName'', JStr (dr_AccountName req)),
                 (''beneficiaryAccountNo'', JStr (dr_AccountNumber req)),
                 (''beneficiaryBankCode'', JStr (bank_code_str (dr_BankCode req))), (''amount'', dk_amount (dr_Amount req)),
                 (''remark'', JStr (dr_Description req))])
          dec_dk_disb)) (\<lambda>resp.
     ret \<lparr>ds_ExternalID = dp_PartnerReferenceNo resp, ds_Status = dk_mapDisbStatus (db_ResponseCode resp),
          ds_Amount = dr_Amount req\<rparr>)"

definition dk_GetDisbursementStatus :: "provider_env \<Rightarrow> doku \<Rightarrow> string \<Rightarrow> (doku_token, disburse_response) action" where
  "dk_GetDisbursementStatus env g extID =
     bind (wrap ''doku get_disbursement_status''
       (dk_post env g ''/snap/v1.1/emoney/transfer-bank-status'' extID (JObj [(''partnerReferenceNo'', JStr extID)]) dec_dk_disb)) (\<lambda>resp.
     ret \<lparr>ds_ExternalID = dp_PartnerReferenceNo resp, ds_Status = dk_mapDisbStatus (db_ResponseCode resp), ds_Amount = 0\<rparr>)"

section \<open>Webhooks\<close>

definition dk_webhook_signature :: "provider_env \<Rightarrow> doku \<Rightarrow> string \<Rightarrow> headers \<Rightarrow> string \<Rightarrow> string" where
  "dk_webhook_signature env g token hs body =
     base64_std (pe_hmac_sha512 env (dk_secretKey g)
       (header_of hs ''x-http-method'' @ '':'' @ header_of hs ''x-endpoint-url'' @ '':'' @ token @ '':''
        @ sha256_lower_hex env body @ '':'' @ header_of hs ''x-timestamp''))"

text \<open>Best effort: without a token the signature is computed over the empty one.\<close>

definition verifyWebhookSignature :: "provider_env \<Rightarrow> doku \<Rightarrow> headers \<Rightarrow> string \<Rightarrow> (doku_token, bool) action" where
  "verifyWebhookSignature env g hs body =
     bind (attempt (accessToken env g)) (\<lambda>r.
     let token = (case r of Inl _ \<Rightarrow> '''' | Inr token \<Rightarrow> token)
     in ret (dk_webhook_signature env g token hs body = header_of hs ''x-signature''))"

definition dk_ParseWebhook :: "provider_env \<Rightarrow> doku \<Rightarrow> headers \<Rightarrow> string \<Rightarrow> (doku_token, webhook_event) action" where
  "dk_ParseWebhook env g hs body =
     bind (verifyWebhookSignature env g hs body) (\<lambda>valid.
     if \<not> valid then throw (PlainErr ''doku webhook: invalid signature'')
     else (\<lambda>st.
       (res_bind (res_wrap ''doku webhook: unmarshal'' (json_unmarshal env dec_dk_va_notification body)) (\<lambda>n.
        Inr \<lparr>ev_ExternalID = dn_TrxID n, ev_Status = dk_mapStatus (dn_ResponseCode n), ev_PaidAt = None,
             ev_Amount = dn_Amount n, ev_RawPayload = body\<rparr>), st)))"

definition dk_ParseDisbursementWebhook :: "provider_env \<Rightarrow> doku \<Rightarrow> headers \<Rightarrow> string \<Rightarrow> (doku_token, disbursement_webhook_event) action" where
  "dk_ParseDisbursementWebhook env g hs body =
     bind (verifyWebhookSignature env g hs body) (\<lambda>valid.
     if \<not> valid then throw (PlainErr ''doku disbursement webhook: invalid signature'')
     else (\<lambda>st.
       (res_bind (res_wrap ''doku disbursement webhook: unmarshal'' (json_unmarshal env dec_dk_disb_notification body)) (\<lambda>n.
        Inr \<lparr>de_ExternalID = dw_PartnerReferenceNo n, de_Status = dk_mapDisbStatus (dw_ResponseCode n),
             de_FailureReason = dw_FailureCode n, de_Amount = dw_Amount n, de_RawPayload = body\<rparr>), st)))"

text \<open>The port as a caller sees it while the token cache is \<open>st\<close>.\<close>

definition doku_gateway :: "provider_env \<Rightarrow> doku \<Rightarrow> doku_token \<Rightarrow> payment_gateway" where
  "doku_gateway env g st =
     \<lparr>pg_CreateVA = (\<lambda>req. fst (dk_CreateVA env g req st)), pg_CreateQRIS = (\<lambda>req. fst (dk_CreateQRIS env g req st)),
      pg_CancelPayment = (\<lambda>i. fst (dk_CancelPayment env g i st)), pg_GetStatus = (\<lambda>i. fst (dk_GetStatus env g i st)),
      pg_ParseWebhook = (\<lambda>hs body. fst (dk_ParseWebhook env g hs body st))\<rparr>"

definition doku_disbursement_gateway :: "provider_env \<Rightarrow> doku \<Rightarrow> doku_token \<Rightarrow> disbursement_gateway" where
  "doku_disbursement_gateway env g st =
     \<lparr>dg_Disburse = (\<lambda>req. fst (dk_Disburse env g req st)),
      dg_GetDisbursementStatus = (\<lambda>i. fst (dk_GetDisbursementStatus env g i st)),
      dg_ParseDisbursementWebhook = (\<lambda>hs body. fst (dk_ParseDisbursementWebhook env g hs body st))\<rparr>"

end
