(* ===== verification/Adapters.thy ===== *)
theory Adapters
  imports Midtrans Xendit Ipaymu Doku
begin

text \<open>
  The adapters behind their ports: the circuit breaker that wraps each of them
  (internal/infrastructure/provider/circuit_breaker.go), and what the webhook handlers may
  rely on whichever provider is configured: an event comes only from an authentic request.
  The breaker's own state machine is the third-party gobreaker, a parameter.
\<close>

section \<open>The circuit breaker\<close>

record breaker_config =
  bc_MaxRequests :: int
  bc_IntervalSeconds :: int
  bc_TimeoutSeconds :: int
  bc_ConsecutiveFailures :: int

record breaker_settings =
  bs_Name :: string
  bs_MaxRequests :: int
  bs_Interval :: int64
  bs_Timeout :: int64
  bs_trips_at :: int

definition NewBreaker :: "string \<Rightarrow> breaker_config \<Rightarrow> breaker_settings" where
  "NewBreaker name cfg =
     (let dflt = (\<lambda>x d. if x = 0 then d else x)
      in \<lparr>bs_Name = name, bs_MaxRequests = dflt (bc_MaxRequests cfg) 3,
          bs_Interval = wrap64 (dflt (bc_IntervalSeconds cfg) 60 * second),
          bs_Timeout = wrap64 (dflt (bc_TimeoutSeconds cfg) 30 * second),
          bs_trips_at = dflt (bc_ConsecutiveFailures cfg) 5\<rparr>)"

text \<open>
  The breaker admits a call or refuses it with an error of its own, and is told how an
  admitted call went.
\<close>

record 'b breaker =
  bk_settings :: breaker_settings
  bk_admit :: "time \<Rightarrow> 'b \<Rightarrow> go_error option \<times> 'b"
  bk_report :: "time \<Rightarrow> bool \<Rightarrow> 'b \<Rightarrow> 'b"

definition cb_run :: "'b breaker \<Rightarrow> time \<Rightarrow> 'a res \<Rightarrow> ('b, 'a) action" where
  "cb_run b t r = (\<lambda>st.
     case bk_admit b t st of
       (Some e, st') \<Rightarrow> (Inl (wrap_err (''provider '' @ bs_Name (bk_settings b)) e), st')
     | (None, st') \<Rightarrow> (res_wrap (''provider '' @ bs_Name (bk_settings b)) r, bk_report b t (\<not> isl r) st'))"

definition cb_gateway :: "'b breaker \<Rightarrow> time \<Rightarrow> 'b \<Rightarrow> payment_gateway \<Rightarrow> payment_gateway" where
  "cb_gateway b t st inner =
     \<lparr>pg_CreateVA = (\<lambda>req. fst (cb_run b t (pg_CreateVA inner req) st)),
      pg_CreateQRIS = (\<lambda>req. fst (cb_run b t (pg_CreateQRIS inner req) st)),
      pg_CancelPayment = (\<lambda>i. fst (cb_run b t (pg_CancelPayment inner i) st)),
      pg_GetStatus = (\<lambda>i. fst (cb_run b t (pg_GetStatus inner i) st)),
      pg_ParseWebhook = pg_ParseWebhook inner\<rparr>"

definition cb_disbursement_gateway :: "'b breaker \<Rightarrow> time \<Rightarrow> 'b \<Rightarrow> disbursement_gateway \<Rightarrow> disbursement_gateway" where
  "cb_disbursement_gateway b t st inner =
     \<lparr>dg_Disburse = (\<lambda>req. fst (cb_run b t (dg_Disburse inner req) st)),
      dg_GetDisbursementStatus = (\<lambda>i. fst (cb_run b t (dg_GetDisbursementStatus inner i) st)),
      dg_ParseDisbursementWebhook = dg_ParseDisbursementWebhook inner\<rparr>"

lemma cb_run_Inr: "fst (cb_run b t r st) = Inr x \<Longrightarrow> r = Inr x"
  by (auto simp: cb_run_def split: prod.splits option.splits)

section \<open>Authenticated webhooks\<close>

definition reportable :: "payment_status set" where
  "reportable = {PaymentStatusPending, PaymentStatusPaid, PaymentStatusExpired, PaymentStatusCancelled, PaymentStatusFailed}"

locale webhook_port =
  fixes gw :: payment_gateway and authentic :: "headers \<Rightarrow> string \<Rightarrow> bool"
  assumes accepts: "pg_ParseWebhook gw hs body = Inr ev \<Longrightarrow> authentic hs body"
    and payload: "pg_ParseWebhook gw hs body = Inr ev \<Longrightarrow> ev_RawPayload ev = body"
    and status: "pg_ParseWebhook gw hs body = Inr ev \<Longrightarrow> ev_Status ev \<in> reportable"
begin

lemma rejects: "\<not> authentic hs body \<Longrightarrow> \<exists>e. pg_ParseWebhook gw hs body = Inl e"
  using accepts by (cases "pg_ParseWebhook gw hs body") auto

lemma forged_webhook:
  assumes "gws pr = Some gw" "\<not> authentic hs body"
  shows "wp (HandleWebhook gws pr hs body) (\<lambda>_ _. False) (\<lambda>_ w'. w' = w) w"
  using assms(1) rejects [OF assms(2)]
  by (auto simp: HandleWebhook_def webhook_read_def payment_gateway_for_def wp_simps)

end

locale callback_port =
  fixes gw :: disbursement_gateway and authentic :: "headers \<Rightarrow> string \<Rightarrow> bool"
  assumes accepts: "dg_ParseDisbursementWebhook gw hs body = Inr ev \<Longrightarrow> authentic hs body"
    and payload: "dg_ParseDisbursementWebhook gw hs body = Inr ev \<Longrightarrow> de_RawPayload ev = body"
begin

lemma rejects: "\<not> authentic hs body \<Longrightarrow> \<exists>e. dg_ParseDisbursementWebhook gw hs body = Inl e"
  using accepts by (cases "dg_ParseDisbursementWebhook gw hs body") auto

lemma forged_callback:
  assumes "gws pr = Some gw" "\<not> authentic hs body"
  shows "wp (HandleDisbursementCallback gws pr hs body) (\<lambda>_ _. False) (\<lambda>_ w'. w' = w) w"
  using assms(1) rejects [OF assms(2)]
  by (auto simp: HandleDisbursementCallback_def callback_read_def disbGateway_def wp_simps)

end

text \<open>Behind a breaker the port keeps its contract: webhooks bypass it.\<close>

locale guarded_port = webhook_port +
  fixes b :: "'b breaker" and t :: time and st :: 'b

sublocale guarded_port \<subseteq> cb: webhook_port "cb_gateway b t st gw" authentic
  by unfold_locales (auto simp: cb_gateway_def dest: accepts payload status)

section \<open>The four providers\<close>

definition midtrans_authentic :: "provider_env \<Rightarrow> midtrans \<Rightarrow> headers \<Rightarrow> string \<Rightarrow> bool" where
  "midtrans_authentic env g hs body \<longleftrightarrow>
     (case json_unmarshal env dec_mt_notification body of Inl _ \<Rightarrow> False | Inr n \<Rightarrow> mn_SignatureKey n = mt_signature env g n)"

definition xendit_authentic :: "xendit \<Rightarrow> headers \<Rightarrow> string \<Rightarrow> bool" where
  "xendit_authentic g hs body \<longleftrightarrow> header_of hs ''x-callback-token'' = xd_webhookToken g"

definition ipaymu_authentic :: "ipaymu \<Rightarrow> headers \<Rightarrow> string \<Rightarrow> bool" where
  "ipaymu_authentic g hs body \<longleftrightarrow> ip_webhookSecret g = '''' \<or> header_of hs ''x-wt'' = ip_webhookSecret g"

text \<open>For DOKU, under the token it holds or just obtained, or the empty one when it could obtain none.\<close>

definition doku_authentic :: "provider_env \<Rightarrow> doku \<Rightarrow> doku_token \<Rightarrow> headers \<Rightarrow> string \<Rightarrow> bool" where
  "doku_authentic env g st hs body \<longleftrightarrow>
     header_of hs ''x-signature''
     = dk_webhook_signature env g (case fst (accessToken env g st) of Inl _ \<Rightarrow> '''' | Inr token \<Rightarrow> token) hs body"

lemma dk_verify_authentic:
  "verifyWebhookSignature env g hs body st = (Inr True, st') \<Longrightarrow> doku_authentic env g st hs body"
  by (auto simp: verifyWebhookSignature_def doku_authentic_def bind_def attempt_def ret_def Let_def
      split: prod.splits sum.splits if_splits)

interpretation midtrans_port: guarded_port "midtrans_gateway env g" "midtrans_authentic env g" b t st for env g b t st
  by unfold_locales
    (auto simp: midtrans_gateway_def mt_ParseWebhook_def midtrans_authentic_def verifySignature_def res_bind_Inr Let_def
      reportable_def mt_mapStatus_def split: if_splits)

interpretation xendit_port: guarded_port "xendit_gateway env g" "xendit_authentic g" b t st for env g b t st
  by unfold_locales
    (auto simp: xendit_gateway_def xd_ParseWebhook_def xendit_authentic_def res_bind_Inr Let_def reportable_def
      xd_mapPaymentStatus_def split: if_splits)

interpretation ipaymu_port: guarded_port "ipaymu_gateway env g" "ipaymu_authentic g" b t st for env g b t st
  by unfold_locales
    (auto simp: ipaymu_gateway_def ip_ParseWebhook_def ipaymu_authentic_def res_bind_Inr Let_def reportable_def
      ip_mapStatus_def split: if_splits)

lemma dk_ParseWebhook_Inr:
  "fst (dk_ParseWebhook env g hs body st) = Inr ev \<Longrightarrow> doku_authentic env g st hs body \<and> ev_RawPayload ev = body
     \<and> (\<exists>c. ev_Status ev = dk_mapStatus c)"
  by (auto simp: dk_ParseWebhook_def bind_def throw_def res_bind_Inr dest: dk_verify_authentic split: prod.splits sum.splits if_splits)

lemma dk_ParseDisbursementWebhook_Inr:
  "fst (dk_ParseDisbursementWebhook env g hs body st) = Inr ev \<Longrightarrow> doku_authentic env g st hs body \<and> de_RawPayload ev = body"
  by (auto simp: dk_ParseDisbursementWebhook_def bind_def throw_def res_bind_Inr dest: dk_verify_authentic
      split: prod.splits sum.splits if_splits)

interpretation doku_port: guarded_port "doku_gateway env g tok" "doku_authentic env g tok" b t st for env g tok b t st
  by unfold_locales
    (auto simp: doku_gateway_def reportable_def dk_mapStatus_def dest!: dk_ParseWebhook_Inr split: if_splits)

interpretation xendit_callbacks: callback_port "cb_disbursement_gateway b t st (xendit_disbursement_gateway env g)" "xendit_authentic g"
  for env g b t st
  by unfold_locales
    (auto simp: cb_disbursement_gateway_def xendit_disbursement_gateway_def xd_ParseDisbursementWebhook_def xendit_authentic_def
      res_bind_Inr split: if_splits)

interpretation doku_callbacks: callback_port "cb_disbursement_gateway b t st (doku_disbursement_gateway env g tok)" "doku_authentic env g tok"
  for env g tok b t st
  by unfold_locales
    (auto simp: cb_disbursement_gateway_def doku_disbursement_gateway_def dest!: dk_ParseDisbursementWebhook_Inr)


section \<open>Where an adapter promises less than the port\<close>

text \<open>
  The Midtrans signature covers the order, the status code and the amount but not the
  transaction status, so an authentic notification stays authentic with any other status.
\<close>

lemma midtrans_status_unsigned:
  assumes "midtrans_authentic env g hs body" "json_unmarshal env dec_mt_notification body = Inr n"
    and "json_unmarshal env dec_mt_notification body' = Inr (n\<lparr>mn_TransactionStatus := ts, mn_FraudStatus := fs\<rparr>)"
  shows "\<exists>ev. mt_ParseWebhook env g hs' body' = Inr ev \<and> ev_ExternalID ev = mn_OrderID n \<and> ev_Status ev = mt_mapStatus ts fs"
  using assms by (simp add: midtrans_authentic_def mt_ParseWebhook_def verifySignature_def mt_signature_def res_wrap_def Let_def)

text \<open>A card payment that Midtrans holds for review is final for wanpay: the later settlement is ignored.\<close>

lemma midtrans_challenge_is_final: "mt_mapStatus ''capture'' ''challenge'' = PaymentStatusFailed"
  by (simp add: mt_mapStatus_def)

text \<open>Without a configured token Xendit's webhooks are open to everybody, and so are iPaymu's without a secret.\<close>

lemma open_webhooks:
  "xd_webhookToken xg = '''' \<Longrightarrow> xendit_authentic xg [] body" "ip_webhookSecret ig = '''' \<Longrightarrow> ipaymu_authentic ig [] body"
  by (simp_all add: xendit_authentic_def ipaymu_authentic_def header_of_def)

text \<open>
  DOKU's cancel and QRIS calls do not look at the response code: a refusal is a success, with
  an empty external id in the second case.
\<close>

lemma doku_refusals_succeed:
  assumes "accessToken env g st = (Inr token, st')"
    and "\<And>path i body. dk_send env g path i body dec_dk_base token = Inr \<lparr>db_ResponseCode = ''4045200'', db_ResponseMessage = m\<rparr>"
    and "\<And>path i body. dk_send env g path i body dec_dk_qr token =
      Inr \<lparr>db_ResponseCode = ''4045200'', db_ResponseMessage = m, dq_ReferenceNo = '''', dq_QRContent = ''''\<rparr>"
  shows "fst (dk_CancelPayment env g i st) = Inr ()
    \<and> (\<exists>resp. fst (dk_CreateQRIS env g req st) = Inr resp \<and> qs_ExternalID resp = '''' \<and> qs_QRString resp = '''')"
  using assms(1) by (simp add: dk_CancelPayment_def dk_CreateQRIS_def dk_post_def bind_def wrap_def ret_def assms(2,3))

section \<open>Samples\<close>

definition sample_env :: provider_env where
  "sample_env =
     \<lparr>pe_now = 0, pe_local_offset = 0, pe_json_parse = (\<lambda>s. if s = ''{}'' then Some (JObj []) else None), pe_json_text = (\<lambda>j. ''{}''),
      pe_url_ok = (\<lambda>u. True), pe_do = (\<lambda>r. fail ''no network''), pe_sha256 = (\<lambda>s. []), pe_sha512 = (\<lambda>s. [length s]),
      pe_hmac_sha256 = (\<lambda>k s. []), pe_hmac_sha512 = (\<lambda>k s. [length k]), pe_rsa_parse = (\<lambda>s. fail ''no key''),
      pe_rsa_sign = (\<lambda>k s. fail ''no key''), pe_float_int = (\<lambda>s. 0)\<rparr>"

definition sample_midtrans :: midtrans where
  "sample_midtrans = \<lparr>mt_serverKey = ''server-key'', mt_baseURL = ''https://api.midtrans.com''\<rparr>"

definition sample_xendit :: xendit where
  "sample_xendit = \<lparr>xd_secretKey = ''secret'', xd_webhookToken = ''token''\<rparr>"

definition sample_breaker :: "nat breaker" where
  "sample_breaker =
     \<lparr>bk_settings = NewBreaker ''midtrans'' \<lparr>bc_MaxRequests = 0, bc_IntervalSeconds = 0, bc_TimeoutSeconds = 0, bc_ConsecutiveFailures = 0\<rparr>,
      bk_admit = (\<lambda>t n. (if n < 5 then None else Some (PlainErr ''circuit breaker is open''), n)),
      bk_report = (\<lambda>t ok n. if ok then 0 else Suc n)\<rparr>"


end
