(* ===== verification/Books.thy ===== *)
theory Books
  imports Cashin Cashout Admins
begin

text \<open>
  The books of the gateway are four tables: payments with their audit trail, disbursements and
  the ledger. The rest of the system - merchants and bank accounts, admins, fees, provider
  balances, the outbox - writes beside them. The effect \<open>books\<close> says so for every operation of
  that rest, and \<open>schema\<close> that it keeps the constraints; the operations that do write the books
  are then the only ones the accounting invariant has to look at.
\<close>

section \<open>Operations beside the books\<close>

definition books_same :: "database \<Rightarrow> database \<Rightarrow> bool" where
  "books_same a b \<longleftrightarrow> db_payments b = db_payments a \<and> db_disbursements b = db_disbursements a
     \<and> db_mutations b = db_mutations a \<and> db_audits b = db_audits a"

interpretation books: db_effect books_same
  by unfold_locales (simp_all add: books_same_def)

lemma books_same_inserts:
  "insert_outbox e db = Inr db' \<Longrightarrow> books_same db db'"
  "insert_merchant me db = Inr db' \<Longrightarrow> books_same db db'"
  "insert_bank_account ba db = Inr db' \<Longrightarrow> books_same db db'"
  "insert_admin ad db = Inr db' \<Longrightarrow> books_same db db'"
  "insert_fee_holiday h db = Inr db' \<Longrightarrow> books_same db db'"
  "insert_fee_audit_log l db = Inr db' \<Longrightarrow> books_same db db'"
  by (auto simp: insert_defs books_same_def)

lemma reads_books: "reads.obeys m \<Longrightarrow> books.obeys m"
  by (simp add: reads.obeys_def same_tables_def books.obeys_def books.lifted_def books_same_def)

text \<open>Repositories.\<close>

lemma books_repo_inserts:
  "books.obeys (merchant_Save m)" "books.obeys (SaveBankAccount a)" "books.obeys (outbox_Insert t u i p)"
  "books.obeys (admin_Save ad)" "books.obeys (fee_CreateHoliday h)" "books.obeys (fee_WriteAuditLog l)"
  unfolding merchant_Save_def SaveBankAccount_def outbox_Insert_def admin_Save_def fee_CreateHoliday_def fee_WriteAuditLog_def
  by (intro books.db_intros books.obeys_exec; auto simp: Let_def dest: books_same_inserts)+

lemma books_repo_updates:
  "books.obeys (merchant_Update m)" "books.obeys (merchant_SoftDelete i)" "books.obeys (UpdateBankAccount a)"
  "books.obeys (UnsetPrimaryBankAccounts i)" "books.obeys (DeleteBankAccount i)" "books.obeys (update_outbox i g)"
  "books.obeys fetchAndClaim" "books.obeys (admin_UpdateLastLogin i)" "books.obeys (admin_Update ad)"
  "books.obeys (admin_UpdatePassword i hash)" "books.obeys (provider_balance_Upsert b)"
  "books.obeys (fee_UpdateDefault f)" "books.obeys (fee_UpdateMargin pm)" "books.obeys (fee_UpdateHoliday h)"
  unfolding merchant_Update_def merchant_SoftDelete_def UpdateBankAccount_def UnsetPrimaryBankAccounts_def DeleteBankAccount_def
    update_outbox_def fetchAndClaim_def admin_UpdateLastLogin_def admin_Update_def admin_UpdatePassword_def
    provider_balance_Upsert_def fee_UpdateDefault_def fee_UpdateMargin_def fee_UpdateHoliday_def update_admins_def
  by (intro books.db_intros books.obeys_exec;
      auto simp: Let_def books_same_def simp del: checked_update_Inr split: option.splits if_splits)+

lemma schema_fee_repo:
  "schema.obeys (fee_CreateHoliday h)" "schema.obeys (fee_WriteAuditLog l)"
  "schema.obeys (fee_UpdateDefault f)" "schema.obeys (fee_UpdateMargin pm)" "schema.obeys (fee_UpdateHoliday h)"
  unfolding fee_CreateHoliday_def fee_WriteAuditLog_def fee_UpdateDefault_def fee_UpdateMargin_def fee_UpdateHoliday_def
  by (intro schema.db_intros schema.obeys_exec;
      auto simp: Let_def insert_fee_holiday_def insert_fee_audit_log_def simp del: checked_update_Inr
        intro!: kept_schema_same split: if_splits)+

lemma reads_back_office:
  "reads.obeys (merchant_FindByID i)" "reads.obeys (merchant_FindByEmail i)" "reads.obeys (FindBankAccountByID i)"
  "reads.obeys (CountBankAccounts i)" "reads.obeys (balance_or_zero i)" "reads.obeys (admin_FindByID i)"
  "reads.obeys (admin_FindByEmail i)" "reads.obeys fee_GetDefault" "reads.obeys fee_GetMargin" "reads.obeys now"
  unfolding merchant_FindByID_def merchant_FindByEmail_def FindBankAccountByID_def CountBankAccounts_def balance_or_zero_def
    mutation_GetBalance_def admin_FindByID_def admin_FindByEmail_def
  by (intro reads.obeys_intros reads_query reads_misc reads_fee_repo)+

lemmas back_office_obeys =
  books.db_intros schema.db_intros books.obeys_RunInTx schema.obeys_RunInTx books_repo_inserts books_repo_updates schema_fee_repo
  merchant_obeys outbox_obeys obeys_admin_repo reads_back_office [THEN reads_books] reads_back_office [THEN obeys_reads(2)]

text \<open>Key generation, hashing and tokens write no table.\<close>

lemma bcrypt_obeys: "books.obeys (bcrypt_hash env pw)" "schema.obeys (bcrypt_hash env pw)"
  by (simp_all add: bcrypt_hash_def books.obeys_def books.lifted_def schema.obeys_def schema.lifted_def books_same_def kept_def)

lemma books_keys:
  "books.obeys (generateAPIKey sha b)" "books.obeys (generateSecret sha)"
  "books.obeys (issueTokens env a)" "schema.obeys (issueTokens env a)"
  unfolding generateAPIKey_def generateSecret_def issueTokens_def Let_def
  by (intro books.db_intros schema.db_intros)+

section \<open>Usecases beside the books\<close>

lemma books_merchant_usecase:
  "books.obeys (merchant_Create sha input)" "books.obeys (merchant_UpdateProfile upd)" "books.obeys (merchant_Suspend i)"
  "books.obeys (merchant_Activate i)" "books.obeys (merchant_RegenerateAPIKey sha i)" "books.obeys (AddBankAccount ab)"
  "books.obeys (RemoveBankAccount i j)" "books.obeys (SetPrimaryBankAccount i j)"
  unfolding merchant_Create_def merchant_UpdateProfile_def merchant_Suspend_def merchant_Activate_def
    merchant_RegenerateAPIKey_def AddBankAccount_def RemoveBankAccount_def SetPrimaryBankAccount_def Let_def
  by (intro back_office_obeys books_keys bcrypt_obeys)+

lemma books_processBatch: "books.obeys (processBatch env)"
  unfolding processBatch_def deliver_def logged_def outbox_MarkFailedFinal_def outbox_MarkDelivered_def outbox_ScheduleRetry_def
    post_def fetchSigningKey_def Let_def
  by (intro back_office_obeys)+

lemma books_admin_sessions:
  "books.obeys (admin_Login env e p)" "schema.obeys (admin_Login env e p)"
  "books.obeys (admin_RefreshToken env t)" "schema.obeys (admin_RefreshToken env t)"
  "books.obeys (admin_CreateAdmin env e p r)" "schema.obeys (admin_CreateAdmin env e p r)"
  "books.obeys (admin_DeactivateAdmin c i)" "schema.obeys (admin_DeactivateAdmin c i)"
  "books.obeys (admin_ChangePassword env i o1 o2)" "schema.obeys (admin_ChangePassword env i o1 o2)"
  unfolding admin_Login_def admin_RefreshToken_def admin_CreateAdmin_def admin_DeactivateAdmin_def admin_ChangePassword_def
  by (intro back_office_obeys books_keys bcrypt_obeys)+

lemma books_admin_merchants:
  "books.obeys (admin_DeactivateMerchant i)" "schema.obeys (admin_DeactivateMerchant i)"
  "books.obeys (admin_DeleteMerchant i)" "schema.obeys (admin_DeleteMerchant i)"
  "books.obeys (admin_UpdateMerchantFee mf)" "schema.obeys (admin_UpdateMerchantFee mf)"
  "books.obeys (admin_UpdateDailyCashoutLimit i l)" "schema.obeys (admin_UpdateDailyCashoutLimit i l)"
  "books.obeys (admin_VerifyBankAccount i j)" "schema.obeys (admin_VerifyBankAccount i j)"
  "books.obeys (admin_UpdateProviderBalance pr b)" "schema.obeys (admin_UpdateProviderBalance pr b)"
  unfolding admin_DeactivateMerchant_def admin_DeleteMerchant_def admin_UpdateMerchantFee_def admin_UpdateDailyCashoutLimit_def
    admin_VerifyBankAccount_def admin_UpdateProviderBalance_def Let_def
  by (intro back_office_obeys)+

lemma books_admin_fees:
  "books.obeys (admin_UpdateFeeDefault i r f)" "schema.obeys (admin_UpdateFeeDefault i r f)"
  "books.obeys (admin_UpdatePlatformMargin i r b f)" "schema.obeys (admin_UpdatePlatformMargin i r b f)"
  "books.obeys (admin_CreateHoliday i h)" "schema.obeys (admin_CreateHoliday i h)"
  "books.obeys (admin_UpdateHoliday i h)" "schema.obeys (admin_UpdateHoliday i h)"
  unfolding admin_UpdateFeeDefault_def admin_UpdatePlatformMargin_def admin_CreateHoliday_def admin_UpdateHoliday_def Let_def
  by (intro back_office_obeys)+

end
