(* ===== verification/System.thy ===== *)
theory System
  imports Books
begin

text \<open>
  The gateway as one system. A request is a call that can write: a route of the HTTP API after
  its handler has bound the input, a provider webhook, or one tick of a background worker.
  \<open>serve\<close> runs it in a world; \<open>history\<close> chains any number of requests over one database, with
  any service configuration, clock, randomness, statement failures and provider answers at
  each of them. Here requests run one after the other; \<open>Interleaving\<close> lets them overlap.
\<close>

section \<open>Requests\<close>

record service =
  sv_gateways :: gateways
  sv_cashout :: disbursement_gateways
  sv_worker :: worker_env
  sv_admin :: admin_env
  sv_sha256 :: "string \<Rightarrow> string"

datatype request =
    ReqCreateVA create_va_input
  | ReqCreateQRIS create_qris_input
  | ReqCancelPayment string string
  | ReqPaymentWebhook provider headers string
  | ReqExpiryTick
  | ReqDisburse disburse_input
  | ReqDisbursementWebhook provider headers string
  | ReqOutboxTick
  | ReqUpdateProfile update_merchant_input
  | ReqRegenerateAPIKey string
  | ReqAddBankAccount add_bank_account_input
  | ReqRemoveBankAccount string string
  | ReqSetPrimaryBankAccount string string
  | ReqLogin string string
  | ReqRefreshToken string
  | ReqChangePassword string string string
  | ReqCreateMerchant create_merchant_input
  | ReqApproveMerchant string
  | ReqSuspendMerchant string
  | ReqDeactivateMerchant string
  | ReqDeleteMerchant string
  | ReqSetMerchantFee set_merchant_fee_input
  | ReqCashoutLimit string int64
  | ReqVerifyBankAccount string string
  | ReqProviderBalance provider int64
  | ReqCreateAdmin string string admin_role
  | ReqDeactivateAdmin string string
  | ReqFeeDefault string string fee_config
  | ReqPlatformMargin string string bool fee_config
  | ReqCreateHoliday string fee_holiday
  | ReqUpdateHoliday string fee_holiday

definition outcome_free :: "(world, 'a) action \<Rightarrow> (world, unit) action" where
  "outcome_free m = bind m (\<lambda>_. ret ())"

fun serve :: "service \<Rightarrow> request \<Rightarrow> (world, unit) action" where
  "serve sv (ReqCreateVA i) = outcome_free (CreateVA (sv_gateways sv) i)"
| "serve sv (ReqCreateQRIS i) = outcome_free (CreateQRIS (sv_gateways sv) i)"
| "serve sv (ReqCancelPayment m i) = CancelPayment (sv_gateways sv) m i"
| "serve sv (ReqPaymentWebhook pr h b) = HandleWebhook (sv_gateways sv) pr h b"
| "serve sv ReqExpiryTick = expirePayments"
| "serve sv (ReqDisburse i) = outcome_free (Disburse (sv_cashout sv) i)"
| "serve sv (ReqDisbursementWebhook pr h b) = HandleDisbursementCallback (sv_cashout sv) pr h b"
| "serve sv ReqOutboxTick = processBatch (sv_worker sv)"
| "serve sv (ReqUpdateProfile u) = outcome_free (merchant_UpdateProfile u)"
| "serve sv (ReqRegenerateAPIKey i) = outcome_free (merchant_RegenerateAPIKey (sv_sha256 sv) i)"
| "serve sv (ReqAddBankAccount i) = outcome_free (AddBankAccount i)"
| "serve sv (ReqRemoveBankAccount m i) = RemoveBankAccount m i"
| "serve sv (ReqSetPrimaryBankAccount m i) = SetPrimaryBankAccount m i"
| "serve sv (ReqLogin e p) = outcome_free (admin_Login (sv_admin sv) e p)"
| "serve sv (ReqRefreshToken t) = outcome_free (admin_RefreshToken (sv_admin sv) t)"
| "serve sv (ReqChangePassword i p q) = admin_ChangePassword (sv_admin sv) i p q"
| "serve sv (ReqCreateMerchant i) = outcome_free (admin_CreateMerchant (sv_sha256 sv) i)"
| "serve sv (ReqApproveMerchant i) = admin_ApproveMerchant i"
| "serve sv (ReqSuspendMerchant i) = admin_SuspendMerchant i"
| "serve sv (ReqDeactivateMerchant i) = admin_DeactivateMerchant i"
| "serve sv (ReqDeleteMerchant i) = admin_DeleteMerchant i"
| "serve sv (ReqSetMerchantFee i) = admin_UpdateMerchantFee i"
| "serve sv (ReqCashoutLimit i l) = admin_UpdateDailyCashoutLimit i l"
| "serve sv (ReqVerifyBankAccount m i) = admin_VerifyBankAccount m i"
| "serve sv (ReqProviderBalance pr b) = admin_UpdateProviderBalance pr b"
| "serve sv (ReqCreateAdmin e p r) = outcome_free (admin_CreateAdmin (sv_admin sv) e p r)"
| "serve sv (ReqDeactivateAdmin c i) = admin_DeactivateAdmin c i"
| "serve sv (ReqFeeDefault i r f) = admin_UpdateFeeDefault i r f"
| "serve sv (ReqPlatformMargin i r b f) = admin_UpdatePlatformMargin i r b f"
| "serve sv (ReqCreateHoliday i h) = outcome_free (admin_CreateHoliday i h)"
| "serve sv (ReqUpdateHoliday i h) = outcome_free (admin_UpdateHoliday i h)"

text \<open>The databases the system can lead to from \<open>db0\<close>.\<close>

inductive history :: "database \<Rightarrow> database \<Rightarrow> bool" for db0 where
  start: "history db0 db0"
| serve: "history db0 (w_db w) \<Longrightarrow> history db0 (w_db (snd (serve sv req w)))"

section \<open>What a request does to the books\<close>

text \<open>
  Every request makes a sequence of these changes to the books, and usually one or none; the
  rest of the theory reasons about the changes alone. Those that insert rows or find one by a
  key start from a database that satisfies the schema.
\<close>

inductive books_step :: "database \<Rightarrow> database \<Rightarrow> bool" where
  beside: "books_same db db' \<Longrightarrow> books_step db db'"
| credit: "webhook_commit pr ev p m today t db db' \<Longrightarrow> schema_ok db \<Longrightarrow> agrees db p \<Longrightarrow> books_step db db'"
| opened: "created i p db db' \<Longrightarrow> schema_ok db \<Longrightarrow> p_Status p = PaymentStatusPending \<Longrightarrow> books_step db db'"
| cancel: "moved p ev old actor t db db' \<Longrightarrow> old \<in> {PaymentStatusPending, PaymentStatusCancelling} \<Longrightarrow>
    p_Status p \<in> {PaymentStatusPending, PaymentStatusCancelling, PaymentStatusCancelled} \<Longrightarrow>
    (\<And>r. r \<in> set (db_payments db) \<Longrightarrow> p_ID r = p_ID p \<Longrightarrow> p_Status r = old) \<Longrightarrow> books_step db db'"
| lapsed: "expired t db db' \<Longrightarrow> schema_ok db \<Longrightarrow> books_step db db'"
| reserve: "disbursing gws input w answer d mid \<Longrightarrow> db = w_db w \<Longrightarrow> schema_ok db \<Longrightarrow> db' = with_disbursement x db \<Longrightarrow>
    d_Amount x = d_Amount d \<Longrightarrow> d_FeeAmount x = d_FeeAmount d \<Longrightarrow> d_MerchantID x = d_MerchantID d \<Longrightarrow> books_step db db'"
| settle: "callback_effect (apply_callback ev d) m t db db' \<Longrightarrow> schema_ok db \<Longrightarrow> d \<in> set (db_disbursements db) \<Longrightarrow>
    \<not> disbursement_IsFinal d \<Longrightarrow> books_step db db'"

abbreviation books_steps :: "database \<Rightarrow> database \<Rightarrow> bool" where
  "books_steps \<equiv> rtranclp books_step"

lemma books_step_refl: "books_step db db"
  by (rule books_step.beside) (simp add: books_same_def)

lemma cancel_started_step:
  assumes "cancel_started m i p t db db'" "schema_ok db"
  shows "books_step db db'"
proof -
  from assms(1) have f: "find (\<lambda>p. p_ID p = i) (db_payments db) = Some p" "p_Status p = PaymentStatusPending"
    and m: "moved (cancelling p) AuditEventStatusChanged PaymentStatusPending (''merchant:'' @ m) t db db'"
    by (auto simp: cancel_started_def)
  show ?thesis
    by (rule books_step.cancel [OF m])
      (use find_Some_unique [OF schema_distinct(1) [OF assms(2)] f(1)] find_Some_in [OF f(1)] f(2) in auto)
qed

lemma cancel_completed_steps:
  assumes "cancel_completed gws m i t db db'" "schema_ok db"
  shows "books_steps db db'"
proof -
  from assms(1) obtain p r mid where s: "cancel_started m i p t db mid" and c: "cancel_moved m (cancelling p) r t mid db'"
    by (auto simp: cancel_completed_def)
  have "p_Status x = PaymentStatusCancelling" if "x \<in> set (db_payments mid)" "p_ID x = p_ID p" for x
  proof -
    from s have "db_payments mid = update_where (\<lambda>r. p_ID r = p_ID p) (with_status_of (cancelling p) t) (db_payments db)"
      by (auto simp: cancel_started_def moved_def set_status_def)
    with that(1) obtain y where "x = (if p_ID y = p_ID p then with_status_of (cancelling p) t y else y)"
      by (auto simp: in_update_where_iff)
    with that(2) show ?thesis by (cases "p_ID y = p_ID p") simp_all
  qed
  then have "books_step mid db'"
    using c unfolding cancel_moved_def cancel_result_def
    by (intro books_step.cancel [of _ _ PaymentStatusCancelling]) (auto split: sum.splits)
  with cancel_started_step [OF s assms(2)] show ?thesis by simp
qed

lemma wp_books:
  assumes "wp m (\<lambda>_ w'. P (w_db w')) (\<lambda>_ w'. P (w_db w')) w"
  shows "P (w_db (snd (m w)))"
  using assms by (simp add: wp_snd)

lemma outcome_free_snd: "snd (outcome_free m w) = snd (m w)"
  by (simp add: outcome_free_def bind_def ret_def split: prod.splits sum.splits)

lemma payment_requests:
  assumes s: "schema_ok (w_db w)"
  shows "books_steps (w_db w) (w_db (snd (CreateVA gws iv w)))" "books_steps (w_db w) (w_db (snd (CreateQRIS gws iq w)))"
    "books_steps (w_db w) (w_db (snd (CancelPayment gws m i w)))" "books_steps (w_db w) (w_db (snd (HandleWebhook gws pr h b w)))"
    "books_steps (w_db w) (w_db (snd (expirePayments w)))"
proof -
  show "books_steps (w_db w) (w_db (snd (CreateVA gws iv w)))"
    by (rule wp_books, rule wp_mono [OF CreateVA_spec])
      (auto simp: va_done_def new_payment_def intro!: r_into_rtranclp books_step.opened [OF _ s])
  show "books_steps (w_db w) (w_db (snd (CreateQRIS gws iq w)))"
    by (rule wp_books, rule wp_mono [OF CreateQRIS_spec])
      (auto simp: qris_done_def new_payment_def intro!: r_into_rtranclp books_step.opened [OF _ s])
  show "books_steps (w_db w) (w_db (snd (CancelPayment gws m i w)))"
    by (rule wp_books, rule wp_mono [OF CancelPayment_spec])
      (auto intro: cancel_completed_steps [OF _ s] r_into_rtranclp cancel_started_step [OF _ s])
  show "books_steps (w_db w) (w_db (snd (HandleWebhook gws pr h b w)))"
    by (rule wp_books, rule wp_mono [OF HandleWebhook_spec])
      (auto simp: webhook_done_def intro!: r_into_rtranclp intro: books_step.credit [OF _ s] named_payment_agrees [OF s] books_step_refl)
  show "books_steps (w_db w) (w_db (snd (expirePayments w)))"
    by (rule wp_books, rule wp_mono [OF expirePayments_spec])
      (auto intro: r_into_rtranclp books_step.lapsed [OF _ s])
qed

lemma disbursement_requests:
  assumes s: "schema_ok (w_db w)"
  shows "books_steps (w_db w) (w_db (snd (Disburse gws i w)))"
    "books_steps (w_db w) (w_db (snd (HandleDisbursementCallback gws pr h b w)))"
proof -
  note R = books_step.reserve [OF _ refl s refl]
  have "books_step (w_db w) db'" if "disburse_failed gws i w db' \<or> disburse_done gws i w out db'" for db' out
    using that unfolding disburse_failed_def disburse_done_def
    by (auto simp: accepted_def refused_def intro: books_step_refl R)
  note one = this
  show "books_steps (w_db w) (w_db (snd (Disburse gws i w)))"
    by (rule wp_books, intro wp_mono [OF Disburse_spec] r_into_rtranclp) (blast intro: one)+
  show "books_steps (w_db w) (w_db (snd (HandleDisbursementCallback gws pr h b w)))"
    by (rule wp_books, rule wp_mono [OF HandleDisbursementCallback_spec])
      (auto simp: callback_done_def dest: named_disbursement_in intro!: r_into_rtranclp intro: books_step.settle [OF _ s] books_step_refl)
qed

lemma books_request: "books.obeys m \<Longrightarrow> books_steps (w_db w) (w_db (snd (m w)))"
  by (auto simp: books.obeys_def books.lifted_def intro: books_step.beside)

lemma serve_steps: "schema_ok (w_db w) \<Longrightarrow> books_steps (w_db w) (w_db (snd (serve sv req w)))"
  by (cases req)
    (simp_all add: outcome_free_snd payment_requests disbursement_requests books_request books_merchant_usecase books_processBatch
      books_admin_sessions books_admin_merchants books_admin_fees admin_CreateMerchant_def admin_ApproveMerchant_def admin_SuspendMerchant_def)

lemma expired_rows_ok:
  assumes "table_ok payment_row_ok payment_conflict rows"
  shows "table_ok payment_row_ok payment_conflict (update_where P (\<lambda>p. p\<lparr>p_Status := PaymentStatusExpired, p_UpdatedAt := t\<rparr>) rows)"
  by (rule table_ok_update_same_key [OF assms])
    (auto simp: payment_row_ok_def payment_conflict_def payment_status_ok_def split: if_splits)

lemma kept_schema_audits:
  "insert_audits as db = Inr db' \<Longrightarrow> kept schema_ok db db'"
proof (induction "as" arbitrary: db)
  case (Cons a as)
  then obtain db1 where "insert_audit a db = Inr db1" "insert_audits as db1 = Inr db'" by (auto split: sum.splits)
  with Cons.IH kept_schema_inserts(4) show ?case by (metis kept_def)
qed (simp add: kept_def)

lemma obeys_expirePayments: "schema.obeys expirePayments"
proof -
  have "kept schema_ok db (db\<lparr>db_payments := update_where P (\<lambda>p. p\<lparr>p_Status := PaymentStatusExpired, p_UpdatedAt := t\<rparr>) (db_payments db)\<rparr>)"
    for db P t
    by (rule kept_schema_payments [OF expired_rows_ok]) (auto intro: map_update_where)
  then show ?thesis
    unfolding expirePayments_def logged_def
    by (intro schema.db_intros schema.obeys_exec)
      (auto simp: Let_def kept_def dest!: kept_schema_audits)
qed

lemma schema_serve: "schema.obeys (serve sv req)"
  by (cases req)
    (auto simp: outcome_free_def admin_CreateMerchant_def admin_ApproveMerchant_def admin_SuspendMerchant_def
      intro!: schema.db_intros obeys_payment_usecase obeys_disbursement_usecase obeys_merchant_usecase obeys_processBatch
        obeys_expirePayments books_admin_sessions books_admin_merchants books_admin_fees)

section \<open>The books stay balanced\<close>

text \<open>
  \<open>covered\<close>: what a merchant has pending is covered by its balance and the fees of its completed
  disbursements. The sums of the code are 64-bit, so the guarantee ends where those fees alone
  pass \<open>2 ^ 63\<close> rupiah.
\<close>

definition covered :: "database \<Rightarrow> bool" where
  "covered db \<longleftrightarrow> (\<forall>i. solvent db i \<or> 2 ^ 63 < fees_of db i)"

definition books_ok :: "database \<Rightarrow> bool" where
  "books_ok db \<longleftrightarrow> credited db \<and> earned db \<and> trail_ok db \<and> settled db \<and> covered db"

lemma books_ok_same: "books_same db db' \<Longrightarrow> books_ok db \<Longrightarrow> books_ok db'"
  by (simp add: books_ok_def books_same_def credited_def credit_for_def earned_def trail_ok_def trail_def settled_def covered_def
      solvent_def pending_of_def balance_of_def fees_of_def)

text \<open>A change that leaves the paid payments, the ledger and the disbursements alone.\<close>

definition paid_rows :: "database \<Rightarrow> payment set" where
  "paid_rows db = {p \<in> set (db_payments db). p_Status p = PaymentStatusPaid}"

lemma unpaid_change:
  assumes "paid_rows db' = paid_rows db" "db_mutations db' = db_mutations db" "db_disbursements db' = db_disbursements db"
    and "books_ok db" "trail_ok db'"
  shows "books_ok db'"
proof -
  have "credited x \<longleftrightarrow> (\<forall>p \<in> paid_rows x. \<exists>m. credit_for x p m)"
    "earned x \<longleftrightarrow> (\<forall>m \<in> set (db_mutations x). mu_ReferenceType m = MutationRefPayment \<longrightarrow> (\<exists>p \<in> paid_rows x. p_ID p = mu_ReferenceID m))" for x
    by (auto simp: credited_def earned_def paid_rows_def)
  then show ?thesis
    using assms by (simp add: books_ok_def credit_for_def settled_def covered_def solvent_def pending_of_def balance_of_def fees_of_def)
qed

lemma paid_rows_update:
  assumes "db_payments db' = update_where P f (db_payments db)"
    and "\<And>r. r \<in> set (db_payments db) \<Longrightarrow> P r \<Longrightarrow> p_Status r \<noteq> PaymentStatusPaid \<and> p_Status (f r) \<noteq> PaymentStatusPaid"
  shows "paid_rows db' = paid_rows db"
  using assms(2) unfolding paid_rows_def assms(1)
  by (fastforce simp: in_update_where_iff intro: update_where_skips split: if_splits)

lemma opened_ok:
  assumes "created i p db db'" "schema_ok db" "p_Status p = PaymentStatusPending" "books_ok db"
  shows "books_ok db'"
proof (rule unpaid_change [OF _ _ _ assms(4)])
  show "trail_ok db'" using created_trail [OF assms(1,2) _ assms(3)] assms(4) by (simp add: books_ok_def)
qed (use assms(1,3) in \<open>auto simp: created_def paid_rows_def\<close>)

lemma cancel_ok:
  assumes m: "moved p ev old actor t db db'" and o: "old \<in> {PaymentStatusPending, PaymentStatusCancelling}"
    and n: "p_Status p \<in> {PaymentStatusPending, PaymentStatusCancelling, PaymentStatusCancelled}"
    and r: "\<And>r. r \<in> set (db_payments db) \<Longrightarrow> p_ID r = p_ID p \<Longrightarrow> p_Status r = old" and k: "books_ok db"
  shows "books_ok db'"
proof (rule unpaid_change [OF _ _ _ k])
  show "trail_ok db'" using moved_trail [OF m _ r] k by (simp add: books_ok_def)
  have "db_payments db' = update_where (\<lambda>r. p_ID r = p_ID p) (with_status_of p t) (db_payments db)"
    using m by (auto simp: moved_def set_status_def)
  then show "paid_rows db' = paid_rows db"
    by (rule paid_rows_update) (use r o n in auto)
qed (use m in \<open>auto simp: moved_def set_status_def\<close>)

lemma lapsed_ok:
  assumes e: "expired t db db'" and s: "schema_ok db" and k: "books_ok db"
  shows "books_ok db'"
proof (rule unpaid_change [OF _ _ _ k])
  show "trail_ok db'" using expired_trail [OF e s] k by (simp add: books_ok_def)
  have "db_payments db' = update_where (due_at t) (expire t) (db_payments db)"
    using e by (auto simp: expired_def)
  then show "paid_rows db' = paid_rows db"
    by (rule paid_rows_update) (auto simp: due_at_def expire_def)
qed (use e in \<open>auto simp: expired_def\<close>)

lemma credit_covered:
  assumes c: "webhook_commit pr ev p m today t db db'" and k: "covered db"
  shows "covered db'"
  using c
proof (cases rule: webhook_commitE)
  case (effect fresh a ms es fee)
  have "balance_of db i \<le> balance_of db' i" for i
    using effect(4) unfolding balance_of_appended [OF effect(9)]
    by (auto simp: webhook_credit_def mutation_row_ok_def cash_in_def balance_effect_def split: if_splits)
  with k show ?thesis
    by (simp add: covered_def solvent_def pending_of_def fees_of_def effect(12)) (meson order.trans add_right_mono)
qed (use k in simp)

lemma credit_settled:
  assumes c: "webhook_commit pr ev p m today t db db'" and k: "settled db"
  shows "settled db'"
  using c
proof (cases rule: webhook_commitE)
  case (effect fresh a ms es fee)
  have "mu_ReferenceType mu = MutationRefPayment" if "mu \<in> set ms" for mu
    using effect(4) that by (auto simp: webhook_credit_def cash_in_def split: if_splits)
  with k show ?thesis by (auto simp: settled_def effect(9,12))
qed (use k in simp)

lemma credit_books_ok:
  assumes "webhook_commit pr ev p m today t db db'" "schema_ok db" "agrees db p" "books_ok db"
  shows "books_ok db'"
  using assms(4) unfolding books_ok_def
  by (intro conjI webhook_commit_credited [OF assms(1,3)] webhook_commit_earned [OF assms(1,2)] webhook_commit_trail [OF assms(1,2)]
      credit_settled [OF assms(1)] credit_covered [OF assms(1)]) simp_all

lemma fees_of_sum: "fees_of db i = sum_list (map (\<lambda>d. if d_MerchantID d = i \<and> d_Status d = DisbursementStatusCompleted then d_FeeAmount d else 0)
    (db_disbursements db))"
  by (simp add: fees_of_def sum_if_filter)

lemma coveredI:
  assumes "covered db" and "\<And>i. fees_of db i \<le> fees_of db' i"
    and "\<And>i. solvent db i \<Longrightarrow> fees_of db i \<le> 2 ^ 63 \<Longrightarrow> solvent db' i"
  shows "covered db'"
  unfolding covered_def
proof
  fix i show "solvent db' i \<or> 2 ^ 63 < fees_of db' i"
    using assms(1) assms(2) [of i] assms(3) [of i] unfolding covered_def by (metis leI less_le_trans)
qed

lemma reserve_ok:
  assumes d: "disbursing gws input w answer d mid" and s: "schema_ok (w_db w)" and k: "books_ok (w_db w)"
    and x: "d_Amount x = d_Amount d" "d_FeeAmount x = d_FeeAmount d" "d_MerchantID x = d_MerchantID d"
  shows "books_ok (with_disbursement x (w_db w))"
proof -
  let ?db = "w_db w" and ?db' = "with_disbursement x (w_db w)"
  from d have "disbursement_row_ok d" by (auto simp: disbursing_def reserved_def)
  then have fee: "0 \<le> d_FeeAmount x" using x by (simp add: disbursement_row_ok_def)
  have "covered ?db'"
  proof (rule coveredI)
    show "covered ?db" using k by (simp add: books_ok_def)
    show "fees_of ?db i \<le> fees_of ?db' i" for i using fee by (simp add: fees_of_sum with_disbursement_def)
    show "solvent ?db' i" if "solvent ?db i" "fees_of ?db i \<le> 2 ^ 63" for i
      by (rule solvent_with_disbursement [OF s that(1) _ d x]) (use that in \<open>simp add: solvent_def\<close>)
  qed
  then show ?thesis
    using k by (auto simp: books_ok_def with_disbursement_def credited_def credit_for_def earned_def trail_ok_def trail_def settled_def)
qed

text \<open>What a settling callback changes, and that the row it settles is the only one with its key.\<close>

lemma settleE:
  assumes "callback_effect (apply_callback ev d) m t db db'"
  obtains ms where "callback_debit (apply_callback ev d) ms" "db_mutations db' = db_mutations db @ ms"
    "db_payments db' = db_payments db" "db_audits db' = db_audits db"
    "db_disbursements db' = update_where (\<lambda>r. d_ID r = d_ID d) (with_outcome_of (apply_callback ev d) t) (db_disbursements db)"
    "\<forall>mu \<in> set ms. mu_ReferenceType mu = MutationRefDisbursement \<and> mu_ReferenceID mu = d_ID d \<and> de_Status ev = DisbursementStatusCompleted"
proof -
  have cash: "\<forall>mu \<in> set ms. mu_ReferenceType mu = MutationRefDisbursement \<and> mu_ReferenceID mu = d_ID d \<and> de_Status ev = DisbursementStatusCompleted"
    if "callback_debit (apply_callback ev d) ms" for ms
    using that by (auto simp: callback_debit_def cash_out_def split: if_splits)
  from assms show ?thesis
    by (auto simp: callback_effect_def set_outcome_def intro!: that cash)
qed

lemma settle_covered:
  assumes c: "callback_effect (apply_callback ev d) m t db db'" and s: "schema_ok db"
    and d: "d \<in> set (db_disbursements db)" "\<not> disbursement_IsFinal d" and k: "covered db"
  shows "covered db'"
proof (rule coveredI [OF k])
  show "solvent db' i" if "solvent db i" for i by (rule solvent_callback [OF s that c d])
  have "0 \<le> d_FeeAmount d" using s d(1) by (auto simp: schema_ok_def table_ok_def list_all_iff disbursement_row_ok_def)
  then show "fees_of db i \<le> fees_of db' i" for i
    using c d(2) unfolding fees_of_sum
    by (elim settleE, simp only:, subst sum_update_where [OF schema_distinct(2) [OF s] d(1)]) (simp add: disbursement_IsFinal_def)
qed

lemma settle_settled:
  assumes c: "callback_effect (apply_callback ev d) m t db db'" and s: "schema_ok db"
    and d: "d \<in> set (db_disbursements db)" "\<not> disbursement_IsFinal d" and k: "settled db"
  shows "settled db'"
  using c
proof (rule settleE)
  fix ms assume db': "db_mutations db' = db_mutations db @ ms"
      "db_disbursements db' = update_where (\<lambda>r. d_ID r = d_ID d) (with_outcome_of (apply_callback ev d) t) (db_disbursements db)"
    and cash: "\<forall>mu \<in> set ms. mu_ReferenceType mu = MutationRefDisbursement \<and> mu_ReferenceID mu = d_ID d \<and> de_Status ev = DisbursementStatusCompleted"
  have "\<exists>y \<in> set (db_disbursements db'). d_Status y = DisbursementStatusCompleted \<and> d_ID y = mu_ReferenceID mu"
    if mu: "mu \<in> set (db_mutations db')" "mu_ReferenceType mu = MutationRefDisbursement" for mu
  proof (cases "mu \<in> set ms")
    case True
    with d(1) cash show ?thesis
      by (intro bexI [of _ "with_outcome_of (apply_callback ev d) t d"])
        (auto simp: db'(2) intro: update_where_hits [of "\<lambda>r. d_ID r = d_ID d"])
  next
    case False
    with mu k obtain y where y: "y \<in> set (db_disbursements db)" "d_Status y = DisbursementStatusCompleted" "d_ID y = mu_ReferenceID mu"
      by (auto simp: db'(1) settled_def)
    with disbursement_keys(1) [OF s y(1) d(1)] d(2) have "d_ID y \<noteq> d_ID d" by (auto simp: disbursement_IsFinal_def)
    with y show ?thesis by (intro bexI [of _ y]) (auto simp: db'(2) intro: update_where_skips)
  qed
  then show ?thesis by (simp add: settled_def)
qed

lemma settle_ok:
  assumes c: "callback_effect (apply_callback ev d) m t db db'" and s: "schema_ok db"
    and d: "d \<in> set (db_disbursements db)" "\<not> disbursement_IsFinal d" and k: "books_ok db"
  shows "books_ok db'"
proof -
  have "credited db' \<and> earned db' \<and> trail_ok db'"
    using c
  proof (rule settleE)
    fix ms assume db': "db_mutations db' = db_mutations db @ ms" "db_payments db' = db_payments db" "db_audits db' = db_audits db"
      and cash: "\<forall>mu \<in> set ms. mu_ReferenceType mu = MutationRefDisbursement \<and> mu_ReferenceID mu = d_ID d \<and> de_Status ev = DisbursementStatusCompleted"
    have "credited db'" using k credit_for_append [OF _ db'(1)] by (fastforce simp: books_ok_def credited_def db'(2))
    moreover have "earned db'" using k cash by (fastforce simp: books_ok_def earned_def db'(1,2))
    ultimately show ?thesis using k by (simp add: books_ok_def trail_ok_def trail_def db'(2,3))
  qed
  then show ?thesis
    using k settle_settled [OF c s d] settle_covered [OF c s d] by (simp add: books_ok_def)
qed

lemma books_step_ok: "books_step db db' \<Longrightarrow> books_ok db \<Longrightarrow> books_ok db'"
  by (induction rule: books_step.induct)
    (blast intro: books_ok_same credit_books_ok opened_ok cancel_ok lapsed_ok reserve_ok settle_ok)+

lemma books_steps_ok: "books_steps db db' \<Longrightarrow> books_ok db \<Longrightarrow> books_ok db'"
  by (induction rule: rtranclp_induct) (auto intro: books_step_ok)

lemma history_ok:
  assumes "history db0 db" "schema_ok db0"
  shows "schema_ok db" "books_steps db0 db"
proof -
  have "schema_ok db \<and> books_steps db0 db"
    using assms(1)
  proof (induction rule: history.induct)
    case (serve w sv req)
    then show ?case
      using serve_steps [of w sv req] schema.obeysD [OF schema_serve, of w sv req]
      by (auto simp: schema.lifted_def kept_def)
  qed (simp add: assms(2))
  then show "schema_ok db" "books_steps db0 db" by simp_all
qed

section \<open>Finality\<close>

text \<open>What is final stays: the ledger and the trail grow at the end only, and no final row changes.\<close>

definition irrevocable :: "database \<Rightarrow> database \<Rightarrow> bool" where
  "irrevocable a b \<longleftrightarrow> prefix (db_mutations a) (db_mutations b) \<and> prefix (db_audits a) (db_audits b)
     \<and> (\<forall>p \<in> set (db_payments a). payment_IsFinal p \<longrightarrow> p \<in> set (db_payments b))
     \<and> (\<forall>d \<in> set (db_disbursements a). disbursement_IsFinal d \<longrightarrow> d \<in> set (db_disbursements b))"

lemma irrevocable_payments:
  assumes "db_payments b = update_where P f (db_payments a)"
    and "\<And>r. r \<in> set (db_payments a) \<Longrightarrow> P r \<Longrightarrow> \<not> payment_IsFinal r"
    and "prefix (db_mutations a) (db_mutations b)" "prefix (db_audits a) (db_audits b)" "db_disbursements b = db_disbursements a"
  shows "irrevocable a b"
  using assms unfolding irrevocable_def by (auto intro: update_where_skips)

lemma books_step_irrevocable: "books_step db db' \<Longrightarrow> irrevocable db db'"
proof (induction rule: books_step.induct)
  case (credit pr ev p m today t db db')
  from credit(1) show ?case
  proof (cases rule: webhook_commitE)
    case (effect fresh a ms es fee)
    show ?thesis
      by (rule irrevocable_payments [OF effect(7)])
        (use find_Some_unique [OF schema_distinct(1) [OF credit(2)] effect(1)] effect(2,8,9,12) in auto)
  qed (simp add: irrevocable_def)
next
  case (cancel p ev old actor t db db')
  then show ?case
    by (intro irrevocable_payments [of _ "\<lambda>r. p_ID r = p_ID p" "with_status_of p t"])
      (auto simp: moved_def set_status_def payment_IsFinal_def)
next
  case (lapsed t db db')
  then show ?case
    by (intro irrevocable_payments [of _ "due_at t" "expire t"])
      (auto simp: expired_def due_at_def payment_IsFinal_def)
next
  case (settle ev d m t db db')
  then show ?case
    using disbursement_keys(1) [OF settle(2) _ settle(3)]
    by (elim settleE) (auto simp: irrevocable_def intro: update_where_skips)
qed (auto simp: irrevocable_def books_same_def created_def with_disbursement_def)

lemma books_steps_irrevocable: "books_steps db db' \<Longrightarrow> irrevocable db db'"
  by (induction rule: rtranclp_induct)
    (auto simp: irrevocable_def intro: prefix_order.trans dest!: books_step_irrevocable)

section \<open>Properties\<close>


text \<open>C2: however many requests the system serves one after the other, the books stay balanced: every paid payment is credited
  to its merchant with its own amount, every payment credit belongs to a paid payment, every cash-out to a completed
  disbursement, the audit trail of each payment is a chain that ends in its status, and the pending disbursements of a
  merchant are covered by its balance and the fees of its completed ones, unless those fees exceed the 64-bit range.\<close>

theorem books_stay_balanced:
  assumes "history db0 db" "schema_ok db0" "books_ok db0"
  shows "books_ok db"
  by (rule books_steps_ok [OF history_ok(2) [OF assms(1,2)] assms(3)])

text \<open>C6: what is final stays final over any sequence of requests: no ledger entry or audit entry is ever changed or removed,
  and no payment or disbursement in a final status changes in any column.\<close>

theorem final_rows_are_irrevocable:
  assumes "history db0 db" "schema_ok db0"
  shows "irrevocable db0 db"
  by (rule books_steps_irrevocable [OF history_ok(2) [OF assms]])

lemma credits_match_paid:
  assumes s: "schema_ok db" and k: "credited db" "earned db"
  shows "sum_list (map mu_Amount (filter (\<lambda>m. mu_ReferenceType m = MutationRefPayment \<and> mu_MerchantID m = i) (db_mutations db)))
       = sum_list (map p_Amount (filter (\<lambda>p. p_Status p = PaymentStatusPaid \<and> p_MerchantID p = i) (db_payments db)))"
proof -
  let ?M = "filter (\<lambda>m. mu_ReferenceType m = MutationRefPayment \<and> mu_MerchantID m = i) (db_mutations db)"
  let ?P = "filter (\<lambda>p. p_Status p = PaymentStatusPaid \<and> p_MerchantID p = i) (db_payments db)"
  define c where "c p = (SOME m. credit_for db p m)" for p
  have c: "credit_for db p (c p)" if "p \<in> set ?P" for p
    using that k(1) someI_ex [of "credit_for db p"] by (auto simp: credited_def c_def)
  have one: "m = m'" if "credit_for db p m" "m' \<in> set (db_mutations db)" "mu_ReferenceType m' = MutationRefPayment" "mu_ReferenceID m' = p_ID p" for p m m'
    using inj_onD [OF conjunct2 [OF schema_distinct(4) [OF s, unfolded distinct_map]], of m m'] that by (simp add: credit_for_def)
  have "inj_on c (set ?P)"
  proof (rule inj_onI)
    fix p q assume pq: "p \<in> set ?P" "q \<in> set ?P" "c p = c q"
    then have "p_ID p = p_ID q" using c [OF pq(1)] c [OF pq(2)] by (simp add: credit_for_def)
    then show "p = q" using payment_keys(1) [OF s] pq by simp
  qed
  moreover have "c ` set ?P = set ?M"
  proof
    show "c ` set ?P \<subseteq> set ?M" using c by (auto simp: credit_for_def)
    show "set ?M \<subseteq> c ` set ?P"
    proof
      fix m assume m: "m \<in> set ?M"
      then obtain p where p: "p \<in> set (db_payments db)" "p_Status p = PaymentStatusPaid" "p_ID p = mu_ReferenceID m"
        using k(2) by (auto simp: earned_def)
      with k(1) obtain x where x: "credit_for db p x" by (auto simp: credited_def)
      with one [OF x] m p have "x = m" by simp
      with x m p have P: "p \<in> set ?P" by (simp add: credit_for_def)
      from one [OF c [OF P]] m p have "c p = m" by simp
      with P show "m \<in> c ` set ?P" by blast
    qed
  qed
  ultimately have "(\<Sum>m \<in> set ?M. mu_Amount m) = (\<Sum>p \<in> set ?P. mu_Amount (c p))"
    by (metis (no_types, lifting) sum.reindex_cong)
  also have "\<dots> = (\<Sum>p \<in> set ?P. p_Amount p)" using c by (intro sum.cong) (auto simp: credit_for_def)
  finally show ?thesis
    using schema_distinct(1,4) [OF s] by (simp add: sum_list_distinct_conv_sum_set distinct_map)
qed

text \<open>C5: after any sequence of requests the total of a merchant's payment credits in the ledger, before fees, is exactly the
  total amount of its paid payments.\<close>

theorem credits_equal_paid_amounts:
  assumes "history db0 db" "schema_ok db0" "books_ok db0"
  shows "sum_list (map mu_Amount (filter (\<lambda>m. mu_ReferenceType m = MutationRefPayment \<and> mu_MerchantID m = i) (db_mutations db)))
       = sum_list (map p_Amount (filter (\<lambda>p. p_Status p = PaymentStatusPaid \<and> p_MerchantID p = i) (db_payments db)))"
  using history_ok [OF assms(1,2)] books_steps_ok [OF _ assms(3)]
  by (intro credits_match_paid) (simp_all add: books_ok_def)

section \<open>The properties on a concrete history\<close>

definition open_db :: database where
  "open_db = (payment_db 100000)\<lparr>db_audits :=
     [(audit ''P1'' AuditEventPaymentCreated None PaymentStatusPending ''merchant:M1'')\<lparr>au_ID := ''U1''\<rparr>]\<rparr>"

definition sample_service :: service where
  "sample_service =
     \<lparr>sv_gateways = sample_gateways, sv_cashout = sample_disbursement_gateways,
      sv_worker = \<lparr>we_parse_url = (\<lambda>_. None), we_hmac = (\<lambda>_ _. []), we_marshal = (\<lambda>_. ''''), we_http = (\<lambda>_ _. Inr 200)\<rparr>,
      sv_admin = \<lparr>ae_jwt = sample_jwt_env, ae_Generate = (\<lambda>_. Inr), ae_Compare = (=),
                  ae_cfg = \<lparr>ac_JWTSecret = ''secret'', ac_AccessTokenTTLHours = 1, ac_RefreshTokenTTLHours = 2\<rparr>\<rparr>,
      sv_sha256 = (\<lambda>s. s)\<rparr>"

definition paid_db :: database where
  "paid_db = w_db (snd (serve sample_service (ReqPaymentWebhook ProviderMidtrans [] ''{}'') (quiet_world open_db 0)))"

definition reserved_db :: database where
  "reserved_db = w_db (snd (serve sample_service (ReqDisburse sample_disburse) (quiet_world paid_db 5)))"

lemma open_db_ok: "schema_ok open_db" "books_ok open_db"
proof -
  show "schema_ok open_db"
    using payment_db_ok [of 100000]
    by (simp add: open_db_def schema_ok_def table_ok_def unique_rows_def payment_exists_def merchant_exists_def audit_def
        payment_audit_row_ok_def payment_status_ok_def)
  show "books_ok open_db"
    by (simp add: books_ok_def credited_def earned_def trail_ok_def trail_def settled_def covered_def solvent_def pending_of_def
        fees_of_def sum_where_def balance_of_def open_db_def audit_def payment_db_def sample_db_def empty_database_def)
qed

lemma sample_history: "history open_db reserved_db"
proof -
  have "history open_db (w_db (quiet_world open_db 0))" by (simp add: history.start)
  from history.serve [OF this] have "history open_db (w_db (quiet_world paid_db 5))"
    unfolding paid_db_def quiet_world_simps .
  from history.serve [OF this] show ?thesis unfolding reserved_db_def .
qed


theorem books_stay_balanced_witness: "books_ok reserved_db"
  by (rule books_stay_balanced [OF sample_history open_db_ok])

theorem final_rows_are_irrevocable_witness: "irrevocable open_db reserved_db"
  by (rule final_rows_are_irrevocable [OF sample_history open_db_ok(1)])

theorem credits_equal_paid_amounts_witness:
  "sum_list (map mu_Amount (filter (\<lambda>m. mu_ReferenceType m = MutationRefPayment \<and> mu_MerchantID m = ''M1'') (db_mutations reserved_db)))
   = sum_list (map p_Amount (filter (\<lambda>p. p_Status p = PaymentStatusPaid \<and> p_MerchantID p = ''M1'') (db_payments reserved_db)))"
  by (rule credits_equal_paid_amounts [OF sample_history open_db_ok])

end
