(* ===== verification/Interleaving.thy ===== *)
theory Interleaving
  imports System
begin

text \<open>
  Requests that overlap. The handlers that call a provider or re-check under a lock run as
  several tasks: a payment webhook reads and then commits, a cancellation claims the payment and
  finishes after the provider has answered, a disbursement reads, reserves and finishes, a
  disbursement callback reads and then commits. Between two tasks of one handler any task of
  another may run; every other request is one task. A task of one transaction is atomic, as
  its row locks make it.
\<close>

section \<open>Tasks\<close>

datatype task =
    Arrived request
  | WebhookTx provider webhook_event payment merchant
  | CancelCall string payment
  | DisburseReserve disburse_input merchant bank_account disbursement_gateway int64
  | DisburseCall disburse_input bank_account disbursement_gateway disbursement
  | CallbackTx disbursement merchant

definition last_task :: "(world, 'a) action \<Rightarrow> (world, task option) action" where
  "last_task m = bind m (\<lambda>_. ret None)"

fun arrive :: "service \<Rightarrow> request \<Rightarrow> (world, task option) action" where
  "arrive sv (ReqPaymentWebhook pr h b) =
     bind (webhook_read (sv_gateways sv) pr h b) (\<lambda>r.
     case r of None \<Rightarrow> ret None | Some (ev, p, m) \<Rightarrow> ret (Some (WebhookTx pr ev p m)))"
| "arrive sv (ReqCancelPayment m i) = bind (cancel_begin m i) (\<lambda>p. ret (Some (CancelCall m p)))"
| "arrive sv (ReqDisburse i) =
     bind (disburse_read (sv_cashout sv) i) (\<lambda>(m, a, gw, fee). ret (Some (DisburseReserve i m a gw fee)))"
| "arrive sv (ReqDisbursementWebhook pr h b) =
     bind (callback_read (sv_cashout sv) pr h b) (\<lambda>r.
     case r of None \<Rightarrow> ret None | Some (d, m) \<Rightarrow> ret (Some (CallbackTx d m)))"
| "arrive sv req = last_task (serve sv req)"

fun advance :: "service \<Rightarrow> task \<Rightarrow> (world, task option) action" where
  "advance sv (Arrived req) = arrive sv req"
| "advance sv (WebhookTx pr ev p m) = last_task (webhook_tx pr ev p m)"
| "advance sv (CancelCall m p) = last_task
     (bind (payment_gateway_for (sv_gateways sv) (p_Provider p)) (\<lambda>gw.
      bind (attempt (outcome (pg_CancelPayment gw (cancel_id p)))) (\<lambda>answer.
      cancel_finish m p answer)))"
| "advance sv (DisburseReserve i m a gw fee) =
     bind (disburse_reserve i m a fee) (\<lambda>d. ret (Some (DisburseCall i a gw d)))"
| "advance sv (DisburseCall i a gw d) = last_task
     (bind externalID (\<lambda>extID.
      bind (attempt (outcome (dg_Disburse gw (disburse_request_of i a extID)))) (\<lambda>answer.
      disburse_finish (di_Provider i) d answer)))"
| "advance sv (CallbackTx d m) = last_task (callback_tx d m)"

text \<open>A task and the tasks it leaves, one after the other, with nothing in between.\<close>

fun drive :: "nat \<Rightarrow> service \<Rightarrow> task \<Rightarrow> (world, unit) action" where
  "drive 0 sv t = throw (PlainErr ''out of fuel'')"
| "drive (Suc n) sv t = bind (advance sv t) (\<lambda>r. case r of None \<Rightarrow> ret () | Some t' \<Rightarrow> drive n sv t')"

lemma bind_assoc_eq: "bind (bind m f) g = bind m (\<lambda>x. bind (f x) g)"
  by (rule ext) (simp add: bind_def split: prod.splits sum.splits)

lemma bind_ret_left: "bind (ret x) f = f x"
  by (rule ext) (simp add: bind_def ret_def)

lemma bind_ret_right: "bind m ret = m"
  by (rule ext) (simp add: bind_def ret_def split: prod.splits sum.splits)

lemmas bind_laws = bind_assoc_eq bind_ret_left bind_ret_right

lemma drive_last: "0 < n \<Longrightarrow> bind (last_task m) (\<lambda>r. case r of None \<Rightarrow> ret () | Some t' \<Rightarrow> drive n sv t') = bind m (\<lambda>_. ret ())"
  by (simp add: last_task_def bind_laws)

lemma option_bind: "bind (case r of None \<Rightarrow> m | Some x \<Rightarrow> g x) f = (case r of None \<Rightarrow> bind m f | Some x \<Rightarrow> bind (g x) f)"
  by (cases r) simp_all

lemma prod_bind: "bind (case r of (a, b) \<Rightarrow> g a b) f = (case r of (a, b) \<Rightarrow> bind (g a b) f)"
  by (cases r) simp_all

lemma drive_serve: "drive 3 sv (Arrived req) = serve sv req"
  by (cases req)
    (simp_all add: numeral_3_eq_3 last_task_def outcome_free_def bind_laws option_bind prod_bind HandleWebhook_def CancelPayment_def
      Disburse_def HandleDisbursementCallback_def case_prod_unfold cong: option.case_cong)

section \<open>Steps\<close>

text \<open>
  A configuration is the database and the tasks under way. A step admits a request or runs one
  task in a world over the current database; its clock, randomness and faults are free.
\<close>

type_synonym config = "database \<times> task list"

inductive step :: "config \<Rightarrow> config \<Rightarrow> bool" where
  admit: "step (db, ts) (db, ts @ [Arrived req])"
| run: "advance sv t w = (Inr (Some t'), w') \<Longrightarrow> step (w_db w, ts @ t # us) (w_db w', ts @ t' # us)"
| finish: "advance sv t w = (Inr None, w') \<Longrightarrow> step (w_db w, ts @ t # us) (w_db w', ts @ us)"
| fail: "advance sv t w = (Inl e, w') \<Longrightarrow> step (w_db w, ts @ t # us) (w_db w', ts @ us)"

inductive_cases stepE: "step c c'"

abbreviation reaches :: "config \<Rightarrow> config \<Rightarrow> bool" where
  "reaches \<equiv> rtranclp step"

section \<open>What no interleaving breaks\<close>

text \<open>
  Three preorders on databases. A payment that exists keeps its merchant and its amount;
  apart from the webhook transaction no statement makes a payment paid or takes a ledger entry
  away; and the schema holds.
\<close>

definition known :: "database \<Rightarrow> payment \<Rightarrow> bool" where
  "known db p \<longleftrightarrow> payment_exists db (p_ID p) \<and> agrees db p"

definition keeps_known :: "database \<Rightarrow> database \<Rightarrow> bool" where
  "keeps_known a b \<longleftrightarrow> (\<forall>p. known a p \<longrightarrow> known b p)"

interpretation identity: db_effect keeps_known
  by unfold_locales (auto simp: keeps_known_def)

definition no_new_paid :: "database \<Rightarrow> database \<Rightarrow> bool" where
  "no_new_paid a b \<longleftrightarrow> paid_rows b \<subseteq> paid_rows a \<and> set (db_mutations a) \<subseteq> set (db_mutations b)"

interpretation unpaid: db_effect no_new_paid
  by unfold_locales (auto simp: no_new_paid_def)

lemma no_new_paid_credited: "no_new_paid a b \<Longrightarrow> credited a \<Longrightarrow> credited b"
  by (fastforce simp: no_new_paid_def credited_def credit_for_def paid_rows_def)

lemma payments_same_effects:
  assumes "db_payments b = db_payments a" "prefix (db_mutations a) (db_mutations b)"
  shows "keeps_known a b" "no_new_paid a b"
  using assms set_mono_prefix [OF assms(2)]
  by (simp_all add: keeps_known_def known_def agrees_def payment_exists_def no_new_paid_def paid_rows_def)

lemma books_effects: "books.obeys m \<Longrightarrow> identity.obeys m" "books.obeys m \<Longrightarrow> unpaid.obeys m"
  unfolding books.obeys_def books.lifted_def identity.obeys_def identity.lifted_def unpaid.obeys_def unpaid.lifted_def books_same_def
  by (simp_all add: payments_same_effects)

lemma keeps_known_update:
  assumes "db_payments b = update_where P f (db_payments a)"
    and "\<And>r. p_ID (f r) = p_ID r" "\<And>r. p_MerchantID (f r) = p_MerchantID r" "\<And>r. p_Amount (f r) = p_Amount r"
  shows "keeps_known a b"
  unfolding keeps_known_def known_def payment_exists_iff agrees_def assms(1) update_where_image [of p_ID, OF assms(2)]
  using assms(2-4) by (auto simp: in_update_where_iff split: if_splits)

lemma effects_payment_Update:
  "identity.obeys (payment_Update p)" "p_Status p \<noteq> PaymentStatusPaid \<Longrightarrow> unpaid.obeys (payment_Update p)"
proof -
  show "identity.obeys (payment_Update p)"
    unfolding payment_Update_def by (intro identity.db_intros identity.obeys_exec)
      (auto intro!: keeps_known_update [of _ "\<lambda>r. p_ID r = p_ID p"] simp del: checked_update_Inr dest!: checked_update_Inr [THEN iffD1])
  show "unpaid.obeys (payment_Update p)" if "p_Status p \<noteq> PaymentStatusPaid"
    unfolding payment_Update_def using that
    by (intro unpaid.db_intros unpaid.obeys_exec)
      (auto simp: no_new_paid_def paid_rows_def in_update_where_iff split: if_splits)
qed

lemma effects_insert_payment:
  assumes "insert_payment q db = Inr db'"
  shows "keeps_known db db'" "p_Status q \<noteq> PaymentStatusPaid \<Longrightarrow> no_new_paid db db'"
proof -
  from assms have db': "db_payments db' = db_payments db @ [q]" "db_mutations db' = db_mutations db"
    and new: "\<forall>r \<in> set (db_payments db). p_ID r \<noteq> p_ID q"
    by (auto simp: insert_payment_def payment_conflict_def)
  show "keeps_known db db'"
    unfolding keeps_known_def
  proof (intro allI impI)
    fix p assume k: "known db p"
    then have "p_ID p \<noteq> p_ID q" using new by (auto simp: known_def payment_exists_iff)
    with k show "known db' p" by (auto simp: known_def payment_exists_iff agrees_def db')
  qed
  show "no_new_paid db db'" if "p_Status q \<noteq> PaymentStatusPaid"
    using that by (auto simp: no_new_paid_def paid_rows_def db')
qed

lemma effects_payment_Save:
  "identity.obeys (payment_Save p)" "p_Status p \<noteq> PaymentStatusPaid \<Longrightarrow> unpaid.obeys (payment_Save p)"
  unfolding payment_Save_def
  by (intro identity.db_intros identity.obeys_exec unpaid.db_intros unpaid.obeys_exec;
      auto simp: Let_def dest: effects_insert_payment)+

lemma effects_expirePayments: "identity.obeys expirePayments" "unpaid.obeys expirePayments"
proof -
  show "identity.obeys expirePayments"
    unfolding expirePayments_def logged_def
    by (intro identity.db_intros identity.obeys_exec)
      (auto simp: Let_def intro!: keeps_known_update dest!: insert_audits_Inr)
  show "unpaid.obeys expirePayments"
    unfolding expirePayments_def logged_def
    by (intro unpaid.db_intros unpaid.obeys_exec)
      (auto simp: Let_def no_new_paid_def paid_rows_def in_update_where_iff dest!: insert_audits_Inr split: if_splits)
qed

lemma effects_ledger_inserts:
  "insert_mutation m db = Inr db' \<Longrightarrow> keeps_known db db' \<and> no_new_paid db db'"
  "insert_audit a db = Inr db' \<Longrightarrow> keeps_known db db' \<and> no_new_paid db db'"
  "insert_disbursement d db = Inr db' \<Longrightarrow> keeps_known db db' \<and> no_new_paid db db'"
  by (auto simp: insert_defs intro: payments_same_effects)

lemma effects_ledger:
  "identity.obeys (mutation_Save m)" "unpaid.obeys (mutation_Save m)" "identity.obeys (audit_Save a)" "unpaid.obeys (audit_Save a)"
  "identity.obeys (disbursement_Save d)" "unpaid.obeys (disbursement_Save d)"
  unfolding mutation_Save_def audit_Save_def disbursement_Save_def
  by (intro identity.db_intros identity.obeys_exec unpaid.db_intros unpaid.obeys_exec;
      auto simp: Let_def dest: effects_ledger_inserts)+

lemma effects_disbursement_Update: "identity.obeys (disbursement_Update d)" "unpaid.obeys (disbursement_Update d)"
  unfolding disbursement_Update_def
  by (intro identity.db_intros identity.obeys_exec unpaid.db_intros unpaid.obeys_exec;
      auto intro!: payments_same_effects simp del: checked_update_Inr)+

lemma effects_reads: "reads.obeys m \<Longrightarrow> identity.obeys m" "reads.obeys m \<Longrightarrow> unpaid.obeys m"
  by (rule books_effects, erule reads_books)+

lemma effects_outcome: "identity.obeys (outcome r)" "unpaid.obeys (outcome r)"
  by (simp_all add: outcome_def identity.obeys_def identity.lifted_def unpaid.obeys_def unpaid.lifted_def keeps_known_def no_new_paid_def)

lemmas task_obeys =
  identity.db_intros unpaid.db_intros identity.obeys_RunInTx unpaid.obeys_RunInTx effects_payment_Update effects_payment_Save
  effects_ledger effects_disbursement_Update effects_outcome books_repo_inserts [THEN books_effects(1)] books_repo_inserts [THEN books_effects(2)]
  reads_payments [THEN effects_reads(1)] reads_payments [THEN effects_reads(2)]
  reads_disbursements [THEN effects_reads(1)] reads_disbursements [THEN effects_reads(2)]
  reads_Resolve [THEN effects_reads(1)] reads_Resolve [THEN effects_reads(2)]

lemma effects_gateway_for:
  "identity.obeys (payment_gateway_for gws pr)" "unpaid.obeys (payment_gateway_for gws pr)"
  unfolding payment_gateway_for_def by (intro identity.obeys_intros unpaid.obeys_intros)+

text \<open>The tasks; the webhook transaction alone can make a payment paid.\<close>

lemma effects_payment_tasks:
  "identity.obeys (webhook_read gws pr h b)" "unpaid.obeys (webhook_read gws pr h b)"
  "identity.obeys (cancel_begin m i)" "unpaid.obeys (cancel_begin m i)"
  "identity.obeys (cancel_finish m p r)" "unpaid.obeys (cancel_finish m p r)"
  "identity.obeys (webhook_tx pr ev p me)"
  unfolding webhook_read_def cancel_begin_def cancel_finish_def webhook_tx_def Let_def
  by (intro task_obeys effects_gateway_for; simp)+

lemma effects_disbursement_tasks:
  "identity.obeys (disburse_read dgs i)" "unpaid.obeys (disburse_read dgs i)"
  "identity.obeys (disburse_reserve i me acc fee)" "unpaid.obeys (disburse_reserve i me acc fee)"
  "identity.obeys (disburse_finish pr d ans)" "unpaid.obeys (disburse_finish pr d ans)"
  "identity.obeys (callback_read dgs pr h b)" "unpaid.obeys (callback_read dgs pr h b)"
  "identity.obeys (callback_tx d me)" "unpaid.obeys (callback_tx d me)"
  unfolding disburse_read_def disburse_reserve_def disburse_finish_def callback_read_def callback_tx_def Let_def
  by (intro task_obeys)+

lemma effects_creation:
  "identity.obeys (CreateVA gws iv)" "unpaid.obeys (CreateVA gws iv)" "identity.obeys (CreateQRIS gws iq)" "unpaid.obeys (CreateQRIS gws iq)"
  unfolding CreateVA_def CreateQRIS_def savePaymentWithAudit_def
  by (intro task_obeys effects_gateway_for; simp)+

lemma effects_last: "identity.obeys m \<and> unpaid.obeys m \<and> schema.obeys m \<Longrightarrow>
    identity.obeys (last_task m) \<and> unpaid.obeys (last_task m) \<and> schema.obeys (last_task m)"
  unfolding last_task_def by (intro conjI identity.obeys_intros unpaid.obeys_intros schema.obeys_intros) simp_all

lemma effects_free: "identity.obeys m \<and> unpaid.obeys m \<and> schema.obeys m \<Longrightarrow>
    identity.obeys (outcome_free m) \<and> unpaid.obeys (outcome_free m) \<and> schema.obeys (outcome_free m)"
  unfolding outcome_free_def by (intro conjI identity.obeys_intros unpaid.obeys_intros schema.obeys_intros) simp_all

lemma effects_arrive: "identity.obeys (arrive sv req) \<and> unpaid.obeys (arrive sv req) \<and> schema.obeys (arrive sv req)"
proof (cases req)
  case (ReqPaymentWebhook pr h b)
  show ?thesis
    unfolding ReqPaymentWebhook arrive.simps
    by (intro conjI identity.obeys_intros unpaid.obeys_intros schema.obeys_intros effects_payment_tasks obeys_webhook_steps)
next
  case (ReqCancelPayment m i)
  show ?thesis
    unfolding ReqCancelPayment arrive.simps
    by (intro conjI identity.obeys_intros unpaid.obeys_intros schema.obeys_intros effects_payment_tasks obeys_cancel_steps)
next
  case (ReqDisburse i)
  show ?thesis
    unfolding ReqDisburse arrive.simps
    by (intro conjI identity.obeys_intros unpaid.obeys_intros schema.obeys_intros effects_disbursement_tasks obeys_disburse_steps)
next
  case (ReqDisbursementWebhook pr h b)
  show ?thesis
    unfolding ReqDisbursementWebhook arrive.simps
    by (intro conjI identity.obeys_intros unpaid.obeys_intros schema.obeys_intros effects_disbursement_tasks obeys_disburse_steps)
qed (auto simp: admin_CreateMerchant_def admin_ApproveMerchant_def admin_SuspendMerchant_def books_effects effects_creation
    effects_expirePayments obeys_expirePayments obeys_payment_usecase obeys_merchant_usecase obeys_processBatch books_merchant_usecase
    books_processBatch books_admin_sessions books_admin_merchants books_admin_fees intro!: effects_last effects_free)

lemma effects_advance:
  "identity.obeys (advance sv t)" "schema.obeys (advance sv t)" "(\<And>pr ev p m. t \<noteq> WebhookTx pr ev p m) \<Longrightarrow> unpaid.obeys (advance sv t)"
proof -
  have "identity.obeys (advance sv t) \<and> schema.obeys (advance sv t) \<and> ((\<forall>pr ev p m. t \<noteq> WebhookTx pr ev p m) \<longrightarrow> unpaid.obeys (advance sv t))"
  proof (cases t)
    case (Arrived req)
    then show ?thesis using effects_arrive [of sv req] by simp
  qed (auto simp: last_task_def
      intro!: identity.db_intros unpaid.db_intros schema.db_intros effects_payment_tasks effects_disbursement_tasks effects_gateway_for
        effects_outcome obeys_webhook_steps obeys_cancel_steps obeys_disburse_steps obeys_payment_gateway_for obeys_outcome)
  then show "identity.obeys (advance sv t)" "schema.obeys (advance sv t)"
    "(\<And>pr ev p m. t \<noteq> WebhookTx pr ev p m) \<Longrightarrow> unpaid.obeys (advance sv t)" by auto
qed

text \<open>A task under way knows its payment, and the books are credited.\<close>

definition ready :: "database \<Rightarrow> task \<Rightarrow> bool" where
  "ready db t = (case t of WebhookTx _ _ p _ \<Rightarrow> known db p | _ \<Rightarrow> True)"

definition sound :: "config \<Rightarrow> bool" where
  "sound c \<longleftrightarrow> schema_ok (fst c) \<and> credited (fst c) \<and> list_all (ready (fst c)) (snd c)"

lemma named_payment_known: "schema_ok db \<Longrightarrow> named_payment db pr ev = Some p \<Longrightarrow> known db p"
  by (auto simp: known_def payment_exists_iff named_payment_agrees dest!: named_payment_in)

lemma ready_kept: "keeps_known a b \<Longrightarrow> ready a t \<Longrightarrow> ready b t"
  by (auto simp: ready_def keeps_known_def split: task.splits)

lemma advance_ready:
  assumes "schema_ok (w_db w)" "advance sv t w = (Inr (Some t'), w')"
  shows "ready (w_db w') t'"
proof (cases "\<exists>pr h b. t = Arrived (ReqPaymentWebhook pr h b)")
  case True
  then obtain pr h b where t: "t = Arrived (ReqPaymentWebhook pr h b)" by blast
  from assms show ?thesis
    using webhook_read_spec [of "sv_gateways sv" pr h b w]
    by (auto simp: t bind_def ret_def wp_def ready_def same_tables_def named_payment_known split: prod.splits sum.splits option.splits)
next
  case False
  then have "ready db t'" for db
    using assms(2)
    by (cases "(sv, t)" rule: advance.cases; cases "(sv, case t of Arrived r \<Rightarrow> r | _ \<Rightarrow> ReqExpiryTick)" rule: arrive.cases)
      (auto simp: last_task_def bind_def ret_def ready_def split: prod.splits sum.splits option.splits)
  then show ?thesis .
qed

lemma advance_credited:
  assumes "ready (w_db w) t" "credited (w_db w)"
  shows "credited (w_db (snd (advance sv t w)))"
proof (cases "\<exists>pr ev p m. t = WebhookTx pr ev p m")
  case True
  then obtain pr ev p m where t: "t = WebhookTx pr ev p m" by blast
  have "wp (webhook_tx pr ev p m) (\<lambda>_ w'. credited (w_db w')) (\<lambda>_ w'. credited (w_db w')) w"
    by (rule wp_mono [OF webhook_tx_spec])
      (use assms in \<open>auto simp: t ready_def known_def intro: webhook_commit_credited\<close>)
  then show ?thesis by (auto simp: t last_task_def bind_def ret_def wp_def split: prod.splits sum.splits)
next
  case False
  then show ?thesis
    using assms(2) unpaid.obeysD [OF effects_advance(3), of t w sv] by (auto simp: unpaid.lifted_def intro: no_new_paid_credited)
qed

lemma step_sound: "step c c' \<Longrightarrow> sound c \<Longrightarrow> sound c'"
proof (induction rule: step.induct)
  case (admit db ts req)
  then show ?case by (simp add: sound_def ready_def)
next
  case (run sv t w t' w' ts us)
  then show ?case
    using identity.obeysD [OF effects_advance(1), of w sv t] schema.obeysD [OF effects_advance(2), of w sv t]
      advance_ready [of w sv t t' w'] advance_credited [of w t sv]
    by (auto simp: sound_def identity.lifted_def schema.lifted_def kept_def list_all_iff intro: ready_kept)
next
  case (finish sv t w w' ts us)
  then show ?case
    using identity.obeysD [OF effects_advance(1), of w sv t] schema.obeysD [OF effects_advance(2), of w sv t]
      advance_credited [of w t sv]
    by (auto simp: sound_def identity.lifted_def schema.lifted_def kept_def list_all_iff intro: ready_kept)
next
  case (fail sv t w e w' ts us)
  then show ?case
    using identity.obeysD [OF effects_advance(1), of w sv t] schema.obeysD [OF effects_advance(2), of w sv t]
      advance_credited [of w t sv]
    by (auto simp: sound_def identity.lifted_def schema.lifted_def kept_def list_all_iff intro: ready_kept)
qed

lemma reaches_sound: "reaches c c' \<Longrightarrow> sound c \<Longrightarrow> sound c'"
  by (induction rule: rtranclp_induct) (auto intro: step_sound)

section \<open>A world for every database\<close>

text \<open>Some world over the database answers every statement and draws identifiers that are new.\<close>

definition ids_of :: "database \<Rightarrow> string set" where
  "ids_of db = au_ID ` set (db_audits db) \<union> mu_ID ` set (db_mutations db) \<union> ob_ID ` set (db_outbox db)"

definition fresh_world :: "database \<Rightarrow> time \<Rightarrow> world" where
  "fresh_world db t = (quiet_world db t)\<lparr>w_uuid := \<lambda>n k. replicate (Suc (Max (insert 0 (length ` ids_of db)) + n)) (CHR ''u'')\<rparr>"

lemma fresh_world_simps [simp]:
  "idle (fresh_world db t)" "no_faults (fresh_world db t)" "w_db (fresh_world db t) = db" "w_now (fresh_world db t) = t"
  "w_uuid_ok (fresh_world db t) i" "local_day (fresh_world db t) t' = local_day (quiet_world db t) t'"
  by (auto simp: fresh_world_def quiet_world_def idle_def no_faults_def local_day_def)

lemma fresh_world_ids [simp]: "fresh_ids (fresh_world db t)"
proof -
  let ?N = "Max (insert 0 (length ` ids_of db))"
  have "finite (ids_of db)" by (simp add: ids_of_def)
  then have "length x \<le> ?N" if "x \<in> ids_of db" for x using that by simp
  then have new: "x \<noteq> replicate (Suc (?N + n)) c" if "x \<in> ids_of db" for x n c
    using that by (metis length_replicate not_less_eq_eq le_add1)
  have "inj (\<lambda>n. replicate (Suc (?N + n)) (CHR ''u''))"
    by (rule injI) (metis add_left_cancel length_replicate nat.inject)
  then show ?thesis
    using new unfolding fresh_ids_def fresh_world_def ids_of_def by (auto simp: quiet_world_def)
qed

lemma wp_runs: "wp m Q (\<lambda>_ _. False) w \<Longrightarrow> \<exists>x w'. m w = (Inr x, w') \<and> Q x w'"
  by (cases "m w") (auto simp: wp_def split: sum.splits)

lemma fresh_cancel_begin:
  assumes "schema_ok db" "p \<in> set (db_payments db)" "p_Status p = PaymentStatusPending"
  shows "\<exists>w'. cancel_begin (p_MerchantID p) (p_ID p) (fresh_world db t) = (Inr (cancelling p), w')
     \<and> cancel_started (p_MerchantID p) (p_ID p) p t db (w_db w') \<and> schema_ok (w_db w')"
proof -
  have "wp (cancel_begin (p_MerchantID p) (p_ID p))
      (\<lambda>q w'. q = cancelling p \<and> cancel_started (p_MerchantID p) (p_ID p) p t db (w_db w') \<and> schema_ok (w_db w')) (\<lambda>_ _. False) (fresh_world db t)"
    by (rule cancel_begin_ok) (use assms in simp_all)
  from wp_runs [OF this] show ?thesis by auto
qed

lemma fresh_webhook_tx:
  assumes "schema_ok db" "earned db" "p \<in> set (db_payments db)" "\<not> payment_IsFinal p" "ev_Status ev = PaymentStatusPaid"
    and "m_ID m = p_MerchantID p" "\<And>d. 0 \<le> fee_due db d m p \<and> fee_due db d m p \<le> p_Amount p"
  shows "\<exists>w'. webhook_tx pr ev p m (fresh_world db t) = (Inr (), w')
     \<and> (\<exists>today. webhook_effect pr ev p m today t db (w_db w')) \<and> schema_ok (w_db w')"
proof -
  have "wp (webhook_tx pr ev p m) (\<lambda>_ _. True) (\<lambda>_ _. False) (fresh_world db t)"
    by (rule webhook_tx_succeeds) (use assms in simp_all)
  from wp_runs [OF this] obtain w' where w': "webhook_tx pr ev p m (fresh_world db t) = (Inr (), w')" by auto
  with webhook_tx_spec [of pr ev p m "fresh_world db t"] obtain today where "webhook_commit pr ev p m today t db (w_db w')"
    by (auto simp: wp_def)
  moreover have "\<not> (\<exists>fresh. find (\<lambda>r. p_ID r = p_ID p) (db_payments db) = Some fresh \<and> payment_IsFinal fresh)"
    using find_own [OF assms(1,3)] assms(4) by simp
  moreover have "schema_ok (w_db w')"
    using schema.obeysD [OF obeys_webhook_steps(4), of "fresh_world db t" pr ev p m] w' assms(1) by (simp add: schema.lifted_def kept_def)
  ultimately show ?thesis using w' by (auto simp: webhook_commit_def)
qed

lemma fresh_cancel_finish:
  assumes "schema_ok db" "r \<in> set (db_payments db)" "p_ID r = p_ID p" "p_FeeAmount r = p_FeeAmount p"
  shows "\<exists>w'. cancel_finish m p (Inr u) (fresh_world db t) = (Inr (), w') \<and> cancel_moved m p (Inr u) t db (w_db w')"
proof -
  let ?p = "p\<lparr>p_Status := PaymentStatusCancelled, p_CancelledAt := Some t\<rparr>"
  have rok: "payment_row_ok (with_status_of ?p t r)"
    using assms by (intro payment_row_ok_status) (auto simp: schema_ok_def table_ok_def list_all_iff payment_status_ok_def)
  have "wp (RunInTx (bind (payment_Update ?p) (\<lambda>_. audit_Save (audit (p_ID ?p) AuditEventPaymentCancelled
      (Some PaymentStatusCancelling) PaymentStatusCancelled (''merchant:'' @ m)))))
    (\<lambda>_ w'. cancel_moved m p (Inr u) t db (w_db w')) (\<lambda>_ _. False) (fresh_world db t)"
    by (rule move_ok [where r = r])
      (use assms rok in \<open>auto simp: payment_audit_row_ok_def audit_def payment_status_ok_def cancel_moved_def cancel_result_def\<close>)
  then have "wp (cancel_finish m p (Inr u)) (\<lambda>_ w'. cancel_moved m p (Inr u) t db (w_db w')) (\<lambda>_ _. False) (fresh_world db t)"
    by (simp add: cancel_finish_def wp_bind wp_RunInTx_now wp_ret_eta Let_def)
  from wp_runs [OF this] show ?thesis by auto
qed

lemmas step_run = step.run [where w = "fresh_world _ _", unfolded fresh_world_simps]
lemmas step_finish = step.finish [where w = "fresh_world _ _", unfolded fresh_world_simps]

section \<open>Properties\<close>


text \<open>C10: however requests overlap, the tables keep the schema and no paid payment is missing its credit or has two: each has
  exactly one ledger entry, a cash-in of its own amount to its own merchant.\<close>

theorem interleavings_credit_once:
  assumes "reaches (db0, []) (db, ts)" "schema_ok db0" "credited db0"
  shows "schema_ok db \<and> (\<forall>p \<in> set (db_payments db). p_Status p = PaymentStatusPaid \<longrightarrow>
     (\<exists>m. credit_for db p m \<and> (\<forall>m' \<in> set (db_mutations db). mu_ReferenceType m' = MutationRefPayment \<and> mu_ReferenceID m' = p_ID p \<longrightarrow> m' = m)))"
proof -
  from reaches_sound [OF assms(1)] assms(2,3) have s: "schema_ok db" and k: "credited db"
    by (simp_all add: sound_def)
  have "m' = m" if "credit_for db p m" "m' \<in> set (db_mutations db)" "mu_ReferenceType m' = MutationRefPayment \<and> mu_ReferenceID m' = p_ID p" for p m m'
    using inj_onD [OF conjunct2 [OF schema_distinct(4) [OF s, unfolded distinct_map]], of m' m] that by (simp add: credit_for_def)
  with s k show ?thesis unfolding credited_def by blast
qed

section \<open>What interleavings do break\<close>

definition agreeing_service :: service where
  "agreeing_service = sample_service\<lparr>sv_gateways := \<lambda>provider.
     map_option (\<lambda>gw. gw\<lparr>pg_CancelPayment := \<lambda>_. Inr ()\<rparr>) (sample_gateways provider)\<rparr>"

lemma agreeing_service_parses [simp]:
  "webhook_parsed (sv_gateways agreeing_service) ProviderMidtrans hdrs body sample_event"
  by (simp add: agreeing_service_def webhook_parsed_def sample_gateways_def)

lemma agreeing_service_cancels:
  "\<exists>gw. sv_gateways agreeing_service ProviderMidtrans = Some gw \<and> pg_CancelPayment gw = (\<lambda>_. Inr ())"
  by (simp add: agreeing_service_def sample_gateways_def)

lemma open_db_rows [simp]:
  "db_payments open_db = [sample_payment 100000]" "db_mutations open_db = []" "live_merchant open_db ''M1'' = Some sample_merchant"
  "db_merchants open_db = db_merchants (payment_db 100000)"
  by (simp_all add: open_db_def payment_db_def sample_db_def empty_database_def live_merchant_def sample_merchant_def live_def)

lemma moved_rows:
  assumes "moved p ev old actor t db db'"
  shows "db_payments db' = update_where (\<lambda>r. p_ID r = p_ID p) (with_status_of p t) (db_payments db)" "db_mutations db' = db_mutations db"
    "db_merchants db' = db_merchants db" "live_merchant db' = live_merchant db" "fee_due db' = fee_due db"
  using assms fee_spec_cong [of db' db] by (auto simp: moved_def set_status_def live_merchant_def fee_due_def [abs_def])

lemma advance_cancel_call:
  assumes "sv_gateways sv (p_Provider p) = Some gw" "pg_CancelPayment gw (cancel_id p) = Inr ()" "cancel_finish m p (Inr ()) w = (Inr (), w')"
  shows "advance sv (CancelCall m p) w = (Inr None, w')"
  using assms by (simp add: last_task_def payment_gateway_for_def outcome_def attempt_def bind_def ret_def)

text \<open>A cancellation begins, the paid webhook runs to its end, and the cancellation finishes.\<close>

definition open_row :: payment where
  "open_row = with_status_of (cancelling (sample_payment 100000)) 0 (sample_payment 100000)"

lemma open_row_simps [simp]:
  "p_ID open_row = ''P1''" "p_MerchantID open_row = ''M1''" "p_Amount open_row = 100000" "\<not> payment_IsFinal open_row"
  "p_Provider open_row = ProviderMidtrans" "p_ExternalID open_row = ''wpay-1''" "p_Method open_row = PaymentMethodVA"
  "p_FeeAmount open_row = 0"
  by (simp_all add: open_row_def payment_IsFinal_def) (simp_all add: with_status_of_def sample_payment_def cancelling_def)

lemma race_claimed:
  "\<exists>db1. schema_ok db1 \<and> db_payments db1 = [open_row] \<and> db_mutations db1 = [] \<and> live_merchant db1 = live_merchant open_db
     \<and> fee_due db1 = fee_due open_db
     \<and> step (open_db, [Arrived (ReqCancelPayment ''M1'' ''P1''), t]) (db1, [CancelCall ''M1'' (cancelling (sample_payment 100000)), t])"
proof -
  let ?p = "sample_payment 100000"
  obtain w' where w': "cancel_begin ''M1'' ''P1'' (fresh_world open_db 0) = (Inr (cancelling ?p), w')"
      "cancel_started ''M1'' ''P1'' ?p 0 open_db (w_db w')" "schema_ok (w_db w')"
    using fresh_cancel_begin [of open_db ?p 0] open_db_ok(1) by auto
  then have m: "moved (cancelling ?p) AuditEventStatusChanged PaymentStatusPending (''merchant:'' @ ''M1'') 0 open_db (w_db w')"
    by (simp add: cancel_started_def)
  have "advance agreeing_service (Arrived (ReqCancelPayment ''M1'' ''P1'')) (fresh_world open_db 0) = (Inr (Some (CancelCall ''M1'' (cancelling ?p))), w')"
    using w'(1) by (simp add: bind_def ret_def)
  from step_run [OF this, of "[]" "[t]"] have "step (open_db, [Arrived (ReqCancelPayment ''M1'' ''P1''), t]) (w_db w', [CancelCall ''M1'' (cancelling ?p), t])"
    by simp
  with moved_rows [OF m] w'(3) show ?thesis by (intro exI [of _ "w_db w'"]) (simp add: open_row_def update_where_def)
qed

lemma race_paid:
  assumes "schema_ok db1" "db_payments db1 = [open_row]" "db_mutations db1 = []" "live_merchant db1 = live_merchant open_db"
    and "fee_due db1 = fee_due open_db"
  shows "\<exists>db2 r m. schema_ok db2 \<and> db_payments db2 = [r] \<and> p_ID r = ''P1'' \<and> p_FeeAmount r = 0 \<and> p_MerchantID r = ''M1''
     \<and> p_Amount r = 100000 \<and> p_Status r = PaymentStatusPaid \<and> credit_for db2 r m
     \<and> reaches (db1, [t, Arrived (ReqPaymentWebhook ProviderMidtrans [] ''{}'')]) (db2, [t])"
proof -
  let ?w = "fresh_world db1 1" and ?in = "Arrived (ReqPaymentWebhook ProviderMidtrans [] ''{}'')"
  let ?tx = "WebhookTx ProviderMidtrans sample_event open_row sample_merchant"
  have "webhook_read (sv_gateways agreeing_service) ProviderMidtrans [] ''{}'' ?w = (Inr (Some (sample_event, open_row, sample_merchant)), tick (tick ?w))"
    by (rule read_succeeds) (use assms in \<open>simp_all add: named_payment_def\<close>)
  then have "advance agreeing_service ?in ?w = (Inr (Some ?tx), tick (tick ?w))" by (simp add: bind_def ret_def)
  from step_run [OF this, of "[t]" "[]"] have r: "step (db1, [t, ?in]) (db1, [t, ?tx])" by simp
  have fee: "fee_due db1 d sample_merchant open_row = 5000" for d
    using payment_db_fee [of 100000 d] fee_spec_cong [of open_db "payment_db 100000"]
    by (simp add: assms(5)) (simp add: fee_due_def open_db_def)
  from fresh_webhook_tx [of db1 open_row sample_event sample_merchant ProviderMidtrans 2] assms fee obtain w' today where
    w': "webhook_tx ProviderMidtrans sample_event open_row sample_merchant (fresh_world db1 2) = (Inr (), w')"
      "webhook_effect ProviderMidtrans sample_event open_row sample_merchant today 2 db1 (w_db w')" "schema_ok (w_db w')"
    by (auto simp: earned_def sample_merchant_def)
  from w'(1) have "advance agreeing_service ?tx (fresh_world db1 2) = (Inr None, w')" by (simp add: last_task_def bind_def ret_def)
  from step_finish [OF this, of "[t]" "[]"] have s: "step (db1, [t, ?tx]) (w_db w', [t])" by simp
  from w'(2) obtain fee i u where "db_mutations (w_db w') = [(cash_in open_row fee)\<lparr>mu_ID := i, mu_CreatedAt := u\<rparr>]"
    "db_payments (w_db w') = [with_status_of (apply_event sample_event open_row) 2 open_row]"
    by (auto simp: webhook_effect_def webhook_credit_def set_status_def update_where_def assms(2,3))
  then have "credit_for (w_db w') (with_status_of (apply_event sample_event open_row) 2 open_row) ((cash_in open_row fee)\<lparr>mu_ID := i, mu_CreatedAt := u\<rparr>)"
    by (simp add: credit_for_def cash_in_def)
  moreover have "p_FeeAmount (with_status_of (apply_event sample_event open_row) 2 open_row) = 0"
    by (simp add: with_status_of_def apply_event_def Let_def)
  moreover note r s w'(3) \<open>db_payments (w_db w') = _\<close>
  ultimately show ?thesis
    by (intro exI [of _ "w_db w'"] exI [of _ "with_status_of (apply_event sample_event open_row) 2 open_row"]
          exI [of _ "(cash_in open_row fee)\<lparr>mu_ID := i, mu_CreatedAt := u\<rparr>"])
      (auto intro: converse_rtranclp_into_rtranclp [of step])
qed

lemma race_cancelled:
  assumes "schema_ok db2" "db_payments db2 = [r]" "p_ID r = ''P1''" "p_FeeAmount r = 0" "credit_for db2 r m"
  shows "\<exists>db3 p. db_payments db3 = [p] \<and> p_Status p = PaymentStatusCancelled \<and> credit_for db3 p m
     \<and> step (db2, [CancelCall ''M1'' (cancelling (sample_payment 100000))]) (db3, [])"
proof -
  let ?p = "cancelling (sample_payment 100000)"
  from fresh_cancel_finish [of db2 r ?p "''M1''" "()" 3] assms obtain w' where
    w': "cancel_finish ''M1'' ?p (Inr ()) (fresh_world db2 3) = (Inr (), w')" "cancel_moved ''M1'' ?p (Inr ()) 3 db2 (w_db w')"
    by (auto simp: sample_payment_def)
  obtain gw where gw: "sv_gateways agreeing_service (p_Provider ?p) = Some gw" "pg_CancelPayment gw (cancel_id ?p) = Inr ()"
    using agreeing_service_cancels by auto
  note advance_cancel_call [OF gw w'(1)]
  from step_finish [OF this, of "[]" "[]"] have "step (db2, [CancelCall ''M1'' ?p]) (w_db w', [])" by (simp only: append.simps)
  moreover from w'(2) have mv: "moved (cancel_result ?p (Inr ()) 3) AuditEventPaymentCancelled PaymentStatusCancelling
      (''merchant:'' @ ''M1'') 3 db2 (w_db w')"
    by (simp add: cancel_moved_def)
  have "db_mutations (w_db w') = db_mutations db2" "db_payments (w_db w') = [with_status_of (cancel_result ?p (Inr ()) 3) 3 r]"
    using moved_rows(1,2) [OF mv] assms(2,3) by (simp_all add: cancel_result_def update_where_def)
  ultimately show ?thesis
    using assms(5) by (intro exI [of _ "w_db w'"]) (auto simp: cancel_result_def credit_for_def)
qed

text \<open>C12: a cancellation that is waiting for the provider while the payment is paid overwrites the paid status: from a database
  with one pending payment the system can reach, with no task left, a cancelled payment whose full amount has been
  credited to the merchant.\<close>

theorem cancelled_payment_credited:
  "\<exists>db p m. reaches (open_db, []) (db, []) \<and> p \<in> set (db_payments db) \<and> p_Status p = PaymentStatusCancelled \<and> credit_for db p m"
proof -
  let ?c = "Arrived (ReqCancelPayment ''M1'' ''P1'')" and ?in = "Arrived (ReqPaymentWebhook ProviderMidtrans [] ''{}'')"
  let ?call = "CancelCall ''M1'' (cancelling (sample_payment 100000))"
  have a: "step (open_db, []) (open_db, [?c])" "step (open_db, [?c]) (open_db, [?c, ?in])"
    using step.admit [of open_db "[]"] step.admit [of open_db "[?c]"] by simp_all
  obtain db1 where d1: "schema_ok db1" "db_payments db1 = [open_row]" "db_mutations db1 = []" "live_merchant db1 = live_merchant open_db"
    "fee_due db1 = fee_due open_db" and b: "step (open_db, [?c, ?in]) (db1, [?call, ?in])"
    using race_claimed [of ?in] by blast
  obtain db2 r m where d2: "schema_ok db2" "db_payments db2 = [r]" "p_ID r = ''P1''" "p_FeeAmount r = 0" "credit_for db2 r m"
    and c: "reaches (db1, [?call, ?in]) (db2, [?call])"
    using race_paid [OF d1, of ?call] by blast
  obtain db3 p where d3: "db_payments db3 = [p]" "p_Status p = PaymentStatusCancelled" "credit_for db3 p m"
    and d: "step (db2, [?call]) (db3, [])"
    using race_cancelled [OF d2] by blast
  have "reaches (open_db, []) (db2, [?call])"
    using a b c by (meson converse_rtranclp_into_rtranclp)
  from rtranclp.rtrancl_into_rtrancl [OF this d] have "reaches (open_db, []) (db3, [])" .
  with d3 show ?thesis
    by (intro exI [of _ db3] exI [of _ p] exI [of _ m]) simp
qed

text \<open>Two callbacks for one disbursement, completed and failed, both read before either commits.\<close>

definition failed_callback :: disbursement_webhook_event where
  "failed_callback = sample_callback\<lparr>de_Status := DisbursementStatusFailed, de_FailureReason := ''late''\<rparr>"

definition answering_service :: "disbursement_webhook_event \<Rightarrow> service" where
  "answering_service ev = sample_service\<lparr>sv_cashout := \<lambda>provider.
     map_option (\<lambda>gw. gw\<lparr>dg_ParseDisbursementWebhook := \<lambda>_ _. Inr ev\<rparr>) (sample_disbursement_gateways provider)\<rparr>"

lemma fresh_callback_tx:
  assumes "schema_ok db" "settled db" "d \<in> set (db_disbursements db)" "\<not> disbursement_IsFinal d"
    and "de_Status ev = DisbursementStatusCompleted" "live_merchant db (d_MerchantID d) = Some m" "int64_range (d_Amount d + d_FeeAmount d)"
  shows "\<exists>w'. callback_tx (apply_callback ev d) m (fresh_world db t) = (Inr (), w')
     \<and> callback_effect (apply_callback ev d) m t db (w_db w') \<and> schema_ok (w_db w')"
proof -
  have "wp (callback_tx (apply_callback ev d) m) (\<lambda>_ _. True) (\<lambda>_ _. False) (fresh_world db t)"
    by (rule callback_tx_succeeds)
      (use assms in \<open>auto simp: live_merchant_def merchant_exists_def list_ex_iff dest!: find_Some_in\<close>)
  from wp_runs [OF this] obtain w' where w': "callback_tx (apply_callback ev d) m (fresh_world db t) = (Inr (), w')" by auto
  moreover have "schema_ok (w_db w')"
    using schema.obeysD [OF obeys_disburse_steps(10), of "fresh_world db t" "apply_callback ev d" m] w' assms(1)
    by (simp add: schema.lifted_def kept_def)
  ultimately show ?thesis
    using callback_tx_spec [of "apply_callback ev d" m "fresh_world db t"] by (auto simp: wp_def)
qed

lemma fresh_failed_tx:
  assumes s: "schema_ok db" and r: "r \<in> set (db_disbursements db)" and d: "d_ID d = d_ID r" "d_ExternalID d = d_ExternalID r"
    and f: "d_Status d = DisbursementStatusFailed" and m: "merchant_exists db (m_ID m)"
  shows "\<exists>w'. callback_tx d m (fresh_world db t) = (Inr (), w') \<and> callback_effect d m t db (w_db w')"
proof -
  let ?w = "fresh_world db t"
  have nb: "no_faults (begin_tx ?w)" by simp
  have row: "disbursement_row_ok (with_outcome_of d u r)" for u
    using s r f by (auto simp: schema_ok_def table_ok_def list_all_iff disbursement_row_ok_def disbursement_status_ok_def with_outcome_of_def)
  have "wp (callback_tx d m) (\<lambda>_ _. True) (\<lambda>_ _. False) ?w"
    unfolding callback_tx_def wp_RunInTx wp_bind wp_if wp_now
    apply (simp split del: if_split)
    apply (rule disbursement_Update_ok [OF nb, where r = r])
          apply (simp_all add: s r d row f wp_ret split del: if_split)
    apply (intro if_both)
    subgoal by (simp add: wp_ret)
    subgoal
      by (rule outbox_ok)
        (use nb m fresh_world_ids [of db t] in \<open>auto simp: merchant_exists_def fresh_ids_def fresh_uuid_def\<close>)
    done
  from wp_runs [OF this] show ?thesis
    using callback_tx_spec [of d m ?w] by (auto simp: wp_def)
qed

lemma callback_arrives:
  assumes "named_disbursement db ProviderMidtrans ev = Some d" "\<not> disbursement_IsFinal d" "live_merchant db (d_MerchantID d) = Some m"
  shows "step (db, ts @ Arrived (ReqDisbursementWebhook ProviderMidtrans [] ''{}'') # us) (db, ts @ CallbackTx (apply_callback ev d) m # us)"
proof -
  let ?in = "Arrived (ReqDisbursementWebhook ProviderMidtrans [] ''{}'')" and ?w = "fresh_world db 0"
  have "callback_parsed (sv_cashout (answering_service ev)) ProviderMidtrans [] ''{}'' ev"
    by (simp add: callback_parsed_def answering_service_def)
  then have "callback_read (sv_cashout (answering_service ev)) ProviderMidtrans [] ''{}'' ?w = (Inr (Some (apply_callback ev d, m)), tick (tick ?w))"
    by (intro callback_read_succeeds) (use assms in simp_all)
  then have "advance (answering_service ev) ?in ?w = (Inr (Some (CallbackTx (apply_callback ev d) m)), tick (tick ?w))"
    by (simp add: bind_def ret_def)
  from step_run [OF this, of ts us] show ?thesis by simp
qed

lemma callback_lands:
  assumes "callback_tx d m (fresh_world db t) = (Inr (), w')"
  shows "step (db, ts @ CallbackTx d m # us) (w_db w', ts @ us)"
proof -
  have "advance (answering_service ev) (CallbackTx d m) (fresh_world db t) = (Inr None, w')" for ev
    using assms by (simp add: last_task_def bind_def ret_def)
  from step_finish [OF this] show ?thesis .
qed

text \<open>C13: a disbursement callback is not checked again under its lock: when two callbacks for one disbursement overlap, the system
  can reach, with no task left, a disbursement marked failed whose amount and fee have left the merchant's balance.\<close>

theorem failed_disbursement_debited:
  "\<exists>db d m. reaches (cash_db [sample_reservation], []) (db, []) \<and> d \<in> set (db_disbursements db) \<and> d_Status d = DisbursementStatusFailed
     \<and> m \<in> set (db_mutations db) \<and> mu_ReferenceType m = MutationRefDisbursement \<and> mu_ReferenceID m = d_ID d \<and> mu_Type m = MutationTypeCashOut
     \<and> mu_Amount m = d_Amount d + d_FeeAmount d"
proof -
  let ?db = "cash_db [sample_reservation]" and ?in = "Arrived (ReqDisbursementWebhook ProviderMidtrans [] ''{}'')"
  let ?done = "apply_callback sample_callback sample_reservation" and ?late = "apply_callback failed_callback sample_reservation"
  let ?tx = "\<lambda>d. CallbackTx d sample_merchant"
  have a: "step (?db, []) (?db, [?in])" "step (?db, [?in]) (?db, [?in, ?in])"
    using step.admit [of ?db "[]"] step.admit [of ?db "[?in]"] by simp_all
  have named: "named_disbursement ?db ProviderMidtrans failed_callback = Some sample_reservation"
    by (simp add: named_disbursement_def failed_callback_def)
  have b: "step (?db, [?in, ?in]) (?db, [?tx ?done, ?in])" "step (?db, [?tx ?done, ?in]) (?db, [?tx ?done, ?tx ?late])"
    using callback_arrives [of ?db sample_callback sample_reservation sample_merchant "[]" "[?in]"]
      callback_arrives [OF named, of sample_merchant "[?tx ?done]" "[]"] by simp_all
  obtain w1 where w1: "callback_tx ?done sample_merchant (fresh_world ?db 1) = (Inr (), w1)"
      "callback_effect ?done sample_merchant 1 ?db (w_db w1)" "schema_ok (w_db w1)"
    using fresh_callback_tx [of ?db sample_reservation sample_callback sample_merchant 1] by (auto simp: int64_range_def)
  from w1(2) obtain i t where ms: "db_mutations (w_db w1) = [sample_funds, (cash_out ?done)\<lparr>mu_ID := i, mu_CreatedAt := t\<rparr>]"
    and ds: "db_disbursements (w_db w1) = [with_outcome_of ?done 1 sample_reservation]" and me: "merchant_exists (w_db w1) ''M1''"
    by (auto simp: callback_effect_def callback_debit_def update_where_def merchant_exists_def)
  have late: "d_Status ?late = DisbursementStatusFailed" by (simp add: failed_callback_def)
  obtain w2 where w2: "callback_tx ?late sample_merchant (fresh_world (w_db w1) 2) = (Inr (), w2)"
      "callback_effect ?late sample_merchant 2 (w_db w1) (w_db w2)"
    using fresh_failed_tx [OF w1(3), of "with_outcome_of ?done 1 sample_reservation" ?late sample_merchant 2] ds me late by auto
  have c: "step (?db, [?tx ?done, ?tx ?late]) (w_db w1, [?tx ?late])" "step (w_db w1, [?tx ?late]) (w_db w2, [])"
    using callback_lands [OF w1(1), of "[]" "[?tx ?late]"] callback_lands [OF w2(1), of "[]" "[]"] by (simp_all only: append.simps)
  have "reaches (?db, []) (w_db w2, [])"
    using a b c by (meson rtranclp.rtrancl_into_rtrancl rtranclp.rtrancl_refl)
  moreover from w2(2) late have "db_mutations (w_db w2) = db_mutations (w_db w1)"
    "db_disbursements (w_db w2) = [with_outcome_of ?late 2 (with_outcome_of ?done 1 sample_reservation)]"
    by (auto simp: callback_effect_def callback_debit_def update_where_def ds)
  ultimately show ?thesis
    using late ms by (intro exI [of _ "w_db w2"] exI [of _ "with_outcome_of ?late 2 (with_outcome_of ?done 1 sample_reservation)"]
        exI [of _ "(cash_out ?done)\<lparr>mu_ID := i, mu_CreatedAt := t\<rparr>"]) (simp add: cash_out_def int64_range_def)
qed

section \<open>The properties on a concrete run\<close>

theorem interleavings_credit_once_witness:
  "\<exists>db p. schema_ok db \<and> p \<in> set (db_payments db) \<and> p_Status p = PaymentStatusPaid \<and> Ex (credit_for db p)"
proof -
  let ?c = "Arrived (ReqCancelPayment ''M1'' ''P1'')" and ?in = "Arrived (ReqPaymentWebhook ProviderMidtrans [] ''{}'')"
  let ?call = "CancelCall ''M1'' (cancelling (sample_payment 100000))"
  have a: "step (open_db, []) (open_db, [?c])" "step (open_db, [?c]) (open_db, [?c, ?in])"
    using step.admit [of open_db "[]"] step.admit [of open_db "[?c]"] by simp_all
  obtain db1 where d1: "schema_ok db1" "db_payments db1 = [open_row]" "db_mutations db1 = []" "live_merchant db1 = live_merchant open_db"
    "fee_due db1 = fee_due open_db" and b: "step (open_db, [?c, ?in]) (db1, [?call, ?in])"
    using race_claimed [of ?in] by blast
  obtain db2 r m where d2: "db_payments db2 = [r]" "p_Status r = PaymentStatusPaid"
    and c: "reaches (db1, [?call, ?in]) (db2, [?call])"
    using race_paid [OF d1, of ?call] by blast
  have "reaches (open_db, []) (db2, [?call])"
    using a b c by (meson converse_rtranclp_into_rtranclp)
  from interleavings_credit_once [OF this] open_db_ok d2 show ?thesis
    by (intro exI [of _ db2] exI [of _ r]) (auto simp: books_ok_def)
qed

end
