(* ===== verification/Drain.thy ===== *)
theory Drain
  imports Outbox Samples
begin

text \<open>
  Termination of the outbox worker (internal/infrastructure/worker/outbox_worker.go): every poll
  that finds an event due uses up at least one of the attempts the events have left, so the
  worker can find work only a bounded number of times.
\<close>

section \<open>What a batch leaves alone\<close>

definition calm :: "world \<Rightarrow> world \<Rightarrow> bool" where
  "calm w w' \<longleftrightarrow> (idle w \<longrightarrow> idle w') \<and> w_now w' = w_now w \<and> w_uuid_ok w' = w_uuid_ok w"

interpretation calm: effect_order calm
  by unfold_locales (auto simp: calm_def)

lemma calm_exec: "calm.obeys (exec st)"
  by (auto simp: calm.obeys_def calm_def exec_def split: sum.splits prod.splits)

lemma calm_query: "calm.obeys (query f)"
  unfolding query_def by (rule calm_exec)

lemma calm_now: "calm.obeys now"
  by (simp add: calm.obeys_def calm_def now_def gets_def)

lemma calm_deliver: "calm.obeys (deliver env row)"
  unfolding deliver_def logged_def outbox_MarkFailedFinal_def outbox_MarkDelivered_def outbox_ScheduleRetry_def
    update_outbox_def post_def fetchSigningKey_def Let_def
  by (intro calm.obeys_intros calm_exec calm_query calm_now)

lemma calm_fetch: "calm.obeys fetchAndClaim"
  unfolding fetchAndClaim_def by (rule calm_exec)

section \<open>The attempts left\<close>

definition attempts_left :: "outbox_event \<Rightarrow> int" where
  "attempts_left e = (if ob_DeliveredAt e = None then ob_MaxAttempts e - ob_AttemptCount e else 0)"

definition backlog :: "database \<Rightarrow> int" where
  "backlog db = sum_list (map attempts_left (db_outbox db))"

lemma backlog_nonneg: "schema_ok db \<Longrightarrow> 0 \<le> backlog db"
  unfolding backlog_def
  by (rule sum_list_nonneg) (auto simp: attempts_left_def schema_ok_def table_ok_def list_all_iff outbox_row_ok_def)

lemma event_moved_backlog:
  assumes "in_flight w e" "event_moved w e w'"
  shows "backlog (w_db w') < backlog (w_db w)"
proof -
  obtain e' where e': "ob_MaxAttempts e' = ob_MaxAttempts e" "delivery_step (w_now w) e e'"
    "db_outbox (w_db w') = map (\<lambda>x. if ob_ID x = ob_ID e then e' else x) (db_outbox (w_db w))"
    using assms(2) unfolding event_moved_def by blast
  have "backlog (w_db w') = backlog (w_db w) - attempts_left e + attempts_left e'"
    using sum_update_where [OF schema_distinct(6), of "w_db w" e attempts_left "\<lambda>_. e'"] assms(1)
    by (simp add: backlog_def e'(3) update_where_def in_flight_def)
  moreover have "attempts_left e' < attempts_left e"
    using e' assms(1) by (auto simp: attempts_left_def in_flight_def delivery_step_def)
  ultimately show ?thesis by simp
qed

section \<open>A batch\<close>

lemma deliver_kept:
  assumes "in_flight w e"
  shows "wp (deliver env (to_outbox_row e))
    (\<lambda>_ w'. event_moved w e w' \<and> calm w w' \<and> schema_ok (w_db w')) (\<lambda>_ _. False) w"
proof -
  have "wp (deliver env (to_outbox_row e)) (\<lambda>_ w'. event_moved w e w') (\<lambda>_ _. False) w"
    by (rule deliver_spec [OF assms])
  moreover have "calm w (snd (deliver env (to_outbox_row e) w))" by (rule calm.obeysD [OF calm_deliver])
  moreover have "schema_ok (w_db (snd (deliver env (to_outbox_row e) w)))"
    using schema.obeysD [OF obeys_deliver(2), of w env "to_outbox_row e"] assms
    by (simp add: schema.lifted_def kept_def in_flight_def)
  ultimately show ?thesis by (auto simp: wp_def split: prod.splits sum.splits)
qed

lemma in_flight_kept:
  assumes "in_flight w f" "event_moved w e w'" "ob_ID f \<noteq> ob_ID e" "calm w w'" "schema_ok (w_db w')"
  shows "in_flight w' f"
  using assms by (auto simp: in_flight_def event_moved_def calm_def image_iff intro!: bexI [of _ f])

text \<open>Delivering claimed events one after the other moves each of them, and the backlog goes down by at least their number.\<close>

lemma deliver_all:
  assumes "distinct (map ob_ID es)" "\<And>e. e \<in> set es \<Longrightarrow> in_flight w e"
  shows "wp (map_action (deliver env) (map to_outbox_row es))
    (\<lambda>_ w'. backlog (w_db w') + int (length es) \<le> backlog (w_db w)) (\<lambda>_ _. False) w"
  using assms
proof (induction es arbitrary: w)
  case (Cons e es)
  have e: "in_flight w e" by (rule Cons.prems(2)) simp
  have "wp (map_action (deliver env) (map to_outbox_row es))
      (\<lambda>_ w''. backlog (w_db w'') + int (length (e # es)) \<le> backlog (w_db w)) (\<lambda>_ _. False) w'"
    if w': "event_moved w e w' \<and> calm w w' \<and> schema_ok (w_db w')" for w'
  proof (rule wp_mono [OF Cons.IH])
    show "in_flight w' f" if "f \<in> set es" for f
    proof -
      have "ob_ID f \<noteq> ob_ID e" using Cons.prems(1) that by (auto simp: image_iff)
      moreover have "in_flight w f" by (rule Cons.prems(2)) (simp add: that)
      ultimately show ?thesis using w' in_flight_kept by blast
    qed
    show "backlog (w_db w'') + int (length (e # es)) \<le> backlog (w_db w)"
      if "backlog (w_db w'') + int (length es) \<le> backlog (w_db w')" for w''
      using event_moved_backlog [OF e] w' that by fastforce
  qed (use Cons.prems(1) in simp_all)
  then show ?case
    by (auto simp: wp_bind wp_ret [abs_def] intro!: wp_mono [OF deliver_kept [OF e]])
qed (simp add: wp_ret)

text \<open>A poll in working order: the database answers, and its events have UUIDs and a sane number of attempts.\<close>

definition poll_ready :: "world \<Rightarrow> bool" where
  "poll_ready w \<longleftrightarrow> idle w \<and> schema_ok (w_db w)
     \<and> list_all (\<lambda>e. w_uuid_ok w (ob_ID e) \<and> ob_MaxAttempts e \<le> 1000) (db_outbox (w_db w))"

lemma sort_Nil: "sort_key f xs = [] \<longleftrightarrow> xs = []"
  using length_sort [of f xs] by (cases xs; cases "sort_key f xs") simp_all

lemma fetch_ready:
  assumes "poll_ready w"
  obtains es w' where "fetchAndClaim w = (Inr (map to_outbox_row es), w')" "distinct (map ob_ID es)"
    "\<And>e. e \<in> set es \<Longrightarrow> in_flight w' e" "backlog (w_db w') = backlog (w_db w)"
    "es = [] \<longleftrightarrow> \<not> list_ex (outbox_due (w_now w)) (db_outbox (w_db w))"
proof -
  let ?ids = "set (claimed_ids (w_now w) (db_outbox (w_db w)))"
  obtain rows w' where run: "fetchAndClaim w = (Inr rows, w')"
    using assms by (auto simp: fetchAndClaim_def exec_def Let_def poll_ready_def)
  let ?es = "filter (\<lambda>e. ob_ID e \<in> ?ids) (db_outbox (w_db w'))"
  note R = fetchAndClaim_run [OF run]
  have s: "schema_ok (w_db w')"
    using schema.obeysD [OF obeys_fetchAndClaim(2), of w] assms run by (simp add: schema.lifted_def kept_def poll_ready_def)
  have i: "idle w'" "w_uuid_ok w' = w_uuid_ok w"
    using calm.obeysD [OF calm_fetch, of w] assms run by (auto simp: calm_def poll_ready_def)
  have uniq: "x = y" if "x \<in> set (db_outbox (w_db w))" "y \<in> set (db_outbox (w_db w))" "ob_ID x = ob_ID y" for x y
    using schema_distinct(6) [of "w_db w"] assms that by (auto simp: poll_ready_def distinct_map inj_on_def)
  have due: "\<exists>x \<in> set (db_outbox (w_db w)). outbox_due (w_now w) x \<and> e = x\<lparr>ob_NextRetryAt := w_now w + outboxClaimLease\<rparr>"
    if "e \<in> set ?es" for e
  proof -
    from that obtain x where x: "x \<in> set (db_outbox (w_db w))" "ob_ID x \<in> ?ids" "e = x\<lparr>ob_NextRetryAt := w_now w + outboxClaimLease\<rparr>"
      by (auto simp: R(1) update_where_def split: if_splits)
    from claimed_ids_due [OF x(2)] obtain y where "y \<in> set (db_outbox (w_db w))" "ob_ID y = ob_ID x" "outbox_due (w_now w) y" by blast
    with x uniq show ?thesis by blast
  qed
  show thesis
  proof
    show "fetchAndClaim w = (Inr (map to_outbox_row ?es), w')" using run R(2) by simp
    show "distinct (map ob_ID ?es)" by (rule distinct_map_filter [OF schema_distinct(6) [OF s]])
    show "in_flight w' e" if "e \<in> set ?es" for e
      using due [OF that] that assms i s by (auto simp: in_flight_def outbox_due_def poll_ready_def list_all_iff)
    show "backlog (w_db w') = backlog (w_db w)"
      unfolding backlog_def R(1) by (subst map_update_where) (simp_all add: attempts_left_def)
    show "?es = [] \<longleftrightarrow> \<not> list_ex (outbox_due (w_now w)) (db_outbox (w_db w))"
    proof -
      have ids: "map ob_ID (db_outbox (w_db w')) = map ob_ID (db_outbox (w_db w))" by (simp add: R(1))
      have "?es = [] \<longleftrightarrow> ?ids \<inter> set (map ob_ID (db_outbox (w_db w'))) = {}" by (auto simp: filter_empty_conv)
      also have "\<dots> \<longleftrightarrow> claimed_ids (w_now w) (db_outbox (w_db w)) = []"
      proof
        assume none: "?ids \<inter> set (map ob_ID (db_outbox (w_db w'))) = {}"
        show "claimed_ids (w_now w) (db_outbox (w_db w)) = []"
        proof (rule ccontr)
          assume "claimed_ids (w_now w) (db_outbox (w_db w)) \<noteq> []"
          then have i: "hd (claimed_ids (w_now w) (db_outbox (w_db w))) \<in> ?ids" by simp
          from claimed_ids_due [OF i] obtain y where "y \<in> set (db_outbox (w_db w))"
            "ob_ID y = hd (claimed_ids (w_now w) (db_outbox (w_db w)))" by blast
          with i none show False unfolding ids by (metis IntI empty_iff image_eqI list.set_map)
        qed
      qed simp
      also have "\<dots> \<longleftrightarrow> filter (outbox_due (w_now w)) (db_outbox (w_db w)) = []"
        by (simp add: claimed_ids_def sort_Nil)
      finally show ?thesis by (auto simp: filter_empty_conv list_ex_iff)
    qed
  qed
qed

lemma processBatch_backlog:
  assumes "poll_ready w"
  shows "backlog (w_db (snd (processBatch env w))) \<le> backlog (w_db w)
    \<and> (list_ex (outbox_due (w_now w)) (db_outbox (w_db w)) \<longrightarrow> backlog (w_db (snd (processBatch env w))) < backlog (w_db w))"
proof (rule fetch_ready [OF assms])
  fix es w' assume f: "fetchAndClaim w = (Inr (map to_outbox_row es), w')" "distinct (map ob_ID es)"
    "\<And>e. e \<in> set es \<Longrightarrow> in_flight w' e" "backlog (w_db w') = backlog (w_db w)"
    "es = [] \<longleftrightarrow> \<not> list_ex (outbox_due (w_now w)) (db_outbox (w_db w))"
  have "snd (processBatch env w) = snd (map_action (deliver env) (map to_outbox_row es) w')"
    by (simp add: processBatch_def bind_def attempt_def f(1) ret_def split: prod.splits sum.splits)
  moreover have "backlog (w_db (snd (map_action (deliver env) (map to_outbox_row es) w'))) + int (length es) \<le> backlog (w_db w')"
    using deliver_all [OF f(2,3), of env] by (simp add: wp_iff_run split: sum.splits)
  ultimately show ?thesis using f(4,5) by (cases es) auto
qed

text \<open>
  \<open>polled env db n db'\<close>: polling, at any times, over a database that starts as \<open>db\<close> has run \<open>n\<close>
  batches that found an event due, and left \<open>db'\<close>.
\<close>

inductive polled :: "worker_env \<Rightarrow> database \<Rightarrow> nat \<Rightarrow> database \<Rightarrow> bool" for env db where
  none: "polled env db 0 db"
| poll: "polled env db n (w_db w) \<Longrightarrow> poll_ready w \<Longrightarrow> list_ex (outbox_due (w_now w)) (db_outbox (w_db w)) \<Longrightarrow>
    polled env db (Suc n) (w_db (snd (processBatch env w)))"

text \<open>C23: The outbox worker comes to rest: over a database that answers, however often it polls and whatever the merchants'
  servers reply, at most as many of its batches find an event due as the undelivered events have attempts left in total.\<close>

theorem outbox_comes_to_rest:
  assumes "polled env db n db'" "schema_ok db'"
  shows "int n \<le> backlog db"
proof -
  have "int n + backlog db' \<le> backlog db" using assms(1)
  proof (induction rule: polled.induct)
    case (poll n w)
    then show ?case using processBatch_backlog [OF poll.hyps(2), of env] by auto
  qed simp
  then show ?thesis using backlog_nonneg [OF assms(2)] by simp
qed

theorem outbox_comes_to_rest_witness:
  "\<forall>env. polled env (w_db sample_outbox_world) 1 (w_db (snd (processBatch env sample_outbox_world)))
     \<and> (1::int) \<le> backlog (w_db sample_outbox_world) \<and> backlog (w_db sample_outbox_world) = 3"
proof
  fix env
  have ok: "poll_ready sample_outbox_world"
    using sample_in_flight by (simp add: poll_ready_def in_flight_def sample_outbox_world_def sample_event_def)
  have due: "list_ex (outbox_due (w_now sample_outbox_world)) (db_outbox (w_db sample_outbox_world))"
    by (simp add: sample_outbox_world_def sample_event_def outbox_due_def)
  have p: "polled env (w_db sample_outbox_world) 1 (w_db (snd (processBatch env sample_outbox_world)))"
    using polled.poll [OF polled.none ok due] by simp
  moreover have "schema_ok (w_db (snd (processBatch env sample_outbox_world)))"
    using schema.obeysD [OF obeys_processBatch(2), of sample_outbox_world env] ok
    by (simp add: schema.lifted_def kept_def poll_ready_def)
  ultimately show "polled env (w_db sample_outbox_world) 1 (w_db (snd (processBatch env sample_outbox_world)))
     \<and> (1::int) \<le> backlog (w_db sample_outbox_world) \<and> backlog (w_db sample_outbox_world) = 3"
    using outbox_comes_to_rest [OF p] by (simp add: backlog_def sample_outbox_world_def sample_event_def attempts_left_def)
qed

end
