(* ===== verification/Validation.thy ===== *)
theory Validation
  imports Merchants Admins Disbursements
begin

text \<open>
  Request validation: the validator of the HTTP server (pkg/validator/validator.go) over the
  struct tags of the usecase inputs (internal/usecase/payment.go, disbursement.go, merchant.go,
  admin.go) and of the inline bodies of the admin handlers.

  The rules themselves are those go-playground/validator documents: the tags of a field are
  checked in order, the first that fails is reported, \<open>omitempty\<close> skips the rest on a zero value,
  the lengths of strings count runes, and \<open>required\<close> on a nested struct checks nothing. What it
  takes for an email address, a URL and a UUID are parameters.
\<close>

section \<open>Tags\<close>

datatype field_value = VString string | VInt int64 | VTime time

datatype tag = Required | Email | Url | Uuid | Min int | Max int | Gt int | OneOf "string list"

record field =
  f_Name :: string
  f_Value :: field_value
  f_OmitEmpty :: bool
  f_Tags :: "tag list"

record validate_env =
  ve_email :: "string \<Rightarrow> bool"
  ve_url :: "string \<Rightarrow> bool"
  ve_uuid :: "string \<Rightarrow> bool"

text \<open>\<open>utf8.RuneCountInString\<close> on valid UTF-8: the bytes that do not continue a character.\<close>

definition rune_count :: "string \<Rightarrow> nat" where
  "rune_count s = length (filter (\<lambda>c. (of_char c :: nat) div 64 \<noteq> 2) s)"

definition is_zero :: "field_value \<Rightarrow> bool" where
  "is_zero v = (case v of VString s \<Rightarrow> s = '''' | VInt n \<Rightarrow> n = 0 | VTime t \<Rightarrow> t = zero_time)"

text \<open>What \<open>min\<close>, \<open>max\<close> and \<open>gt\<close> compare: the length of a string, the value of a number.\<close>

definition magnitude :: "field_value \<Rightarrow> int" where
  "magnitude v = (case v of VString s \<Rightarrow> int (rune_count s) | VInt n \<Rightarrow> n | VTime t \<Rightarrow> t)"

definition text_of :: "field_value \<Rightarrow> string" where
  "text_of v = (case v of VString s \<Rightarrow> s | VInt n \<Rightarrow> fmt_d n | VTime _ \<Rightarrow> '''')"

fun satisfies :: "validate_env \<Rightarrow> field_value \<Rightarrow> tag \<Rightarrow> bool" where
  "satisfies env v Required \<longleftrightarrow> \<not> is_zero v"
| "satisfies env v Email \<longleftrightarrow> ve_email env (text_of v)"
| "satisfies env v Url \<longleftrightarrow> ve_url env (text_of v)"
| "satisfies env v Uuid \<longleftrightarrow> ve_uuid env (text_of v)"
| "satisfies env v (Min n) \<longleftrightarrow> n \<le> magnitude v"
| "satisfies env v (Max n) \<longleftrightarrow> magnitude v \<le> n"
| "satisfies env v (Gt n) \<longleftrightarrow> n < magnitude v"
| "satisfies env v (OneOf ss) \<longleftrightarrow> text_of v \<in> set ss"

text \<open>The first tag a field fails, and \<open>v.Struct\<close>: every field that fails one, in order.\<close>

definition failed_tag :: "validate_env \<Rightarrow> field \<Rightarrow> tag option" where
  "failed_tag env f =
     (if f_OmitEmpty f \<and> is_zero (f_Value f) then None
      else find (\<lambda>t. \<not> satisfies env (f_Value f) t) (f_Tags f))"

definition validate_Struct :: "validate_env \<Rightarrow> field list \<Rightarrow> (string \<times> tag) list" where
  "validate_Struct env fs = List.map_filter (\<lambda>f. map_option (Pair (f_Name f)) (failed_tag env f)) fs"

section \<open>The validator of the server\<close>

fun words :: "string list \<Rightarrow> string" where
  "words [] = ''''"
| "words [w] = w"
| "words (w # ws) = w @ '' '' @ words ws"

fun fieldMessage :: "tag \<Rightarrow> string" where
  "fieldMessage Required = ''required''"
| "fieldMessage Email = ''must be a valid email''"
| "fieldMessage Url = ''must be a valid URL''"
| "fieldMessage (Min n) = ''minimum '' @ fmt_d n"
| "fieldMessage (Max n) = ''maximum '' @ fmt_d n"
| "fieldMessage (OneOf ss) = ''must be one of: '' @ words ss"
| "fieldMessage (Gt n) = ''must be greater than '' @ fmt_d n"
| "fieldMessage Uuid = ''invalid value''"

text \<open>\<open>Validate(&input)\<close>; the value is always a struct, so the library's other error cannot occur.\<close>

definition Validate :: "validate_env \<Rightarrow> field list \<Rightarrow> unit res" where
  "Validate env fs =
     (case validate_Struct env fs of
        [] \<Rightarrow> Inr ()
      | errs \<Rightarrow>
          Inl (AppErr (WithDetails \<lparr>ae_httpCode = 400, ae_Message = ''validation failed'', ae_Details = []\<rparr>
            (map (\<lambda>(name, t). \<lparr>fe_Field = ToLower name, fe_Message = fieldMessage t\<rparr>) errs))))"

definition accepts :: "validate_env \<Rightarrow> field \<Rightarrow> bool" where
  "accepts env f \<longleftrightarrow> f_OmitEmpty f \<and> is_zero (f_Value f) \<or> list_all (satisfies env (f_Value f)) (f_Tags f)"

lemma failed_tag_None: "failed_tag env f = None \<longleftrightarrow> accepts env f"
  by (auto simp: failed_tag_def accepts_def find_None_all list_all_iff)

lemma Validate_ok: "Validate env fs = Inr () \<longleftrightarrow> list_all (accepts env) fs"
proof -
  have "validate_Struct env fs = [] \<longleftrightarrow> list_all (accepts env) fs"
    by (induction fs) (auto simp: validate_Struct_def List.map_filter_simps failed_tag_None[symmetric] split: option.splits)
  then show ?thesis by (auto simp: Validate_def split: list.splits)
qed

lemma Validate_error:
  "Validate env fs = Inl e \<Longrightarrow> http_status e = 400 \<and> \<not> is_panic e"
  by (auto simp: Validate_def http_status_eq WithDetails_def split: list.splits)

section \<open>The inputs\<close>

definition field_of :: "string \<Rightarrow> field_value \<Rightarrow> tag list \<Rightarrow> field" where
  "field_of name v ts = \<lparr>f_Name = name, f_Value = v, f_OmitEmpty = False, f_Tags = ts\<rparr>"

definition optional_field :: "string \<Rightarrow> field_value \<Rightarrow> tag list \<Rightarrow> field" where
  "optional_field name v ts = \<lparr>f_Name = name, f_Value = v, f_OmitEmpty = True, f_Tags = ts\<rparr>"

definition create_va_fields :: "create_va_input \<Rightarrow> field list" where
  "create_va_fields i =
     [field_of ''Provider'' (VString (provider_str (cv_Provider i))) [Required, OneOf [''midtrans'', ''xendit'', ''doku'', ''ipaymu'']],
      field_of ''BankCode'' (VString (bank_code_str (cv_BankCode i)))
        [Required, OneOf [''BCA'', ''BNI'', ''BRI'', ''BSI'', ''MANDIRI'', ''PERMATA'', ''CIMB'']],
      field_of ''Amount'' (VInt (cv_Amount i)) [Required, Gt 0],
      field_of ''Currency'' (VString (currency_str (cv_Currency i))) [Required, OneOf [''IDR'']],
      field_of ''CustomerName'' (VString (cv_CustomerName i)) [Required, Max 100],
      field_of ''CustomerEmail'' (VString (cv_CustomerEmail i)) [Required, Email, Max 255],
      field_of ''CustomerPhone'' (VString (cv_CustomerPhone i)) [Required, Min 6, Max 20],
      field_of ''Description'' (VString (cv_Description i)) [Max 255],
      field_of ''ExpiryAt'' (VTime (cv_ExpiryAt i)) [Required],
      optional_field ''CallbackURL'' (VString (cv_CallbackURL i)) [Url, Max 500]]"

definition create_qris_fields :: "create_qris_input \<Rightarrow> field list" where
  "create_qris_fields i =
     [field_of ''Provider'' (VString (provider_str (cq_Provider i))) [Required, OneOf [''midtrans'', ''xendit'', ''doku'', ''ipaymu'']],
      field_of ''Amount'' (VInt (cq_Amount i)) [Required, Gt 0],
      field_of ''Currency'' (VString (currency_str (cq_Currency i))) [Required, OneOf [''IDR'']],
      field_of ''CustomerName'' (VString (cq_CustomerName i)) [Required, Max 100],
      field_of ''CustomerEmail'' (VString (cq_CustomerEmail i)) [Required, Email, Max 255],
      field_of ''CustomerPhone'' (VString (cq_CustomerPhone i)) [Required, Min 6, Max 20],
      field_of ''Description'' (VString (cq_Description i)) [Max 255],
      field_of ''ExpiryAt'' (VTime (cq_ExpiryAt i)) [Required],
      optional_field ''CallbackURL'' (VString (cq_CallbackURL i)) [Url, Max 500]]"

definition disburse_fields :: "disburse_input \<Rightarrow> field list" where
  "disburse_fields i =
     [field_of ''Provider'' (VString (provider_str (di_Provider i))) [Required, OneOf [''xendit'', ''doku'']],
      field_of ''BankAccountID'' (VString (di_BankAccountID i)) [Required, Uuid],
      field_of ''Amount'' (VInt (di_Amount i)) [Required, Gt 0],
      field_of ''Currency'' (VString (currency_str (di_Currency i))) [Required, OneOf [''IDR'']],
      field_of ''Description'' (VString (di_Description i)) [Max 255]]"

definition create_merchant_fields :: "create_merchant_input \<Rightarrow> field list" where
  "create_merchant_fields i =
     [field_of ''Name'' (VString (cm_Name i)) [Required, Max 100],
      field_of ''Email'' (VString (cm_Email i)) [Required, Email, Max 255],
      field_of ''Phone'' (VString (cm_Phone i)) [Max 20],
      optional_field ''WebhookURL'' (VString (cm_WebhookURL i)) [Url, Max 500]]"

definition update_merchant_fields :: "update_merchant_input \<Rightarrow> field list" where
  "update_merchant_fields i =
     [field_of ''Name'' (VString (um_Name i)) [Max 100],
      optional_field ''Email'' (VString (um_Email i)) [Email, Max 255],
      field_of ''Phone'' (VString (um_Phone i)) [Max 20],
      optional_field ''WebhookURL'' (VString (um_WebhookURL i)) [Url, Max 500]]"

definition add_bank_account_fields :: "add_bank_account_input \<Rightarrow> field list" where
  "add_bank_account_fields i =
     [field_of ''BankCode'' (VString (bank_code_str (ab_BankCode i)))
        [Required, OneOf [''BCA'', ''BNI'', ''BRI'', ''BSI'', ''MANDIRI'', ''PERMATA'', ''CIMB'']],
      field_of ''AccountNumber'' (VString (ab_AccountNumber i)) [Required, Min 5, Max 20],
      field_of ''AccountName'' (VString (ab_AccountName i)) [Required, Max 100]]"

end
