(* ===== verification/Http.thy ===== *)
theory Http
  imports Validation Wire
begin

text \<open>
  What the HTTP handlers share: the part of an \<open>echo.Context\<close> they read, the replies they
  write (pkg/response/response.go), the decoding of query parameters and the numbers of a
  paginated reply.

  The framework routes the request, reads its body and decodes the JSON of an input
  (\<open>c.Bind\<close>), so a handler takes the decoded input, or the framework's error, as an argument.
  Writing a reply always succeeds here; its JSON text is left to the encoder.
\<close>

section \<open>The context\<close>

text \<open>
  The path and query parameters (empty when absent), the headers, the raw body, and what the
  middlewares stored: the merchant or the admin of the request. \<open>ctx_TraceID\<close> is empty without
  a valid span.
\<close>

record http_ctx =
  ctx_Param :: "string \<Rightarrow> string"
  ctx_Query :: "string \<Rightarrow> string"
  ctx_Header :: "(string \<times> string list) list"
  ctx_Body :: "string res"
  ctx_RealIP :: string
  ctx_TraceID :: string
  ctx_MerchantID :: "string option"
  ctx_AdminID :: "string option"

text \<open>\<open>c.Get(key).(string)\<close> panics when no middleware stored the value.\<close>

definition get_string :: "string option \<Rightarrow> (world, string) action" where
  "get_string v = (case v of Some s \<Rightarrow> ret s | None \<Rightarrow> throw (GoPanic ''interface conversion''))"

text \<open>\<open>n, _ := strconv.Atoi(c.QueryParam(name))\<close>: 0 when it is no number, a bound when it is too large.\<close>

definition query_int :: "http_ctx \<Rightarrow> string \<Rightarrow> int" where
  "query_int c name = go_ParseInt (ctx_Query c name)"

text \<open>Whether \<open>strconv.Atoi\<close> returns no error.\<close>

definition atoi_ok :: "string \<Rightarrow> bool" where
  "atoi_ok s =
     (let (neg, ds) = (case s of x # r \<Rightarrow> if x = CHR ''-'' then (True, r) else if x = CHR ''+'' then (False, r) else (False, s)
                       | [] \<Rightarrow> (False, s));
          n = (if neg then - int (digits_val ds) else int (digits_val ds))
      in ds \<noteq> [] \<and> list_all is_digit ds \<and> int64_range n)"

section \<open>Replies\<close>

record pagination =
  pg_Page :: int
  pg_PerPage :: int
  pg_Total :: int
  pg_TotalPages :: int

record reply_meta =
  mt_TraceID :: string
  mt_Timestamp :: time
  mt_Pagination :: "pagination option"

record error_body =
  eb_Message :: string
  eb_Details :: "field_error list"

text \<open>Every value a handler puts under \<open>data\<close>.\<close>

datatype data =
    DPayment payment_output | DPaymentPage payment_list_output | DPayments "payment_output list"
  | DDisbursement disbursement_output | DDisbursementPage disbursement_list_output
  | DDisbursements "disbursement_output list"
  | DMutation mutation_output | DMutations "mutation_output list"
  | DCreatedMerchant create_merchant_output | DMerchant merchant_output | DMerchants "merchant_output list"
  | DBankAccount bank_account_output | DBankAccounts "bank_account_output list"
  | DWebhookEvents "webhook_event_output list"
  | DTokens admin_token_output | DAdmin admin_output | DAdmins "admin_output list"
  | DProviderBalances "provider_balance list" | DFeeDefault fee_default | DPlatformMargin platform_margin
  | DHoliday fee_holiday | DHolidays "fee_holiday list"
  | DString string string | DInt string int64

record envelope =
  en_Success :: bool
  en_Data :: "data option"
  en_Error :: "error_body option"
  en_Meta :: reply_meta

datatype reply = JSONReply nat envelope | NoContentReply nat

definition meta :: "http_ctx \<Rightarrow> (world, reply_meta) action" where
  "meta c = bind now (\<lambda>t. ret \<lparr>mt_TraceID = ctx_TraceID c, mt_Timestamp = t, mt_Pagination = None\<rparr>)"

definition response_OK :: "http_ctx \<Rightarrow> data \<Rightarrow> (world, reply) action" where
  "response_OK c d =
     bind (meta c) (\<lambda>m. ret (JSONReply 200 \<lparr>en_Success = True, en_Data = Some d, en_Error = None, en_Meta = m\<rparr>))"

definition response_Created :: "http_ctx \<Rightarrow> data \<Rightarrow> (world, reply) action" where
  "response_Created c d =
     bind (meta c) (\<lambda>m. ret (JSONReply 201 \<lparr>en_Success = True, en_Data = Some d, en_Error = None, en_Meta = m\<rparr>))"

definition response_List :: "http_ctx \<Rightarrow> data \<Rightarrow> pagination \<Rightarrow> (world, reply) action" where
  "response_List c d p =
     bind (meta c) (\<lambda>m.
     ret (JSONReply 200
       \<lparr>en_Success = True, en_Data = Some d, en_Error = None, en_Meta = m\<lparr>mt_Pagination := Some p\<rparr>\<rparr>))"

definition response_NoContent :: "(world, reply) action" where
  "response_NoContent = ret (NoContentReply 204)"

definition response_Err :: "http_ctx \<Rightarrow> nat \<Rightarrow> string \<Rightarrow> field_error list \<Rightarrow> (world, reply) action" where
  "response_Err c status msg details =
     bind (meta c) (\<lambda>m.
     ret (JSONReply status
       \<lparr>en_Success = False, en_Data = None, en_Error = Some \<lparr>eb_Message = msg, eb_Details = details\<rparr>, en_Meta = m\<rparr>))"

section \<open>Decoding\<close>

text \<open>\<open>c.Bind(&input)\<close> and \<open>c.Validate(&input)\<close>, each returned at once when it fails.\<close>

definition bind_valid :: "validate_env \<Rightarrow> ('i \<Rightarrow> field list) \<Rightarrow> 'i res \<Rightarrow> (world, 'i) action" where
  "bind_valid env rules bound =
     (case bound of
        Inl e \<Rightarrow> throw e
      | Inr i \<Rightarrow> (case Validate env (rules i) of Inl e \<Rightarrow> throw e | Inr _ \<Rightarrow> ret i))"

section \<open>Pages\<close>

text \<open>
  \<open>totalPages := int(total) / limit; if int(total) % limit != 0 { totalPages++ }\<close>, as six
  handlers write it out; a limit of 0 would panic.
\<close>

definition total_pages :: "int64 \<Rightarrow> int \<Rightarrow> int" where
  "total_pages rows limit =
     (let n = go_div rows limit in if go_mod rows limit \<noteq> 0 then n + 1 else n)"

definition page_of :: "int \<Rightarrow> int \<Rightarrow> int64 \<Rightarrow> int \<Rightarrow> (world, pagination) action" where
  "page_of page perPage rows limit =
     (if limit = 0 then throw (GoPanic ''runtime error: integer divide by zero'')
      else ret \<lparr>pg_Page = page, pg_PerPage = perPage, pg_Total = rows, pg_TotalPages = total_pages rows limit\<rparr>)"

lemma total_pages_ceiling:
  assumes "0 \<le> rows" "0 < limit"
  shows "total_pages rows limit * limit \<ge> rows" "(total_pages rows limit - 1) * limit < rows"
proof -
  obtain q r where q: "q = rows div limit" and r: "r = rows mod limit" by simp
  have d: "total_pages rows limit = (if r = 0 then q else q + 1)"
    using assms by (simp add: total_pages_def go_mod_def minus_mult_div_eq_mod Let_def q r)
  have e: "rows = q * limit + r" "0 \<le> r" "r < limit" using assms by (simp_all add: q r)
  show "total_pages rows limit * limit \<ge> rows"
    unfolding d by (subst e(1)) (use e(2,3) in \<open>auto simp: distrib_right\<close>)
  show "(total_pages rows limit - 1) * limit < rows"
    unfolding d by (subst e(1)) (use e(2,3) in \<open>auto simp: left_diff_distrib distrib_right\<close>)
qed

section \<open>Weakest preconditions\<close>

lemma wp_response [simp]:
  "wp (response_OK c d) Q E =
     (\<lambda>w. Q (JSONReply 200 \<lparr>en_Success = True, en_Data = Some d, en_Error = None,
          en_Meta = \<lparr>mt_TraceID = ctx_TraceID c, mt_Timestamp = w_now w, mt_Pagination = None\<rparr>\<rparr>) w)"
  "wp (response_Created c d) Q E =
     (\<lambda>w. Q (JSONReply 201 \<lparr>en_Success = True, en_Data = Some d, en_Error = None,
          en_Meta = \<lparr>mt_TraceID = ctx_TraceID c, mt_Timestamp = w_now w, mt_Pagination = None\<rparr>\<rparr>) w)"
  "wp (response_List c d p) Q E =
     (\<lambda>w. Q (JSONReply 200 \<lparr>en_Success = True, en_Data = Some d, en_Error = None,
          en_Meta = \<lparr>mt_TraceID = ctx_TraceID c, mt_Timestamp = w_now w, mt_Pagination = Some p\<rparr>\<rparr>) w)"
  by (simp_all add: fun_eq_iff response_OK_def response_Created_def response_List_def meta_def wp_simps wp_now)

lemma wp_get_string: "wp (get_string (Some s)) Q E w = Q s w"
  by (simp add: get_string_def wp_ret)

lemma wp_bind_valid:
  "wp (bind_valid ve rules bound) Q E w =
     (case bound of Inl e \<Rightarrow> E e w | Inr i \<Rightarrow> (case Validate ve (rules i) of Inl e \<Rightarrow> E e w | Inr _ \<Rightarrow> Q i w))"
  by (simp add: bind_valid_def wp_simps split: sum.split)

lemma wp_page_of:
  "wp (page_of x y n l) Q E w =
     (if l = 0 then E (GoPanic ''runtime error: integer divide by zero'') w
      else Q \<lparr>pg_Page = x, pg_PerPage = y, pg_Total = n, pg_TotalPages = total_pages n l\<rparr> w)"
  by (simp add: page_of_def wp_simps)

end
