(* ===== verification/Handlers.thy ===== *)
theory Handlers
  imports Http Cashout
begin

text \<open>
  The merchant-facing handlers: payments, disbursements, mutations, merchants and provider
  webhooks (internal/delivery/http/handler). A handler takes the context, and the decoded
  input where it binds one.
\<close>

section \<open>Payments\<close>

definition h_CreateVA :: "validate_env \<Rightarrow> gateways \<Rightarrow> http_ctx \<Rightarrow> create_va_input res \<Rightarrow> (world, reply) action" where
  "h_CreateVA env gws c bound =
     bind (bind_valid env create_va_fields bound) (\<lambda>input.
     bind (get_string (ctx_MerchantID c)) (\<lambda>merchantID.
     bind (CreateVA gws (input\<lparr>cv_MerchantID := merchantID\<rparr>)) (\<lambda>out.
     response_Created c (DPayment out))))"

definition h_CreateQRIS :: "validate_env \<Rightarrow> gateways \<Rightarrow> http_ctx \<Rightarrow> create_qris_input res \<Rightarrow> (world, reply) action" where
  "h_CreateQRIS env gws c bound =
     bind (bind_valid env create_qris_fields bound) (\<lambda>input.
     bind (get_string (ctx_MerchantID c)) (\<lambda>merchantID.
     bind (CreateQRIS gws (input\<lparr>cq_MerchantID := merchantID\<rparr>)) (\<lambda>out.
     response_Created c (DPayment out))))"

definition h_GetPayment :: "http_ctx \<Rightarrow> (world, reply) action" where
  "h_GetPayment c =
     bind (get_string (ctx_MerchantID c)) (\<lambda>merchantID.
     bind (GetPayment merchantID (ctx_Param c ''id'')) (\<lambda>out.
     response_OK c (DPayment out)))"

definition h_ListPayments :: "http_ctx \<Rightarrow> (world, reply) action" where
  "h_ListPayments c =
     bind (get_string (ctx_MerchantID c)) (\<lambda>merchantID.
     bind (ListPayments
       \<lparr>li_MerchantID = merchantID, li_Status = ctx_Query c ''status'', li_Provider = ctx_Query c ''provider'',
        li_Method = ctx_Query c ''method'', li_StartDate = ctx_Query c ''start_date'', li_EndDate = ctx_Query c ''end_date'',
        li_Page = query_int c ''page'', li_Limit = query_int c ''limit''\<rparr>) (\<lambda>out.
     response_OK c (DPaymentPage out)))"

definition h_CancelPayment :: "gateways \<Rightarrow> http_ctx \<Rightarrow> (world, reply) action" where
  "h_CancelPayment gws c =
     bind (get_string (ctx_MerchantID c)) (\<lambda>merchantID.
     bind (CancelPayment gws merchantID (ctx_Param c ''id'')) (\<lambda>_.
     ret (NoContentReply 204)))"

section \<open>Disbursements\<close>

definition h_Disburse :: "validate_env \<Rightarrow> disbursement_gateways \<Rightarrow> http_ctx \<Rightarrow> disburse_input res \<Rightarrow> (world, reply) action" where
  "h_Disburse env gws c bound =
     bind (bind_valid env disburse_fields bound) (\<lambda>input.
     bind (get_string (ctx_MerchantID c)) (\<lambda>merchantID.
     bind (Disburse gws (input\<lparr>di_MerchantID := merchantID\<rparr>)) (\<lambda>out.
     response_Created c (DDisbursement out))))"

definition h_ListDisbursements :: "http_ctx \<Rightarrow> (world, reply) action" where
  "h_ListDisbursements c =
     bind (get_string (ctx_MerchantID c)) (\<lambda>merchantID.
     bind (ListDisbursements
       \<lparr>lx_MerchantID = merchantID, lx_Status = ctx_Query c ''status'', lx_StartDate = ctx_Query c ''start_date'',
        lx_EndDate = ctx_Query c ''end_date'', lx_Page = query_int c ''page'', lx_Limit = query_int c ''limit''\<rparr>) (\<lambda>out.
     response_OK c (DDisbursementPage out)))"

definition h_GetDisbursement :: "http_ctx \<Rightarrow> (world, reply) action" where
  "h_GetDisbursement c =
     bind (get_string (ctx_MerchantID c)) (\<lambda>merchantID.
     bind (GetDisbursement merchantID (ctx_Param c ''id'')) (\<lambda>out.
     response_OK c (DDisbursement out)))"

section \<open>Mutations\<close>

definition h_ListMutations :: "http_ctx \<Rightarrow> (world, reply) action" where
  "h_ListMutations c =
     bind (get_string (ctx_MerchantID c)) (\<lambda>merchantID.
     let p = ctx_Query c ''page''; l = ctx_Query c ''limit'';
         page = (if p \<noteq> '''' \<and> atoi_ok p \<and> 0 < go_ParseInt p then go_ParseInt p else 1);
         limit = (if l \<noteq> '''' \<and> atoi_ok l \<and> 0 < go_ParseInt l \<and> go_ParseInt l \<le> 100 then go_ParseInt l else 20)
     in bind (usecase_ListMutations
          \<lparr>lm_MerchantID = merchantID, lm_Type = nonempty mutation_type_of (ctx_Query c ''type''),
           lm_StartDate = optional_time (ctx_Query c ''start_date''), lm_EndDate = optional_time (ctx_Query c ''end_date''),
           lm_Page = page, lm_Limit = limit\<rparr>) (\<lambda>out.
        bind (page_of page limit (ml_Total out) limit) (\<lambda>pg.
        response_List c (DMutations (ml_Items out)) pg)))"

definition h_GetBalance :: "http_ctx \<Rightarrow> (world, reply) action" where
  "h_GetBalance c =
     bind (get_string (ctx_MerchantID c)) (\<lambda>merchantID.
     bind (usecase_GetBalance merchantID) (\<lambda>balance.
     response_OK c (DInt ''balance'' balance)))"

definition h_GetMutation :: "http_ctx \<Rightarrow> (world, reply) action" where
  "h_GetMutation c =
     bind (get_string (ctx_MerchantID c)) (\<lambda>merchantID.
     bind (usecase_GetMutation merchantID (ctx_Param c ''id'')) (\<lambda>out.
     response_OK c (DMutation out)))"

section \<open>Merchants\<close>

definition h_Create :: "validate_env \<Rightarrow> (string \<Rightarrow> string) \<Rightarrow> http_ctx \<Rightarrow> create_merchant_input res \<Rightarrow> (world, reply) action" where
  "h_Create env sha256 c bound =
     bind (bind_valid env create_merchant_fields bound) (\<lambda>input.
     bind (merchant_Create sha256 input) (\<lambda>out.
     response_Created c (DCreatedMerchant out)))"

definition h_GetMerchant :: "http_ctx \<Rightarrow> (world, reply) action" where
  "h_GetMerchant c =
     bind (get_string (ctx_MerchantID c)) (\<lambda>merchantID.
     bind (merchant_Get merchantID) (\<lambda>out.
     response_OK c (DMerchant out)))"

definition h_Update :: "validate_env \<Rightarrow> http_ctx \<Rightarrow> update_merchant_input res \<Rightarrow> (world, reply) action" where
  "h_Update env c bound =
     bind (bind_valid env update_merchant_fields bound) (\<lambda>input.
     bind (get_string (ctx_MerchantID c)) (\<lambda>merchantID.
     bind (merchant_UpdateProfile (input\<lparr>um_MerchantID := merchantID\<rparr>)) (\<lambda>out.
     response_OK c (DMerchant out))))"

definition h_RegenerateAPIKey :: "(string \<Rightarrow> string) \<Rightarrow> http_ctx \<Rightarrow> (world, reply) action" where
  "h_RegenerateAPIKey sha256 c =
     bind (get_string (ctx_MerchantID c)) (\<lambda>merchantID.
     bind (merchant_RegenerateAPIKey sha256 merchantID) (\<lambda>rawKey.
     response_OK c (DString ''api_key'' rawKey)))"

definition h_ListBankAccounts :: "http_ctx \<Rightarrow> (world, reply) action" where
  "h_ListBankAccounts c =
     bind (get_string (ctx_MerchantID c)) (\<lambda>merchantID.
     bind (ListBankAccounts merchantID) (\<lambda>out.
     response_OK c (DBankAccounts out)))"

definition h_AddBankAccount :: "validate_env \<Rightarrow> http_ctx \<Rightarrow> add_bank_account_input res \<Rightarrow> (world, reply) action" where
  "h_AddBankAccount env c bound =
     bind (bind_valid env add_bank_account_fields bound) (\<lambda>input.
     bind (get_string (ctx_MerchantID c)) (\<lambda>merchantID.
     bind (AddBankAccount (input\<lparr>ab_MerchantID := merchantID\<rparr>)) (\<lambda>out.
     response_Created c (DBankAccount out))))"

definition h_RemoveBankAccount :: "http_ctx \<Rightarrow> (world, reply) action" where
  "h_RemoveBankAccount c =
     bind (get_string (ctx_MerchantID c)) (\<lambda>merchantID.
     bind (RemoveBankAccount merchantID (ctx_Param c ''id'')) (\<lambda>_.
     ret (NoContentReply 204)))"

definition h_SetPrimaryBankAccount :: "http_ctx \<Rightarrow> (world, reply) action" where
  "h_SetPrimaryBankAccount c =
     bind (get_string (ctx_MerchantID c)) (\<lambda>merchantID.
     bind (SetPrimaryBankAccount merchantID (ctx_Param c ''id'')) (\<lambda>_.
     response_OK c (DString ''message'' ''primary bank account updated'')))"

text \<open>The page count is taken with the limit of the query, which the repository clamps to 100.\<close>

definition h_ListWebhookEvents :: "http_ctx \<Rightarrow> (world, reply) action" where
  "h_ListWebhookEvents c =
     bind (get_string (ctx_MerchantID c)) (\<lambda>merchantID.
     let page = query_int c ''page''; limit = query_int c ''limit'';
         page = (if page < 1 then 1 else page); limit = (if limit < 1 then 20 else limit)
     in bind (ListWebhookEvents merchantID page limit) (\<lambda>out.
        bind (page_of (wl_Page out) (wl_Limit out) (wl_Total out) limit) (\<lambda>pg.
        response_List c (DWebhookEvents (wl_Items out)) pg)))"

section \<open>Provider webhooks\<close>

definition isKnownProvider :: "provider \<Rightarrow> bool" where
  "isKnownProvider p =
     (case p of
        ProviderMidtrans \<Rightarrow> True | ProviderXendit \<Rightarrow> True | ProviderDoku \<Rightarrow> True | ProviderIPaymu \<Rightarrow> True
      | ProviderOther _ \<Rightarrow> False)"

text \<open>The server canonicalises header names, so no two of them become equal in lower case.\<close>

definition extractHeaders :: "(string \<times> string list) list \<Rightarrow> headers" where
  "extractHeaders hs = concat (map (\<lambda>(k, v). case v of [] \<Rightarrow> [] | x # _ \<Rightarrow> [(ToLower k, x)]) hs)"

definition read_body :: "http_ctx \<Rightarrow> (world, string) action" where
  "read_body c = (case ctx_Body c of Inl _ \<Rightarrow> throw (BadRequest ''failed to read body'') | Inr b \<Rightarrow> ret b)"

definition h_HandlePaymentWebhook :: "gateways \<Rightarrow> http_ctx \<Rightarrow> (world, reply) action" where
  "h_HandlePaymentWebhook gws c =
     (let provider = provider_of (ctx_Param c ''provider'') in
      if \<not> isKnownProvider provider then throw (NotFound (''unknown provider: '' @ provider_str provider))
      else
        bind (read_body c) (\<lambda>body.
        let hs = extractHeaders (ctx_Header c); wt = ctx_Query c ''wt'';
            hs = (if wt \<noteq> '''' then (''x-wt'', wt) # hs else hs)
        in bind (HandleWebhook gws provider hs body) (\<lambda>_.
           ret (NoContentReply 200))))"

definition h_HandleDisbursementWebhook :: "disbursement_gateways \<Rightarrow> http_ctx \<Rightarrow> (world, reply) action" where
  "h_HandleDisbursementWebhook gws c =
     (let provider = provider_of (ctx_Param c ''provider'') in
      if \<not> isKnownProvider provider then throw (NotFound (''unknown provider: '' @ provider_str provider))
      else
        bind (read_body c) (\<lambda>body.
        bind (HandleDisbursementCallback gws provider (extractHeaders (ctx_Header c)) body) (\<lambda>_.
        ret (NoContentReply 200))))"

end
