(* ===== verification/AdminHandlers.thy ===== *)
theory AdminHandlers
  imports Http Books
begin

text \<open>
  The admin handlers (internal/delivery/http/handler/admin_handler.go), over the admin usecase.
  The bodies declared inline in the handlers are records here. A nested fee configuration has
  no rule of its own, and \<open>required\<close> on it checks nothing.
\<close>

section \<open>Bodies\<close>

record admin_login_input =
  al_Email :: string
  al_Password :: string

record change_password_body =
  cp_OldPassword :: string
  cp_NewPassword :: string

record create_admin_input =
  na_Email :: string
  na_Password :: string
  na_Role :: admin_role

record fee_default_body =
  fb_FeeConfig :: fee_config
  fb_Reason :: string

record margin_body =
  mb_Enabled :: bool
  mb_Margin :: fee_config
  mb_Reason :: string

definition admin_login_fields :: "admin_login_input \<Rightarrow> field list" where
  "admin_login_fields i =
     [field_of ''Email'' (VString (al_Email i)) [Required, Email], field_of ''Password'' (VString (al_Password i)) [Required, Min 8]]"

definition refresh_fields :: "string \<Rightarrow> field list" where
  "refresh_fields token = [field_of ''RefreshToken'' (VString token) [Required]]"

definition change_password_fields :: "change_password_body \<Rightarrow> field list" where
  "change_password_fields i =
     [field_of ''OldPassword'' (VString (cp_OldPassword i)) [Required],
      field_of ''NewPassword'' (VString (cp_NewPassword i)) [Required, Min 8]]"

definition create_admin_fields :: "create_admin_input \<Rightarrow> field list" where
  "create_admin_fields i =
     [field_of ''Email'' (VString (na_Email i)) [Required, Email],
      field_of ''Password'' (VString (na_Password i)) [Required, Min 8],
      field_of ''Role'' (VString (admin_role_str (na_Role i))) [Required, OneOf [''super_admin'', ''ops'', ''finance'']]]"

definition set_merchant_fee_fields :: "set_merchant_fee_input \<Rightarrow> field list" where
  "set_merchant_fee_fields i = [field_of ''Reason'' (VString (sm_Reason i)) [Required, Min 10]]"

definition cashout_limit_fields :: "int64 \<Rightarrow> field list" where
  "cashout_limit_fields n = [field_of ''LimitIDR'' (VInt n) [Min 0]]"

definition provider_balance_fields :: "int64 \<Rightarrow> field list" where
  "provider_balance_fields n = [field_of ''BalanceIDR'' (VInt n) [Min 0]]"

definition fee_default_fields :: "fee_default_body \<Rightarrow> field list" where
  "fee_default_fields i = [field_of ''Reason'' (VString (fb_Reason i)) [Required, Min 10]]"

definition margin_fields :: "margin_body \<Rightarrow> field list" where
  "margin_fields i = [field_of ''Reason'' (VString (mb_Reason i)) [Required, Min 10]]"

section \<open>Sessions\<close>

definition a_Login :: "validate_env \<Rightarrow> admin_env \<Rightarrow> http_ctx \<Rightarrow> admin_login_input res \<Rightarrow> (world, reply) action" where
  "a_Login ve env c bound =
     bind (bind_valid ve admin_login_fields bound) (\<lambda>input.
     bind (admin_Login env (al_Email input) (al_Password input)) (\<lambda>out.
     response_OK c (DTokens out)))"

definition a_RefreshToken :: "validate_env \<Rightarrow> admin_env \<Rightarrow> http_ctx \<Rightarrow> string res \<Rightarrow> (world, reply) action" where
  "a_RefreshToken ve env c bound =
     bind (bind_valid ve refresh_fields bound) (\<lambda>token.
     bind (admin_RefreshToken env token) (\<lambda>out.
     response_OK c (DTokens out)))"

definition a_GetMe :: "http_ctx \<Rightarrow> (world, reply) action" where
  "a_GetMe c =
     bind (get_string (ctx_AdminID c)) (\<lambda>adminID.
     bind (admin_GetMe adminID) (\<lambda>out.
     response_OK c (DAdmin out)))"

definition a_ChangePassword :: "validate_env \<Rightarrow> admin_env \<Rightarrow> http_ctx \<Rightarrow> change_password_body res \<Rightarrow> (world, reply) action" where
  "a_ChangePassword ve env c bound =
     bind (bind_valid ve change_password_fields bound) (\<lambda>input.
     bind (get_string (ctx_AdminID c)) (\<lambda>adminID.
     bind (admin_ChangePassword env adminID (cp_OldPassword input) (cp_NewPassword input)) (\<lambda>_.
     response_OK c (DString ''message'' ''password changed''))))"

section \<open>Merchants\<close>

definition a_CreateMerchant :: "validate_env \<Rightarrow> (string \<Rightarrow> string) \<Rightarrow> http_ctx \<Rightarrow> create_merchant_input res \<Rightarrow> (world, reply) action" where
  "a_CreateMerchant ve sha256 c bound =
     bind (bind_valid ve create_merchant_fields bound) (\<lambda>input.
     bind (admin_CreateMerchant sha256 input) (\<lambda>out.
     response_Created c (DCreatedMerchant out)))"

definition query_page :: "http_ctx \<Rightarrow> int" where
  "query_page c = (let page = query_int c ''page'' in if page < 1 then 1 else page)"

definition query_limit :: "http_ctx \<Rightarrow> int" where
  "query_limit c = (let limit = query_int c ''limit'' in if limit < 1 then 20 else limit)"

definition a_ListMerchants :: "http_ctx \<Rightarrow> (world, reply) action" where
  "a_ListMerchants c =
     bind (admin_ListMerchants
       \<lparr>lf_Status = ctx_Query c ''status'', lf_Search = ctx_Query c ''search'',
        lf_Page = query_page c, lf_Limit = query_limit c\<rparr>) (\<lambda>out.
     bind (page_of (mx_Page out) (mx_Limit out) (mx_Total out) (mx_Limit out)) (\<lambda>pg.
     response_List c (DMerchants (mx_Items out)) pg))"

definition a_GetMerchant :: "http_ctx \<Rightarrow> (world, reply) action" where
  "a_GetMerchant c = bind (admin_GetMerchant (ctx_Param c ''id'')) (\<lambda>out. response_OK c (DMerchant out))"

definition a_ApproveMerchant :: "http_ctx \<Rightarrow> (world, reply) action" where
  "a_ApproveMerchant c =
     bind (admin_ApproveMerchant (ctx_Param c ''id'')) (\<lambda>_. response_OK c (DString ''message'' ''merchant approved''))"

definition a_SuspendMerchant :: "http_ctx \<Rightarrow> (world, reply) action" where
  "a_SuspendMerchant c =
     bind (admin_SuspendMerchant (ctx_Param c ''id'')) (\<lambda>_. response_OK c (DString ''message'' ''merchant suspended''))"

definition a_DeactivateMerchant :: "http_ctx \<Rightarrow> (world, reply) action" where
  "a_DeactivateMerchant c =
     bind (admin_DeactivateMerchant (ctx_Param c ''id'')) (\<lambda>_. response_OK c (DString ''message'' ''merchant deactivated''))"

definition a_DeleteMerchant :: "http_ctx \<Rightarrow> (world, reply) action" where
  "a_DeleteMerchant c = bind (admin_DeleteMerchant (ctx_Param c ''id'')) (\<lambda>_. response_NoContent)"

definition a_SetMerchantFee :: "validate_env \<Rightarrow> http_ctx \<Rightarrow> set_merchant_fee_input res \<Rightarrow> (world, reply) action" where
  "a_SetMerchantFee ve c bound =
     bind (bind_valid ve set_merchant_fee_fields bound) (\<lambda>input.
     bind (get_string (ctx_AdminID c)) (\<lambda>adminID.
     bind (admin_UpdateMerchantFee (input\<lparr>sm_MerchantID := ctx_Param c ''id'', sm_AdminID := adminID\<rparr>)) (\<lambda>_.
     response_OK c (DString ''message'' ''fee updated''))))"

definition a_UpdateCashoutLimit :: "validate_env \<Rightarrow> http_ctx \<Rightarrow> int64 res \<Rightarrow> (world, reply) action" where
  "a_UpdateCashoutLimit ve c bound =
     bind (bind_valid ve cashout_limit_fields bound) (\<lambda>limitIDR.
     bind (admin_UpdateDailyCashoutLimit (ctx_Param c ''id'') limitIDR) (\<lambda>_.
     response_OK c (DString ''message'' ''cashout limit updated'')))"

definition a_RegenerateAPIKey :: "(string \<Rightarrow> string) \<Rightarrow> http_ctx \<Rightarrow> (world, reply) action" where
  "a_RegenerateAPIKey sha256 c =
     bind (admin_RegenerateMerchantAPIKey sha256 (ctx_Param c ''id'')) (\<lambda>rawKey.
     response_OK c (DString ''api_key'' rawKey))"

definition a_ListMerchantBankAccounts :: "http_ctx \<Rightarrow> (world, reply) action" where
  "a_ListMerchantBankAccounts c =
     bind (admin_ListMerchantBankAccounts (ctx_Param c ''id'')) (\<lambda>out. response_OK c (DBankAccounts out))"

definition a_VerifyBankAccount :: "http_ctx \<Rightarrow> (world, reply) action" where
  "a_VerifyBankAccount c =
     bind (admin_VerifyBankAccount (ctx_Param c ''id'') (ctx_Param c ''aid'')) (\<lambda>_.
     response_OK c (DString ''message'' ''bank account verified''))"

section \<open>Visibility\<close>

definition a_ListAllPayments :: "http_ctx \<Rightarrow> (world, reply) action" where
  "a_ListAllPayments c =
     bind (admin_ListAllPayments
       \<lparr>af_MerchantID = ctx_Query c ''merchant_id'', af_Status = ctx_Query c ''status'', af_Provider = ctx_Query c ''provider'',
        af_Type = '''', af_Start = ctx_Query c ''start'', af_End = ctx_Query c ''end'',
        af_Page = query_page c, af_Limit = query_limit c\<rparr>) (\<lambda>out.
     bind (page_of (pl_Page out) (pl_Limit out) (pl_Total out) (pl_Limit out)) (\<lambda>pg.
     response_List c (DPayments (pl_Items out)) pg))"

definition a_GetPayment :: "http_ctx \<Rightarrow> (world, reply) action" where
  "a_GetPayment c = bind (admin_GetPayment (ctx_Param c ''id'')) (\<lambda>out. response_OK c (DPayment out))"

definition a_ListAllDisbursements :: "http_ctx \<Rightarrow> (world, reply) action" where
  "a_ListAllDisbursements c =
     bind (admin_ListAllDisbursements
       \<lparr>af_MerchantID = ctx_Query c ''merchant_id'', af_Status = ctx_Query c ''status'', af_Provider = ctx_Query c ''provider'',
        af_Type = '''', af_Start = ctx_Query c ''start'', af_End = ctx_Query c ''end'',
        af_Page = query_page c, af_Limit = query_limit c\<rparr>) (\<lambda>out.
     bind (page_of (dl_Page out) (dl_Limit out) (dl_Total out) (dl_Limit out)) (\<lambda>pg.
     response_List c (DDisbursements (dl_Items out)) pg))"

definition a_GetDisbursement :: "http_ctx \<Rightarrow> (world, reply) action" where
  "a_GetDisbursement c = bind (admin_GetDisbursement (ctx_Param c ''id'')) (\<lambda>out. response_OK c (DDisbursement out))"

definition a_ListAllMutations :: "http_ctx \<Rightarrow> (world, reply) action" where
  "a_ListAllMutations c =
     bind (admin_ListAllMutations
       \<lparr>af_MerchantID = ctx_Query c ''merchant_id'', af_Status = '''', af_Provider = '''', af_Type = ctx_Query c ''type'',
        af_Start = ctx_Query c ''start'', af_End = ctx_Query c ''end'',
        af_Page = query_page c, af_Limit = query_limit c\<rparr>) (\<lambda>out.
     bind (page_of (ml_Page out) (ml_Limit out) (ml_Total out) (ml_Limit out)) (\<lambda>pg.
     response_List c (DMutations (ml_Items out)) pg))"

section \<open>Provider balances\<close>

definition a_GetProviderBalances :: "http_ctx \<Rightarrow> (world, reply) action" where
  "a_GetProviderBalances c = bind admin_GetProviderBalances (\<lambda>out. response_OK c (DProviderBalances out))"

definition a_UpdateProviderBalance :: "validate_env \<Rightarrow> http_ctx \<Rightarrow> int64 res \<Rightarrow> (world, reply) action" where
  "a_UpdateProviderBalance ve c bound =
     bind (bind_valid ve provider_balance_fields bound) (\<lambda>balanceIDR.
     bind (admin_UpdateProviderBalance (provider_of (ctx_Param c ''provider'')) balanceIDR) (\<lambda>_.
     response_OK c (DString ''message'' ''provider balance updated'')))"

section \<open>Admins\<close>

definition a_CreateAdmin :: "validate_env \<Rightarrow> admin_env \<Rightarrow> http_ctx \<Rightarrow> create_admin_input res \<Rightarrow> (world, reply) action" where
  "a_CreateAdmin ve env c bound =
     bind (bind_valid ve create_admin_fields bound) (\<lambda>input.
     bind (get_string (ctx_AdminID c)) (\<lambda>_.
     bind (admin_CreateAdmin env (na_Email input) (na_Password input) (na_Role input)) (\<lambda>out.
     response_Created c (DAdmin out))))"

text \<open>The page size reported is the limit of the query; the repository clamps it to 100.\<close>

definition a_ListAdmins :: "http_ctx \<Rightarrow> (world, reply) action" where
  "a_ListAdmins c =
     bind (admin_ListAdmins (query_page c) (query_limit c)) (\<lambda>(items, n).
     bind (page_of (query_page c) (query_limit c) n (query_limit c)) (\<lambda>pg.
     response_List c (DAdmins items) pg))"

definition a_DeactivateAdmin :: "http_ctx \<Rightarrow> (world, reply) action" where
  "a_DeactivateAdmin c =
     bind (get_string (ctx_AdminID c)) (\<lambda>callerID.
     bind (admin_DeactivateAdmin callerID (ctx_Param c ''id'')) (\<lambda>_.
     response_OK c (DString ''message'' ''admin deactivated'')))"

section \<open>Fees\<close>

definition a_GetFeeDefault :: "http_ctx \<Rightarrow> (world, reply) action" where
  "a_GetFeeDefault c = bind admin_GetFeeDefault (\<lambda>out. response_OK c (DFeeDefault out))"

definition a_UpdateFeeDefault :: "validate_env \<Rightarrow> http_ctx \<Rightarrow> fee_default_body res \<Rightarrow> (world, reply) action" where
  "a_UpdateFeeDefault ve c bound =
     bind (get_string (ctx_AdminID c)) (\<lambda>adminID.
     bind (bind_valid ve fee_default_fields bound) (\<lambda>body.
     bind (admin_UpdateFeeDefault adminID (fb_Reason body) (fb_FeeConfig body)) (\<lambda>_.
     response_OK c (DString ''message'' ''fee default updated''))))"

definition a_GetPlatformMargin :: "http_ctx \<Rightarrow> (world, reply) action" where
  "a_GetPlatformMargin c = bind admin_GetPlatformMargin (\<lambda>out. response_OK c (DPlatformMargin out))"

definition a_UpdatePlatformMargin :: "validate_env \<Rightarrow> http_ctx \<Rightarrow> margin_body res \<Rightarrow> (world, reply) action" where
  "a_UpdatePlatformMargin ve c bound =
     bind (get_string (ctx_AdminID c)) (\<lambda>adminID.
     bind (bind_valid ve margin_fields bound) (\<lambda>body.
     bind (admin_UpdatePlatformMargin adminID (mb_Reason body) (mb_Enabled body) (mb_Margin body)) (\<lambda>_.
     response_OK c (DString ''message'' ''platform margin updated''))))"

definition a_ListHolidays :: "http_ctx \<Rightarrow> (world, reply) action" where
  "a_ListHolidays c =
     bind (admin_ListHolidays (query_page c) (query_limit c)) (\<lambda>(items, n).
     bind (page_of (query_page c) (query_limit c) n (query_limit c)) (\<lambda>pg.
     response_List c (DHolidays items) pg))"

text \<open>A holiday is bound without validation.\<close>

definition bound_only :: "'i res \<Rightarrow> (world, 'i) action" where
  "bound_only bound = (case bound of Inl e \<Rightarrow> throw e | Inr i \<Rightarrow> ret i)"

definition a_CreateHoliday :: "http_ctx \<Rightarrow> fee_holiday res \<Rightarrow> (world, reply) action" where
  "a_CreateHoliday c bound =
     bind (get_string (ctx_AdminID c)) (\<lambda>adminID.
     bind (bound_only bound) (\<lambda>holiday.
     bind (admin_CreateHoliday adminID holiday) (\<lambda>h.
     response_OK c (DHoliday h))))"

definition a_UpdateHoliday :: "http_ctx \<Rightarrow> fee_holiday res \<Rightarrow> (world, reply) action" where
  "a_UpdateHoliday c bound =
     bind (get_string (ctx_AdminID c)) (\<lambda>adminID.
     bind (bound_only bound) (\<lambda>holiday.
     bind (admin_UpdateHoliday adminID (holiday\<lparr>h_ID := ctx_Param c ''id''\<rparr>)) (\<lambda>h.
     response_OK c (DHoliday h))))"

end
