(* ===== verification/Allowlist.thy ===== *)
theory Allowlist
  imports Http
begin

text \<open>
  The source-address filter of the webhook routes
  (internal/delivery/http/middleware/webhook_allowlist.go), over \<open>net.ParseCIDR\<close> and
  \<open>IPNet.Contains\<close>. The address of the client, which the framework takes from the
  forwarding headers it trusts, is part of the context.
\<close>

section \<open>Networks\<close>

text \<open>A network is its number, of 4 bytes for IPv4 and 16 for IPv6, and the length of its prefix.\<close>

record ip_net =
  in_IP :: "nat list"
  in_Ones :: nat
  in_Bits :: nat

text \<open>A byte under the part of the mask that covers it: the \<open>k\<close> leading bits, all when \<open>k\<close> is 8 or more.\<close>

definition mask_byte :: "nat \<Rightarrow> nat \<Rightarrow> nat" where
  "mask_byte k b = b - b mod 2 ^ (8 - k)"

fun mask_bytes :: "nat \<Rightarrow> nat list \<Rightarrow> nat list" where
  "mask_bytes n [] = []"
| "mask_bytes n (b # bs) = mask_byte n b # mask_bytes (n - 8) bs"

definition cut_slash :: "string \<Rightarrow> (string \<times> string) option" where
  "cut_slash s =
     (if CHR ''/'' \<in> set s
      then Some (takeWhile (\<lambda>c. c \<noteq> CHR ''/'') s, tl (dropWhile (\<lambda>c. c \<noteq> CHR ''/'') s)) else None)"

text \<open>\<open>ParseCIDR\<close>: an address and the length of its prefix, at most 32 for a dotted address and 128 otherwise.\<close>

definition ParseCIDR :: "string \<Rightarrow> ip_net option" where
  "ParseCIDR s =
     (case cut_slash s of
        None \<Rightarrow> None
      | Some (a, m) \<Rightarrow>
          (case ParseIP a of
             None \<Rightarrow> None
           | Some ip \<Rightarrow>
               let bits = (if CHR '':'' \<in> set a then 128 else 32); n = digits_val m in
               if m = [] \<or> \<not> list_all is_digit m \<or> bits < n then None
               else if bits = 32 then Some \<lparr>in_IP = mask_bytes n (drop 12 ip), in_Ones = n, in_Bits = 32\<rparr>
               else Some \<lparr>in_IP = mask_bytes n ip, in_Ones = n, in_Bits = 128\<rparr>))"

text \<open>\<open>Contains\<close>: an IPv4-mapped network keeps the last 32 bits of its mask.\<close>

definition net_Contains :: "ip_net \<Rightarrow> nat list \<Rightarrow> bool" where
  "net_Contains net ip =
     (let (nn, n) = (if in_Bits net = 32 then (in_IP net, in_Ones net)
                     else case To4 (in_IP net) of Some v4 \<Rightarrow> (v4, in_Ones net - 96) | None \<Rightarrow> (in_IP net, in_Ones net));
          ip = (case To4 ip of Some v4 \<Rightarrow> v4 | None \<Rightarrow> ip)
      in length ip = length nn \<and> mask_bytes n nn = mask_bytes n ip)"

section \<open>The middleware\<close>

definition containsSlash :: "string \<Rightarrow> bool" where
  "containsSlash s = list_ex (\<lambda>c. c = CHR ''/'') s"

definition with_prefix :: "string \<Rightarrow> string" where
  "with_prefix cidr =
     (if containsSlash cidr then cidr
      else case ParseIP cidr of
             None \<Rightarrow> cidr
           | Some ip \<Rightarrow> cidr @ (if To4 ip \<noteq> None then ''/32'' else ''/128''))"

definition parsed_nets :: "string list \<Rightarrow> ip_net list" where
  "parsed_nets cidrs = List.map_filter (\<lambda>cidr. ParseCIDR (with_prefix cidr)) cidrs"

text \<open>The nets a provider is restricted to; none when it has no entry or none of its entries parses.\<close>

definition nets_of :: "(string \<times> string list) list \<Rightarrow> string \<Rightarrow> ip_net list" where
  "nets_of allowed provider = (case map_of allowed provider of None \<Rightarrow> [] | Some cidrs \<Rightarrow> parsed_nets cidrs)"

definition WebhookIPAllowlist ::
  "(string \<times> string list) list \<Rightarrow> http_ctx \<Rightarrow> (world, reply) action \<Rightarrow> (world, reply) action" where
  "WebhookIPAllowlist allowed c next =
     (let nets = nets_of allowed (ctx_Param c ''provider'') in
      if nets = [] then next
      else
        (case ParseIP (ctx_RealIP c) of
           None \<Rightarrow> throw (Forbidden ''source IP not permitted'')
         | Some ip \<Rightarrow>
             if list_ex (\<lambda>n. net_Contains n ip) nets then next
             else throw (Forbidden ''source IP not permitted'')))"

section \<open>What a dotted network contains\<close>

definition ipv4_value :: "nat \<Rightarrow> nat \<Rightarrow> nat \<Rightarrow> nat \<Rightarrow> nat" where
  "ipv4_value a b c d = ((a * 256 + b) * 256 + c) * 256 + d"

lemma mask_byte_eq: "mask_byte k b = mask_byte k b' \<longleftrightarrow> b div 2 ^ (8 - k) = b' div 2 ^ (8 - k)"
proof -
  have m: "mask_byte k x = x div 2 ^ (8 - k) * 2 ^ (8 - k)" for x
    by (simp add: mask_byte_def minus_mod_eq_div_mult)
  show ?thesis by (simp add: m)
qed

lemma mask_byte_all: "b < 256 \<Longrightarrow> mask_byte 0 b = 0"
  by (simp add: mask_byte_def)

lemma mask_byte_whole: "8 \<le> k \<Longrightarrow> mask_byte k b = b"
  by (simp add: mask_byte_def)

lemma prefix_low:
  fixes x y x' y' :: nat
  assumes "y < 256" "y' < 256" "k \<le> 8"
  shows "(x * 256 + y) div 2 ^ (8 - k) = (x' * 256 + y') div 2 ^ (8 - k)
    \<longleftrightarrow> x = x' \<and> y div 2 ^ (8 - k) = y' div 2 ^ (8 - k)"
proof -
  have p: "(2::nat) ^ k * 2 ^ (8 - k) = 256" using power_add [of "2::nat" k "8 - k"] assms(3) by simp
  have split: "(x * 256 + y) div 2 ^ (8 - k) = x * 2 ^ k + y div 2 ^ (8 - k)" for x y :: nat
  proof -
    have q: "(2::nat) ^ (8 - k) \<noteq> 0" by simp
    have "x * 256 + y = (x * 2 ^ k) * 2 ^ (8 - k) + y" by (simp only: mult.assoc p)
    then show ?thesis by (simp only: div_mult_self3 [OF q])
  qed
  have small: "y div 2 ^ (8 - k) < 2 ^ k" if "y < 256" for y :: nat
    using that p by (simp add: less_mult_imp_div_less)
  have mix: "x * q + r = x' * q + r' \<longleftrightarrow> x = x' \<and> r = r'" if "r < q" "r' < q" for q r r' :: nat
  proof
    assume e: "x * q + r = x' * q + r'"
    have "(x * q + r) div q = (x' * q + r') div q" "(x * q + r) mod q = (x' * q + r') mod q" using e by simp_all
    then show "x = x' \<and> r = r'" using that by simp
  qed simp
  show ?thesis unfolding split by (rule mix) (use small assms in auto)
qed

lemma prefix_high:
  fixes x y :: nat
  assumes "y < 256" "8 \<le> s"
  shows "(x * 256 + y) div 2 ^ s = x div 2 ^ (s - 8)"
proof -
  have "(2::nat) ^ s = 256 * 2 ^ (s - 8)" 
    using power_add [of "2::nat" 8 "s - 8"] assms(2) by simp
  then show ?thesis using assms(1) by (simp add: div_mult2_eq)
qed

lemma ipv4_high:
  assumes "b < 256" "c < 256" "d < 256"
  shows "n \<le> 24 \<Longrightarrow> ipv4_value a b c d div 2 ^ (32 - n) = ((a * 256 + b) * 256 + c) div 2 ^ (24 - n)"
    and "n \<le> 16 \<Longrightarrow> ipv4_value a b c d div 2 ^ (32 - n) = (a * 256 + b) div 2 ^ (16 - n)"
    and "n \<le> 8 \<Longrightarrow> ipv4_value a b c d div 2 ^ (32 - n) = a div 2 ^ (8 - n)"
proof -
  have 1: "ipv4_value a b c d div 2 ^ (32 - n) = ((a * 256 + b) * 256 + c) div 2 ^ (24 - n)" if "n \<le> 24"
    using prefix_high [of d "32 - n" "(a * 256 + b) * 256 + c"] assms that by (simp only: ipv4_value_def) simp
  have 2: "((a * 256 + b) * 256 + c) div 2 ^ (24 - n) = (a * 256 + b) div 2 ^ (16 - n)" if "n \<le> 16"
    using prefix_high [of c "24 - n" "a * 256 + b"] assms that by simp
  have 3: "(a * 256 + b) div 2 ^ (16 - n) = a div 2 ^ (8 - n)" if "n \<le> 8"
    using prefix_high [of b "16 - n" a] assms that by simp
  show "n \<le> 24 \<Longrightarrow> ipv4_value a b c d div 2 ^ (32 - n) = ((a * 256 + b) * 256 + c) div 2 ^ (24 - n)" by (rule 1)
  show "n \<le> 16 \<Longrightarrow> ipv4_value a b c d div 2 ^ (32 - n) = (a * 256 + b) div 2 ^ (16 - n)" by (simp only: 1 2)
  show "n \<le> 8 \<Longrightarrow> ipv4_value a b c d div 2 ^ (32 - n) = a div 2 ^ (8 - n)" by (simp only: 1 2 3)
qed

lemma mask_bytes_ipv4:
  assumes "b < 256" "c < 256" "d < 256" "b' < 256" "c' < 256" "d' < 256" "n \<le> 32"
  shows "mask_bytes n [a, b, c, d] = mask_bytes n [a', b', c', d']
    \<longleftrightarrow> ipv4_value a b c d div 2 ^ (32 - n) = ipv4_value a' b' c' d' div 2 ^ (32 - n)"
proof -
  consider "n \<le> 8" | "8 < n" "n \<le> 16" | "16 < n" "n \<le> 24" | "24 < n" by linarith
  then show ?thesis
  proof cases
    case 1
    then show ?thesis using assms by (simp add: ipv4_high(3) mask_byte_eq mask_byte_all)
  next
    case 2
    then have e: "16 - n = 8 - (n - 8)" by simp
    from 2 assms have "ipv4_value a b c d div 2 ^ (32 - n) = ipv4_value a' b' c' d' div 2 ^ (32 - n)
        \<longleftrightarrow> (a * 256 + b) div 2 ^ (16 - n) = (a' * 256 + b') div 2 ^ (16 - n)"
      by (simp add: ipv4_high(2))
    also have "\<dots> \<longleftrightarrow> a = a' \<and> b div 2 ^ (8 - (n - 8)) = b' div 2 ^ (8 - (n - 8))"
      unfolding e by (rule prefix_low) (use 2 assms in auto)
    finally show ?thesis using 2 assms by (simp add: mask_byte_eq mask_byte_all mask_byte_whole)
  next
    case 3
    then have e: "24 - n = 8 - (n - 16)" by simp
    from 3 assms have "ipv4_value a b c d div 2 ^ (32 - n) = ipv4_value a' b' c' d' div 2 ^ (32 - n)
        \<longleftrightarrow> ((a * 256 + b) * 256 + c) div 2 ^ (24 - n) = ((a' * 256 + b') * 256 + c') div 2 ^ (24 - n)"
      by (simp only: ipv4_high(1))
    also have "\<dots> \<longleftrightarrow> a * 256 + b = a' * 256 + b' \<and> c div 2 ^ (8 - (n - 16)) = c' div 2 ^ (8 - (n - 16))"
      unfolding e by (rule prefix_low) (use 3 assms in auto)
    also have "a * 256 + b = a' * 256 + b' \<longleftrightarrow> a = a' \<and> b = b'" using prefix_low [of b b' 8 a a'] assms by simp
    finally show ?thesis using 3 assms by (simp add: mask_byte_eq mask_byte_all mask_byte_whole)
  next
    case 4
    then have e: "32 - n = 8 - (n - 24)" using assms by simp
    have "ipv4_value a b c d div 2 ^ (32 - n) = ipv4_value a' b' c' d' div 2 ^ (32 - n)
        \<longleftrightarrow> (a * 256 + b) * 256 + c = (a' * 256 + b') * 256 + c' \<and> d div 2 ^ (8 - (n - 24)) = d' div 2 ^ (8 - (n - 24))"
      unfolding e ipv4_value_def by (rule prefix_low) (use 4 assms in auto)
    also have "(a * 256 + b) * 256 + c = (a' * 256 + b') * 256 + c' \<longleftrightarrow> a * 256 + b = a' * 256 + b' \<and> c = c'"
      using prefix_low [of c c' 8 "a * 256 + b" "a' * 256 + b'"] assms by simp
    also have "a * 256 + b = a' * 256 + b' \<longleftrightarrow> a = a' \<and> b = b'" using prefix_low [of b b' 8 a a'] assms by simp
    finally show ?thesis using 4 assms by (simp add: mask_byte_eq mask_byte_whole)
  qed
qed

section \<open>The filter on IPv4\<close>

lemma decimal_small:
  assumes "n \<le> 255"
  shows "decimal n \<noteq> []" "list_all is_digit (decimal n)" "digits_val (decimal n) = n"
  using parse_octet_decimal [OF assms] by (auto simp: parse_octet_def split: if_splits)

lemma decimal_no_slash: "n \<le> 255 \<Longrightarrow> CHR ''/'' \<notin> set (decimal n)"
  using decimal_small(2) by (fastforce simp: list_all_iff is_digit_def)

lemma cut_slash_append: "CHR ''/'' \<notin> set a \<Longrightarrow> cut_slash (a @ CHR ''/'' # m) = Some (a, m)"
  by (auto simp: cut_slash_def takeWhile_append dropWhile_append)

definition cidr_text :: "nat \<times> nat \<times> nat \<times> nat \<times> nat \<Rightarrow> string" where
  "cidr_text e = (case e of (a, b, c, d, n) \<Rightarrow> dotted a b c d @ ''/'' @ decimal n)"

definition cidr_ok :: "nat \<times> nat \<times> nat \<times> nat \<times> nat \<Rightarrow> bool" where
  "cidr_ok e = (case e of (a, b, c, d, n) \<Rightarrow> a \<le> 255 \<and> b \<le> 255 \<and> c \<le> 255 \<and> d \<le> 255 \<and> n \<le> 32)"

definition cidr_net :: "nat \<times> nat \<times> nat \<times> nat \<times> nat \<Rightarrow> ip_net" where
  "cidr_net e = (case e of (a, b, c, d, n) \<Rightarrow> \<lparr>in_IP = mask_bytes n [a, b, c, d], in_Ones = n, in_Bits = 32\<rparr>)"

lemma dotted_chars:
  "a \<le> 255 \<Longrightarrow> b \<le> 255 \<Longrightarrow> c \<le> 255 \<Longrightarrow> d \<le> 255 \<Longrightarrow>
     CHR '':'' \<notin> set (dotted a b c d) \<and> CHR ''/'' \<notin> set (dotted a b c d)"
  using decimal_no_sep decimal_no_slash by (auto simp: dotted_def)

lemma ParseCIDR_dotted: "cidr_ok e \<Longrightarrow> ParseCIDR (with_prefix (cidr_text e)) = Some (cidr_net e)"
proof -
  assume ok: "cidr_ok e"
  obtain a b c d n where e: "e = (a, b, c, d, n)" by (cases e)
  have r: "a \<le> 255" "b \<le> 255" "c \<le> 255" "d \<le> 255" "n \<le> 32" using ok by (simp_all add: cidr_ok_def e)
  have "with_prefix (cidr_text e) = dotted a b c d @ CHR ''/'' # decimal n"
    by (simp add: with_prefix_def containsSlash_def cidr_text_def e)
  moreover have "cut_slash \<dots> = Some (dotted a b c d, decimal n)"
    using dotted_chars r by (intro cut_slash_append) blast
  ultimately show ?thesis
    using r decimal_small [of n] ParseIP_dotted [of a b c d] dotted_chars [of a b c d]
    by (simp add: ParseCIDR_def cidr_net_def e)
qed

lemma mask_bytes_idem [simp]: "mask_bytes n (mask_bytes n bs) = mask_bytes n bs"
  by (induction n bs rule: mask_bytes.induct) (simp_all add: mask_byte_def minus_mod_eq_div_mult)

lemma length_mask_bytes [simp]: "length (mask_bytes n bs) = length bs"
  by (induction n bs rule: mask_bytes.induct) simp_all

lemma cidr_net_Contains:
  assumes "cidr_ok (a, b, c, d, n)" "e \<le> 255" "f \<le> 255" "g \<le> 255" "h \<le> 255"
  shows "net_Contains (cidr_net (a, b, c, d, n)) (replicate 10 0 @ [255, 255, e, f, g, h])
    \<longleftrightarrow> ipv4_value a b c d div 2 ^ (32 - n) = ipv4_value e f g h div 2 ^ (32 - n)"
proof -
  have "net_Contains (cidr_net (a, b, c, d, n)) (replicate 10 0 @ [255, 255, e, f, g, h])
      \<longleftrightarrow> mask_bytes n [a, b, c, d] = mask_bytes n [e, f, g, h]"
    by (simp add: net_Contains_def cidr_net_def del: mask_bytes.simps)
  then show ?thesis using assms by (simp add: cidr_ok_def mask_bytes_ipv4 del: mask_bytes.simps)
qed

text \<open>An entry of the configuration: an IPv4 address with or without the length of a prefix. A bare address is a prefix of 32 bits.\<close>

type_synonym ipv4_entry = "(nat \<times> nat \<times> nat \<times> nat) \<times> nat option"

definition entry_cidr :: "ipv4_entry \<Rightarrow> nat \<times> nat \<times> nat \<times> nat \<times> nat" where
  "entry_cidr en = (case en of ((a, b, c, d), m) \<Rightarrow> (a, b, c, d, case m of None \<Rightarrow> 32 | Some n \<Rightarrow> n))"

definition entry_text :: "ipv4_entry \<Rightarrow> string" where
  "entry_text en = (case en of ((a, b, c, d), m) \<Rightarrow> dotted a b c d @ (case m of None \<Rightarrow> [] | Some n \<Rightarrow> CHR ''/'' # decimal n))"

definition entry_admits :: "ipv4_entry \<Rightarrow> nat \<Rightarrow> bool" where
  "entry_admits en v = (case entry_cidr en of (a, b, c, d, n) \<Rightarrow> ipv4_value a b c d div 2 ^ (32 - n) = v div 2 ^ (32 - n))"

lemma ParseCIDR_entry:
  assumes "cidr_ok (entry_cidr en)"
  shows "ParseCIDR (with_prefix (entry_text en)) = Some (cidr_net (entry_cidr en))"
proof -
  obtain a b c d m where en: "en = ((a, b, c, d), m)" by (metis surj_pair)
  have "with_prefix (entry_text en) = with_prefix (cidr_text (entry_cidr en))"
  proof (cases m)
    case None
    have r: "a \<le> 255" "b \<le> 255" "c \<le> 255" "d \<le> 255" using assms by (simp_all add: cidr_ok_def entry_cidr_def en)
    have "decimal 32 = ''32''" by code_simp
    then show ?thesis
      using None r ParseIP_dotted [OF r] dotted_chars [OF r]
      by (auto simp: with_prefix_def containsSlash_def entry_text_def entry_cidr_def cidr_text_def en list_ex_iff To4_def)
  qed (simp add: entry_text_def entry_cidr_def cidr_text_def en)
  then show ?thesis using assms by (simp add: ParseCIDR_dotted)
qed

text \<open>The entries of a configuration that parse, among texts that do not.\<close>

fun valid_entries :: "(ipv4_entry + string) list \<Rightarrow> ipv4_entry list" where
  "valid_entries [] = []"
| "valid_entries (Inl en # es) = en # valid_entries es"
| "valid_entries (Inr _ # es) = valid_entries es"

definition configured :: "ipv4_entry + string \<Rightarrow> string" where
  "configured = case_sum entry_text id"

definition configured_ok :: "ipv4_entry + string \<Rightarrow> bool" where
  "configured_ok = case_sum (\<lambda>en. cidr_ok (entry_cidr en)) (\<lambda>s. ParseCIDR (with_prefix s) = None)"

lemma parsed_nets_configured:
  "list_all configured_ok es \<Longrightarrow> parsed_nets (map configured es) = map (\<lambda>en. cidr_net (entry_cidr en)) (valid_entries es)"
  by (induction es rule: valid_entries.induct)
    (auto simp: parsed_nets_def List.map_filter_simps configured_def configured_ok_def ParseCIDR_entry)

lemma valid_entries_ok: "list_all configured_ok es \<Longrightarrow> en \<in> set (valid_entries es) \<Longrightarrow> cidr_ok (entry_cidr en)"
  by (induction es rule: valid_entries.induct) (auto simp: configured_ok_def)

text \<open>C25: Whatever a provider's configuration lists - addresses with a prefix, bare addresses, texts that do not parse -
  a webhook from an IPv4 address reaches its handler exactly when no entry parses or the address agrees with one of
  the parsed entries on the bits of its prefix, all 32 for a bare address; otherwise it is answered 403 with no effect.\<close>

theorem WebhookIPAllowlist_ipv4:
  assumes "map_of allowed (ctx_Param ctx ''provider'') = Some (map configured es)" "list_all configured_ok es"
    and "ctx_RealIP ctx = dotted e f g h" "e \<le> 255" "f \<le> 255" "g \<le> 255" "h \<le> 255"
  shows "WebhookIPAllowlist allowed ctx next =
    (if valid_entries es = [] \<or> list_ex (\<lambda>en. entry_admits en (ipv4_value e f g h)) (valid_entries es)
     then next else throw (Forbidden ''source IP not permitted''))"
proof -
  have nets: "nets_of allowed (ctx_Param ctx ''provider'') = map (\<lambda>en. cidr_net (entry_cidr en)) (valid_entries es)"
    using parsed_nets_configured [OF assms(2)] by (simp add: nets_of_def assms(1))
  obtain ip where ip: "ip = replicate 10 0 @ [255, 255, e, f, g, h]" by blast
  have "net_Contains (cidr_net (entry_cidr en)) ip \<longleftrightarrow> entry_admits en (ipv4_value e f g h)"
    if "en \<in> set (valid_entries es)" for en
    using valid_entries_ok [OF assms(2) that] cidr_net_Contains [OF _ assms(4-7)]
    by (cases "entry_cidr en") (simp add: entry_admits_def ip)
  then have "list_ex (\<lambda>n. net_Contains n ip) (map (\<lambda>en. cidr_net (entry_cidr en)) (valid_entries es))
      \<longleftrightarrow> list_ex (\<lambda>en. entry_admits en (ipv4_value e f g h)) (valid_entries es)"
    by (auto simp: list_ex_iff)
  moreover have "ParseIP (ctx_RealIP ctx) = Some ip" unfolding ip assms(3) by (rule ParseIP_dotted) (rule assms)+
  ultimately show ?thesis by (simp add: WebhookIPAllowlist_def nets)
qed

definition sample_webhook_ctx :: "string \<Rightarrow> http_ctx" where
  "sample_webhook_ctx addr =
     \<lparr>ctx_Param = (\<lambda>_. ''midtrans''), ctx_Query = (\<lambda>_. ''''), ctx_Header = [], ctx_Body = Inr '''', ctx_RealIP = addr,
      ctx_TraceID = '''', ctx_MerchantID = None, ctx_AdminID = None\<rparr>"

definition sample_entries :: "(ipv4_entry + string) list" where
  "sample_entries = [Inl ((103, 208, 23, 0), Some 24), Inr ''midtrans'', Inl ((10, 1, 2, 3), None)]"

theorem WebhookIPAllowlist_ipv4_witness:
  "WebhookIPAllowlist [(''midtrans'', map configured sample_entries)] (sample_webhook_ctx (dotted 103 208 23 77))
     (ret (NoContentReply 200)) = ret (NoContentReply 200)
   \<and> WebhookIPAllowlist [(''midtrans'', map configured sample_entries)] (sample_webhook_ctx (dotted 10 1 2 4))
     (ret (NoContentReply 200)) = throw (Forbidden ''source IP not permitted'')"
proof -
  have junk: "ParseCIDR (with_prefix ''midtrans'') = None" by code_simp
  have ok: "list_all configured_ok sample_entries"
    by (simp add: sample_entries_def configured_ok_def junk cidr_ok_def entry_cidr_def)
  show ?thesis
    using WebhookIPAllowlist_ipv4 [of "[(''midtrans'', map configured sample_entries)]"
        "sample_webhook_ctx (dotted 103 208 23 77)" sample_entries 103 208 23 77 "ret (NoContentReply 200)", OF _ ok]
      WebhookIPAllowlist_ipv4 [of "[(''midtrans'', map configured sample_entries)]"
        "sample_webhook_ctx (dotted 10 1 2 4)" sample_entries 10 1 2 4 "ret (NoContentReply 200)", OF _ ok]
    by (simp add: sample_webhook_ctx_def sample_entries_def entry_admits_def entry_cidr_def ipv4_value_def)
qed

text \<open>An allowlist none of whose entries parses admits every source.\<close>

lemma allowlist_typo_opens:
  "map_of allowed (ctx_Param ctx ''provider'') = Some cidrs \<Longrightarrow> parsed_nets cidrs = [] \<Longrightarrow>
   WebhookIPAllowlist allowed ctx next = next"
  by (simp add: WebhookIPAllowlist_def nets_of_def)

end
