(* ===== verification/Routes.thy ===== *)
theory Routes
  imports Handlers AdminHandlers Allowlist Idempotency System
begin

text \<open>
  The mounted API (internal/delivery/http/router.go and server.go): every route with the
  middlewares in front of its handler, and the reply the client gets, errors and panics
  included. A route that binds an input carries what the framework decoded for it.

  The state is the cache of the idempotency middleware and the world. Path matching, CORS, body
  limits, request ids, tracing and access logs belong to the framework and are left out.
\<close>

section \<open>The server\<close>

record server =
  sr_service :: service
  sr_validate :: validate_env
  sr_allowed :: "(string \<times> string list) list"
  sr_idem :: idem_env
  sr_encode :: "envelope \<Rightarrow> string"
  sr_env :: string

text \<open>\<open>Header.Get\<close>: the first value, empty when absent; names compare up to case.\<close>

definition header_get :: "http_ctx \<Rightarrow> string \<Rightarrow> string" where
  "header_get c name =
     (case find (\<lambda>(k, _). ToLower k = ToLower name) (ctx_Header c) of Some (_, v # _) \<Rightarrow> v | _ \<Rightarrow> '''')"

section \<open>Merchant routes\<close>

datatype v1_call =
    V1ListPayments | V1CreateVA "create_va_input res" | V1CreateQRIS "create_qris_input res"
  | V1GetPayment | V1CancelPayment
  | V1ListDisbursements | V1Disburse "disburse_input res" | V1GetDisbursement
  | V1ListMutations | V1GetBalance | V1GetMutation
  | V1GetMerchant | V1Update "update_merchant_input res" | V1RegenerateAPIKey
  | V1ListBankAccounts | V1AddBankAccount "add_bank_account_input res" | V1RemoveBankAccount | V1SetPrimaryBankAccount
  | V1ListWebhookEvents

fun v1_handler :: "server \<Rightarrow> http_ctx \<Rightarrow> v1_call \<Rightarrow> (world, reply) action" where
  "v1_handler sr c V1ListPayments = h_ListPayments c"
| "v1_handler sr c (V1CreateVA i) = h_CreateVA (sr_validate sr) (sv_gateways (sr_service sr)) c i"
| "v1_handler sr c (V1CreateQRIS i) = h_CreateQRIS (sr_validate sr) (sv_gateways (sr_service sr)) c i"
| "v1_handler sr c V1GetPayment = h_GetPayment c"
| "v1_handler sr c V1CancelPayment = h_CancelPayment (sv_gateways (sr_service sr)) c"
| "v1_handler sr c V1ListDisbursements = h_ListDisbursements c"
| "v1_handler sr c (V1Disburse i) = h_Disburse (sr_validate sr) (sv_cashout (sr_service sr)) c i"
| "v1_handler sr c V1GetDisbursement = h_GetDisbursement c"
| "v1_handler sr c V1ListMutations = h_ListMutations c"
| "v1_handler sr c V1GetBalance = h_GetBalance c"
| "v1_handler sr c V1GetMutation = h_GetMutation c"
| "v1_handler sr c V1GetMerchant = h_GetMerchant c"
| "v1_handler sr c (V1Update i) = h_Update (sr_validate sr) c i"
| "v1_handler sr c V1RegenerateAPIKey = h_RegenerateAPIKey (sv_sha256 (sr_service sr)) c"
| "v1_handler sr c V1ListBankAccounts = h_ListBankAccounts c"
| "v1_handler sr c (V1AddBankAccount i) = h_AddBankAccount (sr_validate sr) c i"
| "v1_handler sr c V1RemoveBankAccount = h_RemoveBankAccount c"
| "v1_handler sr c V1SetPrimaryBankAccount = h_SetPrimaryBankAccount c"
| "v1_handler sr c V1ListWebhookEvents = h_ListWebhookEvents c"

text \<open>The three routes mounted with the idempotency middleware.\<close>

fun v1_idempotent :: "v1_call \<Rightarrow> bool" where
  "v1_idempotent (V1CreateVA _) = True"
| "v1_idempotent (V1CreateQRIS _) = True"
| "v1_idempotent (V1Disburse _) = True"
| "v1_idempotent _ = False"

text \<open>A handler as the middlewares see it: the error it returned or the response it wrote.\<close>

definition written :: "(envelope \<Rightarrow> string) \<Rightarrow> (string \<rightharpoonup> string) \<Rightarrow> reply \<Rightarrow> handler_result" where
  "written enc h r =
     (case r of
        JSONReply status en \<Rightarrow> json_blob status h (enc en)
      | NoContentReply status \<Rightarrow> \<lparr>hr_err = None, hr_status = status, hr_headers = h, hr_body = ''''\<rparr>)"

definition run_handler :: "(envelope \<Rightarrow> string) \<Rightarrow> (string \<rightharpoonup> string) \<Rightarrow> (world, reply) action \<Rightarrow> (world, handler_result) action" where
  "run_handler enc h m =
     bind (attempt m) (\<lambda>r.
     ret (case r of
            Inl e \<Rightarrow> \<lparr>hr_err = Some e, hr_status = 200, hr_headers = h, hr_body = ''''\<rparr>
          | Inr reply \<Rightarrow> written enc h reply))"

text \<open>The clocks at which the idempotency middleware reads its cache.\<close>

type_synonym instants = "time \<times> time \<times> time"

definition v1_authed :: "server \<Rightarrow> 'c cache_ops \<Rightarrow> instants \<Rightarrow> (string \<rightharpoonup> string) \<Rightarrow> http_ctx \<Rightarrow> v1_call \<Rightarrow> string \<Rightarrow>
    ('c \<times> world, handler_result) action" where
  "v1_authed sr ops ts h c call merchantID =
     (case ts of (t1, t2, t3) \<Rightarrow>
      let c = c\<lparr>ctx_MerchantID := Some merchantID\<rparr>;
          next = run_handler (sr_encode sr) h (v1_handler sr c call)
      in if v1_idempotent call
         then Idempotency ops (sr_idem sr) t1 t2 t3
                \<lparr>iq_Key = header_get c ''X-Idempotency-Key'', iq_MerchantID = Some merchantID, iq_Headers = h\<rparr> next
         else on_world next)"

definition v1_route :: "server \<Rightarrow> 'c cache_ops \<Rightarrow> instants \<Rightarrow> (string \<rightharpoonup> string) \<Rightarrow> http_ctx \<Rightarrow> v1_call \<Rightarrow>
    ('c \<times> world, handler_result) action" where
  "v1_route sr ops ts h c call =
     bind (on_world (APIKeyAuth (sv_sha256 (sr_service sr)) (header_get c ''X-API-Key''))) (v1_authed sr ops ts h c call)"

section \<open>Webhook routes\<close>

datatype webhook_call = PaymentWebhook | DisbursementWebhook

fun webhook_handler :: "server \<Rightarrow> http_ctx \<Rightarrow> webhook_call \<Rightarrow> (world, reply) action" where
  "webhook_handler sr c PaymentWebhook = h_HandlePaymentWebhook (sv_gateways (sr_service sr)) c"
| "webhook_handler sr c DisbursementWebhook = h_HandleDisbursementWebhook (sv_cashout (sr_service sr)) c"

text \<open>The filter is mounted only when an allowlist is configured.\<close>

definition webhook_route :: "server \<Rightarrow> http_ctx \<Rightarrow> webhook_call \<Rightarrow> (world, reply) action" where
  "webhook_route sr c call =
     (if sr_allowed sr \<noteq> [] then WebhookIPAllowlist (sr_allowed sr) c (webhook_handler sr c call)
      else webhook_handler sr c call)"

section \<open>Admin routes\<close>

datatype admin_call =
    ACLogin "admin_login_input res" | ACRefreshToken "string res" | ACGetMe | ACChangePassword "change_password_body res"
  | ACCreateMerchant "create_merchant_input res" | ACListMerchants | ACGetMerchant | ACApproveMerchant | ACSuspendMerchant
  | ACDeactivateMerchant | ACSetMerchantFee "set_merchant_fee_input res" | ACUpdateCashoutLimit "int64 res"
  | ACRegenerateAPIKey | ACDeleteMerchant | ACListMerchantBankAccounts | ACVerifyBankAccount
  | ACListAllPayments | ACGetPayment | ACListAllDisbursements | ACGetDisbursement | ACListAllMutations
  | ACGetProviderBalances | ACUpdateProviderBalance "int64 res"
  | ACCreateAdmin "create_admin_input res" | ACListAdmins | ACDeactivateAdmin
  | ACGetFeeDefault | ACUpdateFeeDefault "fee_default_body res" | ACGetPlatformMargin | ACUpdatePlatformMargin "margin_body res"
  | ACListHolidays | ACCreateHoliday "fee_holiday res" | ACUpdateHoliday "fee_holiday res"

fun admin_route_of :: "admin_call \<Rightarrow> admin_route" where
  "admin_route_of (ACLogin _) = RouteLogin"
| "admin_route_of (ACRefreshToken _) = RouteRefreshToken"
| "admin_route_of ACGetMe = RouteGetMe"
| "admin_route_of (ACChangePassword _) = RouteChangePassword"
| "admin_route_of (ACCreateMerchant _) = RouteCreateMerchant"
| "admin_route_of ACListMerchants = RouteListMerchants"
| "admin_route_of ACGetMerchant = RouteGetMerchant"
| "admin_route_of ACApproveMerchant = RouteApproveMerchant"
| "admin_route_of ACSuspendMerchant = RouteSuspendMerchant"
| "admin_route_of ACDeactivateMerchant = RouteDeactivateMerchant"
| "admin_route_of (ACSetMerchantFee _) = RouteSetMerchantFee"
| "admin_route_of (ACUpdateCashoutLimit _) = RouteUpdateCashoutLimit"
| "admin_route_of ACRegenerateAPIKey = RouteRegenerateAPIKey"
| "admin_route_of ACDeleteMerchant = RouteDeleteMerchant"
| "admin_route_of ACListMerchantBankAccounts = RouteListMerchantBankAccounts"
| "admin_route_of ACVerifyBankAccount = RouteVerifyBankAccount"
| "admin_route_of ACListAllPayments = RouteListAllPayments"
| "admin_route_of ACGetPayment = RouteGetPayment"
| "admin_route_of ACListAllDisbursements = RouteListAllDisbursements"
| "admin_route_of ACGetDisbursement = RouteGetDisbursement"
| "admin_route_of ACListAllMutations = RouteListAllMutations"
| "admin_route_of ACGetProviderBalances = RouteGetProviderBalances"
| "admin_route_of (ACUpdateProviderBalance _) = RouteUpdateProviderBalance"
| "admin_route_of (ACCreateAdmin _) = RouteCreateAdmin"
| "admin_route_of ACListAdmins = RouteListAdmins"
| "admin_route_of ACDeactivateAdmin = RouteDeactivateAdmin"
| "admin_route_of ACGetFeeDefault = RouteGetFeeDefault"
| "admin_route_of (ACUpdateFeeDefault _) = RouteUpdateFeeDefault"
| "admin_route_of ACGetPlatformMargin = RouteGetPlatformMargin"
| "admin_route_of (ACUpdatePlatformMargin _) = RouteUpdatePlatformMargin"
| "admin_route_of ACListHolidays = RouteListHolidays"
| "admin_route_of (ACCreateHoliday _) = RouteCreateHoliday"
| "admin_route_of (ACUpdateHoliday _) = RouteUpdateHoliday"

fun admin_handler :: "server \<Rightarrow> http_ctx \<Rightarrow> admin_call \<Rightarrow> (world, reply) action" where
  "admin_handler sr c (ACLogin i) = a_Login (sr_validate sr) (sv_admin (sr_service sr)) c i"
| "admin_handler sr c (ACRefreshToken i) = a_RefreshToken (sr_validate sr) (sv_admin (sr_service sr)) c i"
| "admin_handler sr c ACGetMe = a_GetMe c"
| "admin_handler sr c (ACChangePassword i) = a_ChangePassword (sr_validate sr) (sv_admin (sr_service sr)) c i"
| "admin_handler sr c (ACCreateMerchant i) = a_CreateMerchant (sr_validate sr) (sv_sha256 (sr_service sr)) c i"
| "admin_handler sr c ACListMerchants = a_ListMerchants c"
| "admin_handler sr c ACGetMerchant = a_GetMerchant c"
| "admin_handler sr c ACApproveMerchant = a_ApproveMerchant c"
| "admin_handler sr c ACSuspendMerchant = a_SuspendMerchant c"
| "admin_handler sr c ACDeactivateMerchant = a_DeactivateMerchant c"
| "admin_handler sr c (ACSetMerchantFee i) = a_SetMerchantFee (sr_validate sr) c i"
| "admin_handler sr c (ACUpdateCashoutLimit i) = a_UpdateCashoutLimit (sr_validate sr) c i"
| "admin_handler sr c ACRegenerateAPIKey = a_RegenerateAPIKey (sv_sha256 (sr_service sr)) c"
| "admin_handler sr c ACDeleteMerchant = a_DeleteMerchant c"
| "admin_handler sr c ACListMerchantBankAccounts = a_ListMerchantBankAccounts c"
| "admin_handler sr c ACVerifyBankAccount = a_VerifyBankAccount c"
| "admin_handler sr c ACListAllPayments = a_ListAllPayments c"
| "admin_handler sr c ACGetPayment = a_GetPayment c"
| "admin_handler sr c ACListAllDisbursements = a_ListAllDisbursements c"
| "admin_handler sr c ACGetDisbursement = a_GetDisbursement c"
| "admin_handler sr c ACListAllMutations = a_ListAllMutations c"
| "admin_handler sr c ACGetProviderBalances = a_GetProviderBalances c"
| "admin_handler sr c (ACUpdateProviderBalance i) = a_UpdateProviderBalance (sr_validate sr) c i"
| "admin_handler sr c (ACCreateAdmin i) = a_CreateAdmin (sr_validate sr) (sv_admin (sr_service sr)) c i"
| "admin_handler sr c ACListAdmins = a_ListAdmins c"
| "admin_handler sr c ACDeactivateAdmin = a_DeactivateAdmin c"
| "admin_handler sr c ACGetFeeDefault = a_GetFeeDefault c"
| "admin_handler sr c (ACUpdateFeeDefault i) = a_UpdateFeeDefault (sr_validate sr) c i"
| "admin_handler sr c ACGetPlatformMargin = a_GetPlatformMargin c"
| "admin_handler sr c (ACUpdatePlatformMargin i) = a_UpdatePlatformMargin (sr_validate sr) c i"
| "admin_handler sr c ACListHolidays = a_ListHolidays c"
| "admin_handler sr c (ACCreateHoliday i) = a_CreateHoliday c i"
| "admin_handler sr c (ACUpdateHoliday i) = a_UpdateHoliday c i"

definition admin_guarded :: "server \<Rightarrow> http_ctx \<Rightarrow> admin_call \<Rightarrow> (world, reply) action" where
  "admin_guarded sr c call =
     bind now (\<lambda>t.
     let env = sv_admin (sr_service sr) in
     case admin_gate (ae_jwt env) (ac_JWTSecret (ae_cfg env)) t (header_get c ''Authorization'') (admin_route_of call) of
       Inl e \<Rightarrow> throw e
     | Inr None \<Rightarrow> admin_handler sr c call
     | Inr (Some (adminID, _)) \<Rightarrow> admin_handler sr (c\<lparr>ctx_AdminID := Some adminID\<rparr>) call)"

section \<open>The reply to the client\<close>

text \<open>
  The recovery middleware turns a panic into an error, and the error handler an error into a
  reply; neither touches the state beyond reading the clock.
\<close>

fun recovered :: "go_error \<Rightarrow> go_error" where
  "recovered (GoPanic m) = PlainErr m"
| "recovered e = e"

definition error_reply :: "string \<Rightarrow> http_ctx \<Rightarrow> go_error \<Rightarrow> (world, reply) action" where
  "error_reply appEnv c e =
     (case globalErrorHandler appEnv (recovered e) of (status, msg, details) \<Rightarrow> response_Err c status msg details)"

definition finish :: "server \<Rightarrow> (string \<rightharpoonup> string) \<Rightarrow> http_ctx \<Rightarrow> handler_result res \<Rightarrow> (world, handler_result) action" where
  "finish sr h c r =
     (case r of
        Inl e \<Rightarrow> bind (error_reply (sr_env sr) c e) (\<lambda>rep. ret (written (sr_encode sr) h rep))
      | Inr out \<Rightarrow>
          (case hr_err out of
             Some e \<Rightarrow> bind (error_reply (sr_env sr) c e) (\<lambda>rep. ret (written (sr_encode sr) h rep))
           | None \<Rightarrow> ret out))"

datatype http_call = V1 v1_call | Webhook webhook_call | Admin admin_call

definition route :: "server \<Rightarrow> 'c cache_ops \<Rightarrow> instants \<Rightarrow> (string \<rightharpoonup> string) \<Rightarrow> http_ctx \<Rightarrow> http_call \<Rightarrow>
    ('c \<times> world, handler_result) action" where
  "route sr ops ts h c call =
     (case call of
        V1 v \<Rightarrow> v1_route sr ops ts h c v
      | Webhook v \<Rightarrow> on_world (run_handler (sr_encode sr) h (webhook_route sr c v))
      | Admin v \<Rightarrow> on_world (run_handler (sr_encode sr) h (admin_guarded sr c v)))"

definition http_serve :: "server \<Rightarrow> 'c cache_ops \<Rightarrow> instants \<Rightarrow> (string \<rightharpoonup> string) \<Rightarrow> http_ctx \<Rightarrow> http_call \<Rightarrow>
    'c \<times> world \<Rightarrow> handler_result res \<times> ('c \<times> world)" where
  "http_serve sr ops ts h c call s =
     (case route sr ops ts h c call s of (r, s') \<Rightarrow> on_world (finish sr h c r) s')"

section \<open>Routes and histories\<close>

lemma history_trans: "history b c \<Longrightarrow> history a b \<Longrightarrow> history a c"
  by (induction rule: history.induct) (auto intro: history.serve)

interpretation runs: db_effect history
  by unfold_locales (blast intro: history.start history_trans)+

lemma runs_serve: "runs.obeys (serve sv req)"
  by (simp add: runs.obeys_def runs.lifted_def history.serve history.start)

lemma snd_outcome_free: "snd (outcome_free m w) = snd (m w)"
  by (simp add: outcome_free_def bind_def ret_def split: prod.splits sum.splits)

lemma runs_outcome_free: "runs.obeys (outcome_free m) \<Longrightarrow> runs.obeys m"
  by (simp add: runs.obeys_def snd_outcome_free)

text \<open>Every operation that can write is a request.\<close>

lemma runs_merchant_requests:
  fixes sv :: service
  shows "runs.obeys (CreateVA (sv_gateways sv) i)" "runs.obeys (CreateQRIS (sv_gateways sv) j)"
  "runs.obeys (CancelPayment (sv_gateways sv) m n)" "runs.obeys (Disburse (sv_cashout sv) k)"
  "runs.obeys (merchant_UpdateProfile u)" "runs.obeys (merchant_RegenerateAPIKey (sv_sha256 sv) m)"
  "runs.obeys (AddBankAccount a)" "runs.obeys (RemoveBankAccount m n)" "runs.obeys (SetPrimaryBankAccount m n)"
  "runs.obeys (HandleWebhook (sv_gateways sv) pr h b)" "runs.obeys (HandleDisbursementCallback (sv_cashout sv) pr h b)"
  using runs_serve [of sv "ReqCreateVA i"] runs_serve [of sv "ReqCreateQRIS j"] runs_serve [of sv "ReqCancelPayment m n"]
    runs_serve [of sv "ReqDisburse k"] runs_serve [of sv "ReqUpdateProfile u"] runs_serve [of sv "ReqRegenerateAPIKey m"]
    runs_serve [of sv "ReqAddBankAccount a"] runs_serve [of sv "ReqRemoveBankAccount m n"]
    runs_serve [of sv "ReqSetPrimaryBankAccount m n"] runs_serve [of sv "ReqPaymentWebhook pr h b"]
    runs_serve [of sv "ReqDisbursementWebhook pr h b"]
  by (simp_all add: runs_outcome_free)

lemma runs_admin_requests:
  fixes sv :: service
  shows "runs.obeys (admin_Login (sv_admin sv) e p)" "runs.obeys (admin_RefreshToken (sv_admin sv) e)"
  "runs.obeys (admin_ChangePassword (sv_admin sv) m e p)" "runs.obeys (admin_CreateMerchant (sv_sha256 sv) cm)"
  "runs.obeys (admin_ApproveMerchant m)" "runs.obeys (admin_SuspendMerchant m)" "runs.obeys (admin_DeactivateMerchant m)"
  "runs.obeys (admin_DeleteMerchant m)" "runs.obeys (admin_UpdateMerchantFee mf)" "runs.obeys (admin_UpdateDailyCashoutLimit m l)"
  "runs.obeys (admin_RegenerateMerchantAPIKey (sv_sha256 sv) m)" "runs.obeys (admin_VerifyBankAccount m n)"
  "runs.obeys (admin_UpdateProviderBalance pr l)" "runs.obeys (admin_CreateAdmin (sv_admin sv) e p role)"
  "runs.obeys (admin_DeactivateAdmin m n)" "runs.obeys (admin_UpdateFeeDefault m e f)"
  "runs.obeys (admin_UpdatePlatformMargin m e b f)" "runs.obeys (admin_CreateHoliday m h)" "runs.obeys (admin_UpdateHoliday m h)"
  using runs_serve [of sv "ReqLogin e p"] runs_serve [of sv "ReqRefreshToken e"] runs_serve [of sv "ReqChangePassword m e p"]
    runs_serve [of sv "ReqCreateMerchant cm"] runs_serve [of sv "ReqApproveMerchant m"] runs_serve [of sv "ReqSuspendMerchant m"]
    runs_serve [of sv "ReqDeactivateMerchant m"] runs_serve [of sv "ReqDeleteMerchant m"] runs_serve [of sv "ReqSetMerchantFee mf"]
    runs_serve [of sv "ReqCashoutLimit m l"] runs_serve [of sv "ReqRegenerateAPIKey m"] runs_serve [of sv "ReqVerifyBankAccount m n"]
    runs_serve [of sv "ReqProviderBalance pr l"] runs_serve [of sv "ReqCreateAdmin e p role"] runs_serve [of sv "ReqDeactivateAdmin m n"]
    runs_serve [of sv "ReqFeeDefault m e f"] runs_serve [of sv "ReqPlatformMargin m e b f"] runs_serve [of sv "ReqCreateHoliday m h"]
    runs_serve [of sv "ReqUpdateHoliday m h"]
  by (simp_all add: runs_outcome_free admin_RegenerateMerchantAPIKey_def)

text \<open>The other operations only read.\<close>

interpretation same: db_effect "(=)"
  by unfold_locales simp_all

lemma same_runs: "same.obeys m \<Longrightarrow> runs.obeys m"
  by (simp add: same.obeys_def same.lifted_def runs.obeys_def runs.lifted_def history.start)

lemma reads_same: "reads.obeys m \<Longrightarrow> same.obeys m"
  by (simp add: reads.obeys_def same_tables_def same.obeys_def same.lifted_def)

lemma same_reads:
  "same.obeys (GetPayment m n)" "same.obeys (ListPayments li)" "same.obeys (GetDisbursement m n)" "same.obeys (ListDisbursements lx)"
  "same.obeys (usecase_ListMutations fl)" "same.obeys (usecase_GetBalance m)" "same.obeys (usecase_GetMutation m n)"
  "same.obeys (merchant_Get m)" "same.obeys (ListBankAccounts m)" "same.obeys (ListWebhookEvents m pg lm)"
  "same.obeys (APIKeyAuth sha key)"
  unfolding GetPayment_def ListPayments_def GetDisbursement_def ListDisbursements_def usecase_ListMutations_def usecase_GetBalance_def
    usecase_GetMutation_def merchant_Get_def ListBankAccounts_def ListWebhookEvents_def APIKeyAuth_def
    payment_FindByID_def payment_List_def disbursement_FindByID_def disbursement_List_def mutation_List_def mutation_GetBalance_def
    mutation_FindByID_def merchant_FindByID_def merchant_FindByAPIKey_def balance_or_zero_def FindBankAccountsByMerchantID_def
    outbox_ListByMerchant_def Let_def
  by (intro same.db_intros)+

lemma same_admin_reads:
  "same.obeys (admin_ListMerchants lf)" "same.obeys (admin_GetMerchant m)" "same.obeys (admin_ListMerchantBankAccounts m)"
  "same.obeys (admin_ListAllPayments f)" "same.obeys (admin_GetPayment m)" "same.obeys (admin_ListAllDisbursements f)"
  "same.obeys (admin_GetDisbursement m)" "same.obeys (admin_ListAllMutations f)" "same.obeys admin_GetProviderBalances"
  "same.obeys (admin_ListAdmins pg lm)" "same.obeys (admin_GetMe m)" "same.obeys admin_GetFeeDefault"
  "same.obeys admin_GetPlatformMargin" 
  unfolding admin_ListMerchants_def admin_GetMerchant_def admin_ListMerchantBankAccounts_def admin_ListAllPayments_def admin_GetPayment_def
    admin_ListAllDisbursements_def admin_GetDisbursement_def admin_ListAllMutations_def admin_GetProviderBalances_def admin_ListAdmins_def
    admin_GetMe_def admin_GetFeeDefault_def admin_GetPlatformMargin_def merchant_List_def payment_List_def payment_FindByID_def
    disbursement_FindByID_def disbursement_List_def mutation_List_def provider_balance_ListAll_def admin_List_def admin_FindByID_def Let_def
  by (intro same.db_intros same_reads reads_fee_repo [THEN reads_same])+

lemma runs_http: "runs.obeys (get_string v)" "runs.obeys (bind_valid ve rules bound)" "runs.obeys (bound_only bound)"
  "runs.obeys (meta c)" "runs.obeys (response_OK c d)" "runs.obeys (response_Created c d)" "runs.obeys (response_List c d p)"
  "runs.obeys response_NoContent" "runs.obeys (response_Err c st msg ds)" "runs.obeys (page_of x y n l)" "runs.obeys (read_body c)"
  unfolding get_string_def bind_valid_def bound_only_def meta_def response_OK_def response_Created_def response_List_def
    response_NoContent_def response_Err_def page_of_def read_body_def
  by (intro runs.db_intros)+

lemma runs_list_holidays: "runs.obeys (admin_ListHolidays x y)"
  unfolding admin_ListHolidays_def fee_ListHolidays_def toEntityHoliday_def unmarshal_def Let_def
  by (intro runs.db_intros; simp add: runs.obeys_ret runs.obeys_throw split: json_col.split)

lemmas runs_all = runs.db_intros runs_http runs_merchant_requests runs_admin_requests same_reads [THEN same_runs] same_admin_reads [THEN same_runs] runs_list_holidays

lemma runs_v1: "runs.obeys (v1_handler sr c call)"
  by (cases call;
      simp only: v1_handler.simps h_ListPayments_def h_CreateVA_def h_CreateQRIS_def h_GetPayment_def h_CancelPayment_def
        h_ListDisbursements_def h_Disburse_def h_GetDisbursement_def h_ListMutations_def h_GetBalance_def h_GetMutation_def
        h_GetMerchant_def h_Update_def h_RegenerateAPIKey_def h_ListBankAccounts_def h_AddBankAccount_def
        h_RemoveBankAccount_def h_SetPrimaryBankAccount_def h_ListWebhookEvents_def Let_def;
      intro runs_all)

lemma runs_webhook: "runs.obeys (webhook_route sr c call)"
proof -
  have "runs.obeys (webhook_handler sr c call)"
    by (cases call; simp only: webhook_handler.simps h_HandlePaymentWebhook_def h_HandleDisbursementWebhook_def Let_def;
        intro runs_all)
  then show ?thesis
    by (simp add: webhook_route_def WebhookIPAllowlist_def Let_def runs.obeys_throw split: option.split)
qed

lemma runs_admin: "runs.obeys (admin_handler sr c call)"
  by (cases call;
      simp only: admin_handler.simps a_Login_def a_RefreshToken_def a_GetMe_def a_ChangePassword_def a_CreateMerchant_def
        a_ListMerchants_def a_GetMerchant_def a_ApproveMerchant_def a_SuspendMerchant_def a_DeactivateMerchant_def
        a_SetMerchantFee_def a_UpdateCashoutLimit_def a_RegenerateAPIKey_def a_DeleteMerchant_def a_ListMerchantBankAccounts_def
        a_VerifyBankAccount_def a_ListAllPayments_def a_GetPayment_def a_ListAllDisbursements_def a_GetDisbursement_def
        a_ListAllMutations_def a_GetProviderBalances_def a_UpdateProviderBalance_def a_CreateAdmin_def a_ListAdmins_def
        a_DeactivateAdmin_def a_GetFeeDefault_def a_UpdateFeeDefault_def a_GetPlatformMargin_def a_UpdatePlatformMargin_def
        a_ListHolidays_def a_CreateHoliday_def a_UpdateHoliday_def;
      intro runs_all)

lemma runs_admin_guarded: "runs.obeys (admin_guarded sr c call)"
  unfolding admin_guarded_def Let_def
  by (intro runs_all runs_admin)

interpretation served: effect_order "\<lambda>s t. history (w_db (snd s)) (w_db (snd t))"
  by unfold_locales (blast intro: history.start history_trans)+

lemma served_on_world: "runs.obeys m \<Longrightarrow> served.obeys (on_world m)"
  by (auto simp: runs.obeys_def runs.lifted_def served.obeys_def on_world_def split: prod.splits) (metis snd_conv)

lemma served_on_cache: "served.obeys (on_cache m)"
  by (auto simp: served.obeys_def on_cache_def history.start split: prod.splits)

lemma runs_run_handler: "runs.obeys m \<Longrightarrow> runs.obeys (run_handler enc h m)"
  unfolding run_handler_def by (intro runs.obeys_intros)

lemma served_Idempotency: "runs.obeys next \<Longrightarrow> served.obeys (Idempotency ops env t1 t2 t3 req next)"
  unfolding Idempotency_def
  by (intro served.obeys_bind served_on_cache)
    (auto split: idem_outcome.split option.split intro!: served.obeys_intros served_on_world served_on_cache)

lemma served_route: "served.obeys (route sr ops ts h c call)"
  unfolding route_def v1_route_def v1_authed_def Let_def
  by (cases call; cases ts)
    (auto intro!: served.obeys_intros served_on_world served_Idempotency runs_run_handler runs_v1 runs_webhook runs_admin_guarded same_reads [THEN same_runs])

lemma runs_finish: "runs.obeys (finish sr h c r)"
  unfolding finish_def error_reply_def by (intro runs_all)


end
