(* ===== verification/Tenancy.thy ===== *)
theory Tenancy
  imports Routes
begin

text \<open>
  Tenant isolation of the merchant API: a request authenticated as one merchant reads and
  writes nothing that belongs to another.
\<close>

section \<open>What belongs to a merchant\<close>

definition foreign :: "('r \<Rightarrow> string) \<Rightarrow> string \<Rightarrow> 'r list \<Rightarrow> 'r list" where
  "foreign owner m rows = filter (\<lambda>r. owner r \<noteq> m) rows"

text \<open>The rows of other merchants, and the tables of the back office, are as they were.\<close>

definition others_kept :: "string \<Rightarrow> database \<Rightarrow> database \<Rightarrow> bool" where
  "others_kept m a b \<longleftrightarrow>
     foreign p_MerchantID m (db_payments b) = foreign p_MerchantID m (db_payments a)
     \<and> foreign d_MerchantID m (db_disbursements b) = foreign d_MerchantID m (db_disbursements a)
     \<and> foreign ba_MerchantID m (db_bank_accounts b) = foreign ba_MerchantID m (db_bank_accounts a)
     \<and> foreign m_ID m (db_merchants b) = foreign m_ID m (db_merchants a)
     \<and> db_mutations b = db_mutations a \<and> db_outbox b = db_outbox a \<and> db_admins b = db_admins a
     \<and> db_provider_balances b = db_provider_balances a \<and> db_fee_defaults b = db_fee_defaults a
     \<and> db_platform_margin b = db_platform_margin a \<and> db_fee_holidays b = db_fee_holidays a
     \<and> db_fee_audit_logs b = db_fee_audit_logs a"

interpretation mine: db_effect "others_kept m" for m
  by unfold_locales (simp_all add: others_kept_def)

lemma same_mine: "same.obeys a \<Longrightarrow> mine.obeys m a"
  by (simp add: same.obeys_def same.lifted_def mine.obeys_def mine.lifted_def others_kept_def)

text \<open>The data of a reply belongs to a merchant: every row it shows is that merchant's.\<close>

definition own_payment :: "database \<Rightarrow> string \<Rightarrow> payment_output \<Rightarrow> bool" where
  "own_payment db m out \<longleftrightarrow> (\<exists>p \<in> set (db_payments db). p_MerchantID p = m \<and> out = toPaymentOutput p)"

definition own_disbursement :: "database \<Rightarrow> string \<Rightarrow> disbursement_output \<Rightarrow> bool" where
  "own_disbursement db m out \<longleftrightarrow> (\<exists>d \<in> set (db_disbursements db). d_MerchantID d = m \<and> out = toDisbursementOutput d)"

definition own_mutation :: "database \<Rightarrow> string \<Rightarrow> mutation_output \<Rightarrow> bool" where
  "own_mutation db m out \<longleftrightarrow> (\<exists>mu \<in> set (db_mutations db). mu_MerchantID mu = m \<and> out = toMutationOutput mu)"

definition own_account :: "database \<Rightarrow> string \<Rightarrow> bank_account_output \<Rightarrow> bool" where
  "own_account db m out \<longleftrightarrow> (\<exists>a \<in> set (db_bank_accounts db). ba_MerchantID a = m \<and> out = toBankAccountOutput a)"

definition own_event :: "database \<Rightarrow> string \<Rightarrow> webhook_event_output \<Rightarrow> bool" where
  "own_event db m out \<longleftrightarrow> (\<exists>e \<in> set (db_outbox db). ob_MerchantID e = Some m \<and> wo_ID out = ob_ID e)"

fun own_data :: "database \<Rightarrow> string \<Rightarrow> data \<Rightarrow> bool" where
  "own_data db m (DPayment out) = own_payment db m out"
| "own_data db m (DPaymentPage pg) = list_all (own_payment db m) (pl_Items pg)"
| "own_data db m (DDisbursement out) = own_disbursement db m out"
| "own_data db m (DDisbursementPage pg) = list_all (own_disbursement db m) (dl_Items pg)"
| "own_data db m (DMutation out) = own_mutation db m out"
| "own_data db m (DMutations outs) = list_all (own_mutation db m) outs"
| "own_data db m (DMerchant out) = (mp_ID out = m)"
| "own_data db m (DBankAccount out) = own_account db m out"
| "own_data db m (DBankAccounts outs) = list_all (own_account db m) outs"
| "own_data db m (DWebhookEvents outs) = list_all (own_event db m) outs"
| "own_data db m (DInt _ n) = (n = balance_of db m)"
| "own_data db m (DString _ _) = True"
| "own_data db m _ = False"

definition own_reply :: "database \<Rightarrow> string \<Rightarrow> reply \<Rightarrow> bool" where
  "own_reply db m rep \<longleftrightarrow>
     (case rep of JSONReply _ en \<Rightarrow> (case en_Data en of Some d \<Rightarrow> own_data db m d | None \<Rightarrow> True) | NoContentReply _ \<Rightarrow> True)"

text \<open>\<open>isolated m act w\<close>: from \<open>w\<close>, \<open>act\<close> stays within the merchant's own rows.\<close>

definition isolated :: "string \<Rightarrow> (world, reply) action \<Rightarrow> world \<Rightarrow> bool" where
  "isolated m act w \<longleftrightarrow>
     wp act (\<lambda>rep w'. others_kept m (w_db w) (w_db w') \<and> own_reply (w_db w') m rep) (\<lambda>_ w'. others_kept m (w_db w) (w_db w')) w"

section \<open>Replies\<close>

lemma own_reply_JSON [simp]:
  "own_reply db m (JSONReply st \<lparr>en_Success = ok, en_Data = Some d, en_Error = e, en_Meta = mt\<rparr>) = own_data db m d"
  "own_reply db m (NoContentReply st)"
  by (simp_all add: own_reply_def)

lemma sql_page_subset: "sql_page p l rows = Inr out \<Longrightarrow> set out \<subseteq> set rows"
  by (auto simp: sql_page_def limit_offset_def split: if_splits dest: in_set_takeD in_set_dropD)

lemma others_kept_refl [simp]: "others_kept m db db"
  by (simp add: others_kept_def)

section \<open>Reading\<close>

lemma isolated_reads:
  assumes "ctx_MerchantID c = Some m"
  shows "isolated m (h_GetPayment c) w" "isolated m (h_GetDisbursement c) w" "isolated m (h_GetMutation c) w"
    "isolated m (h_GetBalance c) w" "isolated m (h_GetMerchant c) w"
  unfolding isolated_def h_GetPayment_def h_GetDisbursement_def h_GetMutation_def h_GetBalance_def h_GetMerchant_def
    GetPayment_def GetDisbursement_def usecase_GetMutation_def usecase_GetBalance_def merchant_Get_def
    payment_FindByID_def disbursement_FindByID_def mutation_FindByID_def mutation_GetBalance_def merchant_FindByID_def
    balance_or_zero_def assms wp_simps wp_get_string wp_query uuid_param_def bigint_def
  by (auto simp: own_payment_def own_disbursement_def own_mutation_def toMerchantOutput_def live_def
      dest!: find_Some_in split: option.split sum.split)

text \<open>The two queries of a paginated listing, over any table, owner and filter.\<close>

lemma wp_page_query:
  assumes "\<And>rows w'. w_db w' = w_db w \<Longrightarrow> set rows \<subseteq> {r \<in> set (tbl (w_db w)). P r} \<Longrightarrow> Q rows w'"
    and "\<And>e w'. w_db w' = w_db w \<Longrightarrow> E e w'"
  shows "wp (query (\<lambda>w. optional_uuid w i (sql_page p l (order_desc key (filter P (tbl (w_db w))))))) Q E w"
  using assms by (auto simp: wp_query optional_uuid_def uuid_param_def order_desc_def split: sum.split
      dest!: sql_page_subset)

lemma wp_count_query:
  assumes "\<And>n w'. w_db w' = w_db w \<Longrightarrow> Q n w'" and "\<And>e w'. w_db w' = w_db w \<Longrightarrow> E e w'"
  shows "wp (query f) Q E w"
  using assms by (auto simp: wp_query split: sum.split)

lemma wp_payment_List:
  assumes Q: "\<And>rows n w'. w_db w' = w_db w \<Longrightarrow> set rows \<subseteq> {p \<in> set (db_payments (w_db w)). payment_matches f p} \<Longrightarrow> Q (rows, n) w'"
    and E: "\<And>e w'. w_db w' = w_db w \<Longrightarrow> E e w'"
  shows "wp (payment_List f) Q E w"
  unfolding payment_List_def wp_bind wp_wrap
  by (rule wp_count_query; cases "normalizePage (lp_Page f) (lp_Limit f)")
    (auto simp: wp_if wp_case_prod wp_bind wp_wrap wp_ret wp_ret_eta intro!: wp_page_query [where tbl = db_payments] Q E)

lemma wp_disbursement_List:
  assumes Q: "\<And>rows n w'. w_db w' = w_db w \<Longrightarrow> set rows \<subseteq> {d \<in> set (db_disbursements (w_db w)). disbursement_matches f d} \<Longrightarrow> Q (rows, n) w'"
    and E: "\<And>e w'. w_db w' = w_db w \<Longrightarrow> E e w'"
  shows "wp (disbursement_List f) Q E w"
  unfolding disbursement_List_def wp_bind wp_wrap
  by (rule wp_count_query; cases "normalizePage (ld_Page f) (ld_Limit f)")
    (auto simp: wp_if wp_case_prod wp_bind wp_wrap wp_ret wp_ret_eta intro!: wp_page_query [where tbl = db_disbursements] Q E)

lemma wp_mutation_List:
  assumes Q: "\<And>rows n w'. w_db w' = w_db w \<Longrightarrow> set rows \<subseteq> {mu \<in> set (db_mutations (w_db w)). mutation_matches f mu} \<Longrightarrow> Q (rows, n) w'"
    and E: "\<And>e w'. w_db w' = w_db w \<Longrightarrow> E e w'"
  shows "wp (mutation_List f) Q E w"
  unfolding mutation_List_def wp_bind wp_wrap
  by (rule wp_count_query; cases "normalizePage (lm_Page f) (lm_Limit f)")
    (auto simp: wp_if wp_case_prod wp_bind wp_wrap wp_ret wp_ret_eta intro!: wp_page_query [where tbl = db_mutations] Q E)

lemma isolated_lists:
  assumes "ctx_MerchantID c = Some m" "m \<noteq> ''''"
  shows "isolated m (h_ListPayments c) w" "isolated m (h_ListDisbursements c) w" "isolated m (h_ListMutations c) w"
proof -
  show "isolated m (h_ListPayments c) w"
    unfolding isolated_def h_ListPayments_def ListPayments_def Let_def assms(1) wp_bind wp_get_string wp_response wp_case_prod wp_ret
    by (rule wp_payment_List)
      (use assms(2) in \<open>auto simp: own_payment_def payment_matches_def list_all_iff\<close>)
  show "isolated m (h_ListDisbursements c) w"
    unfolding isolated_def h_ListDisbursements_def ListDisbursements_def Let_def assms(1) wp_bind wp_get_string wp_response wp_case_prod wp_ret
    by (rule wp_disbursement_List)
      (use assms(2) in \<open>auto simp: own_disbursement_def disbursement_matches_def list_all_iff\<close>)
  show "isolated m (h_ListMutations c) w"
    unfolding isolated_def h_ListMutations_def usecase_ListMutations_def Let_def assms(1) wp_bind wp_get_string wp_response wp_case_prod
      wp_ret wp_if wp_throw wp_wrap wp_page_of
    by (rule if_both, simp, rule wp_mutation_List)
      (use assms(2) in \<open>auto simp: own_mutation_def mutation_matches_def list_all_iff\<close>)
qed

lemma isolated_ListBankAccounts: "ctx_MerchantID c = Some m \<Longrightarrow> isolated m (h_ListBankAccounts c) w"
  unfolding isolated_def h_ListBankAccounts_def ListBankAccounts_def FindBankAccountsByMerchantID_def
  by (auto simp: wp_simps wp_get_string wp_query uuid_param_def own_account_def list_all_iff split: sum.split)

lemma wp_outbox_ListByMerchant:
  assumes Q: "\<And>rows n w'. w_db w' = w_db w \<Longrightarrow> set rows \<subseteq> {e \<in> set (db_outbox (w_db w)). ob_MerchantID e = Some m} \<Longrightarrow> Q (rows, n) w'"
    and E: "\<And>e w'. w_db w' = w_db w \<Longrightarrow> E e w'"
  shows "wp (outbox_ListByMerchant m x y) Q E w"
  unfolding outbox_ListByMerchant_def wp_bind wp_gets wp_if wp_throw Let_def wp_wrap
  apply (intro if_both E refl)
  apply (rule wp_count_query)
   apply (auto simp: wp_ret wp_ret_eta Q E intro!: wp_page_query [where i = "''''" and tbl = db_outbox, simplified optional_uuid_def if_True simp_thms])
  done

lemma isolated_ListWebhookEvents: "ctx_MerchantID c = Some m \<Longrightarrow> isolated m (h_ListWebhookEvents c) w"
  unfolding isolated_def h_ListWebhookEvents_def ListWebhookEvents_def Let_def wp_bind wp_case_prod wp_ret
  by (auto simp: wp_get_string wp_page_of wp_bind own_event_def list_all_iff intro!: wp_outbox_ListByMerchant; blast)

section \<open>Writing\<close>

text \<open>Rows added for the merchant, and updates of its own rows.\<close>

lemma foreign_append [simp]: "foreign owner m (rows @ rows') = foreign owner m rows @ foreign owner m rows'"
  by (simp add: foreign_def)

lemma foreign_own [simp]: "owner r = m \<Longrightarrow> foreign owner m [r] = []"
  by (simp add: foreign_def)

lemma foreign_update_where:
  "(\<And>r. r \<in> set rows \<Longrightarrow> P r \<Longrightarrow> owner r = m \<and> owner (f r) = m) \<Longrightarrow> foreign owner m (update_where P f rows) = foreign owner m rows"
  by (induction rows) (auto simp: foreign_def update_where_def)

lemma foreign_filter:
  "(\<And>r. r \<in> set rows \<Longrightarrow> \<not> P r \<Longrightarrow> owner r = m) \<Longrightarrow> foreign owner m (filter P rows) = foreign owner m rows"
  by (induction rows) (auto simp: foreign_def)

lemma created_isolated:
  "created i p db db' \<Longrightarrow> p_MerchantID p = m \<Longrightarrow> others_kept m db db' \<and> own_payment db' m (toPaymentOutput p)"
  by (auto simp: created_def others_kept_def own_payment_def)

lemma isolated_creation:
  assumes "ctx_MerchantID c = Some m"
  shows "isolated m (h_CreateVA ve gws c va) w" "isolated m (h_CreateQRIS ve gws c qr) w"
proof -
  have "wp (CreateVA gws (i\<lparr>cv_MerchantID := m\<rparr>)) (\<lambda>out w'. others_kept m (w_db w) (w_db w') \<and> own_payment (w_db w') m out)
      (\<lambda>_ w'. others_kept m (w_db w) (w_db w')) w" for i
    by (rule wp_mono [OF CreateVA_spec]) (auto simp: va_done_def new_payment_def dest!: created_isolated)
  then show "isolated m (h_CreateVA ve gws c va) w"
    by (simp add: isolated_def h_CreateVA_def wp_bind wp_bind_valid assms wp_get_string split: sum.split)
  have "wp (CreateQRIS gws (i\<lparr>cq_MerchantID := m\<rparr>)) (\<lambda>out w'. others_kept m (w_db w) (w_db w') \<and> own_payment (w_db w') m out)
      (\<lambda>_ w'. others_kept m (w_db w) (w_db w')) w" for i
    by (rule wp_mono [OF CreateQRIS_spec]) (auto simp: qris_done_def new_payment_def dest!: created_isolated)
  then show "isolated m (h_CreateQRIS ve gws c qr) w"
    by (simp add: isolated_def h_CreateQRIS_def wp_bind wp_bind_valid assms wp_get_string split: sum.split)
qed

lemma disbursing_merchant: "disbursing gws i w answer d mid \<Longrightarrow> d_MerchantID d = di_MerchantID i"
proof -
  assume "disbursing gws i w answer d mid"
  then obtain account fee where "reserved i account fee (w_now w) d (w_db w) mid" by (auto simp: disbursing_def)
  then have "d_MerchantID d = d_MerchantID ((reserved_disbursement i account fee)\<lparr>d_ID := d_ID d, d_CreatedAt := w_now w, d_UpdatedAt := w_now w\<rparr>)"
    unfolding reserved_def by metis
  then show ?thesis by (simp add: reserved_disbursement_def)
qed

lemma with_disbursement_isolated:
  "d_MerchantID d = m \<Longrightarrow> others_kept m db (with_disbursement d db) \<and> own_disbursement (with_disbursement d db) m (toDisbursementOutput d)"
  by (auto simp: others_kept_def with_disbursement_def own_disbursement_def)

lemma with_outcome_simps [simp]:
  "d_MerchantID (with_outcome_of x t d) = d_MerchantID d"
  "toDisbursementOutput (with_outcome_of (accepted d resp) t d) = toDisbursementOutput (accepted d resp)"
  by (simp_all add: with_outcome_of_def toDisbursementOutput_def accepted_def)

lemma isolated_Disburse:
  assumes "ctx_MerchantID c = Some m"
  shows "isolated m (h_Disburse ve gws c i) w"
proof -
  have "wp (Disburse gws (j\<lparr>di_MerchantID := m\<rparr>)) (\<lambda>out w'. others_kept m (w_db w) (w_db w') \<and> own_disbursement (w_db w') m out)
      (\<lambda>_ w'. others_kept m (w_db w) (w_db w')) w" for j
  proof (rule wp_mono [OF Disburse_spec], goal_cases)
    case (1 out w')
    then obtain resp d mid where "disbursing gws (j\<lparr>di_MerchantID := m\<rparr>) w (Inr resp) d mid"
      "w_db w' = with_disbursement (with_outcome_of (accepted d resp) (w_now w) d) (w_db w)" "out = toDisbursementOutput (accepted d resp)"
      by (auto simp: disburse_done_def)
    then show ?case
      using with_disbursement_isolated [of "with_outcome_of (accepted d resp) (w_now w) d" m "w_db w"] disbursing_merchant by fastforce
  next
    case (2 e w')
    then show ?case
      by (auto simp: disburse_failed_def dest!: disbursing_merchant intro!: with_disbursement_isolated [THEN conjunct1])
  qed
  then show ?thesis
    by (simp add: isolated_def h_Disburse_def wp_bind wp_bind_valid assms wp_get_string split: sum.split)
qed

text \<open>Cancellation: every row with the payment's id is the merchant's, before and after each step.\<close>

definition mine_by_id :: "database \<Rightarrow> string \<Rightarrow> string \<Rightarrow> bool" where
  "mine_by_id db i m \<longleftrightarrow> (\<forall>r \<in> set (db_payments db). p_ID r = i \<longrightarrow> p_MerchantID r = m)"

lemma mine_by_id_found:
  assumes "schema_ok db" "find (\<lambda>p. p_ID p = i) (db_payments db) = Some p"
  shows "mine_by_id db i (p_MerchantID p)"
  using find_Some_unique [OF schema_distinct(1) [OF assms(1)] assms(2)] by (auto simp: mine_by_id_def)

lemma moved_isolated:
  assumes "moved p ev old actor t db db'" "mine_by_id db (p_ID p) m"
  shows "others_kept m db db' \<and> mine_by_id db' (p_ID p) m"
proof -
  have "foreign p_MerchantID m (update_where (\<lambda>r. p_ID r = p_ID p) (with_status_of p t) (db_payments db)) = foreign p_MerchantID m (db_payments db)"
    using assms(2) by (intro foreign_update_where) (auto simp: mine_by_id_def)
  then show ?thesis
    using assms by (auto simp: moved_def set_status_def others_kept_def mine_by_id_def dest!: in_update_where)
qed

lemma cancel_started_isolated:
  assumes "cancel_started m i p t db mid" "schema_ok db"
  shows "others_kept m db mid" "mine_by_id mid (p_ID p) m"
proof -
  have f: "find (\<lambda>p. p_ID p = i) (db_payments db) = Some p" "p_MerchantID p = m"
    using assms(1) by (simp_all add: cancel_started_def)
  then have "p_ID p = i" using find_Some_in [OF f(1)] by simp
  then have "mine_by_id db (p_ID (cancelling p)) m" using mine_by_id_found [OF assms(2) f(1)] f(2) by simp
  then show "others_kept m db mid" "mine_by_id mid (p_ID p) m"
    using assms(1) moved_isolated by (fastforce simp: cancel_started_def)+
qed

lemma isolated_CancelPayment:
  assumes "ctx_MerchantID c = Some m" "schema_ok (w_db w)"
  shows "isolated m (h_CancelPayment gws c) w"
proof -
  have "wp (CancelPayment gws m i) (\<lambda>_ w'. others_kept m (w_db w) (w_db w')) (\<lambda>_ w'. others_kept m (w_db w) (w_db w')) w" for i
  proof (rule wp_mono [OF CancelPayment_spec], goal_cases)
    case (1 u w')
    then obtain p mid and gw :: payment_gateway where s: "cancel_started m i p (w_now w) (w_db w) mid"
      "cancel_moved m (cancelling p) (pg_CancelPayment gw (cancel_id (cancelling p))) (w_now w) mid (w_db w')"
      unfolding cancel_completed_def by blast
    have "p_ID (cancel_result (cancelling p) r t) = p_ID p" for r t by (simp add: cancel_result_def split: sum.split)
    then have "others_kept m mid (w_db w')"
      using moved_isolated [OF s(2) [unfolded cancel_moved_def]] cancel_started_isolated(2) [OF s(1) assms(2)] by simp
    then show ?case using cancel_started_isolated(1) [OF s(1) assms(2)] by (rule mine.S_trans [rotated])
  next
    case (2 e w')
    then show ?case using cancel_started_isolated(1) assms(2) by fastforce
  qed
  then show ?thesis by (simp add: isolated_def h_CancelPayment_def assms(1) wp_bind wp_get_string wp_ret wp_ret_eta)
qed

text \<open>The profile, the key and the bank accounts.\<close>

lemma mine_merchant_Update: "m_ID u = m \<Longrightarrow> mine.obeys m (merchant_Update u)"
  unfolding merchant_Update_def
  by (intro mine.db_intros mine.obeys_exec)
    (auto simp: others_kept_def uuid_param_def split: if_splits sum.splits intro!: foreign_update_where)

lemma mine_accounts:
  "mine.obeys m (UnsetPrimaryBankAccounts m)" "ba_MerchantID a = m \<Longrightarrow> mine.obeys m (SaveBankAccount a)"
  unfolding UnsetPrimaryBankAccounts_def SaveBankAccount_def
  by (intro mine.db_intros mine.obeys_exec;
      auto simp: others_kept_def uuid_param_def Let_def insert_bank_account_def split: if_splits sum.splits intro!: foreign_update_where)+

lemma wp_mine:
  "mine.obeys m a \<Longrightarrow> wp a (\<lambda>_ w'. others_kept m (w_db w) (w_db w')) (\<lambda>_ w'. others_kept m (w_db w) (w_db w')) w"
  by (simp add: mine.obeys_wp)

lemma wp_mine_out:
  assumes "mine.obeys m a" "wp a (\<lambda>out w'. P out (w_db w')) (\<lambda>_ _. True) w"
  shows "wp a (\<lambda>out w'. others_kept m (w_db w) (w_db w') \<and> P out (w_db w')) (\<lambda>_ w'. others_kept m (w_db w) (w_db w')) w"
  using wp_mine [OF assms(1), of w] assms(2) by (auto simp: wp_def split: prod.splits sum.splits)

lemma wp_any: "(\<And>x w'. Q x w') \<Longrightarrow> (\<And>e w'. E e w') \<Longrightarrow> wp a Q E w"
  by (simp add: wp_def split: prod.splits sum.splits)

lemma wp_merchant_Update_ID:
  "(\<And>u' w'. m_ID u' = m_ID u \<Longrightarrow> Q u' w') \<Longrightarrow> (\<And>e w'. E e w') \<Longrightarrow> wp (merchant_Update u) Q E w"
  by (auto simp: merchant_Update_def one_row_def wp_simps wp_exec split: sum.splits option.splits)

lemma same_balance: "same.obeys (balance_or_zero i)" "same.obeys (merchant_FindByID i)" "same.obeys (FindBankAccountByID i)"
  unfolding balance_or_zero_def mutation_GetBalance_def merchant_FindByID_def FindBankAccountByID_def by (intro same.db_intros)+

text \<open>An action that starts with a look-up stays within the merchant's rows if it does for what the look-up finds.\<close>

lemma mine_after_find:
  assumes "\<And>u. m_ID u = i \<Longrightarrow> mine.obeys m (f u)"
  shows "mine.obeys m (bind (merchant_FindByID i) f)"
proof -
  have "wp (bind (merchant_FindByID i) f) (\<lambda>_ w'. others_kept m (w_db w) (w_db w')) (\<lambda>_ w'. others_kept m (w_db w) (w_db w')) w" for w
    unfolding wp_bind
  proof (rule wp_merchant_FindByID, goal_cases)
    case (1 u w')
    then have "m_ID u = i" "w_db w' = w_db w" by (auto dest: find_Some_in)
    then show ?case using wp_mine [OF assms, of u w'] by simp
  qed simp
  then show ?thesis by (simp add: mine.obeys_wp)
qed

lemma isolated_profile:
  assumes "ctx_MerchantID c = Some m"
  shows "isolated m (h_Update ve c u) w" "isolated m (h_RegenerateAPIKey sha c) w"
proof -
  have mine: "mine.obeys m (merchant_UpdateProfile (j\<lparr>um_MerchantID := m\<rparr>))" for j
    unfolding merchant_UpdateProfile_def
    by (rule mine_after_find, simp)
      (auto simp: Let_def intro!: mine.obeys_bind mine.obeys_wrap mine_merchant_Update mine.obeys_ret same_balance [THEN same_mine])
  have "wp (merchant_UpdateProfile (j\<lparr>um_MerchantID := m\<rparr>)) (\<lambda>out _. mp_ID out = m) (\<lambda>_ _. True) w" for j
    unfolding merchant_UpdateProfile_def wp_bind Let_def
  proof (rule wp_merchant_FindByID, goal_cases)
    case (1 me w')
    then have "m_ID me = m" by (auto dest: find_Some_in)
    then show ?case
      unfolding wp_wrap wp_ret_eta
      by (intro wp_merchant_Update_ID wp_any) (simp_all add: toMerchantOutput_def if_distrib [of m_ID])
  qed simp
  with mine show "isolated m (h_Update ve c u) w"
    by (simp add: isolated_def h_Update_def wp_bind wp_bind_valid assms wp_get_string wp_mine_out [where P = "\<lambda>out _. mp_ID out = m"] split: sum.split)
  have "mine.obeys m (merchant_RegenerateAPIKey sha m)"
    unfolding merchant_RegenerateAPIKey_def generateAPIKey_def Let_def
    by (rule mine_after_find, simp)
      (auto intro!: mine.db_intros mine_merchant_Update)
  then show "isolated m (h_RegenerateAPIKey sha c) w"
    by (simp add: isolated_def h_RegenerateAPIKey_def wp_bind assms wp_get_string wp_mine)
qed

lemma mine_AddBankAccount: "mine.obeys m (AddBankAccount (j\<lparr>ab_MerchantID := m\<rparr>))"
  unfolding AddBankAccount_def CountBankAccounts_def
  by (intro mine.db_intros mine.obeys_RunInTx; simp add: mine_accounts)

lemma isolated_AddBankAccount:
  assumes "ctx_MerchantID c = Some m"
  shows "isolated m (h_AddBankAccount ve c i) w"
proof -
  have "wp (AddBankAccount (j\<lparr>ab_MerchantID := m\<rparr>)) (\<lambda>out w'. own_account (w_db w') m out) (\<lambda>_ _. True) w" for j
    by (auto simp: AddBankAccount_def wp_simps wp_RunInTx CountBankAccounts_def UnsetPrimaryBankAccounts_def
        SaveBankAccount_def wp_query wp_exec uuid_param_def insert_bank_account_def Let_def own_account_def toBankAccountOutput_def
        split: sum.splits prod.splits)
  then show ?thesis
    by (simp add: isolated_def h_AddBankAccount_def wp_bind wp_bind_valid assms wp_get_string mine_AddBankAccount
        wp_mine_out [where P = "\<lambda>out db. own_account db m out"] split: sum.split)
qed

lemma account_ids:
  assumes "schema_ok db" "a \<in> set (db_bank_accounts db)" "b \<in> set (db_bank_accounts db)" "ba_ID b = ba_ID a"
  shows "b = a"
proof -
  have "distinct (map ba_ID (db_bank_accounts db))"
    using assms(1) by (intro unique_rows_distinct [where C = bank_account_conflict])
      (auto simp: schema_ok_def table_ok_def bank_account_conflict_def)
  then show ?thesis using assms(2-4) by (auto simp: distinct_map dest: inj_onD)
qed

definition account_of :: "string \<Rightarrow> string \<Rightarrow> database \<Rightarrow> bool" where
  "account_of m i db \<longleftrightarrow> (\<forall>r \<in> set (db_bank_accounts db). ba_ID r = i \<longrightarrow> ba_MerchantID r = m)"

lemma account_of_found:
  "schema_ok db \<Longrightarrow> a \<in> set (db_bank_accounts db) \<Longrightarrow> account_of (ba_MerchantID a) (ba_ID a) db"
  using account_ids by (auto simp: account_of_def)

lemma mine_UpdateBankAccount:
  "account_of m (ba_ID a) (w_db w) \<Longrightarrow>
   wp (UpdateBankAccount a) (\<lambda>_ w'. others_kept m (w_db w) (w_db w')) (\<lambda>_ w'. others_kept m (w_db w) (w_db w')) w"
  by (auto simp: UpdateBankAccount_def one_row_def wp_simps wp_exec uuid_param_def others_kept_def account_of_def
      split: sum.splits option.splits intro!: foreign_update_where)

lemma mine_Unset:
  "wp (UnsetPrimaryBankAccounts m) (\<lambda>_ w'. others_kept m (w_db w) (w_db w') \<and> (account_of m i (w_db w) \<longrightarrow> account_of m i (w_db w')))
     (\<lambda>_ w'. others_kept m (w_db w) (w_db w')) w"
  by (auto simp: UnsetPrimaryBankAccounts_def wp_simps wp_exec uuid_param_def others_kept_def account_of_def
      intro!: foreign_update_where dest!: in_update_where)

lemma mine_accounts_usecase:
  assumes "schema_ok (w_db w)"
  shows "wp (RemoveBankAccount m i) (\<lambda>_ w'. others_kept m (w_db w) (w_db w')) (\<lambda>_ w'. others_kept m (w_db w) (w_db w')) w"
    and "wp (SetPrimaryBankAccount m i) (\<lambda>_ w'. others_kept m (w_db w) (w_db w')) (\<lambda>_ w'. others_kept m (w_db w) (w_db w')) w"
proof -
  show "wp (RemoveBankAccount m i) (\<lambda>_ w'. others_kept m (w_db w) (w_db w')) (\<lambda>_ w'. others_kept m (w_db w) (w_db w')) w"
    unfolding RemoveBankAccount_def wp_bind wp_if wp_throw
  proof (rule wp_FindBankAccountByID, goal_cases)
    case (1 a w1)
    then have "account_of (ba_MerchantID a) i (w_db w)" using account_of_found [OF assms] by blast
    then have "foreign ba_MerchantID m (filter (\<lambda>a. ba_ID a \<noteq> i) (db_bank_accounts (w_db w))) = foreign ba_MerchantID m (db_bank_accounts (w_db w))"
      if "ba_MerchantID a = m" using that by (intro foreign_filter) (auto simp: account_of_def)
    then show ?case
      using 1 by (auto simp: DeleteBankAccount_def wp_wrap wp_exec uuid_param_def others_kept_def)
  qed simp
  show "wp (SetPrimaryBankAccount m i) (\<lambda>_ w'. others_kept m (w_db w) (w_db w')) (\<lambda>_ w'. others_kept m (w_db w) (w_db w')) w"
    unfolding SetPrimaryBankAccount_def wp_bind wp_if wp_throw wp_ret_eta wp_wrap
  proof (rule wp_FindBankAccountByID, goal_cases)
    case (1 a w1)
    then have id: "ba_ID a = i" and a: "account_of (ba_MerchantID a) i (w_db w)" "w_db w1 = w_db w"
      using account_of_found [OF assms] by auto
    have "wp (UnsetPrimaryBankAccounts m) (\<lambda>_. wp (UpdateBankAccount (a\<lparr>ba_IsPrimary := True\<rparr>))
        (\<lambda>_ w'. others_kept m (w_db w) (w_db w')) (\<lambda>_ w'. others_kept m (w_db w) (w_db w')))
      (\<lambda>_ w'. others_kept m (w_db w) (w_db w')) w1" if "ba_MerchantID a = m"
    proof (rule wp_mono [OF mine_Unset [where i = i]], goal_cases)
      case (1 u w2)
      have k: "others_kept m (w_db w) (w_db w2)" using 1 a(2) by simp
      have "account_of m (ba_ID (a\<lparr>ba_IsPrimary := True\<rparr>)) (w_db w2)" using 1 a that id by simp
      from mine_UpdateBankAccount [OF this] show ?case by (rule wp_mono) (blast intro: mine.S_trans k)+
    qed (use a(2) in simp)
    then show ?case using a(2) by simp
  qed simp
qed

lemma isolated_accounts:
  assumes "ctx_MerchantID c = Some m" "schema_ok (w_db w)"
  shows "isolated m (h_RemoveBankAccount c) w" "isolated m (h_SetPrimaryBankAccount c) w"
  using mine_accounts_usecase [OF assms(2)]
  by (simp_all add: isolated_def h_RemoveBankAccount_def h_SetPrimaryBankAccount_def assms wp_bind wp_get_string wp_ret wp_ret_eta)

text \<open>C8: A merchant route runs its handler only for a live, active merchant with a webhook URL whose stored key is the hash of
  the presented one, and as that merchant; every other request is a 401 or a 403 that leaves the cache and the database as they were.\<close>

theorem v1_requires_key:
  "\<exists>w'. w_db w' = w_db w \<and>
     ((\<exists>e. v1_route sr ops ts h c call (cache, w) = (Inl e, (cache, w')) \<and> (http_status e = 401 \<or> http_status e = 403))
      \<or> (\<exists>m \<in> set (db_merchants (w_db w)). live m \<and> m_Status m = MerchantStatusActive \<and> m_WebhookURL m \<noteq> ''''
           \<and> header_get c ''X-API-Key'' \<noteq> '''' \<and> m_APIKey m = hashAPIKey (sv_sha256 (sr_service sr)) (header_get c ''X-API-Key'')
           \<and> v1_route sr ops ts h c call (cache, w) = v1_authed sr ops ts h c call (m_ID m) (cache, w')))"
proof -
  obtain r w' where a: "APIKeyAuth (sv_sha256 (sr_service sr)) (header_get c ''X-API-Key'') w = (r, w')"
    by (cases "APIKeyAuth (sv_sha256 (sr_service sr)) (header_get c ''X-API-Key'') w")
  have s: "case r of Inl e \<Rightarrow> w_db w' = w_db w \<and> (http_status e = 401 \<or> http_status e = 403)
     | Inr i \<Rightarrow> w_db w' = w_db w \<and> header_get c ''X-API-Key'' \<noteq> '''' \<and>
       (\<exists>m \<in> set (db_merchants (w_db w)). m_ID m = i \<and> m_APIKey m = hashAPIKey (sv_sha256 (sr_service sr)) (header_get c ''X-API-Key'') \<and> live m
          \<and> m_Status m = MerchantStatusActive \<and> m_WebhookURL m \<noteq> '''')"
    using APIKeyAuth_sound [of "sv_sha256 (sr_service sr)" "header_get c ''X-API-Key''" w] a by (simp add: wp_def split: sum.splits)
  have v: "v1_route sr ops ts h c call (cache, w) =
      (case r of Inl e \<Rightarrow> (Inl e, (cache, w')) | Inr i \<Rightarrow> v1_authed sr ops ts h c call i (cache, w'))"
    by (simp add: v1_route_def bind_def on_world_def a split: sum.split)
  show ?thesis using s unfolding v by (cases r) auto
qed

text \<open>C4: A merchant request stays within its tenant: whatever the route and however it ends, every row another merchant
  owns, the ledger, the outbox and the back-office tables are as they were, and every payment, disbursement, ledger
  entry, bank account, webhook delivery or balance in the reply is the caller's own.\<close>

theorem v1_tenant_isolation:
  assumes "ctx_MerchantID c = Some m" "m \<noteq> ''''" "schema_ok (w_db w)"
  shows "isolated m (v1_handler sr c call) w"
  by (cases call)
    (simp_all only: v1_handler.simps isolated_reads [OF assms(1)] isolated_lists [OF assms(1,2)] isolated_ListBankAccounts [OF assms(1)]
      isolated_ListWebhookEvents [OF assms(1)] isolated_creation [OF assms(1)] isolated_Disburse [OF assms(1)]
      isolated_CancelPayment [OF assms(1,3)] isolated_profile [OF assms(1)] isolated_AddBankAccount [OF assms(1)]
      isolated_accounts [OF assms(1,3)])

theorem v1_tenant_isolation_witness:
  "\<forall>sr c call. isolated ''M1'' (v1_handler sr (c\<lparr>ctx_MerchantID := Some ''M1''\<rparr>) call) (quiet_world (sample_db True) 0)"
  by (simp add: v1_tenant_isolation sample_db_ok)

end
