(* ===== verification/Acceptance.thy ===== *)
theory Acceptance
  imports Handlers Cashin
begin

text \<open>
  From the request to the row: what the validator accepts, the tables accept. The struct tags
  of the inputs (internal/usecase/payment.go, disbursement.go) and the CHECK constraints of the
  migrations are written apart; these lemmas show that they agree, and that a valid request
  for a virtual account is answered with the payment it created.
\<close>

section \<open>Decoded enumerations\<close>

text \<open>In the program an enumeration is its string; a decoded input holds the constant of each known string.\<close>

definition va_decoded :: "create_va_input \<Rightarrow> bool" where
  "va_decoded i \<longleftrightarrow> cv_Provider i = provider_of (provider_str (cv_Provider i))
     \<and> cv_BankCode i = bank_code_of (bank_code_str (cv_BankCode i)) \<and> cv_Currency i = currency_of (currency_str (cv_Currency i))"

definition qris_decoded :: "create_qris_input \<Rightarrow> bool" where
  "qris_decoded i \<longleftrightarrow> cq_Provider i = provider_of (provider_str (cq_Provider i))
     \<and> cq_Currency i = currency_of (currency_str (cq_Currency i))"

lemmas field_simps' = field_of_def optional_field_def accepts_def is_zero_def text_of_def magnitude_def

lemma known_provider:
  "p = provider_of (provider_str p) \<Longrightarrow> provider_str p \<in> {''midtrans'', ''xendit'', ''doku'', ''ipaymu''} \<Longrightarrow> provider_ok p"
  by (cases p) (auto simp: provider_ok_def provider_known_def provider_of_def)

lemma known_currency: "p = currency_of (currency_str p) \<Longrightarrow> currency_str p = ''IDR'' \<Longrightarrow> currency_ok p"
  by (cases p) (auto simp: currency_ok_def currency_of_def)

lemma valid_va:
  assumes "Validate ve (create_va_fields i) = Inr ()" "va_decoded i"
  shows "0 < cv_Amount i" "provider_ok (cv_Provider i)" "currency_ok (cv_Currency i)" "bank_code_str (cv_BankCode i) \<noteq> ''''"
  using assms known_provider [of "cv_Provider i"] known_currency [of "cv_Currency i"]
  by (auto simp: Validate_ok create_va_fields_def field_simps' va_decoded_def)

lemma valid_qris:
  assumes "Validate ve (create_qris_fields i) = Inr ()" "qris_decoded i"
  shows "0 < cq_Amount i" "provider_ok (cq_Provider i)" "currency_ok (cq_Currency i)"
  using assms known_provider [of "cq_Provider i"] known_currency [of "cq_Currency i"]
  by (auto simp: Validate_ok create_qris_fields_def field_simps' qris_decoded_def)

section \<open>Acceptance\<close>

text \<open>The primary keys the database is about to draw are new, and so is the provider's id.\<close>

definition new_keys :: "world \<Rightarrow> bool" where
  "new_keys w \<longleftrightarrow> fresh_ids w \<and> (\<forall>n \<ge> w_stmts w. \<forall>r \<in> set (db_payments (w_db w)). p_ID r \<noteq> w_uuid w n 0)"

lemma save_accepts:
  assumes n: "idle w" and k: "new_keys w" and u: "\<forall>i. w_uuid_ok w i" and m: "merchant_exists (w_db w) (p_MerchantID p)"
    and p: "payment_row_ok p" "p_PaidAt p = None" "p_FailedAt p = None" "p_CancelledAt p = None"
    and x: "\<forall>r \<in> set (db_payments (w_db w)). \<not> (p_Provider r = p_Provider p \<and> p_ExternalID r = p_ExternalID p)"
    and Q: "\<And>q w'. created i q (w_db w) (w_db w') \<Longrightarrow> q = p\<lparr>p_ID := p_ID q, p_CreatedAt := w_now w, p_UpdatedAt := w_now w\<rparr> \<Longrightarrow> Q q w'"
  shows "wp (savePaymentWithAudit p i) Q (\<lambda>_ _. False) w"
proof -
  have "wp (savePaymentWithAudit p i) (\<lambda>_ _. True) (\<lambda>_ _. False) w"
  proof -
    let ?u = "tick (begin_tx w)"
    have nb: "no_faults (begin_tx w)" using n by simp
    let ?row = "p\<lparr>p_ID := fresh_uuid (begin_tx w), p_PaidAt := None, p_FailedAt := None, p_CancelledAt := None,
       p_CreatedAt := w_now w, p_UpdatedAt := w_now w\<rparr>"
    have row: "payment_row_ok ?row" using p(1) by (simp add: payment_row_ok_def)
    have c: "\<not> payment_conflict ?row r" if "r \<in> set (db_payments (w_db w))" for r
      using that k x by (auto simp: payment_conflict_def new_keys_def fresh_uuid_def)
    have a: "au_ID r \<noteq> fresh_uuid v" if "r \<in> set (db_audits (w_db w))" "w_uuid v = w_uuid w" "w_stmts w \<le> w_stmts v" for r v
      using that k by (auto simp: new_keys_def fresh_ids_def fresh_uuid_def)
    show ?thesis
      using n nb u m row c a
      by (simp add: savePaymentWithAudit_def wp_RunInTx wp_simps wp_wrap payment_Save_def audit_Save_def wp_exec uuid_param_def
          insert_payment_def insert_audit_def Let_def checked_insert_def list_ex_iff payment_exists_iff audit_def
          payment_audit_row_ok_def payment_status_ok_def)
  qed
  then show ?thesis
    using wp_savePaymentWithAudit [OF p(2-4), of i w] Q by (auto simp: wp_def split: prod.splits sum.splits)
qed


definition va_ready :: "gateways \<Rightarrow> create_va_input \<Rightarrow> (string \<Rightarrow> create_va_response) \<Rightarrow> world \<Rightarrow> bool" where
  "va_ready gws i resp w \<longleftrightarrow>
     (\<exists>m gw. live_merchant (w_db w) (cv_MerchantID i) = Some m \<and> merchant_CanTransact m \<and> gws (cv_Provider i) = Some gw
        \<and> (\<forall>x. pg_CreateVA gw (va_request i x) = Inr (resp x) \<and> vs_VANumber (resp x) \<noteq> ''''
             \<and> (\<forall>r \<in> set (db_payments (w_db w)). \<not> (p_Provider r = cv_Provider i \<and> p_ExternalID r = vs_ExternalID (resp x)))))"

lemma new_keys_simps [simp]:
  "new_keys (w\<lparr>w_drawn := n\<rparr>) = new_keys w" "new_keys w \<Longrightarrow> new_keys (tick w)"
  subgoal by (cases w) (simp only: new_keys_def fresh_ids_def world.simps)
  subgoal unfolding new_keys_def using fresh_ids_tick [of w] by (simp add: Suc_le_eq)
  done

lemma CreateVA_accepts:
  assumes w: "idle w" "new_keys w" "\<forall>i. w_uuid_ok w i" and r: "va_ready gws i resp w"
    and v: "Validate ve (create_va_fields i) = Inr ()" "va_decoded i"
  shows "wp (CreateVA gws i) (\<lambda>_ _. True) (\<lambda>_ _. False) w"
proof -
  from r obtain m and gw :: payment_gateway where m: "find (\<lambda>m. m_ID m = cv_MerchantID i \<and> live m) (db_merchants (w_db w)) = Some m"
    "merchant_CanTransact m" "gws (cv_Provider i) = Some gw"
    and gw: "pg_CreateVA gw (va_request i x) = Inr (resp x)" "vs_VANumber (resp x) \<noteq> ''''"
    "\<forall>r \<in> set (db_payments (w_db w)). \<not> (p_Provider r = cv_Provider i \<and> p_ExternalID r = vs_ExternalID (resp x))" for x
    unfolding va_ready_def live_merchant_def by blast
  have e: "merchant_exists (w_db w) (cv_MerchantID i)"
    using m(1) by (auto simp: merchant_exists_def list_ex_iff dest!: find_Some_in)
  show ?thesis
    unfolding CreateVA_def wp_bind wp_if wp_throw payment_gateway_for_def wp_case_option wp_ret externalID_def wp_now wp_wrap wp_outcome
      wp_rand_bytes va_request_def [symmetric] merchant_FindByID_def wp_query uuid_param_def
    using w m gw(1)
    apply (simp split del: if_split)
    apply (rule save_accepts)
    using w e gw(2,3) valid_va [OF v] by (simp_all add: payment_row_ok_def payment_status_ok_def payment_method_ok_def)
qed

definition qris_ready :: "gateways \<Rightarrow> create_qris_input \<Rightarrow> (string \<Rightarrow> create_qris_response) \<Rightarrow> world \<Rightarrow> bool" where
  "qris_ready gws i resp w \<longleftrightarrow>
     (\<exists>m gw. live_merchant (w_db w) (cq_MerchantID i) = Some m \<and> merchant_CanTransact m \<and> gws (cq_Provider i) = Some gw
        \<and> (\<forall>x. pg_CreateQRIS gw (qris_request i x) = Inr (resp x) \<and> qs_QRString (resp x) \<noteq> ''''
             \<and> (\<forall>r \<in> set (db_payments (w_db w)). \<not> (p_Provider r = cq_Provider i \<and> p_ExternalID r = qs_ExternalID (resp x)))))"

lemma CreateQRIS_accepts:
  assumes w: "idle w" "new_keys w" "\<forall>i. w_uuid_ok w i" and r: "qris_ready gws i resp w"
    and v: "Validate ve (create_qris_fields i) = Inr ()" "qris_decoded i"
  shows "wp (CreateQRIS gws i) (\<lambda>_ _. True) (\<lambda>_ _. False) w"
proof -
  from r obtain m and gw :: payment_gateway where m: "find (\<lambda>m. m_ID m = cq_MerchantID i \<and> live m) (db_merchants (w_db w)) = Some m"
    "merchant_CanTransact m" "gws (cq_Provider i) = Some gw"
    and gw: "pg_CreateQRIS gw (qris_request i x) = Inr (resp x)" "qs_QRString (resp x) \<noteq> ''''"
    "\<forall>r \<in> set (db_payments (w_db w)). \<not> (p_Provider r = cq_Provider i \<and> p_ExternalID r = qs_ExternalID (resp x))" for x
    unfolding qris_ready_def live_merchant_def by blast
  have e: "merchant_exists (w_db w) (cq_MerchantID i)"
    using m(1) by (auto simp: merchant_exists_def list_ex_iff dest!: find_Some_in)
  show ?thesis
    unfolding CreateQRIS_def wp_bind wp_if wp_throw payment_gateway_for_def wp_case_option wp_ret externalID_def wp_now wp_wrap wp_outcome
      wp_rand_bytes qris_request_def [symmetric] merchant_FindByID_def wp_query uuid_param_def
    using w m gw(1)
    apply (simp split del: if_split)
    apply (rule save_accepts)
    using w e gw(2,3) valid_qris [OF v] by (simp_all add: payment_row_ok_def payment_status_ok_def payment_method_ok_def)
qed

text \<open>C18: What the validator accepts, the tables accept: a valid virtual account request of a merchant that can transact,
  which its provider accepts with a number and an id not used before, is answered 201 with the pending payment that was saved
  with its audit entry, whenever the database answers.\<close>

theorem valid_CreateVA_created:
  assumes "idle w" "new_keys w" "\<forall>i. w_uuid_ok w i" "ctx_MerchantID c = Some m" "va_ready gws (i\<lparr>cv_MerchantID := m\<rparr>) resp w"
    and "Validate ve (create_va_fields i) = Inr ()" "va_decoded i"
  shows "wp (h_CreateVA ve gws c (Inr i))
     (\<lambda>rep w'. \<exists>out en. rep = JSONReply 201 en \<and> en_Data en = Some (DPayment out)
        \<and> va_done gws (i\<lparr>cv_MerchantID := m\<rparr>) (w_db w) (w_db w') out) (\<lambda>_ _. False) w"
proof -
  let ?i = "i\<lparr>cv_MerchantID := m\<rparr>"
  have "Validate ve (create_va_fields ?i) = Inr ()" "va_decoded ?i"
    using assms(6,7) by (simp_all add: create_va_fields_def va_decoded_def)
  then have "wp (CreateVA gws ?i) (\<lambda>_ _. True) (\<lambda>_ _. False) w"
    by (rule CreateVA_accepts [OF assms(1-3,5)])
  then have "wp (CreateVA gws ?i) (\<lambda>out w'. va_done gws ?i (w_db w) (w_db w') out) (\<lambda>_ _. False) w"
    using CreateVA_spec [of gws ?i w] by (auto simp: wp_def split: prod.splits sum.splits)
  then show ?thesis
    using assms(4,6) by (simp add: h_CreateVA_def wp_bind wp_bind_valid wp_get_string)
qed

definition sample_va :: create_va_input where
  "sample_va = \<lparr>cv_MerchantID = '''', cv_Provider = ProviderMidtrans, cv_BankCode = BankBCA, cv_Amount = 10000, cv_Currency = CurrencyIDR,
     cv_CustomerName = ''Budi'', cv_CustomerEmail = ''budi@x.id'', cv_CustomerPhone = ''0812345678'', cv_Description = '''',
     cv_ExpiryAt = 5, cv_CallbackURL = ''''\<rparr>"

definition open_gateway :: payment_gateway where
  "open_gateway = \<lparr>pg_CreateVA = (\<lambda>r. Inr \<lparr>vs_ExternalID = vr_ExternalID r, vs_ProviderPaymentID = ''trx'', vs_VANumber = ''8001'',
       vs_BillerCode = '''', vs_BankCode = vr_BankCode r, vs_Amount = vr_Amount r, vs_ExpiryAt = vr_ExpiryAt r\<rparr>),
     pg_CreateQRIS = (\<lambda>_. Inl (PlainErr ''refused'')), pg_CancelPayment = (\<lambda>_. Inl (PlainErr ''refused'')),
     pg_GetStatus = (\<lambda>_. Inr PaymentStatusPending), pg_ParseWebhook = (\<lambda>_ _. Inl (PlainErr ''refused''))\<rparr>"

definition any_text :: validate_env where
  "any_text = \<lparr>ve_email = (\<lambda>_. True), ve_url = (\<lambda>_. True), ve_uuid = (\<lambda>_. True)\<rparr>"

lemma sample_va_ready:
  "va_ready (\<lambda>_. Some open_gateway) (sample_va\<lparr>cv_MerchantID := ''M1''\<rparr>)
     (\<lambda>x. \<lparr>vs_ExternalID = x, vs_ProviderPaymentID = ''trx'', vs_VANumber = ''8001'', vs_BillerCode = '''', vs_BankCode = BankBCA,
        vs_Amount = 10000, vs_ExpiryAt = 5\<rparr>) (quiet_world (sample_db True) 0)"
  by (simp add: va_ready_def live_merchant_def sample_db_def empty_database_def sample_merchant_def live_def
      merchant_CanTransact_def open_gateway_def va_request_def sample_va_def)

lemma sample_va_valid: "Validate any_text (create_va_fields sample_va) = Inr ()" "va_decoded sample_va"
  by (simp_all add: Validate_ok create_va_fields_def field_simps' sample_va_def any_text_def va_decoded_def provider_of_def
      bank_code_of_def currency_of_def rune_count_def zero_time_def)

lemma sample_new_keys: "new_keys (quiet_world (sample_db True) 0)"
  by (auto simp: new_keys_def fresh_ids_def sample_db_def empty_database_def quiet_world_def inj_def dest: arg_cong [of _ _ length])

theorem valid_CreateVA_created_witness:
  "\<forall>c. wp (h_CreateVA any_text (\<lambda>_. Some open_gateway) (c\<lparr>ctx_MerchantID := Some ''M1''\<rparr>) (Inr sample_va))
     (\<lambda>rep w'. \<exists>out en. rep = JSONReply 201 en \<and> en_Data en = Some (DPayment out)
        \<and> va_done (\<lambda>_. Some open_gateway) (sample_va\<lparr>cv_MerchantID := ''M1''\<rparr>) (sample_db True) (w_db w') out) (\<lambda>_ _. False)
     (quiet_world (sample_db True) 0)"
  using valid_CreateVA_created [OF _ sample_new_keys _ _ sample_va_ready sample_va_valid] by simp

end
