(* ===== verification/Pages.thy ===== *)
theory Pages
  imports Handlers Samples
begin

text \<open>
  Pagination end to end: the page a listing returns (pagination.go and the queries of
  postgres/mutation_repo.go), the page the usecase reports (usecase/impl/mutation.go) and the
  number of pages the handler computes (delivery/http/handler/mutation_handler.go) fit together.
\<close>

section \<open>Cutting a list into pages\<close>

lemma concat_pages: "concat (map (\<lambda>k. take l (drop (k * l) xs)) [0..<n]) = take (n * l) xs"
proof (induction n)
  case (Suc n)
  have "take (Suc n * l) xs = take (n * l) xs @ take l (drop (n * l) xs)"
    by (metis add.commute mult_Suc take_add)
  then show ?case using Suc by simp
qed simp

lemma length_order_desc [simp]: "length (order_desc key xs) = length xs"
  by (simp add: order_desc_def)

lemma length_wrap:
  assumes "1 \<le> l" "l \<le> 100" "int k * l < 2 ^ 31"
  shows "wrap32 l = l" "wrap32 (wrap64 (int k * l)) = int k * l"
proof -
  obtain x where x: "x = int k * l" by blast
  then have "0 \<le> x" "x < 2 ^ 31" using assms by simp_all
  then show "wrap32 l = l" "wrap32 (wrap64 (int k * l)) = int k * l"
    unfolding x [symmetric] using assms(1,2) by (simp_all add: wrap32_def signed_take_bit_int_eq_self int64_range_def)
qed

lemma sql_page_eq:
  assumes "1 \<le> l" "l \<le> 100" "int k * l < 2 ^ 31"
  shows "sql_page (int k + 1) l xs = Inr (take (nat l) (drop (k * nat l) xs))"
proof -
  have "0 \<le> int k * l" using assms(1) by simp
  then show ?thesis
    using length_wrap [OF assms] assms(1) by (simp add: sql_page_def limit_offset_def nat_mult_distrib not_less)
qed

section \<open>The ledger listing\<close>

definition mutations_page :: "list_mutation_filter \<Rightarrow> int \<Rightarrow> int \<Rightarrow> world \<Rightarrow> mutation_output list" where
  "mutations_page f page l w =
     (case fst (usecase_ListMutations (f\<lparr>lm_Page := page, lm_Limit := l\<rparr>) w) of Inr out \<Rightarrow> ml_Items out | Inl _ \<Rightarrow> [])"

definition matching_mutations :: "list_mutation_filter \<Rightarrow> database \<Rightarrow> mutation list" where
  "matching_mutations f db = filter (mutation_matches f) (db_mutations db)"

lemma mutation_matches_page [simp]: "mutation_matches (f\<lparr>lm_Page := p, lm_Limit := l\<rparr>) = mutation_matches f"
  by (simp add: fun_eq_iff mutation_matches_def)

lemma mutations_page_eq:
  assumes w: "no_faults w" "w_uuid_ok w (lm_MerchantID f)" and m: "lm_MerchantID f \<noteq> ''''"
    and l: "1 \<le> l" "l \<le> 100" "int k * l < 2 ^ 31"
  shows "mutations_page f (int k + 1) l w =
    map toMutationOutput (take (nat l) (drop (k * nat l) (order_desc mu_CreatedAt (matching_mutations f (w_db w)))))"
proof -
  let ?xs = "order_desc mu_CreatedAt (matching_mutations f (w_db w))"
  have n: "normalizePage (int k + 1) l = (int k + 1, l)" using l by (simp add: normalizePage_def maxLimit_def)
  have "wp (usecase_ListMutations (f\<lparr>lm_Page := int k + 1, lm_Limit := l\<rparr>))
      (\<lambda>out _. ml_Items out = map toMutationOutput (take (nat l) (drop (k * nat l) ?xs))) (\<lambda>_ _. False) w"
    using w m l n sql_page_eq [OF l, of ?xs]
    by (simp add: usecase_ListMutations_def mutation_List_def wp_simps wp_query optional_uuid_def uuid_param_def Let_def
        matching_mutations_def [symmetric] order_desc_def)
  then show ?thesis
    by (auto simp: mutations_page_def wp_def split: prod.splits sum.splits)
qed


definition sample_entry :: "string \<Rightarrow> time \<Rightarrow> mutation" where
  "sample_entry i t =
     \<lparr>mu_ID = i, mu_ReferenceID = i, mu_ReferenceType = MutationRefPayment, mu_MerchantID = ''M1'', mu_Type = MutationTypeCashIn,
      mu_Amount = 1000, mu_FeeAmount = 0, mu_Currency = CurrencyIDR, mu_Description = '''', mu_CreatedAt = t\<rparr>"

definition everything :: list_mutation_filter where
  "everything = \<lparr>lm_MerchantID = ''M1'', lm_Type = None, lm_StartDate = None, lm_EndDate = None, lm_Page = 1, lm_Limit = 20\<rparr>"

definition three_entries :: database where
  "three_entries = (sample_db True)\<lparr>db_mutations := [sample_entry ''a'' 1, sample_entry ''b'' 2, sample_entry ''c'' 3]\<rparr>"

lemma three_matching:
  "matching_mutations everything three_entries = [sample_entry ''a'' 1, sample_entry ''b'' 2, sample_entry ''c'' 3]"
  by (simp add: matching_mutations_def mutation_matches_def everything_def three_entries_def sample_entry_def)


end
