(* ===== verification/Statements.thy ===== *)
theory Statements
  imports System
begin

text \<open>
  The statements that write. Every request is made of these statements of the repositories and
  of reads, so an effect on the database that each of them has is an effect of every request
  and of every history; the locale proves that once for all of them.
\<close>

locale statement_effect = db_effect S for S +
  assumes payments: "obeys (payment_Save p)" "obeys (payment_Update p)" "obeys (audit_Save a)" "obeys expirePayments"
    and disbursements: "obeys (disbursement_Save d)" "obeys (disbursement_Update d)"
    and ledger: "obeys (mutation_Save mu)"
    and events: "obeys (outbox_Insert t u i pl)" "obeys (update_outbox i g)" "obeys fetchAndClaim"
    and merchants: "obeys (merchant_Save m)" "obeys (merchant_Update m)" "obeys (merchant_SoftDelete i)"
    and accounts: "obeys (SaveBankAccount b)" "obeys (UpdateBankAccount b)" "obeys (UnsetPrimaryBankAccounts i)"
      "obeys (DeleteBankAccount i)"
    and admins: "obeys (admin_Save ad)" "obeys (admin_UpdateLastLogin i)" "obeys (admin_Update ad)" "obeys (admin_UpdatePassword i hash)"
    and balances: "obeys (admin_UpdateProviderBalance pr n)"
    and fees: "obeys (fee_UpdateDefault fd)" "obeys (fee_UpdateMargin pm)" "obeys (fee_CreateHoliday h)"
      "obeys (fee_UpdateHoliday h)" "obeys (fee_WriteAuditLog l)"
begin

lemma obeys_read: "reads.obeys m \<Longrightarrow> obeys m"
  by (simp add: reads.obeys_def same_tables_def obeys_def lifted_def S_refl)

lemma effect_outcome: "obeys (outcome r)"
  by (simp add: obeys_def lifted_def outcome_def S_refl)

lemma obeys_bcrypt: "obeys (bcrypt_hash env pw)"
  by (simp add: obeys_def lifted_def bcrypt_hash_def S_refl)

lemmas statement_intros =
  db_intros obeys_RunInTx payments disbursements ledger events merchants accounts admins balances fees effect_outcome obeys_bcrypt
  reads_payments [THEN obeys_read] reads_disbursements [THEN obeys_read] reads_Resolve [THEN obeys_read]
  reads_back_office [THEN obeys_read]

lemma obeys_payment_requests:
  "obeys (CreateVA gws iv)" "obeys (CreateQRIS gws iq)" "obeys (CancelPayment gws m i)" "obeys (HandleWebhook gws pr h b)"
  unfolding CreateVA_def CreateQRIS_def savePaymentWithAudit_def CancelPayment_def HandleWebhook_def cancel_begin_def cancel_finish_def
    webhook_read_def webhook_tx_def payment_gateway_for_def Let_def
  by (intro statement_intros)+

lemma obeys_disbursement_requests:
  "obeys (Disburse dgws di)" "obeys (HandleDisbursementCallback dgws pr h b)"
  unfolding Disburse_def HandleDisbursementCallback_def disburse_read_def disburse_reserve_def disburse_finish_def
    callback_read_def callback_tx_def disbGateway_def lock_merchant_def Let_def
  by (intro statement_intros)+

lemma effect_processBatch: "obeys (processBatch env)"
  unfolding processBatch_def deliver_def logged_def outbox_MarkFailedFinal_def outbox_MarkDelivered_def outbox_ScheduleRetry_def
    post_def fetchSigningKey_def Let_def
  by (intro statement_intros)+

lemma obeys_merchant_requests:
  "obeys (merchant_Create sha input)" "obeys (merchant_UpdateProfile upd)" "obeys (merchant_Suspend i)"
  "obeys (merchant_Activate i)" "obeys (merchant_RegenerateAPIKey sha i)" "obeys (AddBankAccount ab)"
  "obeys (RemoveBankAccount i j)" "obeys (SetPrimaryBankAccount i j)"
  unfolding merchant_Create_def merchant_UpdateProfile_def merchant_Suspend_def merchant_Activate_def generateAPIKey_def generateSecret_def
    merchant_RegenerateAPIKey_def AddBankAccount_def RemoveBankAccount_def SetPrimaryBankAccount_def Let_def
  by (intro statement_intros)+

lemma obeys_admin_sessions:
  "obeys (admin_Login env e p)" "obeys (admin_RefreshToken env t)" "obeys (admin_CreateAdmin env e p r)"
  "obeys (admin_DeactivateAdmin c i)" "obeys (admin_ChangePassword env i o1 o2)"
  unfolding admin_Login_def admin_RefreshToken_def admin_CreateAdmin_def admin_DeactivateAdmin_def admin_ChangePassword_def
    issueTokens_def Let_def
  by (intro statement_intros)+

lemma obeys_admin_requests:
  "obeys (admin_DeactivateMerchant i)" "obeys (admin_DeleteMerchant i)" "obeys (admin_UpdateMerchantFee mf)"
  "obeys (admin_UpdateDailyCashoutLimit i n)" "obeys (admin_VerifyBankAccount i j)" "obeys (admin_UpdateFeeDefault i r f)"
  "obeys (admin_UpdatePlatformMargin i r on f)" "obeys (admin_CreateHoliday i h)" "obeys (admin_UpdateHoliday i h)"
  unfolding admin_DeactivateMerchant_def admin_DeleteMerchant_def admin_UpdateMerchantFee_def admin_UpdateDailyCashoutLimit_def
    admin_VerifyBankAccount_def admin_UpdateFeeDefault_def admin_UpdatePlatformMargin_def admin_CreateHoliday_def admin_UpdateHoliday_def
    Let_def
  by (intro statement_intros)+

lemma obeys_serve: "obeys (serve sv req)"
  by (cases req)
    (auto simp: outcome_free_def admin_CreateMerchant_def admin_ApproveMerchant_def admin_SuspendMerchant_def
      intro!: obeys_bind obeys_ret obeys_payment_requests obeys_disbursement_requests effect_processBatch obeys_merchant_requests
        obeys_admin_sessions obeys_admin_requests payments(4) balances)

lemma history_effect: "history db0 db \<Longrightarrow> S db0 db"
proof (induction rule: history.induct)
  case (serve w sv req)
  have "S (w_db w) (w_db (snd (serve sv req w)))" using obeysD [OF obeys_serve] by (simp add: lifted_def)
  with serve.IH show ?case by (rule S_trans)
qed (rule S_refl)

end

end
