(* ===== verification/Treasury.thy ===== *)
theory Treasury
  imports Statements Idempotency
begin

text \<open>
  The treasury tasks (internal/infrastructure/taskqueue/treasury): the scheduled check of the
  provider balances, the top-up it asks for, and the check after a large cash-out. The queue is
  the asynq client: what enqueueing a task does to it, and whether it refuses, is a parameter,
  and so is the JSON text of a payload.
\<close>

section \<open>Tasks\<close>

definition TypeCheckTopup :: string where
  "TypeCheckTopup = ''treasury:check_topup''"

definition TypeExecuteTopup :: string where
  "TypeExecuteTopup = ''treasury:execute_topup''"

definition QueueTreasury :: string where
  "QueueTreasury = ''treasury''"

record execute_topup_payload =
  et_Provider :: provider
  et_AmountIDR :: int64
  et_Reason :: string

text \<open>A task with the options it is created with: its queue, its retries and its id, where the code sets them.\<close>

record asynq_task =
  tk_Type :: string
  tk_Payload :: string
  tk_Queue :: string
  tk_MaxRetry :: "nat option"
  tk_TaskID :: "string option"

text \<open>The surroundings: \<open>EnqueueContext\<close> on the state \<open>'q\<close> of the queue, and the payload's JSON.\<close>

record 'q task_env =
  te_enqueue :: "asynq_task \<Rightarrow> 'q \<Rightarrow> string option \<times> 'q"
  te_marshal :: "execute_topup_payload \<Rightarrow> string res"
  te_unmarshal :: "string \<Rightarrow> execute_topup_payload res"

record treasury_config =
  tc_CheckCron :: string
  tc_TopupThresholdIDR :: int64
  tc_TopupAmountIDR :: int64
  tc_LargeCashoutThresholdIDR :: int64

definition NewCheckTopupTask :: asynq_task where
  "NewCheckTopupTask =
     \<lparr>tk_Type = TypeCheckTopup, tk_Payload = '''', tk_Queue = QueueTreasury, tk_MaxRetry = None, tk_TaskID = None\<rparr>"

definition NewExecuteTopupTask :: "'q task_env \<Rightarrow> provider \<Rightarrow> int64 \<Rightarrow> string \<Rightarrow> asynq_task res" where
  "NewExecuteTopupTask env provider amountIDR reason =
     (case te_marshal env \<lparr>et_Provider = provider, et_AmountIDR = amountIDR, et_Reason = reason\<rparr> of
        Inl e \<Rightarrow> Inl (Wrapped ''marshal execute_topup payload'' e)
      | Inr payload \<Rightarrow>
          Inr \<lparr>tk_Type = TypeExecuteTopup, tk_Payload = payload, tk_Queue = QueueTreasury, tk_MaxRetry = Some 3,
               tk_TaskID = Some (''topup:'' @ provider_str provider)\<rparr>)"

section \<open>Handlers\<close>

definition on_queue :: "('q \<Rightarrow> 'q) \<Rightarrow> ('q \<times> world, unit) action" where
  "on_queue f = (\<lambda>(q, w). (Inr (), (f q, w)))"

text \<open>A task that cannot be built, or that the queue refuses, is logged and passed over.\<close>

definition enqueue_topup :: "'q task_env \<Rightarrow> treasury_config \<Rightarrow> provider \<Rightarrow> string \<Rightarrow> 'q \<Rightarrow> 'q" where
  "enqueue_topup env cfg provider reason q =
     (case NewExecuteTopupTask env provider (tc_TopupAmountIDR cfg) reason of
        Inl _ \<Rightarrow> q
      | Inr task \<Rightarrow> snd (te_enqueue env task q))"

definition check_balance :: "'q task_env \<Rightarrow> treasury_config \<Rightarrow> provider_balance \<Rightarrow> ('q \<times> world, unit) action" where
  "check_balance env cfg b =
     (if pb_LastReconciledAt b = None then ret ()
      else if pb_BalanceIDR b < tc_TopupThresholdIDR cfg
           then on_queue (enqueue_topup env cfg (pb_Provider b) ''threshold'')
           else ret ())"

fun check_balances :: "'q task_env \<Rightarrow> treasury_config \<Rightarrow> provider_balance list \<Rightarrow> ('q \<times> world, unit) action" where
  "check_balances env cfg [] = ret ()"
| "check_balances env cfg (b # bs) = bind (check_balance env cfg b) (\<lambda>_. check_balances env cfg bs)"

definition HandleCheckTopup :: "'q task_env \<Rightarrow> treasury_config \<Rightarrow> ('q \<times> world, unit) action" where
  "HandleCheckTopup env cfg =
     bind (wrap ''list provider balances'' (on_world provider_balance_ListAll)) (check_balances env cfg)"

definition HandleExecuteTopup :: "'q task_env \<Rightarrow> string \<Rightarrow> ('q \<times> world, unit) action" where
  "HandleExecuteTopup env payload =
     (case te_unmarshal env payload of
        Inl e \<Rightarrow> throw (Wrapped ''unmarshal execute_topup payload'' e)
      | Inr _ \<Rightarrow> ret ())"

definition HandleLargeCashoutTopupCheck :: "'q task_env \<Rightarrow> treasury_config \<Rightarrow> provider \<Rightarrow> int64 \<Rightarrow> ('q \<times> world, unit) action" where
  "HandleLargeCashoutTopupCheck env cfg provider cashoutAmount =
     (if cashoutAmount < tc_LargeCashoutThresholdIDR cfg then ret ()
      else on_queue (enqueue_topup env cfg provider ''large_cashout''))"

section \<open>What a check asks for\<close>

definition needs_topup :: "treasury_config \<Rightarrow> provider_balance \<Rightarrow> bool" where
  "needs_topup cfg b \<longleftrightarrow> pb_LastReconciledAt b \<noteq> None \<and> pb_BalanceIDR b < tc_TopupThresholdIDR cfg"

definition asked_for :: "'q task_env \<Rightarrow> treasury_config \<Rightarrow> provider_balance list \<Rightarrow> 'q \<Rightarrow> 'q" where
  "asked_for env cfg bs q = foldl (\<lambda>q b. enqueue_topup env cfg (pb_Provider b) ''threshold'' q) q (filter (needs_topup cfg) bs)"

lemma check_balances_run: "check_balances env cfg bs (q, w) = (Inr (), (asked_for env cfg bs q, w))"
  by (induction bs arbitrary: q)
    (auto simp: asked_for_def check_balance_def needs_topup_def on_queue_def bind_def ret_def)

text \<open>The scheduled check asks for a top-up of exactly the providers whose balance has been reconciled and lies below the
  threshold, in order of their names, and writes nothing; when the balances cannot be read it asks for none.\<close>

lemma HandleCheckTopup_effect:
  "case HandleCheckTopup env cfg (q, w) of
     (Inr _, (q', w')) \<Rightarrow> q' = asked_for env cfg (sort_key pb_Provider (db_provider_balances (w_db w))) q \<and> w_db w' = w_db w
   | (Inl _, (q', w')) \<Rightarrow> q' = q \<and> w_db w' = w_db w"
proof -
  have r: "wp provider_balance_ListAll (\<lambda>bs w'. bs = sort_key pb_Provider (db_provider_balances (w_db w)) \<and> w_db w' = w_db w)
      (\<lambda>_ w'. w_db w' = w_db w) w"
    by (simp add: provider_balance_ListAll_def wp_wrap wp_query)
  then show ?thesis
    by (auto simp: HandleCheckTopup_def bind_def wrap_def on_world_def wp_def check_balances_run split: prod.splits sum.splits)
qed

section \<open>No check ever asks\<close>

text \<open>Balances nobody has reconciled stay so: the one statement that writes them clears the time of reconciliation.\<close>

definition unreconciled :: "database \<Rightarrow> bool" where
  "unreconciled db \<longleftrightarrow> (\<forall>b \<in> set (db_provider_balances db). pb_LastReconciledAt b = None)"

definition stays_unreconciled :: "database \<Rightarrow> database \<Rightarrow> bool" where
  "stays_unreconciled a b \<longleftrightarrow> (unreconciled a \<longrightarrow> unreconciled b)"

lemma stays_same: "db_provider_balances b = db_provider_balances a \<Longrightarrow> stays_unreconciled a b"
  by (simp add: stays_unreconciled_def unreconciled_def)

lemma insert_audits_balances: "insert_audits as db = Inr db' \<Longrightarrow> db_provider_balances db' = db_provider_balances db"
  by (induction "as" arbitrary: db) (auto simp: insert_audit_def split: sum.splits)

interpretation unrec: db_effect stays_unreconciled
  by unfold_locales (simp_all add: stays_unreconciled_def)

lemma stays_inserts:
  "insert_payment p db = Inr db' \<Longrightarrow> stays_unreconciled db db'" "insert_audit a db = Inr db' \<Longrightarrow> stays_unreconciled db db'"
  "insert_disbursement d db = Inr db' \<Longrightarrow> stays_unreconciled db db'" "insert_mutation mu db = Inr db' \<Longrightarrow> stays_unreconciled db db'"
  "insert_outbox e db = Inr db' \<Longrightarrow> stays_unreconciled db db'" "insert_merchant me db = Inr db' \<Longrightarrow> stays_unreconciled db db'"
  "insert_bank_account ba db = Inr db' \<Longrightarrow> stays_unreconciled db db'" "insert_admin ad db = Inr db' \<Longrightarrow> stays_unreconciled db db'"
  "insert_fee_holiday h db = Inr db' \<Longrightarrow> stays_unreconciled db db'" "insert_fee_audit_log l db = Inr db' \<Longrightarrow> stays_unreconciled db db'"
  by (auto simp: insert_payment_def insert_audit_def insert_disbursement_def insert_mutation_def insert_defs intro!: stays_same)

lemma unrec_inserts:
  "unrec.obeys (payment_Save p)" "unrec.obeys (audit_Save a)" "unrec.obeys (disbursement_Save d)" "unrec.obeys (mutation_Save mu)"
  "unrec.obeys (merchant_Save m)" "unrec.obeys (SaveBankAccount b)" "unrec.obeys (outbox_Insert t u i pl)"
  "unrec.obeys (admin_Save ad)" "unrec.obeys (fee_CreateHoliday h)" "unrec.obeys (fee_WriteAuditLog l)"
  unfolding merchant_Save_def SaveBankAccount_def outbox_Insert_def admin_Save_def fee_CreateHoliday_def fee_WriteAuditLog_def
    payment_Save_def audit_Save_def disbursement_Save_def mutation_Save_def
  by (intro unrec.db_intros unrec.obeys_exec; auto simp: Let_def dest: stays_inserts)+

lemma unrec_updates:
  "unrec.obeys (payment_Update p)" "unrec.obeys (disbursement_Update d)" "unrec.obeys (merchant_Update m)" "unrec.obeys (merchant_SoftDelete i)"
  "unrec.obeys (UpdateBankAccount b)" "unrec.obeys (UnsetPrimaryBankAccounts i)" "unrec.obeys (DeleteBankAccount i)"
  "unrec.obeys (update_outbox i g)" "unrec.obeys fetchAndClaim" "unrec.obeys (admin_UpdateLastLogin i)" "unrec.obeys (admin_Update ad)"
  "unrec.obeys (admin_UpdatePassword i hash)" "unrec.obeys (fee_UpdateDefault fd)" "unrec.obeys (fee_UpdateMargin pm)"
  "unrec.obeys (fee_UpdateHoliday h)"
  unfolding payment_Update_def disbursement_Update_def merchant_Update_def merchant_SoftDelete_def UpdateBankAccount_def
    UnsetPrimaryBankAccounts_def DeleteBankAccount_def update_outbox_def fetchAndClaim_def admin_UpdateLastLogin_def admin_Update_def
    admin_UpdatePassword_def fee_UpdateDefault_def fee_UpdateMargin_def fee_UpdateHoliday_def update_admins_def
  by (intro unrec.db_intros unrec.obeys_exec;
      auto simp: Let_def simp del: checked_update_Inr intro!: stays_same split: option.splits if_splits)+

lemma unrec_expirePayments: "unrec.obeys expirePayments"
  unfolding expirePayments_def logged_def
  by (intro unrec.db_intros unrec.obeys_exec) (auto simp: Let_def intro!: stays_same dest!: insert_audits_balances)

lemma unrec_balance: "unrec.obeys (admin_UpdateProviderBalance pr n)"
  unfolding admin_UpdateProviderBalance_def provider_balance_Upsert_def
  by (intro unrec.db_intros unrec.obeys_exec)
    (auto simp: Let_def stays_unreconciled_def unreconciled_def in_update_where_iff split: option.splits if_splits)

interpretation unrec_requests: statement_effect stays_unreconciled
  by unfold_locales (intro unrec_inserts unrec_updates unrec_expirePayments unrec_balance)+

text \<open>C39: Nothing in the gateway ever records a reconciliation, so the scheduled check never asks for a top-up: from a database
  whose provider balances were never reconciled, as the migrations leave it, whatever requests are served and however low a
  balance falls, \<open>HandleCheckTopup\<close> leaves the queue as it is.\<close>

theorem topup_check_never_asks:
  assumes "history db0 (w_db w)" "unreconciled db0"
  shows "fst (snd (HandleCheckTopup env cfg (q, w))) = q"
proof -
  have "unreconciled (w_db w)"
    using unrec_requests.history_effect [OF assms(1)] assms(2) by (simp add: stays_unreconciled_def)
  then have "filter (needs_topup cfg) (sort_key pb_Provider (db_provider_balances (w_db w))) = []"
    by (auto simp: filter_empty_conv needs_topup_def unreconciled_def)
  then have "asked_for env cfg (sort_key pb_Provider (db_provider_balances (w_db w))) q = q" by (simp add: asked_for_def)
  then show ?thesis
    using HandleCheckTopup_effect [where env = env and cfg = cfg and q = q and w = w] by (auto split: prod.splits sum.splits)
qed

definition low_balance :: provider_balance where
  "low_balance = \<lparr>pb_ID = ''b1'', pb_Provider = ProviderXendit, pb_BalanceIDR = 0, pb_LastReconciledAt = None, pb_Note = '''',
     pb_CreatedAt = 0, pb_UpdatedAt = 0\<rparr>"

definition low_db :: database where
  "low_db = (sample_db True)\<lparr>db_provider_balances := [low_balance]\<rparr>"

theorem topup_check_never_asks_witness:
  "\<forall>sv env cfg q. fst (snd (HandleCheckTopup env cfg (q,
     snd (serve sv (ReqProviderBalance ProviderXendit 5) (quiet_world low_db 0))))) = q"
proof -
  have h: "history low_db (w_db (snd (serve sv (ReqProviderBalance ProviderXendit 5) (quiet_world low_db 0))))" for sv
    by (rule history.serve) (simp add: history.start)
  have u: "unreconciled low_db" by (simp add: unreconciled_def low_db_def low_balance_def)
  show ?thesis by (intro allI topup_check_never_asks [OF h u])
qed

end
