(* ===== verification/Boot.thy ===== *)
theory Boot
  imports Adapters Treasury Drain
begin

text \<open>
  The wiring of the application (internal/app/app.go): the seed of the platform margin, the
  gateways the configuration enables, each behind a circuit breaker of its own, the settings of
  the task queue (internal/infrastructure/taskqueue/asynq.go) and the health check. Starting and
  stopping servers, goroutines and connections is left out.
\<close>

section \<open>The platform margin\<close>

record method_margin =
  mm_Type :: string
  mm_FlatIDR :: int64
  mm_Percentage :: float64

record margin_config =
  mc_Enabled :: bool
  mc_VA :: method_margin
  mc_QRIS :: method_margin
  mc_Disbursement :: method_margin

definition marginToMethodFee :: "method_margin \<Rightarrow> method_fee" where
  "marginToMethodFee m = \<lparr>mf_Type = fee_type_of (mm_Type m), mf_Amount = mm_FlatIDR m, mf_Percentage = mm_Percentage m\<rparr>"

text \<open>The margin of the configuration is stored once, while no admin has changed the row of the migration.\<close>

definition boot_seed_margin :: "margin_config \<Rightarrow> (world, unit) action" where
  "boot_seed_margin cfg =
     bind (attempt fee_GetMargin) (\<lambda>r.
     case r of
       Inl _ \<Rightarrow> ret ()
     | Inr m \<Rightarrow>
         if pm_UpdatedBy m = '''' then
           logged (bind (fee_UpdateMargin (m\<lparr>pm_Enabled := mc_Enabled cfg, pm_VA := marginToMethodFee (mc_VA cfg),
             pm_QRIS := marginToMethodFee (mc_QRIS cfg), pm_Disbursement := marginToMethodFee (mc_Disbursement cfg),
             pm_UpdatedBy := ''system:boot_seed''\<rparr>)) (\<lambda>_. ret ()))
         else ret ())"

section \<open>Gateways\<close>

record provider_config =
  pc_Midtrans :: midtrans_config
  pc_Xendit :: xendit_config
  pc_Doku :: doku_config
  pc_IPaymu :: ipaymu_config
  pc_CircuitBreaker :: breaker_config

record adapters =
  ad_Midtrans :: "midtrans option"
  ad_Xendit :: "xendit option"
  ad_Doku :: "doku option"
  ad_IPaymu :: "ipaymu option"

text \<open>The adapters of the enabled providers; the first that cannot be built stops the application.\<close>

definition boot_adapters :: "provider_env \<Rightarrow> provider_config \<Rightarrow> adapters res" where
  "boot_adapters env cfg =
     res_bind (if mtc_Enabled (pc_Midtrans cfg) then res_wrap ''midtrans init'' (midtrans_New (pc_Midtrans cfg)) else Inr None) (\<lambda>mt.
     res_bind (if xc_Enabled (pc_Xendit cfg) then res_wrap ''xendit init'' (xendit_New (pc_Xendit cfg)) else Inr None) (\<lambda>xd.
     res_bind (if dc_Enabled (pc_Doku cfg) then res_wrap ''doku init'' (doku_New env (pc_Doku cfg)) else Inr None) (\<lambda>dk.
     res_bind (if ic_Enabled (pc_IPaymu cfg) then res_wrap ''ipaymu init'' (ipaymu_New (pc_IPaymu cfg)) else Inr None) (\<lambda>ip.
     Inr \<lparr>ad_Midtrans = mt, ad_Xendit = xd, ad_Doku = dk, ad_IPaymu = ip\<rparr>))))"

text \<open>
  What surrounds a call: the network and hashes, DOKU's cached token, the time, and the state of
  each gateway's breaker, one for payments and one for disbursements of every provider.
\<close>

record 'b surroundings =
  su_env :: provider_env
  su_token :: doku_token
  su_time :: time
  su_breaker :: "breaker_settings \<Rightarrow> 'b breaker"
  su_payment_state :: "provider \<Rightarrow> 'b"
  su_disbursement_state :: "provider \<Rightarrow> 'b"

definition payGWs :: "'b surroundings \<Rightarrow> breaker_config \<Rightarrow> adapters \<Rightarrow> gateways" where
  "payGWs su cfg ads p =
     (let cb = cb_gateway (su_breaker su (NewBreaker (provider_str p) cfg)) (su_time su) (su_payment_state su p)
      in case p of
           ProviderMidtrans \<Rightarrow> map_option (\<lambda>g. cb (midtrans_gateway (su_env su) g)) (ad_Midtrans ads)
         | ProviderXendit \<Rightarrow> map_option (\<lambda>g. cb (xendit_gateway (su_env su) g)) (ad_Xendit ads)
         | ProviderDoku \<Rightarrow> map_option (\<lambda>g. cb (doku_gateway (su_env su) g (su_token su))) (ad_Doku ads)
         | ProviderIPaymu \<Rightarrow> map_option (\<lambda>g. cb (ipaymu_gateway (su_env su) g)) (ad_IPaymu ads)
         | ProviderOther _ \<Rightarrow> None)"

definition disbGWs :: "'b surroundings \<Rightarrow> breaker_config \<Rightarrow> adapters \<Rightarrow> disbursement_gateways" where
  "disbGWs su cfg ads p =
     (let cb = cb_disbursement_gateway (su_breaker su (NewBreaker (provider_str p) cfg)) (su_time su) (su_disbursement_state su p)
      in case p of
           ProviderXendit \<Rightarrow> map_option (\<lambda>g. cb (xendit_disbursement_gateway (su_env su) g)) (ad_Xendit ads)
         | ProviderDoku \<Rightarrow> map_option (\<lambda>g. cb (doku_disbursement_gateway (su_env su) g (su_token su))) (ad_Doku ads)
         | _ \<Rightarrow> None)"

section \<open>The task queue and the health check\<close>

record task_queue_config =
  tq_Enabled :: bool
  tq_Concurrency :: int
  tq_Treasury :: treasury_config

text \<open>What \<open>ProvideServer\<close> refuses, and the concurrency it starts with: none when the queue is disabled.\<close>

definition queue_settings :: "task_queue_config \<Rightarrow> int option res" where
  "queue_settings cfg =
     (if \<not> tq_Enabled cfg then Inr None
      else if tc_TopupThresholdIDR (tq_Treasury cfg) \<le> 0 then fail ''taskqueue.treasury.topup_threshold_idr must be > 0''
      else if tc_TopupAmountIDR (tq_Treasury cfg) \<le> 0 then fail ''taskqueue.treasury.topup_amount_idr must be > 0''
      else Inr (Some (if tq_Concurrency cfg \<le> 0 then 10 else tq_Concurrency cfg)))"

definition check_cron :: "task_queue_config \<Rightarrow> string" where
  "check_cron cfg =
     (let cron = tc_CheckCron (tq_Treasury cfg) in if cron = '''' then ''*/15 * * * *'' else cron)"

record health =
  he_Status :: string
  he_Database :: string
  he_Cache :: string
  he_OutboxBacklog :: int64

text \<open>Whether the database and the cache answer their pings is given; the backlog is 0 when it cannot be counted.\<close>

definition healthHandler :: "bool \<Rightarrow> bool \<Rightarrow> (world, nat \<times> health) action" where
  "healthHandler db_ping cache_ping =
     bind (attempt (query (\<lambda>w. Inr (int (length (filter (\<lambda>e. ob_DeliveredAt e = None \<and> ob_FailedAt e = None) (db_outbox (w_db w)))))))) (\<lambda>n.
     let mark = (\<lambda>ok. if ok then ''ok'' else ''unhealthy'') in
     ret (if db_ping \<and> cache_ping then 200 else 503,
          \<lparr>he_Status = (if db_ping \<and> cache_ping then ''ok'' else ''degraded''), he_Database = mark db_ping, he_Cache = mark cache_ping,
           he_OutboxBacklog = (case n of Inl _ \<Rightarrow> 0 | Inr k \<Rightarrow> k)\<rparr>))"

section \<open>What the wiring gives\<close>

text \<open>The seed writes no book, keeps the schema, and is over once it or an admin has written the row.\<close>

lemma boot_seed_effects: "books.obeys (boot_seed_margin cfg)" "schema.obeys (boot_seed_margin cfg)" "unrec.obeys (boot_seed_margin cfg)"
  unfolding boot_seed_margin_def logged_def
  by (intro back_office_obeys unrec_requests.statement_intros)+

lemma boot_seed_once:
  assumes "no_faults w" "db_platform_margin (w_db w) = [r]" "pmr_UpdatedBy r \<noteq> ''''"
  shows "w_db (snd (boot_seed_margin cfg w)) = w_db w"
proof -
  have "wp (boot_seed_margin cfg) (\<lambda>_ w'. w_db w' = w_db w) (\<lambda>_ w'. w_db w' = w_db w) w"
    using assms
    by (auto simp: boot_seed_margin_def fee_GetMargin_def toEntityPlatformMargin_def wp_simps wp_query first_row_def wp_one_row wp_unmarshal
        split: option.split)
  then show ?thesis by (simp add: wp_snd)
qed

text \<open>Every gateway of the application is one of the four adapters behind a breaker, and accepts only that adapter's webhooks.\<close>

definition webhook_authentic :: "'b surroundings \<Rightarrow> adapters \<Rightarrow> provider \<Rightarrow> headers \<Rightarrow> string \<Rightarrow> bool" where
  "webhook_authentic su ads p hs body \<longleftrightarrow>
     (case p of
        ProviderMidtrans \<Rightarrow> (\<exists>g. ad_Midtrans ads = Some g \<and> midtrans_authentic (su_env su) g hs body)
      | ProviderXendit \<Rightarrow> (\<exists>g. ad_Xendit ads = Some g \<and> xendit_authentic g hs body)
      | ProviderDoku \<Rightarrow> (\<exists>g. ad_Doku ads = Some g \<and> doku_authentic (su_env su) g (su_token su) hs body)
      | ProviderIPaymu \<Rightarrow> (\<exists>g. ad_IPaymu ads = Some g \<and> ipaymu_authentic g hs body)
      | ProviderOther _ \<Rightarrow> False)"

lemma wired_webhook:
  assumes "\<not> webhook_authentic su ads p hs body"
  shows "wp (HandleWebhook (payGWs su cfg ads) p hs body) (\<lambda>_ _. False) (\<lambda>_ w'. w' = w) w"
proof (cases "payGWs su cfg ads p")
  case None
  then show ?thesis by (simp add: HandleWebhook_def webhook_read_def payment_gateway_for_def wp_simps)
next
  case gw: (Some gw)
  let ?b = "su_breaker su (NewBreaker (provider_str p) cfg)" and ?t = "su_time su" and ?st = "su_payment_state su p"
  show ?thesis
  proof (cases p)
    case ProviderMidtrans
    with gw obtain z where z: "ad_Midtrans ads = Some z" by (auto simp: payGWs_def)
    have wired: "payGWs su cfg ads p = Some (cb_gateway ?b ?t ?st (midtrans_gateway (su_env su) z))"
      using z ProviderMidtrans by (simp add: payGWs_def)
    have "\<not> midtrans_authentic (su_env su) z hs body" using assms z ProviderMidtrans by (simp add: webhook_authentic_def)
    with wired show ?thesis by (rule midtrans_port.cb.forged_webhook)
  next
    case ProviderXendit
    with gw obtain z where z: "ad_Xendit ads = Some z" by (auto simp: payGWs_def)
    have wired: "payGWs su cfg ads p = Some (cb_gateway ?b ?t ?st (xendit_gateway (su_env su) z))"
      using z ProviderXendit by (simp add: payGWs_def)
    have "\<not> xendit_authentic z hs body" using assms z ProviderXendit by (simp add: webhook_authentic_def)
    with wired show ?thesis by (rule xendit_port.cb.forged_webhook)
  next
    case ProviderDoku
    with gw obtain z where z: "ad_Doku ads = Some z" by (auto simp: payGWs_def)
    have wired: "payGWs su cfg ads p = Some (cb_gateway ?b ?t ?st (doku_gateway (su_env su) z (su_token su)))"
      using z ProviderDoku by (simp add: payGWs_def)
    have "\<not> doku_authentic (su_env su) z (su_token su) hs body" using assms z ProviderDoku by (simp add: webhook_authentic_def)
    with wired show ?thesis by (rule doku_port.cb.forged_webhook)
  next
    case ProviderIPaymu
    with gw obtain z where z: "ad_IPaymu ads = Some z" by (auto simp: payGWs_def)
    have wired: "payGWs su cfg ads p = Some (cb_gateway ?b ?t ?st (ipaymu_gateway (su_env su) z))"
      using z ProviderIPaymu by (simp add: payGWs_def)
    have "\<not> ipaymu_authentic z hs body" using assms z ProviderIPaymu by (simp add: webhook_authentic_def)
    with wired show ?thesis by (rule ipaymu_port.cb.forged_webhook)
  qed (use gw in \<open>simp add: payGWs_def\<close>)
qed

end
