(* ===== verification/Mask.thy ===== *)
theory Mask
  imports Prelude
begin

text \<open>
  The masks of pkg/mask/mask.go for card numbers, e-mail addresses, telephone numbers, names and
  secrets. Strings are their bytes; a rune is the bytes of one UTF-8 sequence, of valid strings.
\<close>

section \<open>Runes\<close>

definition continuation_byte :: "char \<Rightarrow> bool" where
  "continuation_byte c \<longleftrightarrow> 128 \<le> (of_char c :: nat) \<and> (of_char c :: nat) < 192"

lemma dropWhile_shorter [termination_simp]: "length (dropWhile P s) < Suc (length s)"
  by (simp add: le_imp_less_Suc length_dropWhile_le)

fun runes :: "string \<Rightarrow> string list" where
  "runes [] = []"
| "runes (c # s) = (c # takeWhile continuation_byte s) # runes (dropWhile continuation_byte s)"

lemma concat_runes [simp]: "concat (runes s) = s"
  by (induction s rule: runes.induct) auto

lemma length_runes: "length (runes s) \<le> length s"
proof (induction s rule: runes.induct)
  case (2 c s)
  then show ?case using length_dropWhile_le [of continuation_byte s] by simp
qed simp

text \<open>\<open>unicode.IsSpace\<close> on the UTF-8 sequences of the white-space code points.\<close>

definition is_space_rune :: "string \<Rightarrow> bool" where
  "is_space_rune r \<longleftrightarrow>
     r \<in> {[CHR 0x09], [CHR 0x0A], [CHR 0x0B], [CHR 0x0C], [CHR 0x0D], [CHR 0x20], [CHR 0xC2, CHR 0x85], [CHR 0xC2, CHR 0xA0],
          [CHR 0xE1, CHR 0x9A, CHR 0x80], [CHR 0xE2, CHR 0x80, CHR 0xA8], [CHR 0xE2, CHR 0x80, CHR 0xA9],
          [CHR 0xE2, CHR 0x80, CHR 0xAF], [CHR 0xE2, CHR 0x81, CHR 0x9F], [CHR 0xE3, CHR 0x80, CHR 0x80]} \<or>
     (length r = 3 \<and> take 2 r = [CHR 0xE2, CHR 0x80] \<and> 0x80 \<le> (of_char (r ! 2) :: nat) \<and> (of_char (r ! 2) :: nat) \<le> 0x8A)"

text \<open>\<open>strings.Fields\<close>: the maximal runs of runes that are not white space.\<close>

fun words_of :: "string list \<Rightarrow> string list list" where
  "words_of [] = []"
| "words_of (r # rs) =
     (if is_space_rune r then words_of rs
      else (r # takeWhile (\<lambda>x. \<not> is_space_rune x) rs) # words_of (dropWhile (\<lambda>x. \<not> is_space_rune x) rs))"

section \<open>The masks\<close>

definition stars :: "nat \<Rightarrow> string" where
  "stars n = replicate n CHR ''*''"

definition last_bytes :: "nat \<Rightarrow> string \<Rightarrow> string" where
  "last_bytes n s = drop (length s - n) s"

definition Card :: "string \<Rightarrow> string" where
  "Card s =
     (let pan = filter (\<lambda>c. c \<noteq> CHR '' '') s
      in if length pan < 10 then ''**masked**'' else take 6 pan @ stars (length pan - 10) @ last_bytes 4 pan)"

definition Email :: "string \<Rightarrow> string" where
  "Email email =
     (let local = takeWhile (\<lambda>c. c \<noteq> CHR ''@'') email;
          domain = dropWhile (\<lambda>c. c \<noteq> CHR ''@'') email
      in if domain = [] \<or> local = [] then ''***@***''
         else if length local \<le> 1 then local @ ''***'' @ domain
         else runes local ! 0 @ stars (length (runes local) - 1) @ domain)"

definition phone_byte :: "char \<Rightarrow> bool" where
  "phone_byte c \<longleftrightarrow> c \<in> set ''0123456789+''"

definition Phone :: "string \<Rightarrow> string" where
  "Phone phone =
     (let digits = filter phone_byte phone
      in if length digits < 8 then ''****'' else take 4 digits @ stars (length digits - 8) @ last_bytes 4 digits)"

definition Name :: "string \<Rightarrow> string" where
  "Name name =
     (let word = (\<lambda>rs. if length rs \<le> 1 then concat rs else rs ! 0 @ stars (length rs - 1));
          ws = List.map word (words_of (runes name))
      in if ws = [] then [] else concat (ws ! 0 # List.map (\<lambda>w. CHR '' '' # w) (drop 1 ws)))"

definition Secret :: "string \<Rightarrow> string" where
  "Secret _ = ''[REDACTED]''"

section \<open>What a mask shows\<close>

lemma length_stars [simp]: "length (stars n) = n"
  by (simp add: stars_def)

lemma nth_stars: "i < n \<Longrightarrow> stars n ! i = CHR ''*''"
  by (simp add: stars_def)

text \<open>A mask of a head and a tail keeps the length, and shows nothing between them.\<close>

lemma head_tail_mask:
  assumes "h + t \<le> length s" "m = take h s @ stars (length s - (h + t)) @ last_bytes t s"
  shows "length m = length s" "h \<le> i \<Longrightarrow> i + t < length s \<Longrightarrow> m ! i = CHR ''*''"
  using assms by (auto simp: last_bytes_def nth_append nth_stars)

lemma Card_hides:
  assumes "pan = filter (\<lambda>c. c \<noteq> CHR '' '') s" "10 \<le> length pan" "6 \<le> i" "i + 4 < length pan"
  shows "length (Card s) = length pan \<and> Card s ! i = CHR ''*''"
proof -
  have "Card s = take 6 pan @ stars (length pan - (6 + 4)) @ last_bytes 4 pan"
    using assms(1,2) by (simp add: Card_def Let_def)
  from head_tail_mask [OF _ this] show ?thesis using assms(2-4) by simp
qed

lemma Phone_hides:
  assumes "digits = filter phone_byte s" "8 \<le> length digits" "4 \<le> i" "i + 4 < length digits"
  shows "length (Phone s) = length digits \<and> Phone s ! i = CHR ''*''"
proof -
  have "Phone s = take 4 digits @ stars (length digits - (4 + 4)) @ last_bytes 4 digits"
    using assms(1,2) by (simp add: Phone_def Let_def)
  from head_tail_mask [OF _ this] show ?thesis using assms(2-4) by simp
qed

text \<open>A number just long enough to be masked is shown whole.\<close>

lemma last_bytes_complement: "h + t = length s \<Longrightarrow> take h s @ last_bytes t s = s"
proof -
  assume "h + t = length s"
  then have "length s - t = h" by simp
  then show ?thesis by (simp add: last_bytes_def)
qed

lemma Card_of_10_digits_shown:
  assumes "length s = 10" "CHR '' '' \<notin> set s"
  shows "Card s = s"
proof -
  have "filter (\<lambda>c. c \<noteq> CHR '' '') s = s" using assms(2) by (auto intro!: filter_True)
  then show ?thesis using last_bytes_complement [of 6 4 s] assms(1) by (simp add: Card_def stars_def)
qed

lemma Phone_of_8_digits_shown:
  assumes "length s = 8" "\<forall>c \<in> set s. phone_byte c"
  shows "Phone s = s"
proof -
  have "filter phone_byte s = s" using assms(2) by (simp add: filter_id_conv)
  then show ?thesis using last_bytes_complement [of 4 4 s] assms(1) by (simp add: Phone_def stars_def)
qed

text \<open>A masked address shows its domain and the first rune of its local part.\<close>

lemma Email_shows:
  assumes "l \<noteq> []" "CHR ''@'' \<notin> set l" "2 \<le> length l"
  shows "Email (l @ CHR ''@'' # d) = runes l ! 0 @ stars (length (runes l) - 1) @ CHR ''@'' # d"
proof -
  have "takeWhile (\<lambda>c. c \<noteq> CHR ''@'') (l @ CHR ''@'' # d) = l" "dropWhile (\<lambda>c. c \<noteq> CHR ''@'') (l @ CHR ''@'' # d) = CHR ''@'' # d"
    using assms(2) by (auto simp: takeWhile_append dropWhile_append)
  then show ?thesis using assms by (simp add: Email_def Let_def)
qed

lemma mask_samples:
  "Card ''4111111111111111'' = ''411111******1111''" "Phone ''081234567890'' = ''0812****7890''"
  "Email ''user@example.com'' = ''u***@example.com''" "Name ''John Doe'' = ''J*** D**''"
  by code_simp+

end
