(* ===== verification/Seeds.thy ===== *)
theory Seeds
  imports Admins Merchants Samples
begin

text \<open>
  The seeding commands of the command line: seed-admin (cmd/api/seed.go), seed-merchant
  (seed_merchant.go) and seed-dev (seed_dev.go), from the parsed flags and the open database on.
  bcrypt and SHA-256 are parameters; what the commands print is left out.
\<close>

section \<open>seed-admin\<close>

definition seed_admin :: "admin_env \<Rightarrow> string \<Rightarrow> string \<Rightarrow> string \<Rightarrow> (world, unit) action" where
  "seed_admin env email password role =
     (if length password < 8 then throw (PlainErr ''password must be at least 8 characters'')
      else if role \<notin> set (map admin_role_str [AdminRoleSuperAdmin, AdminRoleOps, AdminRoleFinance])
           then throw (PlainErr ''role must be one of: super_admin, ops, finance'')
      else
        bind (wrap ''hash password'' (bcrypt_hash env password)) (\<lambda>hash.
        bind (wrap ''create admin (email may already exist)'' (admin_Save
          \<lparr>ad_ID = '''', ad_Email = email, ad_PasswordHash = hash, ad_Role = admin_role_of role, ad_IsActive = False,
           ad_LastLoginAt = None, ad_CreatedAt = zero_time, ad_UpdatedAt = zero_time\<rparr>)) (\<lambda>_. ret ())))"

section \<open>seed-merchant\<close>

definition devGenerateAPIKey :: "(string \<Rightarrow> string) \<Rightarrow> bool \<Rightarrow> (world, string \<times> string) action" where
  "devGenerateAPIKey sha256 isProduction =
     bind (rand_bytes 16) (\<lambda>b.
     let raw = (if isProduction then ''wpay_live_'' else ''wpay_test_'') @ hex_encode b
     in ret (raw, sha256 raw))"

definition devGenerateSecret :: "(string \<Rightarrow> string) \<Rightarrow> (world, string \<times> string) action" where
  "devGenerateSecret sha256 = bind (rand_bytes 32) (\<lambda>b. let raw = hex_encode b in ret (raw, sha256 raw))"

text \<open>The merchant, its API key and its webhook secret, which the command prints.\<close>

definition seed_merchant :: "(string \<Rightarrow> string) \<Rightarrow> string \<Rightarrow> string \<Rightarrow> string \<Rightarrow> string \<Rightarrow> bool \<Rightarrow> (world, merchant \<times> string \<times> string) action" where
  "seed_merchant sha256 name email phone webhookURL isProduction =
     bind (devGenerateAPIKey sha256 isProduction) (\<lambda>(rawKey, hashedKey).
     bind (devGenerateSecret sha256) (\<lambda>(rawSecret, hashedSecret).
     bind (wrap ''create merchant (email may already exist)'' (merchant_Save
       \<lparr>m_ID = '''', m_Name = name, m_Email = email, m_Phone = phone, m_Status = MerchantStatusPending, m_APIKey = hashedKey,
        m_WebhookURL = webhookURL, m_WebhookSecret = hashedSecret, m_WebhookSigningKey = rawSecret, m_FeeConfig = zero_fee_config,
        m_IsProduction = isProduction, m_DailyCashoutLimit = 0, m_DeletedAt = None, m_CreatedAt = zero_time,
        m_UpdatedAt = zero_time\<rparr>)) (\<lambda>m.
     ret (m, rawKey, rawSecret))))"

section \<open>seed-dev\<close>

text \<open>
  \<open>INSERT ... ON CONFLICT DO NOTHING\<close>: a row that collides with a unique key is passed over, any
  other violated constraint is an error.
\<close>

definition or_nothing :: "string + database \<Rightarrow> database \<Rightarrow> string + database" where
  "or_nothing r db =
     (case r of
        Inl msg \<Rightarrow> if msg = ''duplicate key value violates unique constraint'' then Inr db else Inl msg
      | Inr db' \<Rightarrow> Inr db')"

text \<open>One row, whose UUID parameters are listed.\<close>

definition execSQL :: "string list \<Rightarrow> (world \<Rightarrow> 'r) \<Rightarrow> ('r \<Rightarrow> database \<Rightarrow> string + database) \<Rightarrow> (world, unit) action" where
  "execSQL uuids row ins =
     exec (\<lambda>w. fold (uuid_param w) uuids (map_sum id (Pair ()) (or_nothing (ins (row w) (w_db w)) (w_db w))))"

fun each :: "('r \<Rightarrow> (world, unit) action) \<Rightarrow> 'r list \<Rightarrow> (world, unit) action" where
  "each f [] = ret ()"
| "each f (r # rs) = bind (f r) (\<lambda>_. each f rs)"

definition seedAdmins :: "(world \<Rightarrow> string \<Rightarrow> string) \<Rightarrow> (world, unit) action" where
  "seedAdmins bcrypt =
     bind (gets (\<lambda>w. bcrypt w ''Admin123!'')) (\<lambda>pass.
     each (\<lambda>(i, email, role).
         execSQL [] (\<lambda>w. \<lparr>ad_ID = i, ad_Email = email, ad_PasswordHash = pass, ad_Role = role, ad_IsActive = True,
           ad_LastLoginAt = None, ad_CreatedAt = w_now w, ad_UpdatedAt = w_now w\<rparr>) insert_admin)
       [(''a0000000-0000-0000-0000-000000000001'', ''admin@wanpey.dev'', AdminRoleSuperAdmin),
        (''a0000000-0000-0000-0000-000000000002'', ''ops@wanpey.dev'', AdminRoleOps),
        (''a0000000-0000-0000-0000-000000000003'', ''finance@wanpey.dev'', AdminRoleFinance)])"

definition dev_alpha :: string where
  "dev_alpha = ''b0000000-0000-0000-0000-000000000001''"

definition dev_beta :: string where
  "dev_beta = ''b0000000-0000-0000-0000-000000000002''"

definition dev_gamma :: string where
  "dev_gamma = ''b0000000-0000-0000-0000-000000000003''"

definition feeAlpha :: fee_config where
  "feeAlpha =
     \<lparr>fc_VA = \<lparr>mf_Type = FeeTypeFlat, mf_Amount = 4000, mf_Percentage = 0\<rparr>,
      fc_QRIS = \<lparr>mf_Type = FeeTypePercentage, mf_Amount = 0, mf_Percentage = f64_round (7 / 10)\<rparr>,
      fc_Disbursement = \<lparr>mf_Type = FeeTypeFlat, mf_Amount = 6500, mf_Percentage = 0\<rparr>\<rparr>"

definition seedMerchants :: "(string \<Rightarrow> string) \<Rightarrow> (world, unit) action" where
  "seedMerchants sha256 =
     each (\<lambda>(i, name, email, phone, status, apiKeyRaw, webhookURL, feeConfig, dailyLimit).
         let signingKey = ''devsecret-'' @ take 8 i in
         execSQL [i] (\<lambda>w. \<lparr>m_ID = i, m_Name = name, m_Email = email, m_Phone = phone, m_Status = status,
           m_APIKey = sha256 apiKeyRaw, m_WebhookURL = webhookURL, m_WebhookSecret = sha256 signingKey,
           m_WebhookSigningKey = signingKey, m_FeeConfig = feeConfig, m_IsProduction = False, m_DailyCashoutLimit = dailyLimit,
           m_DeletedAt = None, m_CreatedAt = w_now w, m_UpdatedAt = w_now w\<rparr>) insert_merchant)
       [(dev_alpha, ''Toko Alpha Dev'', ''alpha@merchant.dev'', ''081111111111'', MerchantStatusActive,
         ''wpay_test_alpha000000000000000001'', ''http://localhost:9090/webhook'', feeAlpha, 10000000),
        (dev_beta, ''Warung Beta Dev'', ''beta@merchant.dev'', ''082222222222'', MerchantStatusActive,
         ''wpay_test_beta0000000000000000002'', ''http://localhost:9090/webhook'', zero_fee_config, 0),
        (dev_gamma, ''Startup Gamma Dev'', ''gamma@merchant.dev'', ''083333333333'', MerchantStatusPending,
         ''wpay_test_gamma000000000000000003'', '''', zero_fee_config, 0)]"

definition seedBankAccounts :: "(world, unit) action" where
  "seedBankAccounts =
     each (\<lambda>(i, merchantID, bankCode, accountNumber, accountName, isPrimary, isVerified).
         execSQL [i, merchantID] (\<lambda>w. \<lparr>ba_ID = i, ba_MerchantID = merchantID, ba_BankCode = bankCode,
           ba_AccountNumber = accountNumber, ba_AccountName = accountName, ba_IsPrimary = isPrimary, ba_IsVerified = isVerified,
           ba_CreatedAt = w_now w, ba_UpdatedAt = w_now w\<rparr>) insert_bank_account)
       [(''c0000000-0000-0000-0000-000000000001'', dev_alpha, BankBCA, ''1234567890'', ''Toko Alpha Dev'', True, True),
        (''c0000000-0000-0000-0000-000000000002'', dev_alpha, BankBNI, ''9876543210'', ''Toko Alpha Dev'', False, False),
        (''c0000000-0000-0000-0000-000000000003'', dev_beta, BankMandiri, ''1122334455'', ''Warung Beta Dev'', True, True)]"

definition dev_payment :: "nat \<Rightarrow> string" where
  "dev_payment n = ''d0000000-0000-0000-0000-00000000000'' @ fmt_d (int n)"

definition seedPayments :: "(world, unit) action" where
  "seedPayments =
     bind now (\<lambda>t.
     each (\<lambda>(i, externalID, meth, provider, status, amount, fee, desc, customer, email, phone, vaNumber, bankCode, qrString, expiryAt, paidAt).
         execSQL [i, dev_alpha] (\<lambda>w. \<lparr>p_ID = i, p_MerchantID = dev_alpha, p_ExternalID = externalID, p_ProviderPaymentID = '''',
           p_Method = meth, p_Provider = provider, p_Status = status, p_Amount = amount, p_FeeAmount = fee, p_Currency = CurrencyIDR,
           p_Description = desc, p_CustomerName = customer, p_CustomerEmail = email, p_CustomerPhone = phone, p_VANumber = vaNumber,
           p_BankCode = bankCode, p_QRString = qrString, p_QRImageURL = '''', p_ExpiryAt = expiryAt, p_PaidAt = paidAt,
           p_FailedAt = None, p_CancelledAt = None, p_CreatedAt = w_now w, p_UpdatedAt = w_now w, p_Metadata = []\<rparr>) insert_payment)
       [(dev_payment 1, ''wpay-seed-va-001'', PaymentMethodVA, ProviderMidtrans, PaymentStatusPaid, 500000, 4000,
         ''Order #SEED-001'', ''Budi Santoso'', ''budi@example.com'', ''081234567890'', ''8023123456789'', BankBCA, '''',
         t + hours 24, Some (t - hours 1)),
        (dev_payment 2, ''wpay-seed-qris-001'', PaymentMethodQRIS, ProviderXendit, PaymentStatusPaid, 250000, 1750,
         ''Order #SEED-002'', ''Siti Rahayu'', ''siti@example.com'', ''082345678901'', '''', bank_code_of '''',
         ''00020101021226570011ID.CO.XENDIT.WWW011893600914000000000000021540000000000000204000053037605802ID5910TokoAlpha6007Jakarta6304SEED'',
         t + 15 * 60 * 10 ^ 9, Some (t - 30 * 60 * 10 ^ 9)),
        (dev_payment 3, ''wpay-seed-va-002'', PaymentMethodVA, ProviderMidtrans, PaymentStatusPending, 1000000, 0,
         ''Order #SEED-003'', ''Ahmad Fauzi'', ''ahmad@example.com'', ''083456789012'', ''7001987654321'', BankMandiri, '''',
         t + hours 24, None),
        (dev_payment 4, ''wpay-seed-va-003'', PaymentMethodVA, ProviderDoku, PaymentStatusExpired, 750000, 0,
         ''Order #SEED-004'', ''Dewi Kusuma'', ''dewi@example.com'', ''084567890123'', ''3331234567890'', BankBNI, '''',
         t - hours 2, None)])"

text \<open>The audit rows name no id: the column's default gives each a new one.\<close>

definition dev_trail :: "(string \<times> audit_event_type \<times> payment_status option \<times> payment_status \<times> string) list" where
  "dev_trail =
     [(dev_payment 1, AuditEventPaymentCreated, None, PaymentStatusPending, ''merchant:'' @ dev_alpha),
      (dev_payment 1, AuditEventWebhookReceived, Some PaymentStatusPending, PaymentStatusPaid, ''webhook:midtrans''),
      (dev_payment 2, AuditEventPaymentCreated, None, PaymentStatusPending, ''merchant:'' @ dev_alpha),
      (dev_payment 2, AuditEventWebhookReceived, Some PaymentStatusPending, PaymentStatusPaid, ''webhook:xendit''),
      (dev_payment 3, AuditEventPaymentCreated, None, PaymentStatusPending, ''merchant:'' @ dev_alpha),
      (dev_payment 4, AuditEventPaymentCreated, None, PaymentStatusPending, ''merchant:'' @ dev_alpha),
      (dev_payment 4, AuditEventPaymentExpired, Some PaymentStatusPending, PaymentStatusExpired, ''system'')]"

definition seed_audit :: "string \<times> audit_event_type \<times> payment_status option \<times> payment_status \<times> string \<Rightarrow> (world, unit) action" where
  "seed_audit = (\<lambda>(paymentID, event, oldStatus, newStatus, actor).
     execSQL [paymentID] (\<lambda>w. \<lparr>au_ID = fresh_uuid w, au_PaymentID = paymentID, au_EventType = event, au_OldStatus = oldStatus,
       au_NewStatus = newStatus, au_Actor = actor, au_Metadata = [], au_CreatedAt = w_now w\<rparr>) insert_audit)"

definition seedPaymentAudits :: "(world, unit) action" where
  "seedPaymentAudits = each seed_audit dev_trail"

definition dev_disbursement :: string where
  "dev_disbursement = ''f0000000-0000-0000-0000-000000000001''"

definition seedDisbursements :: "(world, unit) action" where
  "seedDisbursements =
     bind now (\<lambda>t.
     execSQL [dev_disbursement, dev_alpha] (\<lambda>w. \<lparr>d_ID = dev_disbursement, d_MerchantID = dev_alpha, d_ExternalID = ''wpay-seed-disb-001'',
       d_Provider = ProviderXendit, d_Status = DisbursementStatusCompleted, d_BankCode = BankBCA, d_AccountNumber = ''1234567890'',
       d_AccountName = ''Toko Alpha Dev'', d_Amount = 200000, d_FeeAmount = 6500, d_Currency = CurrencyIDR,
       d_Description = ''Withdrawal #SEED-001'', d_FailureReason = '''', d_CompletedAt = Some (t - 30 * 60 * 10 ^ 9),
       d_FailedAt = None, d_CreatedAt = w_now w, d_UpdatedAt = w_now w\<rparr>) insert_disbursement)"

definition seedMutations :: "(world, unit) action" where
  "seedMutations =
     each (\<lambda>(i, refID, refType, typ, amount, fee, desc).
         execSQL [i, refID, dev_alpha] (\<lambda>w. \<lparr>mu_ID = i, mu_ReferenceID = refID, mu_ReferenceType = refType, mu_MerchantID = dev_alpha,
           mu_Type = typ, mu_Amount = amount, mu_FeeAmount = fee, mu_Currency = CurrencyIDR, mu_Description = desc,
           mu_CreatedAt = w_now w\<rparr>) insert_mutation)
       [(''e0000000-0000-0000-0000-000000000001'', dev_payment 1, MutationRefPayment, MutationTypeCashIn, 500000, 4000,
         ''Payment Order #SEED-001''),
        (''e0000000-0000-0000-0000-000000000002'', dev_payment 2, MutationRefPayment, MutationTypeCashIn, 250000, 1750,
         ''Payment Order #SEED-002''),
        (''e0000000-0000-0000-0000-000000000003'', dev_disbursement, MutationRefDisbursement, MutationTypeCashOut, 200000, 0,
         ''Withdrawal #SEED-001'')]"

text \<open>\<open>ON CONFLICT (provider) DO UPDATE\<close>: the balance and the note of the provider's row are replaced.\<close>

definition upsert_dev_balance :: "provider \<Rightarrow> int64 \<Rightarrow> (world, unit) action" where
  "upsert_dev_balance provider balance =
     exec (\<lambda>w.
       let rows = db_provider_balances (w_db w); note = ''dev seed - not real'' in
       if list_ex (\<lambda>r. pb_Provider r = provider) rows
       then Inr ((), (w_db w)\<lparr>db_provider_balances := update_where (\<lambda>r. pb_Provider r = provider)
              (\<lambda>r. r\<lparr>pb_BalanceIDR := balance, pb_Note := note, pb_UpdatedAt := w_now w\<rparr>) rows\<rparr>)
       else Inr ((), (w_db w)\<lparr>db_provider_balances := rows @ [\<lparr>pb_ID = fresh_uuid w, pb_Provider = provider, pb_BalanceIDR = balance,
              pb_LastReconciledAt = None, pb_Note = note, pb_CreatedAt = w_now w, pb_UpdatedAt = w_now w\<rparr>]\<rparr>))"

definition seedProviderBalances :: "(world, unit) action" where
  "seedProviderBalances =
     each (\<lambda>(provider, balance). upsert_dev_balance provider balance)
       [(ProviderMidtrans, 50000000), (ProviderXendit, 75000000), (ProviderDoku, 25000000), (ProviderIPaymu, 10000000)]"

definition runDevSeed :: "(world \<Rightarrow> string \<Rightarrow> string) \<Rightarrow> (string \<Rightarrow> string) \<Rightarrow> (world, unit) action" where
  "runDevSeed bcrypt sha256 =
     bind (wrap ''admins'' (seedAdmins bcrypt)) (\<lambda>_.
     bind (wrap ''merchants'' (seedMerchants sha256)) (\<lambda>_.
     bind (wrap ''bank_accounts'' seedBankAccounts) (\<lambda>_.
     bind (wrap ''payments'' seedPayments) (\<lambda>_.
     bind (wrap ''payment_audits'' seedPaymentAudits) (\<lambda>_.
     bind (wrap ''disbursements'' seedDisbursements) (\<lambda>_.
     bind (wrap ''mutations'' seedMutations) (\<lambda>_.
     wrap ''provider_balances'' seedProviderBalances)))))))"

section \<open>What seed-dev leaves\<close>

lemma wp_execSQL:
  assumes "idle w" "list_all (w_uuid_ok w) uuids"
  shows "wp (execSQL uuids row ins) Q E w =
     (case or_nothing (ins (row w) (w_db w)) (w_db w) of
        Inl msg \<Rightarrow> E (PlainErr msg) (tick w) | Inr db \<Rightarrow> Q () ((tick w)\<lparr>w_db := db\<rparr>))"
proof -
  have "fold (uuid_param w) uuids r = r" for r :: "string + (unit \<times> database)"
    using assms(2) by (induction uuids) (auto simp: uuid_param_def)
  then show ?thesis using assms(1) by (simp add: execSQL_def wp_exec split: sum.splits)
qed

text \<open>
  Every run of seed-dev writes the whole trail again, although it is documented as safe to run
  again: the ids of the audit rows are new each time, so nothing conflicts.
\<close>

definition audit_entry :: "payment_audit \<Rightarrow> string \<times> audit_event_type \<times> payment_status option \<times> payment_status \<times> string" where
  "audit_entry a = (au_PaymentID a, au_EventType a, au_OldStatus a, au_NewStatus a, au_Actor a)"

definition trail_ready :: "world \<Rightarrow> bool" where
  "trail_ready w \<longleftrightarrow> idle w \<and> (\<forall>n \<in> {1..4}. payment_exists (w_db w) (dev_payment n) \<and> w_uuid_ok w (dev_payment n))
     \<and> inj (\<lambda>n. w_uuid w n 0) \<and> (\<forall>n \<ge> w_stmts w. \<forall>a \<in> set (db_audits (w_db w)). au_ID a \<noteq> w_uuid w n 0)"

lemma seed_audit_appends:
  assumes "trail_ready w" "e \<in> set dev_trail"
  shows "wp (seed_audit e) (\<lambda>_ w'. trail_ready w' \<and> map audit_entry (db_audits (w_db w')) = map audit_entry (db_audits (w_db w)) @ [e])
     (\<lambda>_ _. False) w"
proof -
  obtain i ev old new actor where e: "e = (i, ev, old, new, actor)" by (cases e)
  have i: "payment_exists (w_db w) i \<and> w_uuid_ok w i" and ok: "payment_audit_row_ok \<lparr>au_ID = fresh_uuid w, au_PaymentID = i, au_EventType = ev,
      au_OldStatus = old, au_NewStatus = new, au_Actor = actor, au_Metadata = [], au_CreatedAt = w_now w\<rparr>"
    using assms e unfolding trail_ready_def dev_trail_def by (auto simp: payment_audit_row_ok_def payment_status_ok_def)
  have fresh: "\<not> list_ex (\<lambda>r. au_ID r = fresh_uuid w) (db_audits (w_db w))"
    using assms(1) by (auto simp: trail_ready_def fresh_uuid_def list_ex_iff)
  have "w_uuid w n 0 \<noteq> w_uuid w m 0" if "n < m" for n m
    using assms(1) that by (auto simp: trail_ready_def dest: injD)
  then show ?thesis
    using assms(1) i ok fresh
    by (auto simp: seed_audit_def e wp_execSQL trail_ready_def insert_audit_def checked_insert_def or_nothing_def audit_entry_def
        fresh_uuid_def payment_exists_def)
qed

lemma seedPaymentAudits_repeats:
  assumes "trail_ready w"
  shows "wp seedPaymentAudits (\<lambda>_ w'. trail_ready w' \<and> map audit_entry (db_audits (w_db w')) = map audit_entry (db_audits (w_db w)) @ dev_trail)
     (\<lambda>_ _. False) w"
proof -
  have "wp (each seed_audit es) (\<lambda>_ w'. trail_ready w' \<and> map audit_entry (db_audits (w_db w')) = map audit_entry (db_audits (w_db w)) @ es)
     (\<lambda>_ _. False) w" if "set es \<subseteq> set dev_trail" "trail_ready w" for es w
    using that
  proof (induction es arbitrary: w)
    case (Cons e es)
    show ?case
      unfolding each.simps wp_bind
      by (rule wp_mono [OF seed_audit_appends]; use Cons in \<open>auto intro!: wp_mono [OF Cons.IH]\<close>)
  qed (simp add: wp_simps)
  from this [OF subset_refl assms] show ?thesis by (simp add: seedPaymentAudits_def)
qed

text \<open>
  The seed leaves merchant alpha a balance of 544,250 IDR; the summary the command prints opens
  with 543,500.
\<close>

lemma dev_payment_distinct: "dev_payment (Suc 0) \<noteq> dev_payment 2"
  by code_simp

lemma seedMutations_balance:
  assumes "idle w" "\<And>u. w_uuid_ok w u" "merchant_exists (w_db w) dev_alpha" "db_mutations (w_db w) = []"
  shows "wp seedMutations (\<lambda>_ w'. balance_of (w_db w') dev_alpha = 544250) (\<lambda>_ _. False) w"
  using assms
  by (simp add: seedMutations_def wp_bind wp_execSQL insert_mutation_def checked_insert_def or_nothing_def mutation_row_ok_def
      mutation_conflict_def currency_ok_def merchant_exists_def balance_of_def balance_effect_def dev_payment_distinct dev_payment_distinct [symmetric] wp_simps)

end
