(* ===== verification/Redis.thy ===== *)
theory Redis
  imports Cache
begin

text \<open>
  The Redis implementation of the cache port (internal/infrastructure/cache/redis.go) over its
  client library, which is a parameter, and the choice of the implementation at start-up.
\<close>

section \<open>The client\<close>

text \<open>The commands of the client on the state \<open>'c\<close> of the server; a key that is absent is the error \<open>redis.Nil\<close>.\<close>

record 'c redis_client =
  rd_Get :: "time \<Rightarrow> string \<Rightarrow> ('c, string) action"
  rd_Set :: "time \<Rightarrow> string \<Rightarrow> string \<Rightarrow> int \<Rightarrow> ('c, unit) action"
  rd_SetNX :: "time \<Rightarrow> string \<Rightarrow> string \<Rightarrow> int \<Rightarrow> ('c, bool) action"
  rd_Del :: "time \<Rightarrow> string list \<Rightarrow> ('c, unit) action"
  rd_Exists :: "time \<Rightarrow> string \<Rightarrow> ('c, int64) action"

definition redis_Nil :: go_error where
  "redis_Nil = PlainErr ''redis: nil''"

fun errors_Is :: "go_error \<Rightarrow> go_error \<Rightarrow> bool" where
  "errors_Is (Wrapped m e) target \<longleftrightarrow> Wrapped m e = target \<or> errors_Is e target"
| "errors_Is e target \<longleftrightarrow> e = target"

section \<open>The cache\<close>

definition redis_Get :: "'c redis_client \<Rightarrow> time \<Rightarrow> string \<Rightarrow> ('c, string) action" where
  "redis_Get cl t k = (\<lambda>c.
     case rd_Get cl t k c of
       (Inl e, c') \<Rightarrow> (Inl (if errors_Is e redis_Nil then ErrCacheMiss else e), c')
     | (Inr v, c') \<Rightarrow> (Inr v, c'))"

definition redis_Exists :: "'c redis_client \<Rightarrow> time \<Rightarrow> string \<Rightarrow> ('c, bool) action" where
  "redis_Exists cl t k = bind (rd_Exists cl t k) (\<lambda>n. ret (0 < n))"

definition redisCache :: "'c redis_client \<Rightarrow> 'c cache_ops" where
  "redisCache cl =
     \<lparr>co_Get = redis_Get cl, co_Set = rd_Set cl, co_SetNX = rd_SetNX cl, co_Del = rd_Del cl, co_Exists = redis_Exists cl\<rparr>"

text \<open>
  \<open>ProvideCache\<close>: the in-memory cache when Redis is disabled, Redis when it answers the ping, and no
  application otherwise.
\<close>

datatype 'c cache_choice = UseMemory memory_cache | UseRedis "'c cache_ops"

definition ProvideCache :: "bool \<Rightarrow> unit res \<Rightarrow> 'c redis_client \<Rightarrow> 'c cache_choice res" where
  "ProvideCache enabled ping cl =
     (if \<not> enabled then Inr (UseMemory newMemoryCache)
      else case ping of
             Inl e \<Rightarrow> Inl (Wrapped ''ping redis'' e)
           | Inr _ \<Rightarrow> Inr (UseRedis (redisCache cl)))"

section \<open>What the cache gives\<close>

text \<open>
  A client that does on its server what a cache store does, up to the name it gives a missing key
  and the count \<open>EXISTS\<close> answers, makes \<open>redisCache\<close> that store.
\<close>

definition client_of :: "'c cache_ops \<Rightarrow> 'c redis_client" where
  "client_of ops =
     \<lparr>rd_Get = (\<lambda>t k c. case co_Get ops t k c of
          (Inl e, c') \<Rightarrow> (Inl (if e = ErrCacheMiss then redis_Nil else e), c') | (Inr v, c') \<Rightarrow> (Inr v, c')),
      rd_Set = co_Set ops, rd_SetNX = co_SetNX ops, rd_Del = co_Del ops,
      rd_Exists = (\<lambda>t k. bind (co_Exists ops t k) (\<lambda>b. ret (if b then 1 else 0)))\<rparr>"

lemma redis_Get_miss_iff:
  "fst (redis_Get cl t k c) = Inl ErrCacheMiss \<longleftrightarrow>
     (\<exists>e. fst (rd_Get cl t k c) = Inl e \<and> (errors_Is e redis_Nil \<or> e = ErrCacheMiss))"
  by (auto simp: redis_Get_def split: prod.splits sum.splits)

lemma redisCache_client_of:
  assumes "\<And>t k c e. fst (co_Get ops t k c) = Inl e \<Longrightarrow> \<not> errors_Is e redis_Nil"
  shows "redisCache (client_of ops) = ops"
proof -
  have "redis_Get (client_of ops) t k c = co_Get ops t k c" for t k c
    using assms [of t k c]
    by (cases "co_Get ops t k c"; cases "fst (co_Get ops t k c)") (auto simp: redis_Get_def client_of_def redis_Nil_def)
  then have "redis_Get (client_of ops) = co_Get ops" by (intro ext)
  moreover have "redis_Exists (client_of ops) = co_Exists ops"
    by (intro ext) (auto simp: redis_Exists_def client_of_def bind_def ret_def split: prod.splits sum.splits)
  ultimately show ?thesis by (simp add: redisCache_def client_of_def)
qed

text \<open>So the contract of the cache is met through Redis by a server that behaves like the in-memory cache.\<close>

lemma redis_over_memory: "redisCache (client_of memory_cache_ops) = memory_cache_ops"
  by (rule redisCache_client_of)
    (auto simp: memory_cache_ops_def mc_Get_def ErrCacheMiss_def redis_Nil_def split: option.splits if_splits)

interpretation redis_memory: cache_store "redisCache (client_of memory_cache_ops)" mc_view
  unfolding redis_over_memory by (rule memory.cache_store_axioms)

end
