(* ===== verification/Spec2Isabelle.thy ===== *)
theory Spec2Isabelle
  imports Fees Ledger Merchants Cashin Cashout Admins Idempotency Adapters System Books Interleaving Drain Tenancy Acceptance Pages
    Treasury Boot Mask Seeds Redis
begin

text \<open>
  A model of wanpay, a payment gateway in Go: merchants take virtual-account and QRIS payments
  through one of four providers, the gateway keeps their ledger, pays out disbursements, notifies
  them through an outbox, and is administered through a separate API. Paths below are under src/.

  The program. An HTTP request passes the middlewares of internal/delivery/http, is bound and
  validated by a handler, and runs a usecase of internal/usecase/impl. The usecases share nothing but
  the database: they read and write through the repositories of
  internal/infrastructure/database/postgres, mostly inside \<open>RunInTx\<close>, and call a provider through the
  ports of internal/domain/gateway. Provider webhooks enter the same way. Two workers run beside the
  requests: one expires payments, one delivers the outbox. The cache serves only the idempotency
  middleware.

  How code becomes definitions. A struct is a record, an enumeration a datatype whose last
  constructor carries any other string, an integer is \<open>int\<close> with the wrap-around of \<open>int64\<close> and
  \<open>int32\<close> written out where arithmetic is done, a \<open>float64\<close> is the rational it denotes with the rounding
  of binary64 written out, a \<open>time.Time\<close> is nanoseconds from the Unix epoch, a string is its bytes. A
  function that may fail is an action: a function of the state to an error or a value, and the new
  state; every early return, wrapped error and panic of the code is a branch. The state is a \<open>world\<close>:
  the tables, the clock, the random stream, and a fault oracle by which any statement, BEGIN or
  COMMIT may fail, so what is proved for all worlds holds under every pattern of database failures.

  Theories, in the order of their imports.
  \<^item> Prelude: errors and their HTTP status (pkg/apperror, server.go), actions, their weakest
    preconditions \<open>wp\<close>, the locale \<open>effect_order\<close> (a preorder on states that each step of an action obeys
    is obeyed by the action), integers, small list lemmas. Binary64 and Calendar: float64 and
    time.Parse.
  \<^item> Entity, Schema, Database: internal/domain/entity; the migrations with CHECK, UNIQUE and REFERENCES
    constraints; internal/infrastructure/database/db.go with \<open>RunInTx\<close>. Samples: concrete rows.
  \<^item> Fees, Ledger, Payments, Outbox, Merchants, Disbursements, Tokens, Admins: one repository and usecase
    each (the opening text of each names its files), and the lemmas on each operation.
  \<^item> PaymentRules, Webhooks, Cashin, Cashout: the properties of the payment and disbursement usecases.
  \<^item> Integrity, System, Statements, Books: relations that every operation obeys; a request, \<open>serve\<close>, and
    \<open>history\<close>, any number of requests in sequence; the lifting of an effect of each writing statement
    to every history; and the invariants of the books over histories.
  \<^item> Interleaving: the same requests split into the tasks between which other requests may run.
  \<^item> Cache, Redis, Idempotency: the cache port, its two implementations, the middleware over it.
  \<^item> Wire, Midtrans, Xendit, Ipaymu, Doku, Adapters: the provider adapters and the circuit breaker.
  \<^item> Http, Validation, Handlers, AdminHandlers, Allowlist, Routes: the HTTP API. Tenancy, Acceptance,
    Pages: what merchants may see, what a valid request gets, and what following the pages gives.
  \<^item> Drain: the outbox worker comes to rest. Treasury, Boot, Seeds, Mask: the task queue, the wiring of
    the application, the seeding commands, pkg/mask.

  Interfaces. \<open>effect_order\<close> and its extension \<open>db_effect\<close> are interpreted once for each relation the
  theorems need: append-only tables, kept constraints, untouched books, other merchants' rows,
  reachability by a history, and others; \<open>statement_effect\<close> carries such a relation from the writing
  statements to histories. \<open>cache_store\<close> and \<open>swept_cache\<close> are the contract of the cache, on which the
  idempotency theorems rest; they are interpreted on the in-memory cache and on the Redis cache over
  a server that behaves like it. \<open>webhook_port\<close>, \<open>callback_port\<close> and \<open>guarded_port\<close> say which webhooks a
  gateway accepts; they are interpreted on every adapter, behind its breaker too.

  What is shown. For a single request: the exact effect of every payment and disbursement operation
  on every branch, under faults; redelivery, acceptance, error behaviour; the fee as the
  specification's layered fee, with its bounds. For histories: the balance of the books, credits
  equal to paid amounts, irrevocable final rows, kept constraints. For overlapping requests: each
  paid payment is credited once, and, as reachable states, two races of the code that the sequential
  theorems exclude. For the API: every route is a history, merchants are isolated, the API key
  and the admin permission matrix are enforced, forged webhooks change nothing, retries are replayed and
  not run twice. For the workers: claims are exclusive for the lease, deliveries come to rest.
  Some theorems state what the code does where that differs from what its comments or its
  documentation say; the text above each tells the difference.

  Bounds and termination. Every definition is a total function. The recursions that are not
  structural are the fragments of base64url, the runes and words of Mask and the decimal printer, on
  lists that get shorter or numbers that get smaller. Only \<open>drive\<close> in Interleaving takes fuel, one unit
  for each task of a request; no request has more than three, and \<open>drive_serve\<close> shows that three
  give exactly \<open>serve\<close>. Addresses are handled in full for IPv4 and IPv6; the theorems on address
  filters are for IPv4.

  What is a parameter. SHA-256, HMAC, bcrypt, RSA, the JSON text of a value (a parsed value is a
  definition), url.Parse, the HTTP network, gobreaker's state machine, asynq's queue, the Redis
  client, the decoding of a request into the struct its handler binds, and what the validator
  takes for an email address, a URL and a UUID.

  Not modelled, and assumed away. Timestamps are not rounded to the database's microseconds. A COMMIT that fails is
  taken to have committed nothing. A transaction is one atomic step in Interleaving, where requests
  other than payment webhooks, cancellations, disbursements and their callbacks are one step too. Case folding is that of
  ASCII. UUIDs are compared as their canonical text. Em dashes in messages are written as hyphens. A
  custom expiry in minutes is taken as given, without the conversion from JSON's float. Histories
  start after the seed of the margin, whose own effect is shown in Boot. Left out: log lines, path
  matching, CORS, body limits, request ids, tracing, the Swagger pages and the generated API
  documentation, configuration files, connections, migrations run by their library, process control,
  and the copying of generated row structs into entities (mapper.go), since the tables hold the
  entities.
\<close>

end
